(* ===== verification/RE_Prelude.thy ===== *)
theory RE_Prelude
  imports Main "HOL-Library.Word"
begin

text \<open>
  Shared vocabulary of the development: the machine integers of the BPF programs, the collections
  of rewrite rules the component theories extend, little-endian byte encodings, the bit masks the
  programs use to bound an index, and byte buffers indexed by \<open>nat\<close>.
\<close>

unbundle bit_operations_syntax

type_synonym u8 = "8 word"
type_synonym u16 = "16 word"
type_synonym u32 = "32 word"
type_synonym u64 = "64 word"
type_synonym bytes = "u8 list"
type_synonym buffer = "nat \<Rightarrow> u8"

named_theorems layout_simps \<open>size and alignment of the named C types\<close>
named_theorems wf_ctype_simps \<open>well-formedness of the named C types\<close>
named_theorems offset_simps \<open>offsets of members of the named C types\<close>
named_theorems kernel_reads \<open>unfolding of the kernel memory accessors\<close>
named_theorems hook_frame \<open>what a step of a BPF program leaves unchanged\<close>

section \<open>Definitions\<close>

text \<open>Little-endian encoding of a number in a fixed number of bytes.\<close>

fun le_encode :: "nat \<Rightarrow> nat \<Rightarrow> bytes" where
  "le_encode 0 v = []"
| "le_encode (Suc n) v = word_of_nat v # le_encode n (v div 256)"

fun le_decode :: "bytes \<Rightarrow> nat" where
  "le_decode [] = 0"
| "le_decode (b # bs) = unat b + 256 * le_decode bs"

text \<open>Reading and writing a run of bytes of a buffer.\<close>

definition buf_read :: "buffer \<Rightarrow> nat \<Rightarrow> nat \<Rightarrow> bytes" where
  "buf_read b p n = map b [p..<p + n]"

definition buf_write :: "buffer \<Rightarrow> nat \<Rightarrow> bytes \<Rightarrow> buffer" where
  "buf_write b p bs = (\<lambda>i. if p \<le> i \<and> i < p + length bs then bs ! (i - p) else b i)"

section \<open>Little-endian encodings\<close>

lemma unat_less_pow: "unat (w :: 'a::len word) < 2 ^ LENGTH('a)"
  by (rule unsigned_less)

lemma length_le_encode [simp]: "length (le_encode n v) = n"
  by (induction n arbitrary: v) auto

lemma unat_word8_of_nat [simp]: "unat (word_of_nat v :: u8) = v mod 256"
  by (simp add: unat_of_nat)

lemma le_decode_encode: "v < 256 ^ n \<Longrightarrow> le_decode (le_encode n v) = v"
proof (induction n arbitrary: v)
  case (Suc n)
  then have "v div 256 < 256 ^ n"
    by (simp add: less_mult_imp_div_less mult.commute)
  then show ?case
    using Suc.IH by simp
qed simp

lemma le_decode_less: "le_decode bs < 256 ^ length bs"
proof (induction bs)
  case (Cons b bs)
  have "unat b < 256"
    using unat_less_pow [of b] by simp
  then show ?case
    using Cons by simp
qed simp

lemma le_decode_encode_word:
  "(256 :: nat) ^ n = 2 ^ LENGTH('a::len) \<Longrightarrow> le_decode (le_encode n (unat (w :: 'a word))) = unat w"
  using unat_less_pow [of w] by (simp add: le_decode_encode)

lemma take_append_exact [simp]: "length xs = n \<Longrightarrow> take n (xs @ ys) = xs"
  by simp

lemma drop_append_exact [simp]: "length xs = n \<Longrightarrow> drop n (xs @ ys) = ys"
  by simp

section \<open>Masks\<close>

lemma and_mask_numeral_unat:
  "m = mask n \<Longrightarrow> unat ((x :: 'a::len word) AND m) = unat x mod 2 ^ n"
  by (simp only: take_bit_eq_mask [symmetric] unsigned_take_bit_eq) (simp add: take_bit_eq_mod)

lemma mask_255: "(255 :: 'a::len word) = mask 8"
  by (simp add: mask_eq_exp_minus_1)

lemma mask_4095: "(4095 :: 'a::len word) = mask 12"
  by (simp add: mask_eq_exp_minus_1)

lemma mask_8191: "(8191 :: 'a::len word) = mask 13"
  by (simp add: mask_eq_exp_minus_1)

lemma unat_and_255 [simp]: "unat ((x :: 'a::len word) AND 255) = unat x mod 256"
  using and_mask_numeral_unat [OF mask_255, of x] by simp

lemma unat_and_4095 [simp]: "unat ((x :: 'a::len word) AND 4095) = unat x mod 4096"
  using and_mask_numeral_unat [OF mask_4095, of x] by simp

lemma unat_and_8191 [simp]: "unat ((x :: 'a::len word) AND 8191) = unat x mod 8192"
  using and_mask_numeral_unat [OF mask_8191, of x] by simp

lemma unat_minus_le: "unat y \<le> unat (x :: 'a::len word) \<Longrightarrow> unat (x - y) = unat x - unat y"
  by (simp add: unat_sub word_le_nat_alt)

lemma unat_ucast: "unat (ucast (x :: 'a::len word) :: 'b::len word) = unat x mod 2 ^ LENGTH('b)"
  by (simp add: unsigned_ucast_eq take_bit_eq_mod)

lemma unat_ucast_up:
  assumes "LENGTH('a) \<le> LENGTH('b)"
  shows "unat (ucast (x :: 'a::len word) :: 'b::len word) = unat x"
proof -
  have "(2 :: nat) ^ LENGTH('a) \<le> 2 ^ LENGTH('b)"
    using assms by (rule power_increasing) simp
  with unat_less_pow [of x] have "unat x < 2 ^ LENGTH('b)"
    by (rule less_le_trans)
  then show ?thesis
    by (simp add: unat_ucast)
qed

lemma unat_u32_u64 [simp]: "unat (ucast (x :: u32) :: u64) = unat x"
  by (rule unat_ucast_up) simp

lemma unat_u16_u32 [simp]: "unat (ucast (x :: u16) :: u32) = unat x"
  by (rule unat_ucast_up) simp

section \<open>Buffers\<close>

lemma length_buf_read [simp]: "length (buf_read b p n) = n"
  by (simp add: buf_read_def)

lemma nth_buf_read [simp]: "i < n \<Longrightarrow> buf_read b p n ! i = b (p + i)"
  by (simp add: buf_read_def)

lemma buf_read_0 [simp]: "buf_read b p 0 = []"
  by (simp add: buf_read_def)

lemma buf_read_append: "buf_read b p (m + n) = buf_read b p m @ buf_read b (p + m) n"
  by (rule nth_equalityI) (auto simp: nth_append)

lemma take_buf_read: "take k (buf_read b p n) = buf_read b p (min k n)"
  by (rule nth_equalityI) auto

lemma buf_write_other: "i < p \<or> p + length bs \<le> i \<Longrightarrow> buf_write b p bs i = b i"
  by (auto simp: buf_write_def)

lemma buf_write_at: "k < length bs \<Longrightarrow> buf_write b p bs (p + k) = bs ! k"
  by (simp add: buf_write_def)

lemma buf_write_Nil [simp]: "buf_write b p [] = b"
  by (rule ext) (auto simp: buf_write_def)

lemma buf_write_before:
  "buf_write (buf_write b (p + length xs) ys) p xs = buf_write b p (xs @ ys)"
  by (rule ext) (auto simp: buf_write_def nth_append)

lemma buf_write_after:
  "buf_write (buf_write b p xs) (p + length xs) ys = buf_write b p (xs @ ys)"
  by (rule ext) (auto simp: buf_write_def nth_append)

lemma buf_read_write_same: "buf_read (buf_write b p bs) p (length bs) = bs"
  by (rule nth_equalityI) (auto simp: buf_write_at)

lemma buf_read_write_other:
  "q + n \<le> p \<or> p + length bs \<le> q \<Longrightarrow> buf_read (buf_write b p bs) q n = buf_read b q n"
  by (rule nth_equalityI) (auto simp: buf_write_def)

lemma buf_read_eq_iff: "buf_read b p n = xs \<longleftrightarrow> length xs = n \<and> (\<forall>i<n. b (p + i) = xs ! i)"
  by (auto simp: list_eq_iff_nth_eq)

lemma buf_read_zeros: "\<forall>i<n. b (p + i) = 0 \<Longrightarrow> buf_read b p n = replicate n 0"
  by (rule nth_equalityI) auto

text \<open>A key that is a string padded with zero bytes determines the string.\<close>

lemma padded_eq_iff:
  assumes "0 \<notin> set xs" and "0 \<notin> set ys"
  shows "xs @ replicate m (0 :: u8) = ys @ replicate n 0 \<longleftrightarrow> xs = ys \<and> m = n"
proof
  assume eq: "xs @ replicate m 0 = ys @ replicate n 0"
  have "takeWhile (\<lambda>x. x \<noteq> 0) (xs @ replicate m 0) = xs"
    using assms(1) by (simp add: takeWhile_append)
  moreover have "takeWhile (\<lambda>x. x \<noteq> 0) (ys @ replicate n 0) = ys"
    using assms(2) by (simp add: takeWhile_append)
  ultimately show "xs = ys \<and> m = n"
    using eq by auto
qed simp

end
