(* ===== verification/C_Layout.thy ===== *)
theory C_Layout
  imports RE_Prelude
begin

text \<open>
  The C record layout that clang applies to the kernel types of
  \<^verbatim>\<open>src/bpf/vmlinux_generated_*.h\<close> and to the structures the BPF programs share with user
  space (\<^verbatim>\<open>src/bpf/main.c\<close>, \<^verbatim>\<open>debug.h\<close>, \<^verbatim>\<open>load_conf.h\<close>): sizes, alignments, bit-fields,
  unions, anonymous members and the byte offset of a named member. Pointers and \<open>long\<close> take
  eight bytes on every target of the repository. The lemmas show that a member lies inside its
  record and at a multiple of its own alignment.
\<close>

section \<open>C types\<close>

text \<open>
  \<open>CInt n\<close> is an integer, enumeration or boolean of \<open>n\<close> bytes, aligned to its size. A member
  with the empty name is an anonymous record (for \<open>CField\<close>) or unnamed padding (for \<open>CBits\<close>).
\<close>

datatype ctype =
    CInt nat
  | CPtr
  | CArray nat ctype
  | CStruct "cfield list"
  | CUnion "cfield list"
and cfield =
    CField string ctype
  | CBits string ctype nat

definition align_up :: "nat \<Rightarrow> nat \<Rightarrow> nat" where
  "align_up x a = (x + (a - 1)) div a * a"

text \<open>A bit-field of width \<open>w\<close> in storage units of \<open>s\<close> bits never crosses a unit.\<close>

definition bit_place :: "nat \<Rightarrow> nat \<Rightarrow> nat \<Rightarrow> nat" where
  "bit_place p s w =
     (if w = 0 then align_up p s
      else if s = 0 \<or> p div s = (p + w - 1) div s then p
      else align_up p s)"

definition pad_end :: "nat \<times> nat \<Rightarrow> nat \<times> nat" where
  "pad_end e = (align_up (align_up (fst e) 8 div 8) (snd e), snd e)"

text \<open>
  \<open>layout t\<close> is the size and the alignment of \<open>t\<close> in bytes. The two helpers run over the
  members with a position in bits: one after the other for a struct, on top of each other for a
  union.
\<close>

fun layout :: "ctype \<Rightarrow> nat \<times> nat"
  and place_fields :: "nat \<Rightarrow> nat \<Rightarrow> cfield list \<Rightarrow> nat \<times> nat"
  and overlay_fields :: "nat \<Rightarrow> nat \<Rightarrow> cfield list \<Rightarrow> nat \<times> nat" where
  "layout (CInt n) = (n, n)"
| "layout CPtr = (8, 8)"
| "layout (CArray k t) = (k * fst (layout t), snd (layout t))"
| "layout (CStruct fs) = pad_end (place_fields 0 1 fs)"
| "layout (CUnion fs) = pad_end (overlay_fields 0 1 fs)"
| "place_fields p a [] = (p, a)"
| "place_fields p a (CField n t # fs) =
     place_fields (align_up p (8 * snd (layout t)) + 8 * fst (layout t)) (max a (snd (layout t))) fs"
| "place_fields p a (CBits n t w # fs) =
     place_fields (bit_place p (8 * fst (layout t)) w + w)
       (if n = [] then a else max a (snd (layout t))) fs"
| "overlay_fields p a [] = (p, a)"
| "overlay_fields p a (CField n t # fs) =
     overlay_fields (max p (8 * fst (layout t))) (max a (snd (layout t))) fs"
| "overlay_fields p a (CBits n t w # fs) =
     overlay_fields (max p w) (if n = [] then a else max a (snd (layout t))) fs"

definition sizeof :: "ctype \<Rightarrow> nat" where
  "sizeof t = fst (layout t)"

definition alignof :: "ctype \<Rightarrow> nat" where
  "alignof t = snd (layout t)"

text \<open>
  \<open>offsetof t n\<close> is the byte offset and the type of the member \<open>n\<close>, also when it is a member of
  an anonymous struct or union; bit-fields have no address and are not found.
\<close>

definition shift_offset :: "nat \<Rightarrow> (nat \<times> ctype) option \<Rightarrow> (nat \<times> ctype) option" where
  "shift_offset q x = map_option (apfst ((+) q)) x"

fun offsetof :: "ctype \<Rightarrow> string \<Rightarrow> (nat \<times> ctype) option"
  and offset_in_struct :: "nat \<Rightarrow> cfield list \<Rightarrow> string \<Rightarrow> (nat \<times> ctype) option"
  and offset_in_union :: "cfield list \<Rightarrow> string \<Rightarrow> (nat \<times> ctype) option" where
  "offsetof (CStruct fs) n = offset_in_struct 0 fs n"
| "offsetof (CUnion fs) n = offset_in_union fs n"
| "offsetof (CInt k) n = None"
| "offsetof CPtr n = None"
| "offsetof (CArray k t) n = None"
| "offset_in_struct p [] n = None"
| "offset_in_struct p (CField m t # fs) n =
     (if m = []
      then (if offsetof t n = None
            then offset_in_struct (align_up p (8 * snd (layout t)) + 8 * fst (layout t)) fs n
            else shift_offset (align_up p (8 * snd (layout t)) div 8) (offsetof t n))
      else if m = n then Some (align_up p (8 * snd (layout t)) div 8, t)
      else offset_in_struct (align_up p (8 * snd (layout t)) + 8 * fst (layout t)) fs n)"
| "offset_in_struct p (CBits m t w # fs) n =
     offset_in_struct (bit_place p (8 * fst (layout t)) w + w) fs n"
| "offset_in_union [] n = None"
| "offset_in_union (CField m t # fs) n =
     (if m = []
      then (if offsetof t n = None then offset_in_union fs n else offsetof t n)
      else if m = n then Some (0, t)
      else offset_in_union fs n)"
| "offset_in_union (CBits m t w # fs) n = offset_in_union fs n"


fun wf_ctype :: "ctype \<Rightarrow> bool"
  and wf_fields :: "cfield list \<Rightarrow> bool" where
  "wf_ctype (CInt n) \<longleftrightarrow> n \<in> {1, 2, 4, 8, 16}"
| "wf_ctype CPtr \<longleftrightarrow> True"
| "wf_ctype (CArray k t) \<longleftrightarrow> wf_ctype t"
| "wf_ctype (CStruct fs) \<longleftrightarrow> wf_fields fs"
| "wf_ctype (CUnion fs) \<longleftrightarrow> wf_fields fs"
| "wf_fields [] \<longleftrightarrow> True"
| "wf_fields (CField n t # fs) \<longleftrightarrow> wf_ctype t \<and> wf_fields fs"
| "wf_fields (CBits n t w # fs) \<longleftrightarrow> wf_ctype t \<and> 0 < fst (layout t) \<and> wf_fields fs"

section \<open>Evaluation\<close>

text \<open>
  The congruence rules keep the simplifier out of the member lists, so that a record is laid out
  in one pass over its members.
\<close>

lemma place_fields_cong:
  "p = p' \<Longrightarrow> a = a' \<Longrightarrow> place_fields p a fs = place_fields p' a' fs"
  by simp

lemma overlay_fields_cong:
  "p = p' \<Longrightarrow> a = a' \<Longrightarrow> overlay_fields p a fs = overlay_fields p' a' fs"
  by simp

lemma layout_cong: "layout t = layout t"
  by simp

lemma offset_in_struct_cong:
  "p = p' \<Longrightarrow> offset_in_struct p fs n = offset_in_struct p' fs n"
  by simp

lemma offset_in_union_cong: "offset_in_union fs n = offset_in_union fs n"
  by simp

lemmas layout_congs = place_fields_cong overlay_fields_cong layout_cong

lemmas offset_congs = offset_in_struct_cong offset_in_union_cong

section \<open>Members lie inside their record\<close>

lemma align_up_ge: "0 < a \<Longrightarrow> x \<le> align_up x a"
proof -
  assume a: "0 < a"
  have "x + (a - 1) = (x + (a - 1)) div a * a + (x + (a - 1)) mod a"
    by simp
  moreover have "(x + (a - 1)) mod a \<le> a - 1"
    using a by (metis Suc_pred' less_Suc_eq_le mod_less_divisor)
  ultimately show ?thesis unfolding align_up_def by linarith
qed

lemma align_up_dvd: "a dvd align_up x a"
  by (simp add: align_up_def)

lemma bit_place_ge: "0 < s \<Longrightarrow> p \<le> bit_place p s w"
  by (simp add: bit_place_def align_up_ge)

definition natural_align :: "nat set" where
  "natural_align = {1, 2, 4, 8, 16}"

lemma natural_align_max: "a \<in> natural_align \<Longrightarrow> b \<in> natural_align \<Longrightarrow> max a b \<in> natural_align"
  by (auto simp: natural_align_def max_def)

lemma natural_align_pos: "a \<in> natural_align \<Longrightarrow> 0 < a"
  by (auto simp: natural_align_def)

lemma natural_align_dvd: "a \<in> natural_align \<Longrightarrow> b \<in> natural_align \<Longrightarrow> a \<le> b \<Longrightarrow> a dvd b"
  by (auto simp: natural_align_def)

lemma layout_natural_align:
  "wf_ctype t \<Longrightarrow> snd (layout t) \<in> natural_align"
  "a \<in> natural_align \<Longrightarrow> wf_fields fs \<Longrightarrow> snd (place_fields p a fs) \<in> natural_align"
  "a \<in> natural_align \<Longrightarrow> wf_fields fs \<Longrightarrow> snd (overlay_fields p a fs) \<in> natural_align"
proof (induction t and p a fs and p a fs rule: layout_place_fields_overlay_fields.induct)
qed (auto simp: pad_end_def natural_align_max, auto simp: natural_align_def)

lemma place_fields_align_mono: "a \<le> snd (place_fields p a fs)"
proof (induction fs arbitrary: p a)
  case (Cons f fs)
  show ?case
  proof (cases f)
    case (CField n t)
    then show ?thesis using Cons[of "max a (snd (layout t))"] by (auto intro: max.cobounded1 order_trans)
  next
    case (CBits n t w)
    then show ?thesis
      using Cons[of "max a (snd (layout t))"] Cons[of a] by (auto intro: max.cobounded1 order_trans)
  qed
qed simp

lemma overlay_fields_mono:
  "a \<le> snd (overlay_fields p a fs) \<and> p \<le> fst (overlay_fields p a fs)"
proof (induction fs arbitrary: p a)
  case (Cons f fs)
  show ?case
  proof (cases f)
    case (CField n t)
    then show ?thesis
      using Cons[of "max a (snd (layout t))" "max p (8 * fst (layout t))"] by simp
  next
    case (CBits n t w)
    then show ?thesis
      using Cons[of "max a (snd (layout t))" "max p w"] Cons[of a "max p w"] by simp
  qed
qed simp

lemma wf_align_pos: "wf_ctype t \<Longrightarrow> 0 < snd (layout t)"
  using layout_natural_align(1) natural_align_pos by blast

lemma place_fields_mono: "wf_fields fs \<Longrightarrow> p \<le> fst (place_fields p a fs)"
proof (induction fs arbitrary: p a)
  case (Cons f fs)
  show ?case
  proof (cases f)
    case (CField n t)
    let ?q = "align_up p (8 * snd (layout t)) + 8 * fst (layout t)"
    have "p \<le> ?q"
      using CField Cons.prems wf_align_pos [of t] align_up_ge [of "8 * snd (layout t)" p] by simp
    also have "?q \<le> fst (place_fields ?q (max a (snd (layout t))) fs)"
      using CField Cons.prems by (intro Cons.IH) simp
    finally show ?thesis using CField by simp
  next
    case (CBits n t w)
    let ?q = "bit_place p (8 * fst (layout t)) w + w"
      and ?b = "if n = [] then a else max a (snd (layout t))"
    have "p \<le> ?q"
      using CBits Cons.prems bit_place_ge [of "8 * fst (layout t)" p w] by simp
    also have "?q \<le> fst (place_fields ?q ?b fs)"
      using CBits Cons.prems by (intro Cons.IH) simp
    finally show ?thesis using CBits by simp
  qed
qed simp

lemma pad_end_ge:
  assumes "0 < snd e" and "8 * k \<le> fst e"
  shows "k \<le> fst (pad_end e)"
proof -
  have "8 * k \<le> align_up (fst e) 8"
    using assms(2) align_up_ge [of 8 "fst e"] by simp
  then have "k \<le> align_up (fst e) 8 div 8"
    by linarith
  then show ?thesis
    using align_up_ge [OF assms(1)] by (auto simp: pad_end_def intro: order_trans)
qed

lemma natural_align_one: "1 \<in> natural_align"
  by (simp add: natural_align_def)

lemma align_up_8_div: "\<exists>k. align_up p (8 * b) = 8 * k"
  by (simp add: align_up_def)

lemma align_dvd_align_up_div: "c dvd b \<Longrightarrow> c dvd align_up p (8 * b) div 8"
  by (simp add: align_up_def mult.left_commute [of _ 8])

text \<open>
  A member that \<open>offsetof\<close> finds, also through anonymous members, ends before its record does
  and starts at a multiple of its alignment.
\<close>

lemma offset_bounds:
  "wf_ctype t \<Longrightarrow> offsetof t n = Some (q, u) \<Longrightarrow>
     q + fst (layout u) \<le> fst (layout t) \<and> snd (layout u) dvd q \<and>
     snd (layout u) \<le> snd (layout t) \<and> wf_ctype u"
  "wf_fields fs \<Longrightarrow> offset_in_struct p fs n = Some (q, u) \<Longrightarrow>
     8 * (q + fst (layout u)) \<le> fst (place_fields p a fs) \<and> snd (layout u) dvd q \<and>
     snd (layout u) \<le> snd (place_fields p a fs) \<and> wf_ctype u"
  "wf_fields fs \<Longrightarrow> offset_in_union fs n = Some (q, u) \<Longrightarrow>
     8 * (q + fst (layout u)) \<le> fst (overlay_fields p a fs) \<and> snd (layout u) dvd q \<and>
     snd (layout u) \<le> snd (overlay_fields p a fs) \<and> wf_ctype u"
proof (induction t n and p fs n and fs n arbitrary: q u and a q u and p a q u
    rule: offsetof_offset_in_struct_offset_in_union.induct)
  case (1 fs n)
  have pos: "0 < snd (place_fields 0 1 fs)"
    using "1.prems" layout_natural_align(2) [OF natural_align_one, of fs 0] natural_align_pos by simp
  show ?case
    using "1.IH" [of q u 1] "1.prems" pad_end_ge [OF pos, of "q + fst (layout u)"]
    by (simp add: pad_end_def)
next
  case (2 fs n)
  have pos: "0 < snd (overlay_fields 0 1 fs)"
    using "2.prems" layout_natural_align(3) [OF natural_align_one, of fs 0] natural_align_pos by simp
  show ?case
    using "2.IH" [of q u 0 1] "2.prems" pad_end_ge [OF pos, of "q + fst (layout u)"]
    by (simp add: pad_end_def)
next
  case (7 p m t fs n)
  define r0 where "r0 = align_up p (8 * snd (layout t))"
  define b where "b = max a (snd (layout t))"
  have wf: "wf_ctype t" "wf_fields fs" using "7.prems" by auto
  have pf: "place_fields p a (CField m t # fs) = place_fields (r0 + 8 * fst (layout t)) b fs"
    by (simp add: r0_def b_def)
  have e: "r0 + 8 * fst (layout t) \<le> fst (place_fields (r0 + 8 * fst (layout t)) b fs)"
    by (rule place_fields_mono [OF wf(2)])
  have al: "snd (layout t) \<le> snd (place_fields (r0 + 8 * fst (layout t)) b fs)"
    using place_fields_align_mono [of b] unfolding b_def by (metis max.bounded_iff)
  obtain r8 where r8: "r0 = 8 * r8"
    unfolding r0_def using align_up_8_div by metis
  have dv: "snd (layout t) dvd r8"
    using align_dvd_align_up_div [of "snd (layout t)" "snd (layout t)" p] r8 by (simp add: r0_def)
  consider (here) "m = n" "m \<noteq> []"
    | (inner) r where "m = []" "offsetof t n = Some (r, u)" "q = r8 + r"
    | (later) "offset_in_struct (r0 + 8 * fst (layout t)) fs n = Some (q, u)"
        "m = [] \<and> offsetof t n = None \<or> m \<noteq> [] \<and> m \<noteq> n"
    using "7.prems"(2) by (auto simp: shift_offset_def r0_def [symmetric] r8 split: if_splits)
  then show ?case
  proof cases
    case here
    then have "q = r8" "u = t" using "7.prems"(2) by (auto simp: r0_def [symmetric] r8)
    then show ?thesis unfolding pf using e al wf r8 dv by simp
  next
    case inner
    then have ih: "r + fst (layout u) \<le> fst (layout t) \<and> snd (layout u) dvd r \<and>
        snd (layout u) \<le> snd (layout t) \<and> wf_ctype u"
      using "7.IH"(1) [OF inner(1) wf(1) inner(2)] by blast
    have "snd (layout u) dvd snd (layout t)"
      using ih wf(1) layout_natural_align(1) natural_align_dvd by blast
    then have "snd (layout u) dvd r8" using dv dvd_trans by blast
    moreover have "8 * (q + fst (layout u)) \<le> r0 + 8 * fst (layout t)"
      using ih inner(3) r8 by simp
    ultimately show ?thesis unfolding pf using ih inner(3) e al by simp
  next
    case later
    from later(2) show ?thesis
      unfolding pf
      using "7.IH"(2) [OF _ _ wf(2) later(1) [unfolded r0_def], of b]
        "7.IH"(4) [OF _ _ wf(2) later(1) [unfolded r0_def], of b]
      unfolding r0_def by blast
  qed
next
  case (8 p m t w fs n)
  then show ?case by simp
next
  case (10 m t fs n)
  define r0 where "r0 = max p (8 * fst (layout t))"
  define b where "b = max a (snd (layout t))"
  have wf: "wf_ctype t" "wf_fields fs" using "10.prems" by auto
  have pf: "overlay_fields p a (CField m t # fs) = overlay_fields r0 b fs"
    by (simp add: r0_def b_def)
  have ov: "8 * fst (layout t) \<le> fst (overlay_fields r0 b fs)"
      "snd (layout t) \<le> snd (overlay_fields r0 b fs)"
    using overlay_fields_mono [of b r0 fs] unfolding r0_def b_def by simp_all
  consider (here) "m = n" "m \<noteq> []"
    | (inner) "m = []" "offsetof t n = Some (q, u)"
    | (later) "offset_in_union fs n = Some (q, u)"
        "m = [] \<and> offsetof t n = None \<or> m \<noteq> [] \<and> m \<noteq> n"
    using "10.prems"(2) by (auto split: if_splits)
  then show ?case
  proof cases
    case here
    then have "q = 0" "u = t" using "10.prems"(2) by auto
    then show ?thesis unfolding pf using ov wf by simp
  next
    case inner
    then have ih: "q + fst (layout u) \<le> fst (layout t) \<and> snd (layout u) dvd q \<and>
        snd (layout u) \<le> snd (layout t) \<and> wf_ctype u"
      using "10.IH"(1) [OF inner(1) wf(1) inner(2)] by blast
    moreover have "8 * (q + fst (layout u)) \<le> 8 * fst (layout t)"
      using ih by simp
    ultimately show ?thesis unfolding pf using ov by simp
  next
    case later
    from later(2) show ?thesis
      unfolding pf
      using "10.IH"(2) [OF _ _ wf(2) later(1), of r0 b] "10.IH"(4) [OF _ _ wf(2) later(1), of r0 b]
      by blast
  qed
next
  case (11 m t w fs n)
  then show ?case by simp
qed simp_all

end
