(* ===== verification/Kernel_Fields.thy ===== *)
theory Kernel_Fields
  imports C_Layout
begin

text \<open>
  The kernel structure members that the BPF programs read through CO-RE
  (\<^verbatim>\<open>bpf_core_read\<close>, \<^verbatim>\<open>BPF_CORE_READ\<close>, \<^verbatim>\<open>container_of\<close> and direct loads from BTF pointers in
  \<^verbatim>\<open>src/bpf/main.c\<close> and \<^verbatim>\<open>src/bpf/d_path_resolution.h\<close>), the structure and member path of each,
  the number of bytes the programs read there, and the offset of each in a given set of kernel
  types. The two vmlinux theories give that set for the two headers of the repository.
\<close>

section \<open>Members\<close>

datatype kfield =
    Task_cgroups | Task_nsproxy | Task_real_parent | Task_fs
  | Css_set_subsys | Css_set_dfl_cgrp
  | Css_cgroup
  | Cgroup_self | Cgroup_self_parent | Cgroup_level | Cgroup_kn | Cgroup_ancestors
  | Kernfs_node_id | Kernfs_node_old_id_id
  | Nsproxy_mnt_ns | Mnt_namespace_ns_inum
  | Linux_binprm_file | File_f_path
  | Path_mnt | Path_dentry
  | Vfsmount_mnt_root | Vfsmount_mnt_flags | Vfsmount_mnt_sb
  | Mount_mnt | Mount_mnt_parent | Mount_mnt_mountpoint | Mount_mnt_ns
  | Dentry_d_hash | Dentry_d_parent | Dentry_d_name
  | Hlist_bl_node_pprev
  | Qstr_len | Qstr_name
  | Fs_struct_root

text \<open>
  CO-RE ignores a suffix that starts with three underscores, so \<open>cgroup___new\<close> and
  \<open>kernfs_node___old\<close> are looked up as \<open>cgroup\<close> and \<open>kernfs_node\<close> of the running kernel.
  \<open>Vfsmount_mnt_sb\<close> is no member the programs name; it is listed because of what
  \<^verbatim>\<open>bpf_d_path_approx\<close> reads in its place.
\<close>

fun kfield_path :: "kfield \<Rightarrow> string \<times> string list" where
  "kfield_path Task_cgroups = (''task_struct'', [''cgroups''])"
| "kfield_path Task_nsproxy = (''task_struct'', [''nsproxy''])"
| "kfield_path Task_real_parent = (''task_struct'', [''real_parent''])"
| "kfield_path Task_fs = (''task_struct'', [''fs''])"
| "kfield_path Css_set_subsys = (''css_set'', [''subsys''])"
| "kfield_path Css_set_dfl_cgrp = (''css_set'', [''dfl_cgrp''])"
| "kfield_path Css_cgroup = (''cgroup_subsys_state'', [''cgroup''])"
| "kfield_path Cgroup_self = (''cgroup'', [''self''])"
| "kfield_path Cgroup_self_parent = (''cgroup'', [''self'', ''parent''])"
| "kfield_path Cgroup_level = (''cgroup'', [''level''])"
| "kfield_path Cgroup_kn = (''cgroup'', [''kn''])"
| "kfield_path Cgroup_ancestors = (''cgroup'', [''ancestors''])"
| "kfield_path Kernfs_node_id = (''kernfs_node'', [''id''])"
| "kfield_path Kernfs_node_old_id_id = (''kernfs_node'', [''id'', ''id''])"
| "kfield_path Nsproxy_mnt_ns = (''nsproxy'', [''mnt_ns''])"
| "kfield_path Mnt_namespace_ns_inum = (''mnt_namespace'', [''ns'', ''inum''])"
| "kfield_path Linux_binprm_file = (''linux_binprm'', [''file''])"
| "kfield_path File_f_path = (''file'', [''f_path''])"
| "kfield_path Path_mnt = (''path'', [''mnt''])"
| "kfield_path Path_dentry = (''path'', [''dentry''])"
| "kfield_path Vfsmount_mnt_root = (''vfsmount'', [''mnt_root''])"
| "kfield_path Vfsmount_mnt_flags = (''vfsmount'', [''mnt_flags''])"
| "kfield_path Vfsmount_mnt_sb = (''vfsmount'', [''mnt_sb''])"
| "kfield_path Mount_mnt = (''mount'', [''mnt''])"
| "kfield_path Mount_mnt_parent = (''mount'', [''mnt_parent''])"
| "kfield_path Mount_mnt_mountpoint = (''mount'', [''mnt_mountpoint''])"
| "kfield_path Mount_mnt_ns = (''mount'', [''mnt_ns''])"
| "kfield_path Dentry_d_hash = (''dentry'', [''d_hash''])"
| "kfield_path Dentry_d_parent = (''dentry'', [''d_parent''])"
| "kfield_path Dentry_d_name = (''dentry'', [''d_name''])"
| "kfield_path Hlist_bl_node_pprev = (''hlist_bl_node'', [''pprev''])"
| "kfield_path Qstr_len = (''qstr'', [''len''])"
| "kfield_path Qstr_name = (''qstr'', [''name''])"
| "kfield_path Fs_struct_root = (''fs_struct'', [''root''])"

text \<open>
  The bytes a program reads at the member: the size of the destination variable in the source.
  The members of \<open>embedded\<close> are records whose address is taken and that are never read as a
  whole.
\<close>

definition embedded :: "kfield set" where
  "embedded = {Cgroup_self, File_f_path, Mount_mnt, Dentry_d_hash, Vfsmount_mnt_sb}"

fun read_width :: "kfield \<Rightarrow> nat" where
  "read_width Cgroup_level = 4"
| "read_width Mnt_namespace_ns_inum = 4"
| "read_width Vfsmount_mnt_flags = 4"
| "read_width Qstr_len = 4"
| "read_width Dentry_d_name = 16"
| "read_width k = 8"

section \<open>Offsets in a set of kernel types\<close>

fun offset_path :: "ctype \<Rightarrow> string list \<Rightarrow> (nat \<times> ctype) option" where
  "offset_path t [] = Some (0, t)"
| "offset_path t (n # ns) =
     (case offsetof t n of
        None \<Rightarrow> None
      | Some (q, u) \<Rightarrow>
          (case offset_path u ns of
             None \<Rightarrow> None
           | Some (r, v) \<Rightarrow> Some (q + r, v)))"

definition core_offset :: "(string \<Rightarrow> ctype) \<Rightarrow> kfield \<Rightarrow> (nat \<times> ctype) option" where
  "core_offset T k = (case kfield_path k of (s, ns) \<Rightarrow> offset_path (T s) ns)"

text \<open>An access to an array member reads one element.\<close>

fun access_size :: "ctype \<Rightarrow> nat" where
  "access_size (CArray k t) = sizeof t"
| "access_size t = sizeof t"

lemma offset_path_bounds:
  "wf_ctype t \<Longrightarrow> offset_path t ns = Some (q, u) \<Longrightarrow>
     q + sizeof u \<le> sizeof t \<and> wf_ctype u"
proof (induction ns arbitrary: t q u)
  case (Cons n ns)
  then obtain r v s where o: "offsetof t n = Some (r, v)" "offset_path v ns = Some (s, u)" "q = r + s"
    by (auto split: option.splits)
  have "r + sizeof v \<le> sizeof t \<and> wf_ctype v"
    using offset_bounds(1) [OF Cons.prems(1) o(1)] by (simp add: sizeof_def)
  with Cons.IH [OF _ o(2)] o(3) show ?case by simp
qed simp

lemma core_offset_bounds:
  assumes "wf_ctype (T (fst (kfield_path k)))" and "core_offset T k = Some (q, u)"
  shows "q + sizeof u \<le> sizeof (T (fst (kfield_path k)))"
  using assms offset_path_bounds by (auto simp: core_offset_def split: prod.splits)

end
