(* ===== verification/Bpf_Runtime.thy ===== *)
theory Bpf_Runtime
  imports Kernel_Fields "HOL-Library.AList"
begin

text \<open>
  What a BPF program of \<^verbatim>\<open>src/bpf/main.c\<close> finds around it: the load-time configuration of
  \<^verbatim>\<open>src/bpf/load_conf.h\<close>, the kernel as seen through the BPF helpers (a record of parameters:
  the helpers are kernel code and not part of the repository), hash maps and ring buffers. The
  kernel memory is a snapshot for the time of one program run.
\<close>

section \<open>Load-time configuration\<close>

record load_conf =
  cgrp_fs_magic :: u64
  host_mnt_ns_inum :: u64
  cgrpv1_subsys_idx :: u32
  debug_mode :: u8
  learning_enabled :: u8

section \<open>The kernel seen by a program\<close>

datatype ringbuf = Ringbuf_logs | Ringbuf_monitoring | Ringbuf_execve

text \<open>
  \<open>core_off\<close> is the offset CO-RE relocates a member access to on the running kernel, \<open>None\<close> when
  that kernel has no such member. \<open>probe_read_kernel a n\<close> is the helper
  \<^verbatim>\<open>bpf_probe_read_kernel\<close>: its return value and what it leaves in the \<open>n\<close> bytes of the
  destination. \<open>probe_read_map bs\<close> is the same helper on an address inside the program's own map
  memory, where the bytes \<open>bs\<close> lie. \<open>rb_room\<close> says whether a record of a given size fits a ring buffer in which a given
  number of records has been submitted, \<open>map_nomem\<close> that the kernel cannot allocate a map element.
\<close>

record kenv =
  core_off :: "kfield \<Rightarrow> u64 option"
  qstr_size :: u32
  pids_cgrp_id :: u32
  has_get_current_cgroup_id :: bool
  has_bpf_iter_num_new :: bool
  has_trace_printk_event :: bool
  linux_kernel_version :: int
  load_time_config :: load_conf
  probe_read_kernel :: "u64 \<Rightarrow> u32 \<Rightarrow> int \<times> bytes"
  probe_read_map :: "bytes \<Rightarrow> int \<times> bytes"
  get_current_task :: u64
  get_current_cgroup_id :: u64
  get_current_pid_tgid :: u64
  get_current_comm :: "int \<times> bytes"
  get_smp_processor_id :: u32
  rb_room :: "ringbuf \<Rightarrow> nat \<Rightarrow> nat \<Rightarrow> bool"
  map_nomem :: bool

definition KERNEL_VERSION :: "int \<Rightarrow> int \<Rightarrow> int \<Rightarrow> int" where
  "KERNEL_VERSION a b c = a * 65536 + b * 256 + (if c > 255 then 255 else c)"

text \<open>
  A field access compiled to an offset. An access to a missing member is poisoned by the loader
  and never runs; the programs guard it with \<open>bpf_core_field_exists\<close>.
\<close>

definition bpf_core_field_exists :: "kenv \<Rightarrow> kfield \<Rightarrow> bool" where
  "bpf_core_field_exists K k \<longleftrightarrow> core_off K k \<noteq> None"

definition fld :: "kenv \<Rightarrow> kfield \<Rightarrow> u64" where
  "fld K k = (case core_off K k of Some q \<Rightarrow> q | None \<Rightarrow> 0)"

definition u64_of_bytes :: "bytes \<Rightarrow> u64" where
  "u64_of_bytes bs = word_of_nat (le_decode (take 8 bs))"

definition u32_of_bytes :: "bytes \<Rightarrow> u32" where
  "u32_of_bytes bs = word_of_nat (le_decode (take 4 bs))"

definition read_u64 :: "kenv \<Rightarrow> u64 \<Rightarrow> u64" where
  "read_u64 K a = u64_of_bytes (snd (probe_read_kernel K a 8))"

definition read_u32 :: "kenv \<Rightarrow> u64 \<Rightarrow> u32" where
  "read_u32 K a = u32_of_bytes (snd (probe_read_kernel K a 4))"

section \<open>Hash maps\<close>

text \<open>
  A BPF hash map: at most \<open>max_entries\<close> elements, one per key. The errors are those the kernel
  returns for the update flags the repository uses.
\<close>

datatype errno = ENOENT | EEXIST | E2BIG | ENOMEM

datatype update_flag = BPF_ANY | BPF_NOEXIST

record ('k, 'v) bpf_hash =
  max_entries :: nat
  elems :: "('k \<times> 'v) list"

definition map_lookup :: "('k, 'v) bpf_hash \<Rightarrow> 'k \<Rightarrow> 'v option" where
  "map_lookup m k = map_of (elems m) k"

definition map_update ::
  "bool \<Rightarrow> ('k, 'v) bpf_hash \<Rightarrow> 'k \<Rightarrow> 'v \<Rightarrow> update_flag \<Rightarrow> errno + ('k, 'v) bpf_hash" where
  "map_update nomem m k v fl =
     (case map_lookup m k of
        Some w \<Rightarrow>
          if fl = BPF_NOEXIST then Inl EEXIST
          else if nomem then Inl ENOMEM
          else Inr (m\<lparr>elems := AList.update k v (elems m)\<rparr>)
      | None \<Rightarrow>
          if length (elems m) \<ge> max_entries m then Inl E2BIG
          else if nomem then Inl ENOMEM
          else Inr (m\<lparr>elems := AList.update k v (elems m)\<rparr>))"

definition map_delete :: "('k, 'v) bpf_hash \<Rightarrow> 'k \<Rightarrow> errno + ('k, 'v) bpf_hash" where
  "map_delete m k =
     (if map_lookup m k = None then Inl ENOENT
      else Inr (m\<lparr>elems := AList.delete k (elems m)\<rparr>))"

text \<open>The programs ignore the result of an update or a delete: on an error the map is unchanged.\<close>

definition or_same :: "errno + 'm \<Rightarrow> 'm \<Rightarrow> 'm" where
  "or_same r m = (case r of Inl e \<Rightarrow> m | Inr m' \<Rightarrow> m')"

definition hash_inv :: "('k, 'v) bpf_hash \<Rightarrow> bool" where
  "hash_inv m \<longleftrightarrow> distinct (map fst (elems m)) \<and> length (elems m) \<le> max_entries m"

section \<open>Kernel memory reads\<close>

text \<open>
  The one thing the programs rely on in \<^verbatim>\<open>bpf_probe_read_kernel\<close> everywhere: the destination has
  the requested size afterwards.
\<close>

definition probe_sized :: "kenv \<Rightarrow> bool" where
  "probe_sized K \<longleftrightarrow> (\<forall>a n. length (snd (probe_read_kernel K a n)) = unat n)"

text \<open>A successful read of the program's own map memory yields what is there.\<close>

definition probe_map_faithful :: "kenv \<Rightarrow> bool" where
  "probe_map_faithful K \<longleftrightarrow>
     (\<forall>bs. length (snd (probe_read_map K bs)) = length bs \<and>
       (fst (probe_read_map K bs) = 0 \<longrightarrow> snd (probe_read_map K bs) = bs))"

lemma probe_sizedD: "probe_sized K \<Longrightarrow> length (snd (probe_read_kernel K a n)) = unat n"
  by (simp add: probe_sized_def)

lemma u64_of_bytes_encode [simp]: "u64_of_bytes (le_encode 8 (unat w)) = w"
  by (simp add: u64_of_bytes_def le_decode_encode_word)

lemma u32_of_bytes_encode [simp]: "u32_of_bytes (le_encode 4 (unat w)) = w"
  by (simp add: u32_of_bytes_def le_decode_encode_word)

section \<open>The contract of a hash map\<close>

text \<open>
  What the clients of a map rely on, stated once for any implementation: an update that succeeds
  stores exactly the one key, a new key is refused only by a full map or a failed allocation, and
  every operation keeps the number of elements within the capacity.
\<close>

locale hash_map =
  fixes lookup :: "'m \<Rightarrow> 'k \<Rightarrow> 'v option"
    and update :: "bool \<Rightarrow> 'm \<Rightarrow> 'k \<Rightarrow> 'v \<Rightarrow> update_flag \<Rightarrow> errno + 'm"
    and delete :: "'m \<Rightarrow> 'k \<Rightarrow> errno + 'm"
    and invar :: "'m \<Rightarrow> bool"
    and full :: "'m \<Rightarrow> bool"
  assumes update_lookup: "invar m \<Longrightarrow> update nm m k v fl = Inr m' \<Longrightarrow> lookup m' = (lookup m)(k \<mapsto> v)"
    and update_error: "invar m \<Longrightarrow> update nm m k v fl = Inl e \<Longrightarrow>
      fl = BPF_NOEXIST \<and> lookup m k \<noteq> None \<and> e = EEXIST \<or> lookup m k = None \<and> full m \<and> e = E2BIG \<or>
      nm \<and> e = ENOMEM"
    and delete_lookup: "invar m \<Longrightarrow> delete m k = Inr m' \<Longrightarrow> lookup m' = (lookup m)(k := None)"
    and delete_error: "invar m \<Longrightarrow> delete m k = Inl e \<Longrightarrow> lookup m k = None \<and> e = ENOENT"
    and invar_update: "invar m \<Longrightarrow> update nm m k v fl = Inr m' \<Longrightarrow> invar m'"
    and invar_delete: "invar m \<Longrightarrow> delete m k = Inr m' \<Longrightarrow> invar m'"
begin

lemma update_any_succeeds:
  assumes "invar m" and "\<not> nm" and "lookup m k \<noteq> None \<or> \<not> full m"
  shows "\<exists>m'. update nm m k v BPF_ANY = Inr m'"
proof (cases "update nm m k v BPF_ANY")
  case (Inl e)
  from update_error [OF assms(1) this] assms(2,3) show ?thesis by auto
qed blast

lemma or_same_update_lookup:
  assumes "invar m" and "\<not> nm" and "lookup m k \<noteq> None \<or> \<not> full m"
  shows "lookup (or_same (update nm m k v BPF_ANY) m) = (lookup m)(k \<mapsto> v)"
proof -
  obtain m' where m': "update nm m k v BPF_ANY = Inr m'"
    using update_any_succeeds [OF assms] by blast
  show ?thesis
    using update_lookup [OF assms(1) m'] m' by (simp add: or_same_def)
qed

lemma or_same_update_invar: "invar m \<Longrightarrow> invar (or_same (update nm m k v fl) m)"
  using invar_update by (auto simp: or_same_def split: sum.splits)

lemma or_same_delete_lookup: "invar m \<Longrightarrow> lookup (or_same (delete m k) m) = (lookup m)(k := None)"
  using delete_lookup [of m k] delete_error [of m k]
  by (cases "delete m k") (auto simp: or_same_def fun_upd_idem)

lemma or_same_delete_invar: "invar m \<Longrightarrow> invar (or_same (delete m k) m)"
  using invar_delete by (auto simp: or_same_def split: sum.splits)

lemma delete_update_id:
  assumes "invar m" and "lookup m k = None" and "update nm m k v fl = Inr m'"
    and "delete m' k = Inr m''"
  shows "lookup m'' = lookup m"
proof -
  have "lookup m'' = ((lookup m)(k \<mapsto> v))(k := None)"
    using delete_lookup [OF invar_update [OF assms(1,3)] assms(4)] update_lookup [OF assms(1,3)] by simp
  then show ?thesis
    using assms(2) by (simp add: fun_upd_idem)
qed

end

definition hash_full :: "('k, 'v) bpf_hash \<Rightarrow> bool" where
  "hash_full m \<longleftrightarrow> max_entries m \<le> length (elems m)"

lemma map_of_eq_None_keys: "map_of xs k = None \<longleftrightarrow> k \<notin> set (map fst xs)"
  by (simp add: map_of_eq_None_iff)

lemma length_update_new:
  "k \<notin> set (map fst xs) \<Longrightarrow> length (AList.update k v xs) = Suc (length xs)"
  by (induction xs) auto

lemma length_update_old:
  "k \<in> set (map fst xs) \<Longrightarrow> length (AList.update k v xs) = length xs"
  by (induction xs) auto

interpretation bpf: hash_map map_lookup map_update map_delete hash_inv hash_full
proof unfold_locales
  fix m m' :: "('k, 'v) bpf_hash" and nm k v fl
  assume "hash_inv m" "map_update nm m k v fl = Inr m'"
  then show "map_lookup m' = (map_lookup m)(k \<mapsto> v)"
    by (auto simp: map_update_def map_lookup_def update_conv split: option.splits if_splits)
next
  fix m :: "('k, 'v) bpf_hash" and nm k v fl e
  assume "map_update nm m k v fl = Inl e"
  then show "fl = BPF_NOEXIST \<and> map_lookup m k \<noteq> None \<and> e = EEXIST \<or>
      map_lookup m k = None \<and> hash_full m \<and> e = E2BIG \<or> nm \<and> e = ENOMEM"
    by (auto simp: map_update_def hash_full_def split: option.splits if_splits)
next
  fix m m' :: "('k, 'v) bpf_hash" and k
  assume "hash_inv m" "map_delete m k = Inr m'"
  then show "map_lookup m' = (map_lookup m)(k := None)"
    by (auto simp: map_delete_def map_lookup_def delete_conv split: if_splits)
next
  fix m :: "('k, 'v) bpf_hash" and k e
  assume "map_delete m k = Inl e"
  then show "map_lookup m k = None \<and> e = ENOENT"
    by (auto simp: map_delete_def split: if_splits)
next
  fix m m' :: "('k, 'v) bpf_hash" and nm k v fl
  assume inv: "hash_inv m" and up: "map_update nm m k v fl = Inr m'"
  then have m': "m' = m\<lparr>elems := AList.update k v (elems m)\<rparr>"
    and room: "map_lookup m k = None \<Longrightarrow> length (elems m) < max_entries m"
    by (auto simp: map_update_def split: option.splits if_splits)
  have "length (AList.update k v (elems m)) \<le> max_entries m"
  proof (cases "map_lookup m k")
    case None
    then show ?thesis
      using room length_update_new [of k "elems m" v]
      by (simp add: map_lookup_def map_of_eq_None_keys)
  next
    case (Some w)
    then have "k \<in> set (map fst (elems m))"
      by (metis map_lookup_def map_of_eq_None_keys option.distinct(1))
    then show ?thesis
      using inv by (simp add: length_update_old hash_inv_def)
  qed
  then show "hash_inv m'"
    using inv by (simp add: m' hash_inv_def distinct_update)
next
  fix m m' :: "('k, 'v) bpf_hash" and k
  assume inv: "hash_inv m" and del: "map_delete m k = Inr m'"
  have "length (AList.delete k (elems m)) \<le> length (elems m)"
    by (simp add: length_delete_le)
  then show "hash_inv m'"
    using inv del
    by (auto simp: map_delete_def hash_inv_def distinct_delete split: if_splits)
qed

end
