(* ===== verification/Bpf_State.thy ===== *)
theory Bpf_State
  imports Bpf_Runtime
begin

text \<open>
  The data of \<^verbatim>\<open>src/bpf/main.c\<close>, \<^verbatim>\<open>src/bpf/debug.h\<close> and \<^verbatim>\<open>src/bpf/string_maps.h\<close>: constants, event
  and log structures, and the maps and ring buffers that make up the state the programs share
  with user space.
\<close>

section \<open>Constants\<close>

abbreviation CGROUP_SUPER_MAGIC :: u64 where "CGROUP_SUPER_MAGIC \<equiv> 0x27e0eb"
abbreviation CGROUP2_SUPER_MAGIC :: u64 where "CGROUP2_SUPER_MAGIC \<equiv> 0x63677270"
abbreviation MNT_INTERNAL :: u32 where "MNT_INTERNAL \<equiv> 0x4000"
abbreviation MAX_PATH_LEN :: nat where "MAX_PATH_LEN \<equiv> 4096"
abbreviation POLICY_MODE_MONITOR :: u8 where "POLICY_MODE_MONITOR \<equiv> 1"
abbreviation POLICY_MODE_PROTECT :: u8 where "POLICY_MODE_PROTECT \<equiv> 2"
abbreviation EPERM :: int where "EPERM \<equiv> 1"

definition TRACKER_MAP_MAX_ENTRIES :: nat where
  "TRACKER_MAP_MAX_ENTRIES = 65536"

definition CGROUP_TO_POLICY_MAX_ENTRIES :: nat where
  "CGROUP_TO_POLICY_MAX_ENTRIES = 65536"

definition POLICY_MAP_MAX_ENTRIES :: nat where
  "POLICY_MAP_MAX_ENTRIES = 65536"

definition POLICY_STR_OUTER_MAX_ENTRIES :: nat where
  "POLICY_STR_OUTER_MAX_ENTRIES = 65536"

section \<open>Structures\<close>

datatype log_code =
    LOG_FAIL_TO_LOOKUP_EVT_MAP
  | LOG_MISSING_FILE_STRUCT
  | LOG_FAIL_TO_RESOLVE_PATH
  | LOG_EMPTY_PATH
  | LOG_FAIL_TO_COPY_EXEC_PATH
  | LOG_DROP_EXEC_EVENT
  | LOG_PATH_LEN_TOO_LONG
  | LOG_POLICY_MODE_MISSING
  | LOG_DROP_VIOLATION
  | LOG_FAIL_TO_RESOLVE_CGROUP_ID
  | LOG_FAIL_TO_RESOLVE_PARENT_CGROUP_ID

fun log_event_code :: "log_code \<Rightarrow> nat" where
  "log_event_code LOG_FAIL_TO_LOOKUP_EVT_MAP = 1"
| "log_event_code LOG_MISSING_FILE_STRUCT = 2"
| "log_event_code LOG_FAIL_TO_RESOLVE_PATH = 3"
| "log_event_code LOG_EMPTY_PATH = 4"
| "log_event_code LOG_FAIL_TO_COPY_EXEC_PATH = 5"
| "log_event_code LOG_DROP_EXEC_EVENT = 6"
| "log_event_code LOG_PATH_LEN_TOO_LONG = 7"
| "log_event_code LOG_POLICY_MODE_MISSING = 8"
| "log_event_code LOG_DROP_VIOLATION = 9"
| "log_event_code LOG_FAIL_TO_RESOLVE_CGROUP_ID = 10"
| "log_event_code LOG_FAIL_TO_RESOLVE_PARENT_CGROUP_ID = 11"

record log_evt =
  log_code_of :: log_code
  log_comm :: bytes
  log_cg_tracker_id :: u64
  log_pid :: u32
  log_tgid :: u32
  log_arg1 :: u64
  log_arg2 :: u64

text \<open>
  The event buffer. \<open>path\<close> stands for \<^verbatim>\<open>char path[MAX_PATH_LEN * 3]\<close>, by index; which indices the
  programs touch is a theorem, not part of the type.
\<close>

record process_evt =
  cg_tracker_id :: u64
  path_len :: u16
  mode :: u8
  foreign :: u8
  path :: buffer

record policy_settings =
  settings_mode :: u8
  allow_foreign_root :: u8

text \<open>
  An inner string map of a policy: the key size it was created with and its keys, each of that
  size. The value of a key is one byte that no program reads.
\<close>

record inner_map =
  key_size :: nat
  keys :: "bytes list"

text \<open>The shared structures as C types, for their layout.\<close>

definition process_evt_ctype :: ctype where
  "process_evt_ctype = CStruct
     [CField ''cg_tracker_id'' (CInt 8),
      CField ''path_len'' (CInt 2),
      CField ''mode'' (CInt 1),
      CField ''foreign'' (CInt 1),
      CField ''path'' (CArray 12288 (CInt 1))]"

definition log_evt_ctype :: ctype where
  "log_evt_ctype = CStruct
     [CField ''code'' (CInt 4),
      CField ''comm'' (CArray 16 (CInt 1)),
      CField ''cg_tracker_id'' (CInt 8),
      CField ''pid'' (CInt 4),
      CField ''tgid'' (CInt 4),
      CField ''arg1'' (CInt 8),
      CField ''arg2'' (CInt 8)]"

definition load_conf_ctype :: ctype where
  "load_conf_ctype = CStruct
     [CField ''cgrp_fs_magic'' (CInt 8),
      CField ''host_mnt_ns_inum'' (CInt 8),
      CField ''cgrpv1_subsys_idx'' (CInt 4),
      CField ''debug_mode'' (CInt 1),
      CField ''learning_enabled'' (CInt 1),
      CField ''pad'' (CArray 2 (CInt 1))]"

definition policy_settings_ctype :: ctype where
  "policy_settings_ctype = CStruct
     [CField ''mode'' (CInt 1),
      CField ''allow_foreign_root'' (CInt 1)]"

section \<open>State\<close>

record bpf_state =
  cgtracker_map :: "(u64, u64) bpf_hash"
  cg_to_policy_map :: "(u64, u64) bpf_hash"
  policy_settings_map :: "(u64, policy_settings) bpf_hash"
  pol_str_maps :: "nat \<Rightarrow> (u64, inner_map) bpf_hash"
  process_evt_storage_map :: "process_evt option"
  ringbuf_logs :: "log_evt list"
  ringbuf_monitoring :: "bytes list"
  ringbuf_execve :: "bytes list"
  trace_pipe :: "string list"

text \<open>The state after loading: empty maps, a zeroed event buffer.\<close>

definition empty_evt :: process_evt where
  "empty_evt = \<lparr>cg_tracker_id = 0, path_len = 0, mode = 0, foreign = 0, path = (\<lambda>_. 0)\<rparr>"

definition init_state :: bpf_state where
  "init_state =
     \<lparr>cgtracker_map = \<lparr>max_entries = TRACKER_MAP_MAX_ENTRIES, elems = []\<rparr>,
      cg_to_policy_map = \<lparr>max_entries = CGROUP_TO_POLICY_MAX_ENTRIES, elems = []\<rparr>,
      policy_settings_map = \<lparr>max_entries = POLICY_MAP_MAX_ENTRIES, elems = []\<rparr>,
      pol_str_maps = (\<lambda>_. \<lparr>max_entries = POLICY_STR_OUTER_MAX_ENTRIES, elems = []\<rparr>),
      process_evt_storage_map = Some empty_evt,
      ringbuf_logs = [],
      ringbuf_monitoring = [],
      ringbuf_execve = [],
      trace_pipe = []\<rparr>"

text \<open>The bytes of an event as they lie in memory, and the first \<open>n\<close> of them.\<close>

definition evt_header :: "process_evt \<Rightarrow> bytes" where
  "evt_header e =
     le_encode 8 (unat (cg_tracker_id e)) @ le_encode 2 (unat (path_len e)) @ [mode e, foreign e]"

definition evt_bytes :: "process_evt \<Rightarrow> nat \<Rightarrow> bytes" where
  "evt_bytes e n = take n (evt_header e @ buf_read (path e) 0 (n - 12))"

section \<open>Output\<close>

text \<open>\<^verbatim>\<open>bpf_ringbuf_output\<close> on the two event rings: 0, or an error when the record does not fit.\<close>

definition output_monitoring :: "kenv \<Rightarrow> bpf_state \<Rightarrow> bytes \<Rightarrow> int \<times> bpf_state" where
  "output_monitoring K s bs =
     (if rb_room K Ringbuf_monitoring (length (ringbuf_monitoring s)) (length bs)
      then (0, s\<lparr>ringbuf_monitoring := ringbuf_monitoring s @ [bs]\<rparr>)
      else (-11, s))"

definition output_execve :: "kenv \<Rightarrow> bpf_state \<Rightarrow> bytes \<Rightarrow> int \<times> bpf_state" where
  "output_execve K s bs =
     (if rb_room K Ringbuf_execve (length (ringbuf_execve s)) (length bs)
      then (0, s\<lparr>ringbuf_execve := ringbuf_execve s @ [bs]\<rparr>)
      else (-11, s))"

text \<open>
  The debug print: only when the load-time configuration asks for it, with a final newline on
  kernels whose trace event does not add one. The arguments of the format are left out.
\<close>

definition bpf_printk :: "kenv \<Rightarrow> bpf_state \<Rightarrow> string \<Rightarrow> bpf_state" where
  "bpf_printk K s fmt =
     (if debug_mode (load_time_config K) = 1
      then s\<lparr>trace_pipe := trace_pipe s @
             [if has_trace_printk_event K then fmt else fmt @ [CHR 0x0A]]\<rparr>
      else s)"

section \<open>Layout of the shared structures\<close>

lemma process_evt_path_offset: "offsetof process_evt_ctype ''path'' = Some (12, CArray 12288 (CInt 1))"
  by (simp add: process_evt_ctype_def align_up_def)

lemma length_evt_header [simp]: "length (evt_header e) = 12"
  by (simp add: evt_header_def)

lemma length_evt_bytes [simp]: "length (evt_bytes e n) = n"
  by (simp add: evt_bytes_def)

lemma take_header_evt_bytes: "12 \<le> n \<Longrightarrow> take 12 (evt_bytes e n) = evt_header e"
  by (simp add: evt_bytes_def)

lemma drop_header_evt_bytes: "12 \<le> n \<Longrightarrow> drop 12 (evt_bytes e n) = buf_read (path e) 0 (n - 12)"
  by (simp add: evt_bytes_def drop_take)

lemma output_monitoring_frame [hook_frame]:
  "cgtracker_map (snd (output_monitoring K s bs)) = cgtracker_map s"
  "cg_to_policy_map (snd (output_monitoring K s bs)) = cg_to_policy_map s"
  "policy_settings_map (snd (output_monitoring K s bs)) = policy_settings_map s"
  "pol_str_maps (snd (output_monitoring K s bs)) = pol_str_maps s"
  "process_evt_storage_map (snd (output_monitoring K s bs)) = process_evt_storage_map s"
  "ringbuf_execve (snd (output_monitoring K s bs)) = ringbuf_execve s"
  "ringbuf_logs (snd (output_monitoring K s bs)) = ringbuf_logs s"
  by (simp_all add: output_monitoring_def)

lemma output_execve_frame [hook_frame]:
  "cgtracker_map (snd (output_execve K s bs)) = cgtracker_map s"
  "cg_to_policy_map (snd (output_execve K s bs)) = cg_to_policy_map s"
  "policy_settings_map (snd (output_execve K s bs)) = policy_settings_map s"
  "pol_str_maps (snd (output_execve K s bs)) = pol_str_maps s"
  "process_evt_storage_map (snd (output_execve K s bs)) = process_evt_storage_map s"
  "ringbuf_monitoring (snd (output_execve K s bs)) = ringbuf_monitoring s"
  "ringbuf_logs (snd (output_execve K s bs)) = ringbuf_logs s"
  by (simp_all add: output_execve_def)

lemma bpf_printk_frame [hook_frame]:
  "cgtracker_map (bpf_printk K s f) = cgtracker_map s"
  "cg_to_policy_map (bpf_printk K s f) = cg_to_policy_map s"
  "policy_settings_map (bpf_printk K s f) = policy_settings_map s"
  "pol_str_maps (bpf_printk K s f) = pol_str_maps s"
  "process_evt_storage_map (bpf_printk K s f) = process_evt_storage_map s"
  "ringbuf_monitoring (bpf_printk K s f) = ringbuf_monitoring s"
  "ringbuf_execve (bpf_printk K s f) = ringbuf_execve s"
  "ringbuf_logs (bpf_printk K s f) = ringbuf_logs s"
  by (simp_all add: bpf_printk_def)

end
