(* ===== verification/Cgroup_Helpers.thy ===== *)
theory Cgroup_Helpers
  imports Bpf_State
begin

text \<open>
  The cgroup helpers of \<^verbatim>\<open>src/bpf/main.c\<close> (from \<^verbatim>\<open>cgrp_get_tracker_id\<close> to
  \<^verbatim>\<open>cgroup_get_parent_id\<close>), the two predicates that classify an exec
  (\<^verbatim>\<open>exec_is_runtime_bootstrap\<close>, \<^verbatim>\<open>exec_is_foreign_root\<close>) and the log helpers. Pointers are 64-bit
  words and 0 is \<^verbatim>\<open>NULL\<close>.
\<close>

section \<open>Cgroup identifiers\<close>

definition cgrp_get_tracker_id :: "bpf_state \<Rightarrow> u64 \<Rightarrow> u64" where
  "cgrp_get_tracker_id s cgid =
     (case map_lookup (cgtracker_map s) cgid of Some r \<Rightarrow> r | None \<Rightarrow> 0)"

definition get_cgroup_level :: "kenv \<Rightarrow> u64 \<Rightarrow> u32" where
  "get_cgroup_level K cgrp = read_u32 K (cgrp + fld K Cgroup_level)"

definition get_cgroup_kn_id :: "kenv \<Rightarrow> u64 \<Rightarrow> u64" where
  "get_cgroup_kn_id K kn =
     (if kn = 0 then 0
      else if bpf_core_field_exists K Kernfs_node_old_id_id
      then (let r = probe_read_kernel K (kn + fld K Kernfs_node_old_id_id) 8
            in if fst r \<noteq> 0 then 0 else u64_of_bytes (snd r))
      else read_u64 K (kn + fld K Kernfs_node_id))"

definition get_cgroup_kn :: "kenv \<Rightarrow> u64 \<Rightarrow> u64" where
  "get_cgroup_kn K cgrp = (if cgrp = 0 then 0 else read_u64 K (cgrp + fld K Cgroup_kn))"

definition get_cgroup_id :: "kenv \<Rightarrow> u64 \<Rightarrow> u64" where
  "get_cgroup_id K cgrp = get_cgroup_kn_id K (get_cgroup_kn K cgrp)"

definition get_task_cgroup :: "kenv \<Rightarrow> u64 \<Rightarrow> u64 \<Rightarrow> u32 \<Rightarrow> u64" where
  "get_task_cgroup K task cgrp_fs_ver subsys_idx =
     (let cgroups = read_u64 K (task + fld K Task_cgroups) in
      if cgroups = 0 then 0
      else if cgrp_fs_ver = CGROUP2_SUPER_MAGIC
      then read_u64 K (cgroups + fld K Css_set_dfl_cgrp)
      else if subsys_idx > pids_cgrp_id K then 0
      else
        (let subsys = read_u64 K (cgroups + fld K Css_set_subsys + 8 * ucast subsys_idx) in
         if subsys = 0 then 0 else read_u64 K (subsys + fld K Css_cgroup)))"

definition tg_get_current_cgroup_id :: "kenv \<Rightarrow> u64" where
  "tg_get_current_cgroup_id K =
     (if has_get_current_cgroup_id K \<and> cgrp_fs_magic (load_time_config K) = CGROUP2_SUPER_MAGIC
      then get_current_cgroup_id K
      else
        (let cgrp = get_task_cgroup K (get_current_task K)
                      (cgrp_fs_magic (load_time_config K))
                      (cgrpv1_subsys_idx (load_time_config K)) in
         if cgrp = 0 then 0 else get_cgroup_id K cgrp))"

definition get_tracker_id_from_curr_task :: "kenv \<Rightarrow> bpf_state \<Rightarrow> u64" where
  "get_tracker_id_from_curr_task K s =
     (let cgroupid = tg_get_current_cgroup_id K in
      if cgroupid = 0 then 0
      else
        (let trackerid = cgrp_get_tracker_id s cgroupid in
         if trackerid = 0 then 0 else trackerid))"

definition get_tracker_id_from_task :: "kenv \<Rightarrow> bpf_state \<Rightarrow> u64 \<Rightarrow> u64" where
  "get_tracker_id_from_task K s task =
     (let cgrp = get_task_cgroup K task
                   (cgrp_fs_magic (load_time_config K))
                   (cgrpv1_subsys_idx (load_time_config K)) in
      if cgrp = 0 then 0
      else
        (let cgroupid = get_cgroup_id K cgrp in
         if cgroupid = 0 then 0 else cgrp_get_tracker_id s cgroupid))"

text \<open>
  \<^verbatim>\<open>cgroup_get_parent_id\<close>: through the \<^verbatim>\<open>ancestors\<close> array where the kernel has one (the level is
  unsigned, so only level 0 has no parent), through the parent pointer of the cgroup's own state
  otherwise.
\<close>

definition cgroup_get_parent_id :: "kenv \<Rightarrow> u64 \<Rightarrow> u64" where
  "cgroup_get_parent_id K cgrp =
     (if bpf_core_field_exists K Cgroup_ancestors
      then
        (let level = get_cgroup_level K cgrp in
         if level \<le> 0 then 0
         else
           (let ancestor = read_u64 K (cgrp + fld K Cgroup_ancestors + 8 * ucast (level - 1));
                kn = read_u64 K (ancestor + fld K Cgroup_kn)
            in read_u64 K (kn + fld K Kernfs_node_id)))
      else
        (let parent_css = read_u64 K (cgrp + fld K Cgroup_self_parent) in
         if parent_css \<noteq> 0 then get_cgroup_id K (parent_css - fld K Cgroup_self) else 0))"

section \<open>Classifying an exec\<close>

definition task_mnt_ns_inum :: "kenv \<Rightarrow> u64 \<Rightarrow> u32" where
  "task_mnt_ns_inum K task =
     (let nsproxy = read_u64 K (task + fld K Task_nsproxy);
          mnt_ns = read_u64 K (nsproxy + fld K Nsproxy_mnt_ns)
      in read_u32 K (mnt_ns + fld K Mnt_namespace_ns_inum))"

definition exec_is_runtime_bootstrap :: "kenv \<Rightarrow> bpf_state \<Rightarrow> u64 \<Rightarrow> bool" where
  "exec_is_runtime_bootstrap K s tracker_id =
     (let ref = host_mnt_ns_inum (load_time_config K) in
      if ref = 0 then False
      else
        (let task = get_current_task K;
             inum = task_mnt_ns_inum K task in
         if ucast inum \<noteq> ref then False
         else
           (let parent = read_u64 K (task + fld K Task_real_parent) in
            if parent = 0 then False
            else get_tracker_id_from_task K s parent \<noteq> tracker_id)))"

definition exec_is_foreign_root :: "kenv \<Rightarrow> u64 \<Rightarrow> bool" where
  "exec_is_foreign_root K bprm =
     (let file = read_u64 K (bprm + fld K Linux_binprm_file) in
      if file = 0 then False
      else
        (let vfsmnt = read_u64 K (file + fld K File_f_path + fld K Path_mnt) in
         if vfsmnt = 0 then False
         else
           (let mnt_flags = read_u32 K (vfsmnt + fld K Vfsmount_mnt_flags) in
            if mnt_flags AND MNT_INTERNAL \<noteq> 0 then False
            else
              (let mnt = vfsmnt - fld K Mount_mnt;
                   file_ns = read_u64 K (mnt + fld K Mount_mnt_ns) in
               if file_ns = 0 then False
               else
                 (let file_inum = read_u32 K (file_ns + fld K Mnt_namespace_ns_inum);
                      task_inum = task_mnt_ns_inum K (get_current_task K)
                  in file_inum \<noteq> task_inum)))))"

section \<open>Logging\<close>

definition emit_log_event_args :: "kenv \<Rightarrow> bpf_state \<Rightarrow> log_code \<Rightarrow> u64 \<Rightarrow> u64 \<Rightarrow> bpf_state" where
  "emit_log_event_args K s code arg1 arg2 =
     (if \<not> rb_room K Ringbuf_logs (length (ringbuf_logs s)) (sizeof log_evt_ctype)
      then bpf_printk K s (''Failed to reserve space for log event in ring buffer'' @ [CHR 0x0A])
      else
        (let s' = (if fst (get_current_comm K) \<noteq> 0
                   then bpf_printk K s (''Failed to get comm for log event'' @ [CHR 0x0A]) else s);
             pid_tgid = get_current_pid_tgid K
         in s'\<lparr>ringbuf_logs := ringbuf_logs s' @
              [\<lparr>log_code_of = code,
                log_comm = snd (get_current_comm K),
                log_cg_tracker_id = get_tracker_id_from_curr_task K s',
                log_pid = ucast (pid_tgid AND 0xFFFFFFFF),
                log_tgid = ucast (drop_bit 32 pid_tgid),
                log_arg1 = arg1,
                log_arg2 = arg2\<rparr>]\<rparr>))"

definition emit_log_event :: "kenv \<Rightarrow> bpf_state \<Rightarrow> log_code \<Rightarrow> bpf_state" where
  "emit_log_event K s code = emit_log_event_args K s code 0 0"

definition emit_log_event_1 :: "kenv \<Rightarrow> bpf_state \<Rightarrow> log_code \<Rightarrow> u64 \<Rightarrow> bpf_state" where
  "emit_log_event_1 K s code arg1 = emit_log_event_args K s code arg1 0"

definition emit_log_event_2 :: "kenv \<Rightarrow> bpf_state \<Rightarrow> log_code \<Rightarrow> u64 \<Rightarrow> u64 \<Rightarrow> bpf_state" where
  "emit_log_event_2 K s code arg1 arg2 = emit_log_event_args K s code arg1 arg2"

lemmas emit_defs = emit_log_event_def emit_log_event_1_def emit_log_event_2_def

section \<open>Facts about the helpers\<close>

lemma get_tracker_id_from_curr_task_cong:
  "cgtracker_map s = cgtracker_map s' \<Longrightarrow>
     get_tracker_id_from_curr_task K s = get_tracker_id_from_curr_task K s'"
  by (simp add: get_tracker_id_from_curr_task_def cgrp_get_tracker_id_def Let_def)

lemma emit_log_event_args_frame [hook_frame]:
  "cgtracker_map (emit_log_event_args K s c a b) = cgtracker_map s"
  "cg_to_policy_map (emit_log_event_args K s c a b) = cg_to_policy_map s"
  "policy_settings_map (emit_log_event_args K s c a b) = policy_settings_map s"
  "pol_str_maps (emit_log_event_args K s c a b) = pol_str_maps s"
  "process_evt_storage_map (emit_log_event_args K s c a b) = process_evt_storage_map s"
  "ringbuf_monitoring (emit_log_event_args K s c a b) = ringbuf_monitoring s"
  "ringbuf_execve (emit_log_event_args K s c a b) = ringbuf_execve s"
  by (simp_all add: emit_log_event_args_def Let_def hook_frame)

definition log_room :: "kenv \<Rightarrow> bool" where
  "log_room K \<longleftrightarrow> (\<forall>n. rb_room K Ringbuf_logs n (sizeof log_evt_ctype))"

lemma emit_log_event_args_logged:
  assumes "log_room K"
  shows "\<exists>e. ringbuf_logs (emit_log_event_args K s c a b) = ringbuf_logs s @ [e] \<and>
    log_code_of e = c \<and> log_arg1 e = a \<and> log_arg2 e = b \<and>
    log_cg_tracker_id e = get_tracker_id_from_curr_task K s"
  using assms
  by (auto simp: emit_log_event_args_def log_room_def Let_def hook_frame
      intro: get_tracker_id_from_curr_task_cong)

end
