(* ===== verification/D_Path.thy ===== *)
theory D_Path
  imports Cgroup_Helpers
begin

text \<open>
  Path resolution, \<^verbatim>\<open>src/bpf/d_path_resolution.h\<close>: the walk from the dentry of a file to the root
  of its mount namespace, which writes the components from right to left into the second segment
  of the event buffer. The abstract walk \<open>vfs_walk\<close> says which components there are; the lemmas
  relate the loop of the code to it, bound the bytes it writes, and show what a path longer than
  the two segments does to the third.
\<close>

section \<open>Definitions\<close>

definition FALLBACK_PATH_ITERATIONS :: nat where
  "FALLBACK_PATH_ITERATIONS = 512"

definition PATH_ITERATIONS :: nat where
  "PATH_ITERATIONS = 2048"

abbreviation SLASH :: u8 where "SLASH \<equiv> 0x2F"

text \<open>The bytes of the string \<^verbatim>\<open>" (deleted)"\<close>.\<close>

definition DELETED_STRING :: bytes where
  "DELETED_STRING = [0x20, 0x28, 0x64, 0x65, 0x6C, 0x65, 0x74, 0x65, 0x64, 0x29]"

definition SAFE_PATH_LEN :: "u32 \<Rightarrow> u32" where
  "SAFE_PATH_LEN x = x AND 4095"

definition SAFE_PATH_ACCESS :: "u32 \<Rightarrow> u32" where
  "SAFE_PATH_ACCESS x = x AND 8191"

definition SAFE_COMPONENT_ACCESS :: "u64 \<Rightarrow> u64" where
  "SAFE_COMPONENT_ACCESS x = x AND 255"

record path_read_data =
  root_dentry :: u64
  root_mnt :: u64
  dentry :: u64
  vfsmnt :: u64
  mnt :: u64
  bptr :: buffer
  curr_off :: u32
  resolved :: bool

definition IS_ROOT :: "kenv \<Rightarrow> u64 \<Rightarrow> bool" where
  "IS_ROOT K d \<longleftrightarrow> d = read_u64 K (d + fld K Dentry_d_parent)"

definition hlist_bl_unhashed :: "kenv \<Rightarrow> u64 \<Rightarrow> bool" where
  "hlist_bl_unhashed K h \<longleftrightarrow> read_u64 K (h + fld K Hlist_bl_node_pprev) = 0"

definition d_unhashed :: "kenv \<Rightarrow> u64 \<Rightarrow> bool" where
  "d_unhashed K d \<longleftrightarrow> hlist_bl_unhashed K (d + fld K Dentry_d_hash)"

definition d_unlinked :: "kenv \<Rightarrow> u64 \<Rightarrow> bool" where
  "d_unlinked K d \<longleftrightarrow> d_unhashed K d \<and> \<not> IS_ROOT K d"

text \<open>The length and the name pointer of the \<^verbatim>\<open>qstr\<close> that \<^verbatim>\<open>copy_name\<close> reads as a whole.\<close>

definition d_name_qstr :: "kenv \<Rightarrow> u64 \<Rightarrow> bytes" where
  "d_name_qstr K d = snd (probe_read_kernel K (d + fld K Dentry_d_name) (qstr_size K))"

definition d_name_len :: "kenv \<Rightarrow> u64 \<Rightarrow> u32" where
  "d_name_len K d = u32_of_bytes (drop (unat (fld K Qstr_len)) (d_name_qstr K d))"

definition d_name_ptr :: "kenv \<Rightarrow> u64 \<Rightarrow> u64" where
  "d_name_ptr K d = u64_of_bytes (drop (unat (fld K Qstr_name)) (d_name_qstr K d))"

definition copy_name :: "kenv \<Rightarrow> buffer \<Rightarrow> u32 \<Rightarrow> u64 \<Rightarrow> buffer \<times> u32" where
  "copy_name K buf buflen d =
     (let len = d_name_len K d;
          buflen' = buflen - (len + 1);
          buf1 = buf_write buf (unat (SAFE_PATH_ACCESS buflen')) [SLASH];
          n = SAFE_COMPONENT_ACCESS (ucast len);
          buf2 = buf_write buf1 (unat (SAFE_PATH_ACCESS (buflen' + 1)))
                   (snd (probe_read_kernel K (d_name_ptr K d) (ucast n)))
      in (buf2, buflen'))"

text \<open>One iteration; the flag is the return value 1, which ends the loop.\<close>

definition path_read :: "kenv \<Rightarrow> path_read_data \<Rightarrow> bool \<times> path_read_data" where
  "path_read K data =
     (if dentry data = root_dentry data \<and> vfsmnt data = root_mnt data
      then (True, data\<lparr>resolved := True\<rparr>)
      else
        (let vfsmnt_mnt_root = read_u64 K (vfsmnt data + fld K Vfsmount_mnt_root) in
         if dentry data = vfsmnt_mnt_root \<or> IS_ROOT K (dentry data)
         then
           (let m_parent = read_u64 K (mnt data + fld K Mount_mnt_parent) in
            if mnt data = m_parent then (True, data\<lparr>resolved := True\<rparr>)
            else
              (False, data\<lparr>dentry := read_u64 K (mnt data + fld K Mount_mnt_mountpoint),
                           mnt := m_parent,
                           vfsmnt := m_parent + fld K Mount_mnt\<rparr>))
         else
           (let r = copy_name K (bptr data) (curr_off data) (dentry data) in
            (False, data\<lparr>bptr := fst r, curr_off := snd r,
                         dentry := read_u64 K (dentry data + fld K Dentry_d_parent)\<rparr>))))"

fun path_loop :: "kenv \<Rightarrow> nat \<Rightarrow> path_read_data \<Rightarrow> path_read_data" where
  "path_loop K 0 data = data"
| "path_loop K (Suc n) data =
     (if fst (path_read K data) then snd (path_read K data)
      else path_loop K n (snd (path_read K data)))"

text \<open>
  The task root as the code reads it: \<^verbatim>\<open>bpf_core_read(&root, sizeof(root), &fs->root)\<close> with \<^verbatim>\<open>root\<close> a
  pointer, so the eight bytes at \<^verbatim>\<open>&fs->root\<close> become the address of a \<^verbatim>\<open>struct path\<close>.
\<close>

definition task_root :: "kenv \<Rightarrow> u64" where
  "task_root K =
     (let fs = read_u64 K (get_current_task K + fld K Task_fs)
      in read_u64 K (fs + fld K Fs_struct_root))"

definition path_iterations :: "kenv \<Rightarrow> nat" where
  "path_iterations K =
     (if has_bpf_iter_num_new K then PATH_ITERATIONS else FALLBACK_PATH_ITERATIONS)"

definition d_path_start :: "kenv \<Rightarrow> u64 \<Rightarrow> buffer \<Rightarrow> path_read_data" where
  "d_path_start K p buf =
     (let d = read_u64 K (p + fld K Path_dentry);
          unlinked = d_unlinked K d;
          off = (if unlinked then 8182 else 8192);
          buf' = (if unlinked
                  then buf_write buf (unat (SAFE_PATH_ACCESS off)) DELETED_STRING else buf);
          root = task_root K;
          vm = read_u64 K (p + fld K Path_mnt)
      in \<lparr>root_dentry = read_u64 K (root + fld K Path_dentry),
          root_mnt = read_u64 K (root + fld K Path_mnt),
          dentry = d,
          vfsmnt = vm,
          mnt = vm - fld K Mount_mnt,
          bptr = buf',
          curr_off = off,
          resolved = False\<rparr>)"

definition d_path_finish :: "kenv \<Rightarrow> path_read_data \<Rightarrow> u32 \<times> buffer" where
  "d_path_finish K data =
     (let data' = (if curr_off data = 8192
                   then (let r = copy_name K (bptr data) (curr_off data) (dentry data)
                         in data\<lparr>bptr := fst r, curr_off := snd r\<rparr>)
                   else data)
      in (if resolved data' then curr_off data' else 0, bptr data'))"

definition bpf_d_path_approx :: "kenv \<Rightarrow> u64 \<Rightarrow> buffer \<Rightarrow> u32 \<times> buffer" where
  "bpf_d_path_approx K p buf =
     (if fst (probe_read_kernel K (p + fld K Path_dentry) 8) \<noteq> 0 then (0, buf)
      else d_path_finish K (path_loop K (path_iterations K) (d_path_start K p buf)))"

section \<open>The abstract walk\<close>

definition d_name_bytes :: "kenv \<Rightarrow> u64 \<Rightarrow> bytes" where
  "d_name_bytes K d =
     snd (probe_read_kernel K (d_name_ptr K d) (ucast (SAFE_COMPONENT_ACCESS (ucast (d_name_len K d)))))"

definition at_mnt_root :: "kenv \<Rightarrow> u64 \<Rightarrow> u64 \<Rightarrow> bool" where
  "at_mnt_root K d m \<longleftrightarrow>
     d = read_u64 K (m + fld K Mount_mnt + fld K Vfsmount_mnt_root) \<or> IS_ROOT K d"

abbreviation mnt_parent_of :: "kenv \<Rightarrow> u64 \<Rightarrow> u64" where
  "mnt_parent_of K m \<equiv> read_u64 K (m + fld K Mount_mnt_parent)"

text \<open>
  \<open>vfs_walk K rd rv d m ns e n\<close>: from the dentry \<open>d\<close> in the mount \<open>m\<close> the walk reaches its end, the
  dentry \<open>e\<close>, in \<open>n\<close> iterations and passes the dentries \<open>ns\<close>, the first first, whose names belong
  to the path. It ends at the given root \<open>(rd, rv)\<close> or at the root of a mount that is its own
  parent.
\<close>

inductive vfs_walk :: "kenv \<Rightarrow> u64 \<Rightarrow> u64 \<Rightarrow> u64 \<Rightarrow> u64 \<Rightarrow> u64 list \<Rightarrow> u64 \<Rightarrow> nat \<Rightarrow> bool"
  for K rd rv where
  task_root: "d = rd \<Longrightarrow> m + fld K Mount_mnt = rv \<Longrightarrow> vfs_walk K rd rv d m [] d 1"
| global_root: "\<not> (d = rd \<and> m + fld K Mount_mnt = rv) \<Longrightarrow> at_mnt_root K d m \<Longrightarrow> mnt_parent_of K m = m \<Longrightarrow>
    vfs_walk K rd rv d m [] d 1"
| cross_mount: "\<not> (d = rd \<and> m + fld K Mount_mnt = rv) \<Longrightarrow> at_mnt_root K d m \<Longrightarrow> mnt_parent_of K m \<noteq> m \<Longrightarrow>
    vfs_walk K rd rv (read_u64 K (m + fld K Mount_mnt_mountpoint)) (mnt_parent_of K m) ns e n \<Longrightarrow>
    vfs_walk K rd rv d m ns e (Suc n)"
| component: "\<not> (d = rd \<and> m + fld K Mount_mnt = rv) \<Longrightarrow> \<not> at_mnt_root K d m \<Longrightarrow>
    vfs_walk K rd rv (read_u64 K (d + fld K Dentry_d_parent)) m ns e n \<Longrightarrow>
    vfs_walk K rd rv d m (d # ns) e (Suc n)"

text \<open>The text of a walk: every component with a slash before it, the last visited first.\<close>

fun walk_string :: "kenv \<Rightarrow> u64 list \<Rightarrow> bytes" where
  "walk_string K [] = []"
| "walk_string K (d # ds) = walk_string K ds @ SLASH # d_name_bytes K d"

text \<open>A component of the length the kernel allows (\<^verbatim>\<open>NAME_MAX\<close> is 255), without NUL bytes.\<close>

definition name_ok :: "kenv \<Rightarrow> u64 \<Rightarrow> bool" where
  "name_ok K d \<longleftrightarrow> unat (d_name_len K d) \<le> 255 \<and> 0 \<notin> set (d_name_bytes K d)"

section \<open>One component\<close>

lemma d_name_bytes_length:
  "probe_sized K \<Longrightarrow> length (d_name_bytes K d) = unat (d_name_len K d) mod 256"
  by (simp add: d_name_bytes_def probe_sizedD SAFE_COMPONENT_ACCESS_def unat_ucast)

lemma copy_name_eq:
  "copy_name K buf b d =
     (buf_write (buf_write buf (unat (b - (d_name_len K d + 1)) mod 8192) [SLASH])
        (unat (b - (d_name_len K d + 1) + 1) mod 8192) (d_name_bytes K d),
      b - (d_name_len K d + 1))"
  by (simp add: copy_name_def Let_def SAFE_PATH_ACCESS_def d_name_bytes_def)

lemma unat_len_Suc: "unat (l :: u32) \<le> 255 \<Longrightarrow> unat (l + 1) = unat l + 1"
  by (simp add: unat_word_ariths)

text \<open>A component that fits is written as one run of bytes that ends where the last one began.\<close>

lemma copy_name_fits:
  assumes K: "probe_sized K" and ok: "name_ok K d"
    and fits: "Suc (length (d_name_bytes K d)) \<le> unat b" and b: "unat b \<le> 8192"
  shows "fst (copy_name K buf b d) =
           buf_write buf (unat b - Suc (length (d_name_bytes K d))) (SLASH # d_name_bytes K d)"
    and "unat (snd (copy_name K buf b d)) = unat b - Suc (length (d_name_bytes K d))"
proof -
  let ?l = "d_name_len K d" and ?ns = "d_name_bytes K d"
  have len: "length ?ns = unat ?l"
    using ok d_name_bytes_length [OF K, of d] by (simp add: name_ok_def)
  have l1: "unat (?l + 1) = Suc (length ?ns)"
    using ok len by (simp add: name_ok_def unat_len_Suc)
  have p: "unat (b - (?l + 1)) = unat b - Suc (length ?ns)"
    using fits l1 by (simp add: unat_minus_le)
  then show "unat (snd (copy_name K buf b d)) = unat b - Suc (length ?ns)"
    by (simp add: copy_name_eq)
  have "unat (b - (?l + 1) + 1) = (unat (b - (?l + 1)) + 1) mod 2 ^ 32"
    by (simp only: unat_word_ariths) simp
  then have p1: "unat (b - (?l + 1) + 1) = unat b - length ?ns"
    using p fits b by simp
  show "fst (copy_name K buf b d) = buf_write buf (unat b - Suc (length ?ns)) (SLASH # ?ns)"
  proof (cases "?ns = []")
    case True
    then show ?thesis using p b fits by (simp add: copy_name_eq)
  next
    case False
    then have "unat b - length ?ns < 8192" "unat b - Suc (length ?ns) < 8192"
      using b fits by (cases ?ns; simp)+
    then show ?thesis
      using p p1 fits buf_write_after [of buf "unat b - Suc (length ?ns)" "[SLASH]" ?ns]
      by (simp add: copy_name_eq Suc_diff_Suc)
  qed
qed

section \<open>The loop follows the walk\<close>

lemma path_loop_walk:
  assumes "vfs_walk K rd rv d m ns e n" and K: "probe_sized K"
    and "root_dentry data = rd" "root_mnt data = rv" "dentry data = d" "mnt data = m"
      "vfsmnt data = m + fld K Mount_mnt"
    and "n \<le> fuel" and "\<forall>x\<in>set ns. name_ok K x"
    and "length (walk_string K ns) \<le> unat (curr_off data)" "unat (curr_off data) \<le> 8192"
  shows "resolved (path_loop K fuel data) \<and> dentry (path_loop K fuel data) = e \<and>
    unat (curr_off (path_loop K fuel data)) = unat (curr_off data) - length (walk_string K ns) \<and>
    bptr (path_loop K fuel data) =
      buf_write (bptr data) (unat (curr_off data) - length (walk_string K ns)) (walk_string K ns)"
  using assms(1,3-)
proof (induction arbitrary: data fuel rule: vfs_walk.induct)
  case (task_root d m)
  then obtain f where "fuel = Suc f" by (cases fuel) auto
  with task_root show ?case by (simp add: path_read_def)
next
  case (global_root d m)
  then obtain f where "fuel = Suc f" by (cases fuel) auto
  with global_root show ?case by (auto simp: path_read_def at_mnt_root_def Let_def)
next
  case (cross_mount d m ns e n)
  then obtain f where f: "fuel = Suc f" "n \<le> f" by (cases fuel) auto
  define data' where "data' = snd (path_read K data)"
  have step: "path_loop K fuel data = path_loop K f data'"
    and data': "data' = data\<lparr>dentry := read_u64 K (m + fld K Mount_mnt_mountpoint),
        mnt := mnt_parent_of K m, vfsmnt := mnt_parent_of K m + fld K Mount_mnt\<rparr>"
    using cross_mount.hyps(1-3) cross_mount.prems f
    by (auto simp: data'_def path_read_def at_mnt_root_def Let_def)
  show ?case
    unfolding step using cross_mount.IH [of data' f] cross_mount.prems f by (simp add: data')
next
  case (component d m ns e n)
  then obtain f where f: "fuel = Suc f" "n \<le> f" by (cases fuel) auto
  let ?r = "copy_name K (bptr data) (curr_off data) d" and ?nm = "d_name_bytes K d"
  define data' where "data' = snd (path_read K data)"
  have step: "path_loop K fuel data = path_loop K f data'"
    and data': "data' = data\<lparr>bptr := fst ?r, curr_off := snd ?r,
        dentry := read_u64 K (d + fld K Dentry_d_parent)\<rparr>"
    using component.hyps(1,2) component.prems f
    by (auto simp: data'_def path_read_def at_mnt_root_def Let_def)
  have ok: "name_ok K d" and fits: "Suc (length ?nm) \<le> unat (curr_off data)"
    using component.prems by auto
  note cp = copy_name_fits [OF K ok fits component.prems(9), of "bptr data"]
  let ?o = "unat (curr_off data)" and ?ws = "walk_string K ns"
  have q: "?o - Suc (length ?nm) - length ?ws = ?o - (length ?ws + Suc (length ?nm))"
    by simp
  have bw: "buf_write (buf_write (bptr data) (?o - Suc (length ?nm)) (SLASH # ?nm))
      (?o - (length ?ws + Suc (length ?nm))) ?ws =
      buf_write (bptr data) (?o - (length ?ws + Suc (length ?nm))) (?ws @ SLASH # ?nm)"
    using buf_write_before [of "bptr data" "?o - (length ?ws + Suc (length ?nm))" ?ws "SLASH # ?nm"]
      component.prems(8) by simp
  show ?case
    unfolding step using component.IH [of data' f] component.prems f cp q bw by (simp add: data')
qed

section \<open>The resolved path\<close>

text \<open>
  What \<^verbatim>\<open>bpf_d_path_approx\<close> is to produce for a walk: the components, the name of the last dentry
  when there are none and nothing was appended (a memory file), and the mark of a deleted file.
\<close>

definition resolved_string :: "kenv \<Rightarrow> u64 \<Rightarrow> u64 list \<Rightarrow> u64 \<Rightarrow> bytes" where
  "resolved_string K d ns e =
     (if d_unlinked K d then walk_string K ns @ DELETED_STRING
      else if walk_string K ns = [] then SLASH # d_name_bytes K e
      else walk_string K ns)"

definition path_dentry :: "kenv \<Rightarrow> u64 \<Rightarrow> u64" where
  "path_dentry K p = read_u64 K (p + fld K Path_dentry)"

definition path_mount :: "kenv \<Rightarrow> u64 \<Rightarrow> u64" where
  "path_mount K p = read_u64 K (p + fld K Path_mnt) - fld K Mount_mnt"

definition stop_dentry :: "kenv \<Rightarrow> u64" where
  "stop_dentry K = read_u64 K (task_root K + fld K Path_dentry)"

definition stop_vfsmount :: "kenv \<Rightarrow> u64" where
  "stop_vfsmount K = read_u64 K (task_root K + fld K Path_mnt)"

text \<open>
  The precondition under which the resolution succeeds: the walk from the file ends within the
  iterations of the loop, every component is a legal name, and the text fits the first two
  segments of the buffer.
\<close>

definition resolvable :: "kenv \<Rightarrow> u64 \<Rightarrow> bytes \<Rightarrow> bool" where
  "resolvable K p str \<longleftrightarrow>
     fst (probe_read_kernel K (p + fld K Path_dentry) 8) = 0 \<and>
     (\<exists>ns e n. vfs_walk K (stop_dentry K) (stop_vfsmount K) (path_dentry K p) (path_mount K p) ns e n \<and>
        n \<le> path_iterations K \<and> (\<forall>x\<in>set ns. name_ok K x) \<and> name_ok K e \<and>
        str = resolved_string K (path_dentry K p) ns e) \<and>
     length str < 8192"

lemma length_DELETED_STRING [simp]: "length DELETED_STRING = 10"
  by (simp add: DELETED_STRING_def)

lemma d_path_start_simps [simp]:
  "root_dentry (d_path_start K p b) = stop_dentry K"
  "root_mnt (d_path_start K p b) = stop_vfsmount K"
  "dentry (d_path_start K p b) = path_dentry K p"
  "mnt (d_path_start K p b) = path_mount K p"
  "vfsmnt (d_path_start K p b) = path_mount K p + fld K Mount_mnt"
  by (simp_all add: d_path_start_def Let_def stop_dentry_def stop_vfsmount_def path_dentry_def
      path_mount_def)

lemma d_path_start_off:
  "unat (curr_off (d_path_start K p b)) = (if d_unlinked K (path_dentry K p) then 8182 else 8192)"
  by (simp add: d_path_start_def Let_def path_dentry_def)

lemma d_path_start_bptr:
  "bptr (d_path_start K p b) =
     (if d_unlinked K (path_dentry K p) then buf_write b 8182 DELETED_STRING else b)"
  by (simp add: d_path_start_def Let_def path_dentry_def SAFE_PATH_ACCESS_def)

lemma bpf_d_path_approx_resolvable:
  assumes K: "probe_sized K" and r: "resolvable K p str"
  shows "unat (fst (bpf_d_path_approx K p b)) = 8192 - length str"
    and "snd (bpf_d_path_approx K p b) = buf_write b (8192 - length str) str"
proof -
  obtain ns e n where w: "vfs_walk K (stop_dentry K) (stop_vfsmount K) (path_dentry K p)
        (path_mount K p) ns e n"
    and n: "n \<le> path_iterations K" and ok: "\<forall>x\<in>set ns. name_ok K x" "name_ok K e"
    and str: "str = resolved_string K (path_dentry K p) ns e" and fit: "length str < 8192"
    and err: "fst (probe_read_kernel K (p + fld K Path_dentry) 8) = 0"
    using r by (auto simp: resolvable_def)
  let ?st = "d_path_start K p b" and ?u = "d_unlinked K (path_dentry K p)"
  let ?fin = "path_loop K (path_iterations K) ?st" and ?ws = "walk_string K ns"
  have off: "unat (curr_off ?st) = (if ?u then 8182 else 8192)"
    by (rule d_path_start_off)
  have ws: "length ?ws \<le> unat (curr_off ?st)"
    using str fit off by (auto simp: resolved_string_def split: if_splits)
  have loop: "resolved ?fin" "dentry ?fin = e" "unat (curr_off ?fin) = unat (curr_off ?st) - length ?ws"
    "bptr ?fin = buf_write (bptr ?st) (unat (curr_off ?st) - length ?ws) ?ws"
    using path_loop_walk [OF w K _ _ _ _ _ n ok(1) ws] off by auto
  have run: "bpf_d_path_approx K p b = d_path_finish K ?fin"
    using err by (simp add: bpf_d_path_approx_def)
  have "unat (fst (bpf_d_path_approx K p b)) = 8192 - length str \<and>
      snd (bpf_d_path_approx K p b) = buf_write b (8192 - length str) str"
  proof (cases ?u)
    case True
    then have "curr_off ?fin \<noteq> 8192" using loop(3) off by auto
    moreover have "8182 - length ?ws + length ?ws = 8182"
      using ws off True by simp
    ultimately show ?thesis
      using True loop off buf_write_before [of b "8182 - length ?ws" ?ws DELETED_STRING] str run
      by (simp add: d_path_finish_def resolved_string_def d_path_start_bptr)
  next
    case False
    note lin = False
    show ?thesis
    proof (cases "?ws = []")
      case True
      then have off': "curr_off ?fin = 8192"
        using loop(3) off lin by (simp add: word_unat_eq_iff)
      have "Suc (length (d_name_bytes K e)) \<le> unat (8192 :: u32)"
        using str fit lin True by (simp add: resolved_string_def)
      note cp = copy_name_fits [OF K ok(2) this, of b]
      show ?thesis
        using True lin off' loop cp str run
        by (simp add: d_path_finish_def Let_def resolved_string_def d_path_start_bptr)
    next
      case False
      then have "unat (curr_off ?fin) \<noteq> 8192"
        using loop(3) off lin ws by (cases ?ws) auto
      then have "curr_off ?fin \<noteq> 8192" by auto
      then show ?thesis
        using False lin loop off str run
        by (simp add: d_path_finish_def resolved_string_def d_path_start_bptr)
    qed
  qed
  then show "unat (fst (bpf_d_path_approx K p b)) = 8192 - length str"
    and "snd (bpf_d_path_approx K p b) = buf_write b (8192 - length str) str"
    by auto
qed

section \<open>An offset is returned only for a walk that ends\<close>

lemma path_loop_resolved_walk:
  assumes "vfsmnt data = mnt data + fld K Mount_mnt" "\<not> resolved data" "resolved (path_loop K fuel data)"
  shows "\<exists>ns e n. vfs_walk K (root_dentry data) (root_mnt data) (dentry data) (mnt data) ns e n \<and> n \<le> fuel"
  using assms
proof (induction fuel arbitrary: data)
  case (Suc f)
  let ?stop = "dentry data = root_dentry data \<and> vfsmnt data = root_mnt data"
  let ?m = "mnt data" and ?d = "dentry data"
  consider (stop) ?stop
    | (top) "\<not> ?stop" "at_mnt_root K ?d ?m" "mnt_parent_of K ?m = ?m"
    | (cross) "\<not> ?stop" "at_mnt_root K ?d ?m" "mnt_parent_of K ?m \<noteq> ?m"
    | (comp) "\<not> ?stop" "\<not> at_mnt_root K ?d ?m"
    by blast
  then show ?case
  proof cases
    case stop
    then show ?thesis
      using vfs_walk.task_root [of ?d "root_dentry data" ?m K "root_mnt data"] Suc.prems(1) by fastforce
  next
    case top
    then show ?thesis
      using vfs_walk.global_root [of ?d "root_dentry data" ?m K "root_mnt data"] Suc.prems(1) by fastforce
  next
    case cross
    define data' where "data' = snd (path_read K data)"
    have data': "data' = data\<lparr>dentry := read_u64 K (?m + fld K Mount_mnt_mountpoint),
        mnt := mnt_parent_of K ?m, vfsmnt := mnt_parent_of K ?m + fld K Mount_mnt\<rparr>"
      and go: "path_loop K (Suc f) data = path_loop K f data'"
      using cross Suc.prems(1) by (auto simp: data'_def path_read_def at_mnt_root_def Let_def)
    have "resolved (path_loop K f data')" using Suc.prems(3) go by simp
    then obtain ns e n where "vfs_walk K (root_dentry data) (root_mnt data)
        (read_u64 K (?m + fld K Mount_mnt_mountpoint)) (mnt_parent_of K ?m) ns e n" "n \<le> f"
      using Suc.IH [of data'] Suc.prems(2) by (auto simp: data')
    with vfs_walk.cross_mount [OF _ cross(2,3), of "root_dentry data" "root_mnt data"] cross(1) Suc.prems(1)
    show ?thesis by (metis Suc_le_mono)
  next
    case comp
    define data' where "data' = snd (path_read K data)"
    let ?r = "copy_name K (bptr data) (curr_off data) ?d"
    have data': "data' = data\<lparr>bptr := fst ?r, curr_off := snd ?r,
        dentry := read_u64 K (?d + fld K Dentry_d_parent)\<rparr>"
      and go: "path_loop K (Suc f) data = path_loop K f data'"
      using comp Suc.prems(1) by (auto simp: data'_def path_read_def at_mnt_root_def Let_def)
    have "resolved (path_loop K f data')" using Suc.prems(3) go by simp
    then obtain ns e n where "vfs_walk K (root_dentry data) (root_mnt data)
        (read_u64 K (?d + fld K Dentry_d_parent)) ?m ns e n" "n \<le> f"
      using Suc.IH [of data'] Suc.prems(1,2) by (auto simp: data')
    with vfs_walk.component [OF _ comp(2), of "root_dentry data" "root_mnt data"] comp(1) Suc.prems(1)
    show ?thesis by (metis Suc_le_mono)
  qed
qed simp

lemma bpf_d_path_approx_walk:
  assumes "fst (bpf_d_path_approx K p b) \<noteq> 0"
  shows "\<exists>ns e n. vfs_walk K (stop_dentry K) (stop_vfsmount K) (path_dentry K p) (path_mount K p) ns e n \<and>
    n \<le> path_iterations K"
proof -
  have "resolved (path_loop K (path_iterations K) (d_path_start K p b))"
    using assms by (auto simp: bpf_d_path_approx_def d_path_finish_def Let_def split: if_splits)
  then show ?thesis
    using path_loop_resolved_walk [of "d_path_start K p b"]
    by (simp add: d_path_start_def Let_def stop_dentry_def stop_vfsmount_def path_dentry_def path_mount_def)
qed

section \<open>Every byte written lies in the buffer\<close>

lemma copy_name_above:
  assumes "probe_sized K" and "8446 \<le> i"
  shows "fst (copy_name K b q d) i = b i"
proof -
  have "length (d_name_bytes K d) \<le> 255"
    using d_name_bytes_length [OF assms(1), of d] by (simp add: less_Suc_eq_le [symmetric])
  moreover have "unat (q - (d_name_len K d + 1) + 1) mod 8192 \<le> 8191"
    "unat (q - (d_name_len K d + 1)) mod 8192 \<le> 8191"
    by (simp_all add: less_Suc_eq_le [symmetric])
  ultimately show ?thesis
    using assms(2) by (simp add: copy_name_eq buf_write_other)
qed

lemma path_loop_above:
  "probe_sized K \<Longrightarrow> 8446 \<le> i \<Longrightarrow> bptr (path_loop K fuel data) i = bptr data i"
proof (induction fuel arbitrary: data)
  case (Suc f)
  have "bptr (snd (path_read K data)) i = bptr data i"
    using Suc.prems by (simp add: path_read_def Let_def copy_name_above)
  then show ?case
    using Suc by simp
qed simp

lemma bpf_d_path_approx_above:
  assumes "probe_sized K" and "8446 \<le> i"
  shows "snd (bpf_d_path_approx K p b) i = b i"
  using assms
  by (simp add: bpf_d_path_approx_def d_path_finish_def Let_def copy_name_above path_loop_above
      d_path_start_bptr buf_write_other)

section \<open>A path longer than two segments\<close>

lemma name_byte_nonzero:
  "name_ok K d \<Longrightarrow> k < length (d_name_bytes K d) \<Longrightarrow> d_name_bytes K d ! k \<noteq> 0"
  by (metis name_ok_def nth_mem)

lemma copy_name_nonzero:
  "name_ok K d \<Longrightarrow> b i \<noteq> 0 \<Longrightarrow> fst (copy_name K b q d) i \<noteq> 0"
  by (auto simp: copy_name_eq buf_write_def name_byte_nonzero)

lemma copy_name_overflow:
  assumes K: "probe_sized K" and ok: "name_ok K d"
    and "0 < unat q" and lt: "unat q < length (d_name_bytes K d)"
  shows "fst (copy_name K b q d) 8192 \<noteq> 0"
proof -
  let ?l = "d_name_len K d" and ?ns = "d_name_bytes K d"
  have len: "length ?ns = unat ?l" and l255: "length ?ns \<le> 255"
    using ok d_name_bytes_length [OF K, of d] by (simp_all add: name_ok_def)
  have u1: "unat (q - (?l + 1) + 1) = unat (q - ?l)"
    by simp
  have "unat (q - ?l) = 2 ^ 32 + unat q - unat ?l"
    using lt len by (simp add: unat_sub_if_size word_size)
  also have "\<dots> = (8192 + unat q - unat ?l) + 524287 * 8192"
    using lt len l255 by simp
  finally have "unat (q - ?l) mod 8192 = (8192 + unat q - unat ?l) mod 8192"
    by (simp only: mod_mult_self1)
  then have p1: "unat (q - (?l + 1) + 1) mod 8192 = 8192 + unat q - length ?ns"
    using lt len l255 u1 by simp
  have "8192 - (8192 + unat q - length ?ns) = length ?ns - unat q"
    using lt l255 by simp
  moreover have "8192 + unat q - length ?ns \<le> 8192"
    using lt by simp
  moreover have "?ns ! (length ?ns - unat q) \<noteq> 0"
    using assms(3) lt by (intro name_byte_nonzero [OF ok]) simp
  ultimately show ?thesis
    using assms(3) lt l255 p1 by (simp add: copy_name_eq buf_write_def)
qed

lemma path_loop_overflow:
  assumes "vfs_walk K rd rv d m ns e n" and K: "probe_sized K"
    and "root_dentry data = rd" "root_mnt data = rv" "dentry data = d" "mnt data = m"
      "vfsmnt data = m + fld K Mount_mnt"
    and "n \<le> fuel" and "\<forall>x\<in>set ns. name_ok K x"
    and "bptr data 8192 \<noteq> 0 \<or>
      unat (curr_off data) \<le> 8192 \<and>
      (\<exists>ns1 x ns2. ns = ns1 @ x # ns2 \<and> length (walk_string K ns1) < unat (curr_off data) \<and>
         unat (curr_off data) - length (walk_string K ns1) < length (d_name_bytes K x))"
  shows "bptr (path_loop K fuel data) 8192 \<noteq> 0 \<and> dentry (path_loop K fuel data) = e"
  using assms(1,3-)
proof (induction arbitrary: data fuel rule: vfs_walk.induct)
  case (task_root d m)
  then obtain f where "fuel = Suc f" by (cases fuel) auto
  with task_root show ?case by (simp add: path_read_def)
next
  case (global_root d m)
  then obtain f where "fuel = Suc f" by (cases fuel) auto
  with global_root show ?case by (auto simp: path_read_def at_mnt_root_def Let_def)
next
  case (cross_mount d m ns e n)
  then obtain f where f: "fuel = Suc f" "n \<le> f" by (cases fuel) auto
  define data' where "data' = snd (path_read K data)"
  have step: "path_loop K fuel data = path_loop K f data'"
    and data': "data' = data\<lparr>dentry := read_u64 K (m + fld K Mount_mnt_mountpoint),
        mnt := mnt_parent_of K m, vfsmnt := mnt_parent_of K m + fld K Mount_mnt\<rparr>"
    using cross_mount.hyps(1-3) cross_mount.prems f
    by (auto simp: data'_def path_read_def at_mnt_root_def Let_def)
  show ?case
    unfolding step using cross_mount.IH [of data' f] cross_mount.prems f by (simp add: data')
next
  case (component d m ns e n)
  then obtain f where f: "fuel = Suc f" "n \<le> f" by (cases fuel) auto
  let ?r = "copy_name K (bptr data) (curr_off data) d" and ?nm = "d_name_bytes K d"
  let ?q = "unat (curr_off data)"
  define data' where "data' = snd (path_read K data)"
  have step: "path_loop K fuel data = path_loop K f data'"
    and data': "data' = data\<lparr>bptr := fst ?r, curr_off := snd ?r,
        dentry := read_u64 K (d + fld K Dentry_d_parent)\<rparr>"
    using component.hyps(1,2) component.prems f
    by (auto simp: data'_def path_read_def at_mnt_root_def Let_def)
  have ok: "name_ok K d" "\<forall>x\<in>set ns. name_ok K x"
    using component.prems by auto
  have "fst ?r 8192 \<noteq> 0 \<or>
      unat (snd ?r) \<le> 8192 \<and>
      (\<exists>ns1 x ns2. ns = ns1 @ x # ns2 \<and> length (walk_string K ns1) < unat (snd ?r) \<and>
         unat (snd ?r) - length (walk_string K ns1) < length (d_name_bytes K x))"
  proof (cases "bptr data 8192 \<noteq> 0")
    case True
    then show ?thesis using copy_name_nonzero [OF ok(1)] by simp
  next
    case False
    then obtain ns1 x ns2 where sp: "d # ns = ns1 @ x # ns2" and le: "?q \<le> 8192"
      and lt: "length (walk_string K ns1) < ?q"
        "?q - length (walk_string K ns1) < length (d_name_bytes K x)"
      using component.prems(8) by auto
    show ?thesis
    proof (cases ns1)
      case Nil
      then show ?thesis using copy_name_overflow [OF K ok(1)] sp lt by simp
    next
      case (Cons y ys)
      then have y: "y = d" "ns = ys @ x # ns2" using sp by auto
      have "Suc (length ?nm) \<le> ?q" using lt(1) Cons y by simp
      note cp = copy_name_fits(2) [OF K ok(1) this le, of "bptr data"]
      have "length (walk_string K ys) < unat (snd ?r)"
        "unat (snd ?r) - length (walk_string K ys) < length (d_name_bytes K x)"
        using lt Cons y(1) cp by auto
      moreover have "unat (snd ?r) \<le> 8192" using cp le by simp
      ultimately show ?thesis using y(2) by blast
    qed
  qed
  then show ?case
    unfolding step using component.IH [of data' f] component.prems f ok by (simp add: data')
qed

lemma bpf_d_path_approx_overflow:
  assumes K: "probe_sized K"
    and err: "fst (probe_read_kernel K (p + fld K Path_dentry) 8) = 0"
    and w: "vfs_walk K (stop_dentry K) (stop_vfsmount K) (path_dentry K p) (path_mount K p)
      (ns1 @ x # ns2) e n"
    and n: "n \<le> path_iterations K"
    and ok: "\<forall>y\<in>set (ns1 @ x # ns2). name_ok K y" "name_ok K e"
    and lin: "\<not> d_unlinked K (path_dentry K p)"
    and over: "length (walk_string K ns1) < 8192"
      "8192 < length (walk_string K ns1) + length (d_name_bytes K x)"
  shows "snd (bpf_d_path_approx K p b) 8192 \<noteq> 0"
proof -
  let ?st = "d_path_start K p b"
  let ?fin = "path_loop K (path_iterations K) ?st"
  have off: "unat (curr_off ?st) = 8192"
    using lin by (simp add: d_path_start_off)
  have "\<exists>ms1 z ms2. ns1 @ x # ns2 = ms1 @ z # ms2 \<and>
      length (walk_string K ms1) < unat (curr_off ?st) \<and>
      unat (curr_off ?st) - length (walk_string K ms1) < length (d_name_bytes K z)"
    using over off by (intro exI [of _ ns1] exI [of _ x] exI [of _ ns2]) auto
  then have "bptr ?fin 8192 \<noteq> 0" "dentry ?fin = e"
    using path_loop_overflow [OF w K _ _ _ _ _ n ok(1), of ?st] off by auto
  then show ?thesis
    using err copy_name_nonzero [OF ok(2)]
    by (simp add: bpf_d_path_approx_def d_path_finish_def Let_def)
qed

section \<open>Properties\<close>

text \<open>
  \<^bold>\<open>C25\<close>. The loop always ends, and an offset other than 0 is returned only for a walk that ends: if
  \<^verbatim>\<open>bpf_d_path_approx\<close> returns an offset, then the walk from the file over the parents and the mount
  points reaches the root the code stops at, or a mount that is its own parent, within the iterations
  of the loop.
\<close>

theorem offset_only_for_walk:
  assumes "fst (bpf_d_path_approx K p b) \<noteq> 0"
  shows "\<exists>ns e n. vfs_walk K (stop_dentry K) (stop_vfsmount K) (path_dentry K p) (path_mount K p) ns e n \<and>
    n \<le> path_iterations K"
  using bpf_d_path_approx_walk [OF assms] .

text \<open>
  \<^bold>\<open>C24\<close>. The path is the one of the walk. For a resolvable file the offset returned is 8192 less the length
  of the text, the text lies at that offset in front of the padding segment, and no other byte of the
  buffer has changed.
\<close>

theorem path_resolved:
  assumes "probe_sized K" and "resolvable K p str"
  shows "unat (fst (bpf_d_path_approx K p b)) = 8192 - length str \<and>
    buf_read (snd (bpf_d_path_approx K p b)) (8192 - length str) (length str) = str \<and>
    (\<forall>i. i < 8192 - length str \<or> 8192 \<le> i \<longrightarrow> snd (bpf_d_path_approx K p b) i = b i)"
  using bpf_d_path_approx_resolvable [OF assms] assms(2)
  by (auto simp: resolvable_def buf_write_other buf_read_write_same)

text \<open>
  \<^bold>\<open>C26\<close>. Every write stays inside the event buffer. Whatever the kernel memory holds, also corrupt name
  lengths and walks that never end, the bytes of the buffer from 8446 on are never written; the buffer
  has 12288.
\<close>

theorem writes_bounded:
  assumes "probe_sized K" and "8446 \<le> i"
  shows "snd (bpf_d_path_approx K p b) i = b i"
  using bpf_d_path_approx_above [OF assms] .

end
