(* ===== verification/String_Maps.thy ===== *)
theory String_Maps
  imports Bpf_State
begin

text \<open>
  The choice of the string map for a path length: \<^verbatim>\<open>string_padded_len\<close> and \<^verbatim>\<open>string_map_index\<close> of
  \<^verbatim>\<open>src/bpf/main.c\<close>, \<^verbatim>\<open>get_policy_string_map\<close> and the key sizes of \<^verbatim>\<open>src/bpf/string_maps.h\<close>. The
  reference is the bucket with the smallest key that holds the string; the lemmas say for which
  lengths the code picks it.
\<close>

section \<open>Definitions\<close>

abbreviation STRING_MAPS_KEY_INC_SIZE :: nat where "STRING_MAPS_KEY_INC_SIZE \<equiv> 24"

definition STRING_MAPS_SIZE :: "nat list" where
  "STRING_MAPS_SIZE =
     [1 * STRING_MAPS_KEY_INC_SIZE, 2 * STRING_MAPS_KEY_INC_SIZE, 3 * STRING_MAPS_KEY_INC_SIZE,
      4 * STRING_MAPS_KEY_INC_SIZE, 5 * STRING_MAPS_KEY_INC_SIZE, 6 * STRING_MAPS_KEY_INC_SIZE,
      256, 512, 1024, 2048, 4096]"

definition string_padded_len :: "u16 \<Rightarrow> u16" where
  "string_padded_len len =
     (if len < 144
      then (if len mod 24 \<noteq> 0 then (len div 24 + 1) * 24 else len)
      else if len \<le> 256 then 256
      else if len \<le> 512 then 512
      else if len \<le> 1024 then 1024
      else if len \<le> 2048 then 2048
      else 4096)"

definition string_map_index :: "u16 \<Rightarrow> int" where
  "string_map_index padded_len =
     (if padded_len < 144 then int (unat padded_len div 24) - 1
      else if padded_len = 256 then 6
      else if padded_len = 512 then 7
      else if padded_len = 1024 then 8
      else if padded_len = 2048 then 9
      else 10)"

definition get_policy_string_map :: "bpf_state \<Rightarrow> int \<Rightarrow> u64 \<Rightarrow> inner_map option" where
  "get_policy_string_map s index policy_id =
     (if 0 \<le> index \<and> index \<le> 10
      then map_lookup (pol_str_maps s (nat index)) policy_id
      else None)"

section \<open>The reference: the smallest key size that holds the string\<close>

definition bucket :: "nat \<Rightarrow> nat" where
  "bucket n = length (takeWhile (\<lambda>k. k < n) STRING_MAPS_SIZE)"

lemma bucket_cases:
  "bucket n =
     (if n \<le> 24 then 0 else if n \<le> 48 then 1 else if n \<le> 72 then 2 else if n \<le> 96 then 3
      else if n \<le> 120 then 4 else if n \<le> 144 then 5 else if n \<le> 256 then 6 else if n \<le> 512 then 7
      else if n \<le> 1024 then 8 else if n \<le> 2048 then 9 else if n \<le> 4096 then 10 else 11)"
  by (simp add: bucket_def STRING_MAPS_SIZE_def)

lemma bucket_less: "n \<le> 4096 \<Longrightarrow> bucket n < 11"
  by (simp add: bucket_cases)

lemma bucket_fits: "n \<le> 4096 \<Longrightarrow> n \<le> STRING_MAPS_SIZE ! bucket n"
  by (simp add: bucket_cases STRING_MAPS_SIZE_def)

lemma bucket_least: "n \<le> 4096 \<Longrightarrow> i < bucket n \<Longrightarrow> STRING_MAPS_SIZE ! i < n"
  using nth_length_takeWhile [of "\<lambda>k. k < n" STRING_MAPS_SIZE]
  by (metis bucket_def nth_mem set_takeWhileD takeWhile_nth)

section \<open>What the code computes\<close>

definition c_index :: "nat \<Rightarrow> int" where
  "c_index n = string_map_index (string_padded_len (word_of_nat n))"

lemma unat_u16_of_nat: "n < 65536 \<Longrightarrow> unat (word_of_nat n :: u16) = n"
  by (simp add: unat_of_nat)

lemma string_padded_len_unat:
  "unat (string_padded_len w) =
     (if unat w < 144 then (if unat w mod 24 \<noteq> 0 then (unat w div 24 + 1) * 24 else unat w)
      else if unat w \<le> 256 then 256 else if unat w \<le> 512 then 512
      else if unat w \<le> 1024 then 1024 else if unat w \<le> 2048 then 2048 else 4096)"
proof -
  have m: "w mod 24 = 0 \<longleftrightarrow> unat w mod 24 = 0"
    by (simp add: word_unat_eq_iff unat_mod)
  show ?thesis
  proof (cases "unat w < 144 \<and> unat w mod 24 \<noteq> 0")
    case True
    then have "unat w div 24 \<le> 5" by linarith
    then show ?thesis
      using True m by (simp add: string_padded_len_def word_less_nat_alt unat_word_ariths unat_div)
  next
    case False
    then show ?thesis
      using m by (auto simp: string_padded_len_def word_less_nat_alt word_le_nat_alt)
  qed
qed

lemma string_map_index_unat:
  "string_map_index p =
     (if unat p < 144 then int (unat p div 24) - 1
      else if unat p = 256 then 6 else if unat p = 512 then 7
      else if unat p = 1024 then 8 else if unat p = 2048 then 9 else 10)"
  by (simp add: string_map_index_def word_less_nat_alt word_unat_eq_iff)

text \<open>
  The lengths for which the code and the reference differ: the comparison with the sixth key
  size is strict in both functions, so a string of 121 to 143 bytes is sent to the last map and
  one of 144 bytes to the seventh.
\<close>

definition misplaced :: "nat set" where
  "misplaced = {121..144}"

lemma padded_div: "(if n mod 24 \<noteq> 0 then (n div 24 + 1) * 24 else n) = 24 * ((n + 23) div 24)" for n :: nat
proof -
  define q r where "q = n div 24" and "r = n mod 24"
  then have n: "n = 24 * q + r" and r: "r < 24" by simp_all
  have "(24 * q + r + 23) div 24 = (if r = 0 then q else q + 1)"
    using r by (cases "r = 0") (simp_all add: div_nat_eqI)
  then show ?thesis using n r by simp
qed

lemma padded_small: "unat w < 144 \<Longrightarrow> unat (string_padded_len w) = 24 * ((unat w + 23) div 24)"
  using padded_div [of "unat w"] by (simp add: string_padded_len_unat)

lemma bucket_small: "0 < n \<Longrightarrow> n \<le> 144 \<Longrightarrow> bucket n = (n + 23) div 24 - 1"
proof -
  assume "0 < n" "n \<le> 144"
  then consider "n \<le> 24" | "24 < n" "n \<le> 48" | "48 < n" "n \<le> 72" | "72 < n" "n \<le> 96"
    | "96 < n" "n \<le> 120" | "120 < n" by linarith
  then show ?thesis
    using \<open>0 < n\<close> \<open>n \<le> 144\<close> by cases (simp add: bucket_cases; linarith)+
qed

lemma c_index_small:
  assumes "0 < n" "n < 144"
  shows "c_index n = (if n \<le> 120 then int (bucket n) else 10)"
proof -
  have n: "unat (word_of_nat n :: u16) = n" using assms by (simp add: unat_of_nat)
  have pad: "unat (string_padded_len (word_of_nat n)) = 24 * ((n + 23) div 24)"
    using padded_small [of "word_of_nat n"] n assms by simp
  show ?thesis
  proof (cases "n \<le> 120")
    case True
    then have "(n + 23) div 24 \<le> 5" "1 \<le> (n + 23) div 24" using assms by linarith+
    then show ?thesis
      using True assms bucket_small [of n]
      by (simp add: c_index_def string_map_index_unat pad)
  next
    case False
    then have "(n + 23) div 24 = 6" using assms by linarith
    then show ?thesis
      using False by (simp add: c_index_def string_map_index_unat pad)
  qed
qed

lemma c_index_large:
  assumes "144 \<le> n" "n \<le> 4096"
  shows "c_index n = (if n = 144 then 6 else int (bucket n))"
proof -
  have n: "unat (word_of_nat n :: u16) = n" using assms by (simp add: unat_of_nat)
  consider "n = 144" | "144 < n" "n \<le> 256" | "256 < n" "n \<le> 512" | "512 < n" "n \<le> 1024"
    | "1024 < n" "n \<le> 2048" | "2048 < n" using assms by linarith
  then show ?thesis
    using assms
    by cases (simp_all add: c_index_def string_map_index_unat string_padded_len_unat n bucket_cases)
qed

lemma c_index_0: "c_index 0 = -1"
  by (simp add: c_index_def string_map_index_unat string_padded_len_unat)

lemma c_index_cases:
  "n \<le> 4096 \<Longrightarrow> c_index n =
    (if n = 0 then -1 else if n \<le> 120 then int (bucket n) else if n < 144 then 10
     else if n = 144 then 6 else int (bucket n))"
  using c_index_small [of n] c_index_large [of n] c_index_0 by simp

lemma c_index_bucket: "0 < n \<Longrightarrow> n \<le> 4096 \<Longrightarrow> n \<notin> misplaced \<Longrightarrow> c_index n = int (bucket n)"
  using c_index_small [of n] c_index_large [of n] by (cases "n \<le> 120") (simp_all add: misplaced_def)

lemma c_index_misplaced: "n \<in> misplaced \<Longrightarrow> c_index n \<noteq> int (bucket n)"
  using c_index_small [of n] c_index_large [of n]
  by (cases "n = 144") (simp_all add: misplaced_def bucket_cases)

section \<open>Properties\<close>

text \<open>
  \<^bold>\<open>C29\<close>. For a path of 1 to 4096 bytes the two C functions select the map with the smallest key size
  that holds the path, the one the agent writes to, exactly for the lengths outside 121 to 144.
\<close>

theorem string_map_choice:
  assumes "0 < n" and "n \<le> 4096"
  shows "string_map_index (string_padded_len (word_of_nat n)) = int (bucket n) \<longleftrightarrow> n < 121 \<or> 144 < n"
  using c_index_bucket [OF assms] c_index_misplaced [of n] by (cases "n \<in> misplaced") (auto simp: c_index_def misplaced_def)

theorem string_map_choice_witness:
  "string_map_index (string_padded_len 100) = int (bucket 100) \<and>
   string_map_index (string_padded_len 130) \<noteq> int (bucket 130)"
  using string_map_choice [of 100] string_map_choice [of 130] by simp

end
