(* ===== verification/Exec_Hook.thy ===== *)
theory Exec_Hook
  imports D_Path String_Maps
begin

text \<open>
  The program attached to \<^verbatim>\<open>security_bprm_creds_for_exec\<close>, \<^verbatim>\<open>enforce_cgroup_policy\<close> of
  \<^verbatim>\<open>src/bpf/main.c\<close>, with \<^verbatim>\<open>populate_evt_with_path\<close> and \<^verbatim>\<open>get_process_evt\<close>. The program is one long
  function; its three parts after the classification of the exec (learning, an exec from a foreign
  root, the comparison with the allow-list) are one definition each. The event buffer is the
  element of the per-CPU array of the running CPU; it keeps its content from one run to the next.
\<close>

section \<open>Definitions\<close>

definition populate_evt_with_path ::
  "kenv \<Rightarrow> bpf_state \<Rightarrow> process_evt \<Rightarrow> u64 \<Rightarrow> u32 \<times> process_evt \<times> bpf_state" where
  "populate_evt_with_path K s evt bprm =
     (let file = read_u64 K (bprm + fld K Linux_binprm_file) in
      if file = 0 then (0, evt, emit_log_event K s LOG_MISSING_FILE_STRUCT)
      else
        (let path_arg = file + fld K File_f_path;
             r = bpf_d_path_approx K path_arg (path evt);
             current_offset = fst r;
             evt' = evt\<lparr>path := snd r\<rparr> in
         if current_offset = 0 then (0, evt', emit_log_event K s LOG_FAIL_TO_RESOLVE_PATH)
         else if current_offset = 8192 then (0, evt', emit_log_event K s LOG_EMPTY_PATH)
         else (current_offset, evt'\<lparr>path_len := ucast (8192 - current_offset)\<rparr>, s)))"

definition get_process_evt :: "kenv \<Rightarrow> bpf_state \<Rightarrow> process_evt option \<times> bpf_state" where
  "get_process_evt K s =
     (case process_evt_storage_map s of
        None \<Rightarrow> (None, emit_log_event_1 K s LOG_FAIL_TO_LOOKUP_EVT_MAP (ucast (get_smp_processor_id K)))
      | Some evt \<Rightarrow> (Some evt, s))"

text \<open>
  The copy of the resolved path into the first segment, a call of \<^verbatim>\<open>bpf_probe_read_kernel\<close> that the
  program makes in three places with the same arguments.
\<close>

definition copy_exec_path :: "kenv \<Rightarrow> process_evt \<Rightarrow> u32 \<Rightarrow> int \<times> process_evt" where
  "copy_exec_path K evt off =
     (let n = unat (SAFE_PATH_LEN (ucast (path_len evt) + 1));
          r = probe_read_map K (buf_read (path evt) (unat (SAFE_PATH_ACCESS off)) n)
      in (fst r, evt\<lparr>path := buf_write (path evt) 0 (snd r)\<rparr>))"

text \<open>The bytes of an event submitted with its path: 19 and the masked path length.\<close>

definition evt_record :: "process_evt \<Rightarrow> bytes" where
  "evt_record evt = evt_bytes evt (19 + unat (SAFE_PATH_LEN (ucast (path_len evt))))"

definition learn_exec ::
  "kenv \<Rightarrow> bpf_state \<Rightarrow> process_evt \<Rightarrow> u64 \<Rightarrow> bool \<Rightarrow> u64 \<Rightarrow> process_evt \<times> bpf_state" where
  "learn_exec K s evt0 cg is_foreign bprm =
     (let levt = evt0\<lparr>cg_tracker_id := cg, mode := 0\<rparr> in
      if is_foreign
      then
        (let levt = levt\<lparr>foreign := 1, path_len := 0\<rparr>;
             (ferr, s) = output_execve K s (evt_bytes levt 19)
         in (levt, if ferr \<noteq> 0 then emit_log_event K s LOG_DROP_EXEC_EVENT else s))
      else
        (let levt = levt\<lparr>foreign := 0\<rparr>;
             (loffset, levt, s) = populate_evt_with_path K s levt bprm in
         if loffset = 0 then (levt, s)
         else
           (let (lerr, levt) = copy_exec_path K levt loffset in
            if lerr \<noteq> 0 then (levt, emit_log_event K s LOG_FAIL_TO_COPY_EXEC_PATH)
            else
              (let s = bpf_printk K s ''sent execve event, path: %s, cg_tracker_id: %d'';
                   (lerr, s) = output_execve K s (evt_record levt)
               in (levt, if lerr \<noteq> 0 then emit_log_event K s LOG_DROP_EXEC_EVENT else s)))))"

definition foreign_exec ::
  "kenv \<Rightarrow> bpf_state \<Rightarrow> process_evt \<Rightarrow> u32 \<Rightarrow> u64 \<Rightarrow> int \<times> process_evt \<times> bpf_state" where
  "foreign_exec K s evt current_offset policy_id =
     (case map_lookup (policy_settings_map s) policy_id of
        None \<Rightarrow> (0, evt, emit_log_event_1 K s LOG_POLICY_MODE_MISSING policy_id)
      | Some settings \<Rightarrow>
          if allow_foreign_root settings \<noteq> 0
          then (0, evt, bpf_printk K s ''foreign-root exec allowed by policy id %d'')
          else
            (let (ferr, evt) = copy_exec_path K evt current_offset in
             if ferr \<noteq> 0 then (0, evt, emit_log_event K s LOG_FAIL_TO_COPY_EXEC_PATH)
             else
               (let evt = evt\<lparr>mode := settings_mode settings\<rparr>;
                    (ferr, s) = output_monitoring K s (evt_record evt);
                    s = (if ferr \<noteq> 0
                         then emit_log_event_2 K s LOG_DROP_VIOLATION policy_id (ucast (mode evt))
                         else s)
                in (if settings_mode settings = POLICY_MODE_MONITOR then 0 else - EPERM, evt, s))))"

definition path_matches :: "bpf_state \<Rightarrow> process_evt \<Rightarrow> u32 \<Rightarrow> u64 \<Rightarrow> bool" where
  "path_matches s evt current_offset policy_id =
     (let padded_len = string_padded_len (path_len evt);
          index = string_map_index padded_len
      in case get_policy_string_map s index policy_id of
           None \<Rightarrow> False
         | Some string_map \<Rightarrow>
             buf_read (path evt) (unat (SAFE_PATH_ACCESS current_offset)) (key_size string_map)
               \<in> set (keys string_map))"

definition report_violation ::
  "kenv \<Rightarrow> bpf_state \<Rightarrow> process_evt \<Rightarrow> u32 \<Rightarrow> u64 \<Rightarrow> int \<times> process_evt \<times> bpf_state" where
  "report_violation K s evt current_offset policy_id =
     (let (err, evt) = copy_exec_path K evt current_offset in
      if err \<noteq> 0 then (0, evt, emit_log_event K s LOG_FAIL_TO_COPY_EXEC_PATH)
      else
        (case map_lookup (policy_settings_map s) policy_id of
           None \<Rightarrow> (0, evt, emit_log_event_1 K s LOG_POLICY_MODE_MISSING policy_id)
         | Some settings \<Rightarrow>
             (let s = bpf_printk K s ''Mode %d for policy id %d'';
                  evt = evt\<lparr>mode := settings_mode settings\<rparr>;
                  (err, s) = output_monitoring K s (evt_record evt);
                  s = (if err \<noteq> 0
                       then emit_log_event_2 K s LOG_DROP_VIOLATION policy_id (ucast (mode evt))
                       else s);
                  s = bpf_printk K s ''sent enforce event, path: %s, cg_tracker_id: %d'';
                  s = bpf_printk K s ''mode: %d''
              in (if settings_mode settings = POLICY_MODE_MONITOR then 0 else - EPERM, evt, s))))"

definition compare_exec ::
  "kenv \<Rightarrow> bpf_state \<Rightarrow> process_evt \<Rightarrow> u32 \<Rightarrow> u64 \<Rightarrow> int \<times> process_evt \<times> bpf_state" where
  "compare_exec K s evt current_offset policy_id =
     (if linux_kernel_version K < KERNEL_VERSION 5 11 0 \<and> path_len evt > 512
      then (0, evt, emit_log_event K s LOG_PATH_LEN_TOO_LONG)
      else if path_matches s evt current_offset policy_id then (0, evt, s)
      else report_violation K s evt current_offset policy_id)"

definition enforce_exec ::
  "kenv \<Rightarrow> bpf_state \<Rightarrow> process_evt \<Rightarrow> u64 \<Rightarrow> bool \<Rightarrow> u64 \<Rightarrow> u64 \<Rightarrow> int \<times> process_evt \<times> bpf_state" where
  "enforce_exec K s evt0 cg is_foreign policy_id bprm =
     (let evt = evt0\<lparr>cg_tracker_id := cg, foreign := (if is_foreign then 1 else 0)\<rparr>;
          (current_offset, evt, s) = populate_evt_with_path K s evt bprm in
      if current_offset = 0 then (0, evt, s)
      else if is_foreign then foreign_exec K s evt current_offset policy_id
      else compare_exec K s evt current_offset policy_id)"

definition enforce_cgroup_policy :: "kenv \<Rightarrow> bpf_state \<Rightarrow> u64 \<Rightarrow> int \<times> bpf_state" where
  "enforce_cgroup_policy K s bprm =
     (let cg = get_tracker_id_from_curr_task K s in
      if cg = 0 then (0, s)
      else if exec_is_runtime_bootstrap K s cg then (0, s)
      else
        (let is_foreign = exec_is_foreign_root K bprm in
         case map_lookup (cg_to_policy_map s) cg of
           None \<Rightarrow>
             if learning_enabled (load_time_config K) = 0 then (0, s)
             else
               (case get_process_evt K s of
                  (None, s) \<Rightarrow> (0, s)
                | (Some evt, s) \<Rightarrow>
                    (let (evt, s) = learn_exec K s evt cg is_foreign bprm
                     in (0, s\<lparr>process_evt_storage_map := Some evt\<rparr>)))
         | Some policy_id \<Rightarrow>
             (case get_process_evt K s of
                (None, s) \<Rightarrow> (0, s)
              | (Some evt, s) \<Rightarrow>
                  (let (r, evt, s) = enforce_exec K s evt cg is_foreign policy_id bprm
                   in (r, s\<lparr>process_evt_storage_map := Some evt\<rparr>)))))"


section \<open>Specification vocabulary\<close>

text \<open>The string as the key of a map of key size \<open>k\<close>: padded with zero bytes, cut when longer.\<close>

definition pad_to :: "nat \<Rightarrow> bytes \<Rightarrow> bytes" where
  "pad_to k str = take k (str @ replicate (k - length str) 0)"

text \<open>The third segment of the buffer is the padding of every lookup.\<close>

definition zero_tail :: "process_evt \<Rightarrow> bool" where
  "zero_tail evt \<longleftrightarrow> (\<forall>i. 8192 \<le> i \<and> i < 12288 \<longrightarrow> path evt i = 0)"

definition string_maps_wf :: "bpf_state \<Rightarrow> bool" where
  "string_maps_wf s \<longleftrightarrow>
     (\<forall>i<11. \<forall>p m. map_lookup (pol_str_maps s i) p = Some m \<longrightarrow>
        key_size m = STRING_MAPS_SIZE ! i \<and> (\<forall>k\<in>set (keys m). length k = key_size m))"

definition allow_listed :: "bpf_state \<Rightarrow> u64 \<Rightarrow> bytes \<Rightarrow> bool" where
  "allow_listed s policy_id str =
     (case get_policy_string_map s (c_index (length str)) policy_id of
        None \<Rightarrow> False
      | Some m \<Rightarrow> pad_to (key_size m) str \<in> set (keys m))"

definition exec_file :: "kenv \<Rightarrow> u64 \<Rightarrow> u64" where
  "exec_file K bprm = read_u64 K (bprm + fld K Linux_binprm_file)"

definition probe_map_ok :: "kenv \<Rightarrow> bool" where
  "probe_map_ok K \<longleftrightarrow> (\<forall>bs. probe_read_map K bs = (0, bs))"

definition maps_of :: "bpf_state \<Rightarrow>
    (u64, u64) bpf_hash \<times> (u64, u64) bpf_hash \<times> (u64, policy_settings) bpf_hash \<times>
    (nat \<Rightarrow> (u64, inner_map) bpf_hash)" where
  "maps_of s = (cgtracker_map s, cg_to_policy_map s, policy_settings_map s, pol_str_maps s)"

section \<open>The maps are read only to the program\<close>

lemma maps_of_simps [hook_frame]:
  "maps_of (emit_log_event_args K s c a b) = maps_of s"
  "maps_of (bpf_printk K s f) = maps_of s"
  "maps_of (snd (output_monitoring K s bs)) = maps_of s"
  "maps_of (snd (output_execve K s bs)) = maps_of s"
  "maps_of (s\<lparr>process_evt_storage_map := e\<rparr>) = maps_of s"
  by (simp_all add: maps_of_def hook_frame)

lemma populate_maps [hook_frame]:
  "maps_of (snd (snd (populate_evt_with_path K s e b))) = maps_of s"
  by (simp add: populate_evt_with_path_def Let_def emit_defs hook_frame)

lemma foreign_exec_maps [hook_frame]: "maps_of (snd (snd (foreign_exec K s e q p))) = maps_of s"
  by (simp add: foreign_exec_def Let_def emit_defs hook_frame case_prod_beta split: option.split)

lemma report_violation_maps [hook_frame]:
  "maps_of (snd (snd (report_violation K s e q p))) = maps_of s"
  by (simp add: report_violation_def Let_def emit_defs hook_frame case_prod_beta split: option.split)

lemma compare_exec_maps [hook_frame]: "maps_of (snd (snd (compare_exec K s e q p))) = maps_of s"
  by (simp add: compare_exec_def emit_defs hook_frame)

lemma enforce_exec_maps [hook_frame]: "maps_of (snd (snd (enforce_exec K s e c f p b))) = maps_of s"
  by (simp add: enforce_exec_def Let_def hook_frame case_prod_beta)

lemma learn_exec_maps [hook_frame]: "maps_of (snd (learn_exec K s e c f b)) = maps_of s"
  by (simp add: learn_exec_def Let_def emit_defs hook_frame case_prod_beta)

lemma enforce_cgroup_policy_maps:
  "maps_of (snd (enforce_cgroup_policy K s bprm)) = maps_of s"
  by (simp add: enforce_cgroup_policy_def get_process_evt_def Let_def emit_defs hook_frame
      case_prod_beta split: option.split)

section \<open>The event after a successful resolution\<close>

lemma resolvable_length: "resolvable K p str \<Longrightarrow> 1 \<le> length str \<and> length str < 8192"
  by (auto simp: resolvable_def resolved_string_def Suc_le_eq DELETED_STRING_def split: if_splits)

lemma walk_string_no_nul: "\<forall>x\<in>set ns. name_ok K x \<Longrightarrow> 0 \<notin> set (walk_string K ns)"
  by (induction ns) (auto simp: name_ok_def)

lemma resolvable_no_nul: "resolvable K p str \<Longrightarrow> 0 \<notin> set str"
  by (auto simp: resolvable_def resolved_string_def DELETED_STRING_def walk_string_no_nul name_ok_def
      split: if_splits)

definition resolved_evt :: "process_evt \<Rightarrow> bytes \<Rightarrow> process_evt" where
  "resolved_evt e str =
     e\<lparr>path := buf_write (path e) (8192 - length str) str, path_len := word_of_nat (length str)\<rparr>"

lemma populate_resolvable:
  assumes K: "probe_sized K" and f: "exec_file K bprm \<noteq> 0"
    and r: "resolvable K (exec_file K bprm + fld K File_f_path) str"
  shows "populate_evt_with_path K s e bprm = (word_of_nat (8192 - length str), resolved_evt e str, s)"
proof -
  let ?r = "bpf_d_path_approx K (exec_file K bprm + fld K File_f_path) (path e)"
  have len: "1 \<le> length str" "length str < 8192"
    using resolvable_length [OF r] by simp_all
  have off: "unat (fst ?r) = 8192 - length str" and buf: "snd ?r = buf_write (path e) (8192 - length str) str"
    using bpf_d_path_approx_resolvable [OF K r] by simp_all
  have fst: "fst ?r = word_of_nat (8192 - length str)"
    by (simp add: off [symmetric])
  have nz: "fst ?r \<noteq> 0" "fst ?r \<noteq> 8192"
    using off len by (auto simp: word_unat_eq_iff)
  have "unat (8192 - fst ?r) = length str"
    using off len by (simp add: unat_minus_le)
  then have "ucast (8192 - fst ?r) = (word_of_nat (length str) :: u16)"
    by (simp add: word_unat_eq_iff unat_ucast unat_of_nat)
  then show ?thesis
    using f nz buf fst
    by (simp add: populate_evt_with_path_def exec_file_def Let_def resolved_evt_def)
qed

text \<open>What the program finds at the resolved offset, and after it.\<close>

lemma resolved_evt_read:
  assumes len: "length str < 8192" and z: "zero_tail e" and k: "k \<le> 4096"
  shows "buf_read (path (resolved_evt e str)) (8192 - length str) k = pad_to k str"
proof (rule nth_equalityI)
  fix i assume "i < length (buf_read (path (resolved_evt e str)) (8192 - length str) k)"
  then have i: "i < k" by simp
  show "buf_read (path (resolved_evt e str)) (8192 - length str) k ! i = pad_to k str ! i"
  proof (cases "i < length str")
    case True
    then show ?thesis using i by (simp add: resolved_evt_def pad_to_def nth_append buf_write_at)
  next
    case False
    then have "8192 \<le> 8192 - length str + i" "8192 - length str + i < 12288" using len i k by simp_all
    then show ?thesis
      using False i z len by (simp add: resolved_evt_def pad_to_def nth_append buf_write_other zero_tail_def)
  qed
qed (simp add: pad_to_def)

lemma resolved_offset:
  assumes "1 \<le> n" "n < 8192"
  shows "unat (SAFE_PATH_ACCESS (word_of_nat (8192 - n))) = 8192 - n"
  using assms by (simp add: SAFE_PATH_ACCESS_def unat_of_nat del: of_nat_diff)

lemma resolved_evt_len: "length str < 8192 \<Longrightarrow> unat (path_len (resolved_evt e str)) = length str"
  by (simp add: resolved_evt_def unat_of_nat)

lemma zero_tail_resolved: "length str < 8192 \<Longrightarrow> zero_tail (resolved_evt e str) = zero_tail e"
  by (auto simp: zero_tail_def resolved_evt_def buf_write_other)

lemma string_maps_wf_key_size:
  assumes "string_maps_wf s" and "get_policy_string_map s i p = Some m"
  shows "key_size m \<le> 4096"
proof -
  have i: "nat i < 11" and m: "map_lookup (pol_str_maps s (nat i)) p = Some m"
    using assms(2) by (auto simp: get_policy_string_map_def split: if_splits)
  have "\<forall>j<11. STRING_MAPS_SIZE ! j \<le> 4096"
    by (simp add: STRING_MAPS_SIZE_def All_less_Suc eval_nat_numeral)
  then show ?thesis
    using assms(1) i m by (auto simp: string_maps_wf_def)
qed

lemma path_matches_resolved:
  assumes wf: "string_maps_wf s" and z: "zero_tail e" and len: "1 \<le> length str" "length str < 8192"
  shows "path_matches s (resolved_evt e str) (word_of_nat (8192 - length str)) p = allow_listed s p str"
proof -
  have pl: "path_len (resolved_evt e str) = word_of_nat (length str)"
    by (simp add: resolved_evt_def)
  show ?thesis
    using resolved_evt_read [OF len(2) z] string_maps_wf_key_size [OF wf]
    by (auto simp: path_matches_def allow_listed_def Let_def pl c_index_def resolved_offset [OF len]
        split: option.split)
qed

section \<open>The copy into the first segment\<close>

definition copied_len :: "nat \<Rightarrow> nat" where
  "copied_len n = (n + 1) mod 4096"

lemma copy_exec_path_resolved:
  assumes "probe_map_ok K" and z: "zero_tail e" and len: "1 \<le> length str" "length str < 8192"
  shows "copy_exec_path K (resolved_evt e str) (word_of_nat (8192 - length str)) =
    (0, (resolved_evt e str)\<lparr>path := buf_write (path (resolved_evt e str)) 0
          (pad_to (copied_len (length str)) str)\<rparr>)"
proof -
  have "unat (ucast (path_len (resolved_evt e str)) + 1 :: u32) = length str + 1"
    using len resolved_evt_len [OF len(2), of e] by (simp add: unat_word_ariths)
  then have n: "unat (SAFE_PATH_LEN (ucast (path_len (resolved_evt e str)) + 1)) = copied_len (length str)"
    by (simp add: SAFE_PATH_LEN_def copied_len_def)
  have "copied_len (length str) \<le> 4096"
    by (simp add: copied_len_def less_imp_le)
  then show ?thesis
    using assms(1) resolved_evt_read [OF len(2) z] unfolding copy_exec_path_def n
    by (simp add: Let_def probe_map_ok_def resolved_offset [OF len])
qed

lemma zero_tail_copy: "length bs \<le> 4096 \<Longrightarrow> zero_tail (e\<lparr>path := buf_write (path e) 0 bs\<rparr>) = zero_tail e"
  by (auto simp: zero_tail_def buf_write_other)

section \<open>The decision\<close>

text \<open>
  The specification of the program: which exec of a binary is a violation of which policy, and
  the verdict that follows from it. It mentions the maps only, neither the event buffer nor the
  string maps' index arithmetic.
\<close>

definition violation :: "kenv \<Rightarrow> bpf_state \<Rightarrow> u64 \<Rightarrow> bytes \<Rightarrow> (u64 \<times> policy_settings) option" where
  "violation K s bprm str =
     (let cg = get_tracker_id_from_curr_task K s in
      if cg = 0 \<or> exec_is_runtime_bootstrap K s cg then None
      else case map_lookup (cg_to_policy_map s) cg of
        None \<Rightarrow> None
      | Some p \<Rightarrow>
          (case map_lookup (policy_settings_map s) p of
             None \<Rightarrow> None
           | Some st \<Rightarrow>
               if exec_is_foreign_root K bprm
               then (if allow_foreign_root st \<noteq> 0 then None else Some (p, st))
               else if linux_kernel_version K < KERNEL_VERSION 5 11 0 \<and> 512 < length str
                 \<or> allow_listed s p str then None
               else Some (p, st)))"

definition verdict :: "kenv \<Rightarrow> bpf_state \<Rightarrow> u64 \<Rightarrow> bytes \<Rightarrow> int" where
  "verdict K s bprm str =
     (case violation K s bprm str of
        None \<Rightarrow> 0
      | Some (p, st) \<Rightarrow> if settings_mode st = POLICY_MODE_MONITOR then 0 else - EPERM)"

definition violation_evt :: "process_evt \<Rightarrow> u64 \<Rightarrow> bool \<Rightarrow> bytes \<Rightarrow> u8 \<Rightarrow> process_evt" where
  "violation_evt e cg f str m =
     (let r = resolved_evt (e\<lparr>cg_tracker_id := cg, foreign := (if f then 1 else 0)\<rparr>) str
      in r\<lparr>path := buf_write (path r) 0 (pad_to (copied_len (length str)) str), mode := m\<rparr>)"

text \<open>What every run with a resolvable binary relies on.\<close>

definition exec_ready :: "kenv \<Rightarrow> u64 \<Rightarrow> bytes \<Rightarrow> bool" where
  "exec_ready K bprm str \<longleftrightarrow> probe_sized K \<and> probe_map_ok K \<and> exec_file K bprm \<noteq> 0 \<and>
     resolvable K (exec_file K bprm + fld K File_f_path) str"

definition buffer_ready :: "bpf_state \<Rightarrow> bool" where
  "buffer_ready s \<longleftrightarrow> (\<exists>evt. process_evt_storage_map s = Some evt \<and> zero_tail evt)"

lemma zero_tail_update [simp]:
  "zero_tail (e\<lparr>cg_tracker_id := a\<rparr>) = zero_tail e" "zero_tail (e\<lparr>path_len := l\<rparr>) = zero_tail e"
  "zero_tail (e\<lparr>mode := m\<rparr>) = zero_tail e" "zero_tail (e\<lparr>foreign := f\<rparr>) = zero_tail e"
  by (simp_all add: zero_tail_def)

lemma length_pad_to [simp]: "length (pad_to k str) = k"
  by (simp add: pad_to_def)

lemma copied_len_le: "copied_len n \<le> 4096"
  by (simp add: copied_len_def less_imp_le)

lemma exec_ready_len: "exec_ready K bprm str \<Longrightarrow> 1 \<le> length str \<and> length str < 8192"
  by (auto simp: exec_ready_def dest: resolvable_length)

lemma exec_ready_populate:
  "exec_ready K bprm str \<Longrightarrow>
     populate_evt_with_path K s e bprm = (word_of_nat (8192 - length str), resolved_evt e str, s)"
  by (simp add: exec_ready_def populate_resolvable)

lemma exec_ready_offset: "exec_ready K bprm str \<Longrightarrow> (word_of_nat (8192 - length str) :: u32) \<noteq> 0"
  using exec_ready_len [of K bprm str]
  by (auto simp: word_unat_eq_iff unat_of_nat simp del: of_nat_diff)

lemma exec_ready_copy:
  "exec_ready K bprm str \<Longrightarrow> zero_tail e \<Longrightarrow>
     copy_exec_path K (resolved_evt e str) (word_of_nat (8192 - length str)) =
     (0, (resolved_evt e str)\<lparr>path := buf_write (path (resolved_evt e str)) 0
           (pad_to (copied_len (length str)) str)\<rparr>)"
  using exec_ready_len [of K bprm str] by (intro copy_exec_path_resolved) (auto simp: exec_ready_def)

lemma exec_ready_long:
  "exec_ready K bprm str \<Longrightarrow> path_len (resolved_evt e str) > 512 \<longleftrightarrow> 512 < length str"
  using exec_ready_len [of K bprm str] by (simp add: word_less_nat_alt resolved_evt_len)

lemma zero_tail_resolved_copy:
  "exec_ready K bprm str \<Longrightarrow> zero_tail e \<Longrightarrow>
     zero_tail ((resolved_evt e str)\<lparr>path := buf_write (path (resolved_evt e str)) 0
       (pad_to (copied_len (length str)) str)\<rparr>)"
  using exec_ready_len [of K bprm str] copied_len_le [of "length str"]
  by (simp add: zero_tail_copy zero_tail_resolved)

lemmas exec_ready_simps = exec_ready_populate exec_ready_offset exec_ready_copy exec_ready_long

text \<open>The two branches of the program that end in a verdict.\<close>

abbreviation resolved_off :: "bytes \<Rightarrow> u32" where
  "resolved_off str \<equiv> word_of_nat (8192 - length str)"

lemma foreign_exec_spec:
  assumes r: "exec_ready K bprm str" and z: "zero_tail e"
  shows "fst (foreign_exec K s (resolved_evt e str) (resolved_off str) p) =
      (case map_lookup (policy_settings_map s) p of
         None \<Rightarrow> 0
       | Some st \<Rightarrow> if allow_foreign_root st \<noteq> 0 \<or> settings_mode st = POLICY_MODE_MONITOR then 0 else - EPERM)"
    and "zero_tail (fst (snd (foreign_exec K s (resolved_evt e str) (resolved_off str) p)))"
  using exec_ready_copy [OF r z] zero_tail_resolved_copy [OF r z] exec_ready_len [OF r] z
  by (simp_all add: foreign_exec_def Let_def case_prod_beta zero_tail_resolved split: option.split)

lemma report_violation_spec:
  assumes r: "exec_ready K bprm str" and z: "zero_tail e"
  shows "fst (report_violation K s (resolved_evt e str) (resolved_off str) p) =
      (case map_lookup (policy_settings_map s) p of
         None \<Rightarrow> 0
       | Some st \<Rightarrow> if settings_mode st = POLICY_MODE_MONITOR then 0 else - EPERM)"
    and "zero_tail (fst (snd (report_violation K s (resolved_evt e str) (resolved_off str) p)))"
  using exec_ready_copy [OF r z] zero_tail_resolved_copy [OF r z]
  by (simp_all add: report_violation_def Let_def case_prod_beta split: option.split)

lemma compare_exec_spec:
  assumes wf: "string_maps_wf s" and r: "exec_ready K bprm str" and z: "zero_tail e"
  shows "fst (compare_exec K s (resolved_evt e str) (resolved_off str) p) =
      (if linux_kernel_version K < KERNEL_VERSION 5 11 0 \<and> 512 < length str \<or> allow_listed s p str then 0
       else case map_lookup (policy_settings_map s) p of
         None \<Rightarrow> 0
       | Some st \<Rightarrow> if settings_mode st = POLICY_MODE_MONITOR then 0 else - EPERM)"
    and "zero_tail (fst (snd (compare_exec K s (resolved_evt e str) (resolved_off str) p)))"
  using exec_ready_len [OF r] z path_matches_resolved [OF wf z, of str p]
    report_violation_spec [OF r z, of s p]
  by (simp_all add: compare_exec_def exec_ready_long [OF r] zero_tail_resolved)

text \<open>The program without its plumbing: what runs once the container and its policy are known.\<close>

lemma enforce_exec_ready:
  assumes r: "exec_ready K bprm str"
  shows "enforce_exec K s e cg f p bprm =
    (let evt = resolved_evt (e\<lparr>cg_tracker_id := cg, foreign := (if f then 1 else 0)\<rparr>) str
     in if f then foreign_exec K s evt (resolved_off str) p else compare_exec K s evt (resolved_off str) p)"
  using exec_ready_offset [OF r] exec_ready_populate [OF r]
  by (simp add: enforce_exec_def Let_def)

lemma enforce_exec_zero_tail:
  assumes "string_maps_wf s" and "exec_ready K bprm str" and "zero_tail e"
  shows "zero_tail (fst (snd (enforce_exec K s e cg f p bprm)))"
  using foreign_exec_spec(2) [OF assms(2)] compare_exec_spec(2) [OF assms(1,2)] assms(3)
  by (simp add: enforce_exec_ready [OF assms(2)] Let_def)

lemma learn_exec_zero_tail:
  assumes r: "exec_ready K bprm str" and z: "zero_tail e"
  shows "zero_tail (fst (learn_exec K s e cg f bprm))"
  using exec_ready_offset [OF r] exec_ready_populate [OF r] exec_ready_copy [OF r]
    zero_tail_resolved_copy [OF r] z
  by (simp add: learn_exec_def Let_def case_prod_beta)

lemma hook_verdict:
  assumes wf: "string_maps_wf s" and r: "exec_ready K bprm str" and b: "buffer_ready s"
  shows "fst (enforce_cgroup_policy K s bprm) = verdict K s bprm str"
proof -
  obtain e where e: "process_evt_storage_map s = Some e" and z: "zero_tail e"
    using b by (auto simp: buffer_ready_def)
  show ?thesis
    using foreign_exec_spec(1) [OF r] compare_exec_spec(1) [OF wf r] z e
    by (simp add: enforce_cgroup_policy_def verdict_def violation_def get_process_evt_def Let_def
        case_prod_beta enforce_exec_ready [OF r] split: option.split)
qed

lemma hook_buffer_ready:
  assumes wf: "string_maps_wf s" and r: "exec_ready K bprm str" and b: "buffer_ready s"
  shows "buffer_ready (snd (enforce_cgroup_policy K s bprm))"
proof -
  obtain e where e: "process_evt_storage_map s = Some e" and z: "zero_tail e"
    using b by (auto simp: buffer_ready_def)
  show ?thesis
    using enforce_exec_zero_tail [OF wf r z] learn_exec_zero_tail [OF r z] z e
    by (simp add: enforce_cgroup_policy_def get_process_evt_def Let_def case_prod_beta buffer_ready_def
        split: option.split)
qed

text \<open>The verdict depends on the maps only.\<close>

lemma maps_of_cong:
  assumes "maps_of s = maps_of s'"
  shows "cgrp_get_tracker_id s = cgrp_get_tracker_id s'"
    and "get_tracker_id_from_curr_task K s = get_tracker_id_from_curr_task K s'"
    and "exec_is_runtime_bootstrap K s = exec_is_runtime_bootstrap K s'"
    and "allow_listed s = allow_listed s'"
    and "cg_to_policy_map s = cg_to_policy_map s'"
    and "policy_settings_map s = policy_settings_map s'"
proof -
  show t: "cgrp_get_tracker_id s = cgrp_get_tracker_id s'"
    using assms by (simp add: fun_eq_iff cgrp_get_tracker_id_def maps_of_def)
  show "get_tracker_id_from_curr_task K s = get_tracker_id_from_curr_task K s'"
    by (simp add: get_tracker_id_from_curr_task_def t Let_def)
  show "exec_is_runtime_bootstrap K s = exec_is_runtime_bootstrap K s'"
    by (simp add: fun_eq_iff exec_is_runtime_bootstrap_def get_tracker_id_from_task_def t Let_def)
  show "allow_listed s = allow_listed s'"
    using assms by (simp add: fun_eq_iff allow_listed_def get_policy_string_map_def maps_of_def)
  show "cg_to_policy_map s = cg_to_policy_map s'" "policy_settings_map s = policy_settings_map s'"
    using assms by (simp_all add: maps_of_def)
qed

lemma violation_cong: "maps_of s = maps_of s' \<Longrightarrow> violation K s bprm str = violation K s' bprm str"
  unfolding violation_def by (simp only: maps_of_cong [of s s'])

lemma verdict_cong: "maps_of s = maps_of s' \<Longrightarrow> verdict K s bprm str = verdict K s' bprm str"
  unfolding verdict_def by (simp only: violation_cong [of s s'])

lemma string_maps_wf_cong: "maps_of s = maps_of s' \<Longrightarrow> string_maps_wf s = string_maps_wf s'"
  by (simp add: maps_of_def string_maps_wf_def)

section \<open>A history of execs\<close>

text \<open>
  The runs of the program on one CPU, one after the other, each with the kernel as it is then: the
  verdicts and the final state.
\<close>

fun run_execs :: "bpf_state \<Rightarrow> (kenv \<times> u64) list \<Rightarrow> int list \<times> bpf_state" where
  "run_execs s [] = ([], s)"
| "run_execs s ((K, bprm) # es) =
     (let (r, s') = enforce_cgroup_policy K s bprm;
          (rs, s'') = run_execs s' es
      in (r # rs, s''))"

lemma run_execs_verdicts:
  assumes "string_maps_wf s" and "buffer_ready s"
    and "list_all2 (\<lambda>(K, bprm) str. exec_ready K bprm str) es strs"
  shows "fst (run_execs s es) = map2 (\<lambda>(K, bprm) str. verdict K s bprm str) es strs \<and>
    buffer_ready (snd (run_execs s es)) \<and> maps_of (snd (run_execs s es)) = maps_of s"
  using assms(3,1,2)
proof (induction arbitrary: s rule: list_all2_induct)
  case (Cons x es str strs)
  obtain K bprm where x: "x = (K, bprm)" by fastforce
  let ?s' = "snd (enforce_cgroup_policy K s bprm)"
  have r: "exec_ready K bprm str" using Cons.hyps x by simp
  have m: "maps_of ?s' = maps_of s" by (rule enforce_cgroup_policy_maps)
  have IH: "fst (run_execs ?s' es) = map2 (\<lambda>(K, bprm) str. verdict K ?s' bprm str) es strs \<and>
    buffer_ready (snd (run_execs ?s' es)) \<and> maps_of (snd (run_execs ?s' es)) = maps_of ?s'"
    using Cons.IH [of ?s'] hook_buffer_ready [OF Cons.prems(1) r Cons.prems(2)] Cons.prems(1)
      string_maps_wf_cong [OF m] by simp
  have v: "verdict K' ?s' b' str' = verdict K' s b' str'" for K' b' str'
    by (rule verdict_cong) (rule m)
  show ?case
    using IH m hook_verdict [OF Cons.prems(1) r Cons.prems(2)]
    by (simp add: x Let_def case_prod_beta v)
qed simp

section \<open>What the program reports\<close>

text \<open>A ring after an attempt to submit a record.\<close>

definition ring_after :: "kenv \<Rightarrow> ringbuf \<Rightarrow> bytes list \<Rightarrow> bytes \<Rightarrow> bytes list" where
  "ring_after K rb ring bs = (if rb_room K rb (length ring) (length bs) then ring @ [bs] else ring)"

lemma output_ring:
  "ringbuf_monitoring (snd (output_monitoring K s bs)) = ring_after K Ringbuf_monitoring (ringbuf_monitoring s) bs"
  "ringbuf_execve (snd (output_execve K s bs)) = ring_after K Ringbuf_execve (ringbuf_execve s) bs"
  by (simp_all add: output_monitoring_def output_execve_def ring_after_def)

lemma violation_evt_eq:
  "violation_evt e cg f str m =
     (resolved_evt (e\<lparr>cg_tracker_id := cg, foreign := (if f then 1 else 0)\<rparr>) str)
       \<lparr>path := buf_write (path (resolved_evt (e\<lparr>cg_tracker_id := cg, foreign := (if f then 1 else 0)\<rparr>) str)) 0
          (pad_to (copied_len (length str)) str), mode := m\<rparr>"
  by (simp add: violation_evt_def Let_def)

lemma foreign_exec_ring:
  assumes r: "exec_ready K bprm str" and z: "zero_tail e"
  shows "ringbuf_monitoring (snd (snd (foreign_exec K s
        (resolved_evt (e\<lparr>cg_tracker_id := cg, foreign := 1\<rparr>) str) (resolved_off str) p))) =
      (case map_lookup (policy_settings_map s) p of
         None \<Rightarrow> ringbuf_monitoring s
       | Some st \<Rightarrow> if allow_foreign_root st \<noteq> 0 then ringbuf_monitoring s
           else ring_after K Ringbuf_monitoring (ringbuf_monitoring s)
             (evt_record (violation_evt e cg True str (settings_mode st))))"
  using exec_ready_copy [OF r, of "e\<lparr>cg_tracker_id := cg, foreign := 1\<rparr>"] z
  by (simp add: foreign_exec_def Let_def case_prod_beta emit_defs hook_frame output_ring violation_evt_eq
      split: option.split)

lemma report_violation_ring:
  assumes r: "exec_ready K bprm str" and z: "zero_tail e"
  shows "ringbuf_monitoring (snd (snd (report_violation K s
        (resolved_evt (e\<lparr>cg_tracker_id := cg, foreign := 0\<rparr>) str) (resolved_off str) p))) =
      (case map_lookup (policy_settings_map s) p of
         None \<Rightarrow> ringbuf_monitoring s
       | Some st \<Rightarrow> ring_after K Ringbuf_monitoring (ringbuf_monitoring s)
             (evt_record (violation_evt e cg False str (settings_mode st))))"
  using exec_ready_copy [OF r, of "e\<lparr>cg_tracker_id := cg, foreign := 0\<rparr>"] z
  by (simp add: report_violation_def Let_def case_prod_beta emit_defs hook_frame output_ring violation_evt_eq
      split: option.split)

lemma hook_reports:
  assumes wf: "string_maps_wf s" and r: "exec_ready K bprm str"
    and e: "process_evt_storage_map s = Some e" and z: "zero_tail e"
  shows "ringbuf_monitoring (snd (enforce_cgroup_policy K s bprm)) =
      (case violation K s bprm str of
         None \<Rightarrow> ringbuf_monitoring s
       | Some (p, st) \<Rightarrow> ring_after K Ringbuf_monitoring (ringbuf_monitoring s)
           (evt_record (violation_evt e (get_tracker_id_from_curr_task K s) (exec_is_foreign_root K bprm)
              str (settings_mode st))))"
proof -
  let ?cg = "get_tracker_id_from_curr_task K s"
  have len: "1 \<le> length str" "length str < 8192" using exec_ready_len [OF r] by simp_all
  have m: "path_matches s (resolved_evt (e\<lparr>cg_tracker_id := ?cg, foreign := 0\<rparr>) str) (resolved_off str) p =
      allow_listed s p str" for p
    using path_matches_resolved [OF wf _ len, of "e\<lparr>cg_tracker_id := ?cg, foreign := 0\<rparr>"] z by simp
  have learn: "ringbuf_monitoring (snd (learn_exec K s e ?cg f bprm)) = ringbuf_monitoring s" for f
    using exec_ready_populate [OF r]
    by (simp add: learn_exec_def Let_def case_prod_beta emit_defs hook_frame)
  show ?thesis
    using foreign_exec_ring [OF r z] report_violation_ring [OF r z] e
    by (simp add: enforce_cgroup_policy_def violation_def get_process_evt_def Let_def case_prod_beta
        enforce_exec_ready [OF r] compare_exec_def exec_ready_long [OF r] m learn emit_defs hook_frame
        split: option.split)
qed

lemma hook_learns:
  assumes r: "exec_ready K bprm str" and e: "process_evt_storage_map s = Some e" and z: "zero_tail e"
    and cg: "get_tracker_id_from_curr_task K s = cg" "cg \<noteq> 0" "\<not> exec_is_runtime_bootstrap K s cg"
    and pol: "map_lookup (cg_to_policy_map s) cg = None" and l: "learning_enabled (load_time_config K) \<noteq> 0"
  shows "fst (enforce_cgroup_policy K s bprm) = 0"
    and "ringbuf_execve (snd (enforce_cgroup_policy K s bprm)) =
      ring_after K Ringbuf_execve (ringbuf_execve s)
        (if exec_is_foreign_root K bprm
         then evt_bytes (e\<lparr>cg_tracker_id := cg, mode := 0, foreign := 1, path_len := 0\<rparr>) 19
         else evt_record (violation_evt e cg False str 0))"
proof -
  show "fst (enforce_cgroup_policy K s bprm) = 0"
    using cg pol l e by (simp add: enforce_cgroup_policy_def get_process_evt_def Let_def case_prod_beta)
  have r2: "resolved_evt (e\<lparr>cg_tracker_id := cg, mode := 0, foreign := 0\<rparr>) str =
      (resolved_evt (e\<lparr>cg_tracker_id := cg, foreign := 0\<rparr>) str)\<lparr>mode := 0\<rparr>"
    by (simp add: resolved_evt_def)
  have swap: "x\<lparr>mode := m, path := q\<rparr> = x\<lparr>path := q, mode := m\<rparr>" for x :: process_evt and m q
    by simp
  have "ringbuf_execve (snd (learn_exec K s e cg f bprm)) =
      ring_after K Ringbuf_execve (ringbuf_execve s)
        (if f then evt_bytes (e\<lparr>cg_tracker_id := cg, mode := 0, foreign := 1, path_len := 0\<rparr>) 19
         else evt_record (violation_evt e cg False str 0))" for f
    using exec_ready_populate [OF r] exec_ready_offset [OF r] z
      exec_ready_copy [OF r, of "e\<lparr>cg_tracker_id := cg, mode := 0, foreign := 0\<rparr>"]
    by (simp add: learn_exec_def Let_def case_prod_beta emit_defs hook_frame output_ring violation_evt_eq r2 swap)
  then show "ringbuf_execve (snd (enforce_cgroup_policy K s bprm)) =
      ring_after K Ringbuf_execve (ringbuf_execve s)
        (if exec_is_foreign_root K bprm
         then evt_bytes (e\<lparr>cg_tracker_id := cg, mode := 0, foreign := 1, path_len := 0\<rparr>) 19
         else evt_record (violation_evt e cg False str 0))"
    using cg pol l e by (simp add: enforce_cgroup_policy_def get_process_evt_def Let_def case_prod_beta)
qed

section \<open>Every error is logged\<close>

text \<open>These lemmas make no assumption on the kernel memory, the buffer or the maps.\<close>

definition logged :: "bpf_state \<Rightarrow> bpf_state \<Rightarrow> log_code set \<Rightarrow> bool" where
  "logged s s' C \<longleftrightarrow> (\<exists>e. ringbuf_logs s' = ringbuf_logs s @ [e] \<and> log_code_of e \<in> C)"

definition FAIL_OPEN :: "log_code set" where
  "FAIL_OPEN = {LOG_FAIL_TO_LOOKUP_EVT_MAP, LOG_MISSING_FILE_STRUCT, LOG_FAIL_TO_RESOLVE_PATH, LOG_EMPTY_PATH,
     LOG_FAIL_TO_COPY_EXEC_PATH, LOG_PATH_LEN_TOO_LONG, LOG_POLICY_MODE_MISSING}"

lemma logged_emit: "log_room K \<Longrightarrow> c \<in> C \<Longrightarrow> logged s (emit_log_event_args K s c a b) C"
  using emit_log_event_args_logged [of K s c a b] by (auto simp: logged_def)

lemma logged_storage [simp]:
  "logged s (s'\<lparr>process_evt_storage_map := e\<rparr>) C = logged s s' C"
  by (simp add: logged_def)

lemma logged_printk [simp]:
  "logged s (bpf_printk K s' f) C = logged s s' C" "logged (bpf_printk K s f) s' C = logged s s' C"
  by (simp_all add: logged_def hook_frame)

lemma logged_output [simp]:
  "logged (snd (output_monitoring K s bs)) s' C = logged s s' C"
  by (simp add: logged_def hook_frame)

definition protect_policy :: "bpf_state \<Rightarrow> u64 \<Rightarrow> bool" where
  "protect_policy s p \<longleftrightarrow>
     (\<exists>st. map_lookup (policy_settings_map s) p = Some st \<and> settings_mode st \<noteq> POLICY_MODE_MONITOR)"

lemma populate_fails_logged:
  assumes "log_room K" and "fst (populate_evt_with_path K s e bprm) = 0"
  shows "logged s (snd (snd (populate_evt_with_path K s e bprm))) FAIL_OPEN"
  using assms
  by (auto simp: populate_evt_with_path_def Let_def emit_defs FAIL_OPEN_def logged_emit split: if_splits)

lemma populate_succeeds_state:
  "fst (populate_evt_with_path K s e bprm) \<noteq> 0 \<Longrightarrow> snd (snd (populate_evt_with_path K s e bprm)) = s"
  by (auto simp: populate_evt_with_path_def Let_def split: if_splits)

lemma foreign_exec_allows:
  assumes "log_room K" and "protect_policy s p" and "fst (foreign_exec K s e q p) = 0"
  shows "logged s (snd (snd (foreign_exec K s e q p))) FAIL_OPEN \<or>
    (\<exists>st. map_lookup (policy_settings_map s) p = Some st \<and> allow_foreign_root st \<noteq> 0)"
  using assms
  by (auto simp: foreign_exec_def Let_def case_prod_beta emit_defs FAIL_OPEN_def logged_emit
      protect_policy_def split: option.splits if_splits)

lemma compare_exec_allows:
  assumes "log_room K" and "protect_policy s p" and "fst (compare_exec K s e q p) = 0"
  shows "logged s (snd (snd (compare_exec K s e q p))) FAIL_OPEN \<or> path_matches s e q p"
  using assms
  by (auto simp: compare_exec_def report_violation_def Let_def case_prod_beta emit_defs FAIL_OPEN_def
      logged_emit protect_policy_def split: option.splits if_splits)

lemma foreign_exec_denies:
  assumes "fst (foreign_exec K s e q p) \<noteq> 0"
  shows "fst (foreign_exec K s e q p) = - EPERM \<and> protect_policy s p \<and>
    (\<exists>st. map_lookup (policy_settings_map s) p = Some st \<and> allow_foreign_root st = 0) \<and>
    ((\<exists>bs. ringbuf_monitoring (snd (snd (foreign_exec K s e q p))) = ringbuf_monitoring s @ [bs]) \<or>
     (log_room K \<longrightarrow> logged s (snd (snd (foreign_exec K s e q p))) {LOG_DROP_VIOLATION}))"
  using assms logged_emit [of K LOG_DROP_VIOLATION "{LOG_DROP_VIOLATION}"]
  by (auto simp: foreign_exec_def Let_def case_prod_beta emit_defs protect_policy_def output_monitoring_def
      hook_frame split: option.splits if_splits)

lemma compare_exec_denies:
  assumes "fst (compare_exec K s e q p) \<noteq> 0"
  shows "fst (compare_exec K s e q p) = - EPERM \<and> protect_policy s p \<and> \<not> path_matches s e q p \<and>
    ((\<exists>bs. ringbuf_monitoring (snd (snd (compare_exec K s e q p))) = ringbuf_monitoring s @ [bs]) \<or>
     (log_room K \<longrightarrow> logged s (snd (snd (compare_exec K s e q p))) {LOG_DROP_VIOLATION}))"
proof -
  have d: "logged s (emit_log_event_args K (bpf_printk K s f) LOG_DROP_VIOLATION a b) {LOG_DROP_VIOLATION}"
    if "log_room K" for f a b
    using logged_emit [OF that, of LOG_DROP_VIOLATION "{LOG_DROP_VIOLATION}" "bpf_printk K s f"] by simp
  show ?thesis
    using assms d
    by (auto simp: compare_exec_def report_violation_def Let_def case_prod_beta emit_defs protect_policy_def
        output_monitoring_def hook_frame split: option.splits if_splits)
qed

text \<open>The execs for which the part of the program after the policy lookup runs.\<close>

definition policed :: "kenv \<Rightarrow> bpf_state \<Rightarrow> u64 \<Rightarrow> u64 \<Rightarrow> bool" where
  "policed K s cg p \<longleftrightarrow> get_tracker_id_from_curr_task K s = cg \<and> cg \<noteq> 0 \<and>
     \<not> exec_is_runtime_bootstrap K s cg \<and> map_lookup (cg_to_policy_map s) cg = Some p"

lemma policed_hook:
  assumes "policed K s cg p"
  shows "enforce_cgroup_policy K s bprm =
    (case process_evt_storage_map s of
       None \<Rightarrow> (0, emit_log_event_1 K s LOG_FAIL_TO_LOOKUP_EVT_MAP (ucast (get_smp_processor_id K)))
     | Some evt \<Rightarrow>
         (let (r, evt, s) = enforce_exec K s evt cg (exec_is_foreign_root K bprm) p bprm
          in (r, s\<lparr>process_evt_storage_map := Some evt\<rparr>)))"
  using assms
  by (auto simp: policed_def enforce_cgroup_policy_def get_process_evt_def Let_def split: option.split)

text \<open>The event of a policed exec after path resolution, with the offset of the path.\<close>

definition exec_evt :: "kenv \<Rightarrow> bpf_state \<Rightarrow> u64 \<Rightarrow> u64 \<Rightarrow> process_evt \<Rightarrow> u32 \<times> process_evt" where
  "exec_evt K s cg bprm e =
     (let r = populate_evt_with_path K s
        (e\<lparr>cg_tracker_id := cg, foreign := (if exec_is_foreign_root K bprm then 1 else 0)\<rparr>) bprm
      in (fst r, fst (snd r)))"

lemma enforce_exec_cases:
  "enforce_exec K s e cg (exec_is_foreign_root K bprm) p bprm =
    (if fst (exec_evt K s cg bprm e) = 0
     then (0, snd (exec_evt K s cg bprm e), snd (snd (populate_evt_with_path K s
        (e\<lparr>cg_tracker_id := cg, foreign := (if exec_is_foreign_root K bprm then 1 else 0)\<rparr>) bprm)))
     else if exec_is_foreign_root K bprm
     then foreign_exec K s (snd (exec_evt K s cg bprm e)) (fst (exec_evt K s cg bprm e)) p
     else compare_exec K s (snd (exec_evt K s cg bprm e)) (fst (exec_evt K s cg bprm e)) p)"
  using populate_succeeds_state [of K s _ bprm]
  by (simp add: enforce_exec_def exec_evt_def Let_def case_prod_beta)

lemma hook_allows:
  assumes room: "log_room K" and pol: "policed K s cg p" and prot: "protect_policy s p"
    and r0: "fst (enforce_cgroup_policy K s bprm) = 0"
  shows "logged s (snd (enforce_cgroup_policy K s bprm)) FAIL_OPEN \<or>
    exec_is_foreign_root K bprm \<and>
      (\<exists>st. map_lookup (policy_settings_map s) p = Some st \<and> allow_foreign_root st \<noteq> 0) \<or>
    (\<exists>e off evt. process_evt_storage_map s = Some e \<and> exec_evt K s cg bprm e = (off, evt) \<and> off \<noteq> 0 \<and>
       path_matches s evt off p)"
proof (cases "process_evt_storage_map s")
  case None
  then show ?thesis
    by (simp add: policed_hook [OF pol] emit_defs logged_emit [OF room] FAIL_OPEN_def)
next
  case (Some e)
  let ?evt = "snd (exec_evt K s cg bprm e)" and ?off = "fst (exec_evt K s cg bprm e)"
  have fail: "logged s (snd (snd (populate_evt_with_path K s
        (e\<lparr>cg_tracker_id := cg, foreign := (if exec_is_foreign_root K bprm then 1 else 0)\<rparr>) bprm))) FAIL_OPEN"
    if "?off = 0"
    using that by (intro populate_fails_logged [OF room]) (simp add: exec_evt_def Let_def)
  show ?thesis
    using r0 Some fail foreign_exec_allows [OF room prot, of ?evt ?off] compare_exec_allows [OF room prot, of ?evt ?off]
    by (auto simp: policed_hook [OF pol] enforce_exec_cases Let_def case_prod_beta prod_eq_iff split: if_splits)
qed

lemma hook_denies:
  assumes "fst (enforce_cgroup_policy K s bprm) \<noteq> 0"
  shows "\<exists>cg p st. policed K s cg p \<and> map_lookup (policy_settings_map s) p = Some st \<and>
    settings_mode st \<noteq> POLICY_MODE_MONITOR \<and>
    (exec_is_foreign_root K bprm \<longrightarrow> allow_foreign_root st = 0) \<and>
    fst (enforce_cgroup_policy K s bprm) = - EPERM \<and>
    ((\<exists>bs. ringbuf_monitoring (snd (enforce_cgroup_policy K s bprm)) = ringbuf_monitoring s @ [bs]) \<or>
     (log_room K \<longrightarrow> logged s (snd (enforce_cgroup_policy K s bprm)) {LOG_DROP_VIOLATION}))"
proof -
  let ?cg = "get_tracker_id_from_curr_task K s"
  have "?cg \<noteq> 0" "\<not> exec_is_runtime_bootstrap K s ?cg" "map_lookup (cg_to_policy_map s) ?cg \<noteq> None"
    using assms by (auto simp: enforce_cgroup_policy_def get_process_evt_def Let_def case_prod_beta
        split: if_splits option.splits)
  then obtain p where pol: "policed K s ?cg p" by (auto simp: policed_def)
  obtain e where e: "process_evt_storage_map s = Some e"
    using assms by (auto simp: policed_hook [OF pol] split: option.splits)
  let ?evt = "snd (exec_evt K s ?cg bprm e)" and ?off = "fst (exec_evt K s ?cg bprm e)"
  define R where "R = (if exec_is_foreign_root K bprm then foreign_exec K s ?evt ?off p
    else compare_exec K s ?evt ?off p)"
  have hook: "enforce_cgroup_policy K s bprm =
      (fst R, (snd (snd R))\<lparr>process_evt_storage_map := Some (fst (snd R))\<rparr>)"
    using assms unfolding policed_hook [OF pol] e option.case enforce_exec_cases
    by (auto simp: R_def Let_def case_prod_beta)
  have "fst R \<noteq> 0" using assms by (simp add: hook)
  then have "fst R = - EPERM \<and> protect_policy s p \<and>
    (\<exists>st. map_lookup (policy_settings_map s) p = Some st \<and> (exec_is_foreign_root K bprm \<longrightarrow> allow_foreign_root st = 0)) \<and>
    ((\<exists>bs. ringbuf_monitoring (snd (snd R)) = ringbuf_monitoring s @ [bs]) \<or>
     (log_room K \<longrightarrow> logged s (snd (snd R)) {LOG_DROP_VIOLATION}))"
    using foreign_exec_denies [of K s ?evt ?off p] compare_exec_denies [of K s ?evt ?off p]
    by (cases "exec_is_foreign_root K bprm") (auto simp: R_def protect_policy_def)
  then show ?thesis
    using pol by (intro exI [of _ ?cg] exI [of _ p]) (auto simp: hook protect_policy_def)
qed

end
