(* ===== verification/Policy_Values.thy ===== *)
theory Policy_Values
  imports Exec_Hook
begin

text \<open>
  The user-space side of the string maps, \<^verbatim>\<open>src/internal/bpf/policy_values.go\<close>: how the list of
  allowed binaries of a policy becomes inner maps of the eleven outer maps the program of
  \<^verbatim>\<open>Exec_Hook\<close> reads, and \<^verbatim>\<open>src/internal/bpf/policy_settings_operation.go\<close>. The contract between the
  writer and the reader of the maps is the locale \<open>string_table\<close>.
\<close>

section \<open>Definitions\<close>

datatype go_error =
    Err_string_empty
  | Err_string_too_long
  | Err_unsupported_size nat
  | Err_new_map
  | Err_map errno
  | Err_policy_zero
  | Err_policy_nonzero u64
  | Err_overlapping u64 u64
  | Panic_index_out_of_range

text \<open>
  The system the agent runs on: the kernel version as \<^verbatim>\<open>GetCurrKernelVersion\<close> reports it, whether
  the creation of the inner map for an index fails, and whether an allocation for a map element
  fails.
\<close>

record agent_env =
  curr_kernel_version :: int
  new_map_fails :: "nat \<Rightarrow> bool"
  nomem :: bool

definition stringMapsSizes :: "nat list" where
  "stringMapsSizes = [24, 48, 72, 96, 120, 144, 256, 512, 1024, 2048, 4096]"

abbreviation fixedMaxEntriesPre5_9 :: nat where "fixedMaxEntriesPre5_9 \<equiv> 500"

definition createStringMaps :: "bytes list list" where
  "createStringMaps = replicate 11 []"

definition stringPaddedLen :: "nat \<Rightarrow> nat" where
  "stringPaddedLen s =
     (if s \<le> 6 * 24 then (if s mod 24 \<noteq> 0 then (s div 24 + 1) * 24 else s)
      else if s \<le> 256 then 256
      else if s \<le> 512 then 512
      else if s \<le> 1024 then 1024
      else if s \<le> 2048 then 2048
      else 4096)"

text \<open>The loop that removes trailing NUL bytes indexes an empty string when nothing else is left.\<close>

fun strip_nul :: "bytes \<Rightarrow> go_error + bytes" where
  "strip_nul [] = Inl Panic_index_out_of_range"
| "strip_nul v = (if last v = 0 then strip_nul (butlast v) else Inr v)"

definition argStringSelectorValue :: "bytes \<Rightarrow> bool \<Rightarrow> int \<Rightarrow> go_error + bytes \<times> nat" where
  "argStringSelectorValue v removeNul currKernelVer =
     (case (if removeNul then strip_nul v else Inr v) of
        Inl e \<Rightarrow> Inl e
      | Inr b \<Rightarrow>
          (let s = length b in
           if s = 0 then Inl Err_string_empty
           else if currKernelVer < KERNEL_VERSION 5 11 0 \<and> s > 512 then Inl Err_string_too_long
           else if \<not> currKernelVer < KERNEL_VERSION 5 11 0 \<and> s > 4096 then Inl Err_string_too_long
           else Inr (b @ replicate (4096 - s) 0, stringPaddedLen s)))"

text \<open>The index of the first map with the given key size.\<close>

fun size_index :: "nat list \<Rightarrow> nat \<Rightarrow> nat option" where
  "size_index [] n = None"
| "size_index (k # ks) n = (if n = k then Some 0 else map_option Suc (size_index ks n))"

definition putValueInMap :: "int \<Rightarrow> bytes list list \<Rightarrow> bytes \<Rightarrow> go_error + bytes list list" where
  "putValueInMap ver m v =
     (case argStringSelectorValue v False ver of
        Inl e \<Rightarrow> Inl e
      | Inr (value, padded) \<Rightarrow>
          (case size_index stringMapsSizes padded of
             Some sizeIdx \<Rightarrow> Inr (m[sizeIdx := List.insert value (m ! sizeIdx)])
           | None \<Rightarrow> Inl (Err_unsupported_size padded)))"

fun put_values :: "int \<Rightarrow> bytes list list \<Rightarrow> bytes list \<Rightarrow> go_error + bytes list list" where
  "put_values ver m [] = Inr m"
| "put_values ver m (v # vs) =
     (case putValueInMap ver m v of Inl e \<Rightarrow> Inl e | Inr m' \<Rightarrow> put_values ver m' vs)"

definition convertValuesToBPFStringMaps :: "int \<Rightarrow> bytes list \<Rightarrow> go_error + bytes list list" where
  "convertValuesToBPFStringMaps ver values = put_values ver createStringMaps values"

text \<open>Filling a new inner map, one update per value cut to the key size.\<close>

fun fill_inner :: "bool \<Rightarrow> (bytes, u8) bpf_hash \<Rightarrow> nat \<Rightarrow> bytes list \<Rightarrow> errno + (bytes, u8) bpf_hash" where
  "fill_inner nm inner mapKeySize [] = Inr inner"
| "fill_inner nm inner mapKeySize (rawVal # vals) =
     (case map_update nm inner (take mapKeySize rawVal) 1 BPF_ANY of
        Inl e \<Rightarrow> Inl e
      | Inr inner' \<Rightarrow> fill_inner nm inner' mapKeySize vals)"

definition build_inner :: "agent_env \<Rightarrow> nat \<Rightarrow> bool \<Rightarrow> bytes list \<Rightarrow> go_error + inner_map" where
  "build_inner A index isPre5_9 subMap =
     (let mapKeySize = stringMapsSizes ! index;
          maxEntries = (if isPre5_9 then fixedMaxEntriesPre5_9 else length subMap) in
      if new_map_fails A index then Inl Err_new_map
      else
        (case fill_inner (nomem A) \<lparr>max_entries = maxEntries, elems = []\<rparr> mapKeySize subMap of
           Inl e \<Rightarrow> Inl (Err_map e)
         | Inr inner \<Rightarrow> Inr \<lparr>key_size = mapKeySize, keys = map fst (elems inner)\<rparr>))"

text \<open>Publishing an inner map in the outer map with the given index.\<close>

definition set_outer ::
  "bpf_state \<Rightarrow> nat \<Rightarrow> errno + (u64, inner_map) bpf_hash \<Rightarrow> go_error option \<times> bpf_state" where
  "set_outer s index r =
     (case r of
        Inl e \<Rightarrow> (Some (Err_map e), s)
      | Inr m \<Rightarrow> (None, s\<lparr>pol_str_maps := (pol_str_maps s)(index := m)\<rparr>))"

definition generateInnerBPFMaps ::
  "agent_env \<Rightarrow> bpf_state \<Rightarrow> u64 \<Rightarrow> nat \<Rightarrow> bool \<Rightarrow> bytes list \<Rightarrow> go_error option \<times> bpf_state" where
  "generateInnerBPFMaps A s policyID index isPre5_9 subMap =
     (case build_inner A index isPre5_9 subMap of
        Inl e \<Rightarrow> (Some e, s)
      | Inr inner \<Rightarrow>
          (let outer = pol_str_maps s index;
               r = map_update (nomem A) outer policyID inner BPF_NOEXIST;
               r = (if r = Inl EEXIST then map_update (nomem A) outer policyID inner BPF_ANY else r)
           in set_outer s index r))"

definition replaceInnerBPFMap ::
  "agent_env \<Rightarrow> bpf_state \<Rightarrow> u64 \<Rightarrow> nat \<Rightarrow> bool \<Rightarrow> bytes list \<Rightarrow> go_error option \<times> bpf_state" where
  "replaceInnerBPFMap A s policyID index isPre5_9 subMap =
     (case build_inner A index isPre5_9 subMap of
        Inl e \<Rightarrow> (Some e, s)
      | Inr inner \<Rightarrow>
          set_outer s index (map_update (nomem A) (pol_str_maps s index) policyID inner BPF_ANY))"

text \<open>A deletion for which a missing key is no error.\<close>

definition delete_outer :: "bpf_state \<Rightarrow> u64 \<Rightarrow> nat \<Rightarrow> go_error option \<times> bpf_state" where
  "delete_outer s policyID index =
     (case map_delete (pol_str_maps s index) policyID of
        Inl ENOENT \<Rightarrow> (None, s)
      | r \<Rightarrow> set_outer s index r)"

fun generate_loop ::
  "agent_env \<Rightarrow> bool \<Rightarrow> u64 \<Rightarrow> bpf_state \<Rightarrow> nat \<Rightarrow> bytes list list \<Rightarrow> go_error option \<times> bpf_state" where
  "generate_loop A pre policyID s i [] = (None, s)"
| "generate_loop A pre policyID s i (subMap # subMaps) =
     (if subMap = [] then generate_loop A pre policyID s (Suc i) subMaps
      else
        (case generateInnerBPFMaps A s policyID i pre subMap of
           (Some e, s') \<Rightarrow> (Some e, s')
         | (None, s') \<Rightarrow> generate_loop A pre policyID s' (Suc i) subMaps))"

definition generateBPFMaps :: "agent_env \<Rightarrow> bpf_state \<Rightarrow> u64 \<Rightarrow> bytes list \<Rightarrow> go_error option \<times> bpf_state" where
  "generateBPFMaps A s policyID values =
     (case convertValuesToBPFStringMaps (curr_kernel_version A) values of
        Inl e \<Rightarrow> (Some e, s)
      | Inr subMaps \<Rightarrow>
          generate_loop A (curr_kernel_version A < KERNEL_VERSION 5 9 0) policyID s 0 subMaps)"

fun remove_loop :: "u64 \<Rightarrow> bpf_state \<Rightarrow> nat list \<Rightarrow> go_error option \<times> bpf_state" where
  "remove_loop policyID s [] = (None, s)"
| "remove_loop policyID s (i # is) =
     (case delete_outer s policyID i of
        (Some e, s') \<Rightarrow> (Some e, s')
      | (None, s') \<Rightarrow> remove_loop policyID s' is)"

definition removeBPFMaps :: "bpf_state \<Rightarrow> u64 \<Rightarrow> go_error option \<times> bpf_state" where
  "removeBPFMaps s policyID = remove_loop policyID s [0..<11]"

fun replace_loop ::
  "agent_env \<Rightarrow> bool \<Rightarrow> u64 \<Rightarrow> bpf_state \<Rightarrow> nat \<Rightarrow> bytes list list \<Rightarrow> go_error option \<times> bpf_state" where
  "replace_loop A pre policyID s i [] = (None, s)"
| "replace_loop A pre policyID s i (subMap # subMaps) =
     (case (if subMap = [] then delete_outer s policyID i else replaceInnerBPFMap A s policyID i pre subMap) of
        (Some e, s') \<Rightarrow> (Some e, s')
      | (None, s') \<Rightarrow> replace_loop A pre policyID s' (Suc i) subMaps)"

definition replaceBPFMaps :: "agent_env \<Rightarrow> bpf_state \<Rightarrow> u64 \<Rightarrow> bytes list \<Rightarrow> go_error option \<times> bpf_state" where
  "replaceBPFMaps A s policyID values =
     (case convertValuesToBPFStringMaps (curr_kernel_version A) values of
        Inl e \<Rightarrow> (Some e, s)
      | Inr subMaps \<Rightarrow>
          replace_loop A (curr_kernel_version A < KERNEL_VERSION 5 9 0) policyID s 0 subMaps)"

text \<open>The settings of a policy.\<close>

definition updatePolicySettings ::
  "agent_env \<Rightarrow> bpf_state \<Rightarrow> u64 \<Rightarrow> u8 \<Rightarrow> bool \<Rightarrow> go_error option \<times> bpf_state" where
  "updatePolicySettings A s policyID m allowForeignRoot =
     (case map_update (nomem A) (policy_settings_map s) policyID
             \<lparr>settings_mode = m, allow_foreign_root = (if allowForeignRoot then 1 else 0)\<rparr> BPF_ANY of
        Inl e \<Rightarrow> (Some (Err_map e), s)
      | Inr m \<Rightarrow> (None, s\<lparr>policy_settings_map := m\<rparr>))"

definition deletePolicySettings :: "bpf_state \<Rightarrow> u64 \<Rightarrow> go_error option \<times> bpf_state" where
  "deletePolicySettings s policyID =
     (case map_delete (policy_settings_map s) policyID of
        Inl ENOENT \<Rightarrow> (None, s)
      | Inl e \<Rightarrow> (Some (Err_map e), s)
      | Inr m \<Rightarrow> (None, s\<lparr>policy_settings_map := m\<rparr>))"

section \<open>The contract of the string maps\<close>

text \<open>
  The writer puts a string of length \<open>n\<close> into the table with index \<open>widx n\<close>, padded to the key size
  of that table; the reader looks into the table \<open>ridx n\<close>. Strings hold no NUL byte. Where the two
  indices agree, the reader finds exactly the strings that were put in; where they differ, it finds
  nothing.
\<close>

locale string_table =
  fixes widx :: "nat \<Rightarrow> nat" and ridx :: "nat \<Rightarrow> int" and ksize :: "nat \<Rightarrow> nat"
    and valid :: "nat \<Rightarrow> bool" and agree :: "nat \<Rightarrow> bool"
  assumes fits: "valid n \<Longrightarrow> n \<le> ksize (widx n)"
    and reader_fits: "valid n \<Longrightarrow> n \<le> ksize (nat (ridx n))"
    and agree_ridx: "valid n \<Longrightarrow> agree n \<Longrightarrow> ridx n = int (widx n)"
    and differ_ridx: "valid n \<Longrightarrow> \<not> agree n \<Longrightarrow> nat (ridx n) \<noteq> widx n"
begin

lemma pad_to_inj:
  assumes "0 \<notin> set x" "0 \<notin> set y" "length x \<le> k" "length y \<le> k" "pad_to k x = pad_to k y"
  shows "x = y"
  using assms padded_eq_iff [of x y "k - length x" "k - length y"] by (simp add: pad_to_def)

lemma reader_finds:
  assumes V: "\<forall>v\<in>V. 0 \<notin> set v \<and> valid (length v)" and x: "0 \<notin> set x" "valid (length x)"
    and i: "i = nat (ridx (length x))"
  shows "pad_to (ksize i) x \<in> pad_to (ksize i) ` {v \<in> V. widx (length v) = i} \<longleftrightarrow>
    x \<in> V \<and> agree (length x)"
proof
  assume "pad_to (ksize i) x \<in> pad_to (ksize i) ` {v \<in> V. widx (length v) = i}"
  then obtain v where v: "v \<in> V" "widx (length v) = i" "pad_to (ksize i) x = pad_to (ksize i) v"
    by blast
  have "length x \<le> ksize i" using reader_fits [OF x(2)] i by simp
  moreover have "length v \<le> ksize i" using V v fits [of "length v"] by auto
  ultimately have "x = v" using pad_to_inj [of x v "ksize i"] V v x by simp
  then show "x \<in> V \<and> agree (length x)"
    using v x i differ_ridx [OF x(2)] by auto
next
  assume "x \<in> V \<and> agree (length x)"
  then show "pad_to (ksize i) x \<in> pad_to (ksize i) ` {v \<in> V. widx (length v) = i}"
    using i agree_ridx [OF x(2)] by auto
qed

end

abbreviation table_length :: "nat \<Rightarrow> bool" where
  "table_length n \<equiv> 0 < n \<and> n \<le> 4096"

lemma c_index_range: "table_length n \<Longrightarrow> 0 \<le> c_index n \<and> c_index n \<le> 10"
  using bucket_less [of n] by (simp add: c_index_cases)

lemma c_index_fits: "table_length n \<Longrightarrow> n \<le> STRING_MAPS_SIZE ! nat (c_index n)"
  using bucket_fits [of n] by (simp add: c_index_cases STRING_MAPS_SIZE_def)

interpretation code_tables: string_table bucket c_index "(!) STRING_MAPS_SIZE" table_length "\<lambda>n. n \<notin> misplaced"
proof unfold_locales
  fix n assume n: "table_length n"
  show "n \<le> STRING_MAPS_SIZE ! bucket n" using bucket_fits n by simp
  show "n \<le> STRING_MAPS_SIZE ! nat (c_index n)" using c_index_fits [OF n] .
  show "n \<notin> misplaced \<Longrightarrow> c_index n = int (bucket n)" using c_index_bucket n by simp
  show "\<not> n \<notin> misplaced \<Longrightarrow> nat (c_index n) \<noteq> bucket n"
    using c_index_misplaced [of n] c_index_range [OF n] by (metis int_nat_eq)
qed

section \<open>From values to tables\<close>

lemma stringMapsSizes_eq: "stringMapsSizes = STRING_MAPS_SIZE"
  by (simp add: stringMapsSizes_def STRING_MAPS_SIZE_def)

lemma length_sizes [simp]: "length STRING_MAPS_SIZE = 11"
  by (simp add: STRING_MAPS_SIZE_def)

lemma stringPaddedLen_bucket:
  assumes "table_length n"
  shows "stringPaddedLen n = STRING_MAPS_SIZE ! bucket n"
proof (cases "n \<le> 144")
  case True
  then have k: "(n + 23) div 24 \<in> {1, 2, 3, 4, 5, 6}" using assms by auto
  have "bucket n = (n + 23) div 24 - 1" using bucket_small [of n] assms True by simp
  then show ?thesis
    using k padded_div [of n] True assms by (auto simp: stringPaddedLen_def STRING_MAPS_SIZE_def)
next
  case False
  then show ?thesis
    using assms by (simp add: stringPaddedLen_def bucket_cases STRING_MAPS_SIZE_def)
qed

lemma size_index_nth: "distinct ks \<Longrightarrow> i < length ks \<Longrightarrow> size_index ks (ks ! i) = Some i"
proof (induction ks arbitrary: i)
  case (Cons k ks)
  then show ?case by (cases i) (auto simp: nth_eq_iff_index_eq)
qed simp

lemma distinct_sizes: "distinct STRING_MAPS_SIZE"
  by (simp add: STRING_MAPS_SIZE_def)

text \<open>The longest value the running kernel takes.\<close>

definition max_value_len :: "int \<Rightarrow> nat" where
  "max_value_len ver = (if ver < KERNEL_VERSION 5 11 0 then 512 else 4096)"

definition value_ok :: "int \<Rightarrow> bytes \<Rightarrow> bool" where
  "value_ok ver v \<longleftrightarrow> 0 < length v \<and> length v \<le> max_value_len ver"

lemma value_ok_table_length: "value_ok ver v \<Longrightarrow> table_length (length v)"
  by (auto simp: value_ok_def max_value_len_def split: if_splits)

lemma putValueInMap_eq:
  "putValueInMap ver m v =
     (if value_ok ver v
      then Inr (m[bucket (length v) := List.insert (pad_to 4096 v) (m ! bucket (length v))])
      else if v = [] then Inl Err_string_empty else Inl Err_string_too_long)"
proof (cases "value_ok ver v")
  case True
  have len: "table_length (length v)" by (rule value_ok_table_length [OF True])
  have "argStringSelectorValue v False ver = Inr (pad_to 4096 v, stringPaddedLen (length v))"
    using True len by (auto simp: argStringSelectorValue_def value_ok_def max_value_len_def Let_def pad_to_def)
  moreover have "size_index stringMapsSizes (stringPaddedLen (length v)) = Some (bucket (length v))"
    using len bucket_less [of "length v"]
    by (simp add: stringMapsSizes_eq stringPaddedLen_bucket size_index_nth distinct_sizes)
  ultimately show ?thesis
    using True by (simp add: putValueInMap_def)
next
  case False
  then show ?thesis
    by (auto simp: putValueInMap_def argStringSelectorValue_def value_ok_def max_value_len_def Let_def
        split: if_splits)
qed

text \<open>The tables that hold exactly the given values.\<close>

definition tables_hold :: "bytes list list \<Rightarrow> bytes set \<Rightarrow> bool" where
  "tables_hold m V \<longleftrightarrow> length m = 11 \<and>
     (\<forall>i<11. distinct (m ! i) \<and> set (m ! i) = pad_to 4096 ` {v \<in> V. bucket (length v) = i})"

lemma tables_hold_insert:
  assumes "tables_hold m V" and "table_length (length v)"
  shows "tables_hold (m[bucket (length v) := List.insert (pad_to 4096 v) (m ! bucket (length v))]) (insert v V)"
  unfolding tables_hold_def
proof (intro conjI allI impI)
  fix i :: nat assume "i < 11"
  then show "distinct (m[bucket (length v) := List.insert (pad_to 4096 v) (m ! bucket (length v))] ! i)"
    using assms by (cases "i = bucket (length v)") (auto simp: tables_hold_def)
  show "set (m[bucket (length v) := List.insert (pad_to 4096 v) (m ! bucket (length v))] ! i) =
      pad_to 4096 ` {u \<in> insert v V. bucket (length u) = i}"
    using assms \<open>i < 11\<close> by (cases "i = bucket (length v)") (auto simp: tables_hold_def)
qed (use assms in \<open>simp add: tables_hold_def\<close>)

lemma put_values_ok:
  "tables_hold m V \<Longrightarrow> \<forall>v\<in>set vs. value_ok ver v \<Longrightarrow>
     \<exists>m'. put_values ver m vs = Inr m' \<and> tables_hold m' (V \<union> set vs)"
proof (induction vs arbitrary: m V)
  case (Cons v vs)
  then show ?case
    using Cons.IH [OF tables_hold_insert [OF Cons.prems(1) value_ok_table_length [of ver v]]]
    by (simp add: putValueInMap_eq)
qed simp

lemma put_values_error:
  "\<exists>v\<in>set vs. \<not> value_ok ver v \<Longrightarrow>
     put_values ver m vs = Inl Err_string_empty \<or> put_values ver m vs = Inl Err_string_too_long"
  by (induction vs arbitrary: m) (auto simp: putValueInMap_eq)

lemma tables_hold_empty: "tables_hold createStringMaps {}"
  by (simp add: tables_hold_def createStringMaps_def)

lemma convert_ok:
  "\<forall>v\<in>set vs. value_ok ver v \<Longrightarrow>
     \<exists>m. convertValuesToBPFStringMaps ver vs = Inr m \<and> tables_hold m (set vs)"
  using put_values_ok [OF tables_hold_empty] by (simp add: convertValuesToBPFStringMaps_def)

lemma convert_cases:
  "(\<exists>m. convertValuesToBPFStringMaps ver vs = Inr m \<and> tables_hold m (set vs) \<and> (\<forall>v\<in>set vs. value_ok ver v)) \<or>
   (\<exists>e. convertValuesToBPFStringMaps ver vs = Inl e \<and> (\<exists>v\<in>set vs. \<not> value_ok ver v))"
  using convert_ok [of vs ver] put_values_error [of vs ver createStringMaps]
  by (auto simp: convertValuesToBPFStringMaps_def)

section \<open>Building an inner map\<close>

lemma keys_of_hash: "set (map fst (elems m)) = dom (map_lookup m)"
proof -
  have "map_lookup m = map_of (elems m)" by (simp add: fun_eq_iff map_lookup_def)
  then show ?thesis by (simp add: dom_map_of_conv_image_fst)
qed

lemma fill_inner_keys:
  assumes "hash_inv inner" and "fill_inner nm inner k vals = Inr inner'"
  shows "hash_inv inner' \<and> dom (map_lookup inner') = dom (map_lookup inner) \<union> take k ` set vals"
  using assms
proof (induction vals arbitrary: inner)
  case (Cons v vals)
  then obtain i2 where u: "map_update nm inner (take k v) 1 BPF_ANY = Inr i2"
    and f: "fill_inner nm i2 k vals = Inr inner'"
    by (auto split: sum.splits)
  have "hash_inv i2" "map_lookup i2 = (map_lookup inner)(take k v \<mapsto> 1)"
    using bpf.invar_update [OF Cons.prems(1) u] bpf.update_lookup [OF Cons.prems(1) u] by simp_all
  then show ?case using Cons.IH [OF _ f] by auto
qed simp

lemma fill_inner_succeeds:
  "length (elems inner) + length vals \<le> max_entries inner \<Longrightarrow>
     \<exists>inner'. fill_inner False inner k vals = Inr inner'"
proof (induction vals arbitrary: inner)
  case (Cons v vals)
  obtain i2 where u: "map_update False inner (take k v) 1 BPF_ANY = Inr i2"
    and m: "max_entries i2 = max_entries inner" and l: "length (elems i2) \<le> Suc (length (elems inner))"
  proof
    let ?i2 = "inner\<lparr>elems := AList.update (take k v) 1 (elems inner)\<rparr>"
    show "map_update False inner (take k v) 1 BPF_ANY = Inr ?i2"
      using Cons.prems by (auto simp: map_update_def split: option.split)
    show "length (elems ?i2) \<le> Suc (length (elems inner))"
      using length_update_new [of "take k v" "elems inner"] length_update_old [of "take k v" "elems inner"]
      by (cases "take k v \<in> set (map fst (elems inner))") auto
  qed simp
  then show ?case using Cons.IH [of i2] Cons.prems by simp
qed simp

lemma hash_inv_empty [simp]: "hash_inv \<lparr>max_entries = n, elems = []\<rparr>"
  by (simp add: hash_inv_def)

lemma dom_lookup_empty [simp]: "dom (map_lookup \<lparr>max_entries = n, elems = []\<rparr>) = {}"
  by (simp add: dom_def map_lookup_def)

lemma build_inner_keys:
  assumes "build_inner A i pre sub = Inr inner"
  shows "key_size inner = stringMapsSizes ! i \<and> set (keys inner) = take (stringMapsSizes ! i) ` set sub"
proof -
  obtain h where h: "fill_inner (nomem A) \<lparr>max_entries = if pre then fixedMaxEntriesPre5_9 else length sub, elems = []\<rparr>
        (stringMapsSizes ! i) sub = Inr h"
    and inner: "inner = \<lparr>key_size = stringMapsSizes ! i, keys = map fst (elems h)\<rparr>"
    using assms by (auto simp: build_inner_def Let_def split: if_splits sum.splits)
  have "set (map fst (elems h)) = take (stringMapsSizes ! i) ` set sub"
    unfolding keys_of_hash using fill_inner_keys [OF hash_inv_empty h] by simp
  then show ?thesis
    by (simp only: inner inner_map.simps)
qed

lemma build_inner_succeeds:
  assumes "\<not> nomem A" "\<not> new_map_fails A i" "pre \<longrightarrow> length sub \<le> fixedMaxEntriesPre5_9"
  shows "\<exists>inner. build_inner A i pre sub = Inr inner"
proof -
  let ?max = "if pre then fixedMaxEntriesPre5_9 else length sub"
  have "length sub \<le> ?max" using assms(3) by simp
  then obtain h where "fill_inner False \<lparr>max_entries = ?max, elems = []\<rparr> (stringMapsSizes ! i) sub = Inr h"
    using fill_inner_succeeds [of "\<lparr>max_entries = ?max, elems = []\<rparr>" sub] by auto
  then show ?thesis
    using assms(1,2) unfolding build_inner_def Let_def by simp
qed

section \<open>Updating the outer maps\<close>

definition outer_inv :: "bpf_state \<Rightarrow> bool" where
  "outer_inv s \<longleftrightarrow> (\<forall>i. hash_inv (pol_str_maps s i))"

text \<open>The entry of a policy in the outer map with index \<open>i\<close> after its table has been written.\<close>

definition holds_table :: "bytes list \<Rightarrow> nat \<Rightarrow> inner_map option \<Rightarrow> bool" where
  "holds_table sub i entry \<longleftrightarrow>
     (if sub = [] then entry = None
      else \<exists>inner. entry = Some inner \<and> key_size inner = stringMapsSizes ! i \<and>
        set (keys inner) = take (stringMapsSizes ! i) ` set sub)"

text \<open>A step of the loops changes the entry of one policy in one outer map and nothing else.\<close>

definition outer_entry :: "bpf_state \<Rightarrow> nat \<Rightarrow> u64 \<Rightarrow> inner_map option" where
  "outer_entry s i p = map_lookup (pol_str_maps s i) p"

definition writes_entry :: "bpf_state \<Rightarrow> bpf_state \<Rightarrow> nat \<Rightarrow> u64 \<Rightarrow> bool" where
  "writes_entry s s' i p \<longleftrightarrow> outer_inv s' \<and>
     (\<forall>j q. (j, q) \<noteq> (i, p) \<longrightarrow> outer_entry s' j q = outer_entry s j q) \<and>
     (\<forall>j. j \<noteq> i \<longrightarrow> pol_str_maps s' j = pol_str_maps s j) \<and>
     (\<exists>f. s' = s\<lparr>pol_str_maps := f\<rparr>)"

lemma writes_entry_inv: "writes_entry s s' i p \<Longrightarrow> outer_inv s'"
  by (simp add: writes_entry_def)

lemma set_outer_update:
  assumes "outer_inv s" and "map_update nm (pol_str_maps s i) p inner fl = r" and "set_outer s i r = (None, s')"
  shows "writes_entry s s' i p \<and> outer_entry s' i p = Some inner"
proof -
  obtain m where m: "r = Inr m" and s': "s' = s\<lparr>pol_str_maps := (pol_str_maps s)(i := m)\<rparr>"
    using assms(3) by (auto simp: set_outer_def split: sum.splits)
  have inv: "hash_inv (pol_str_maps s i)" using assms(1) by (simp add: outer_inv_def)
  show ?thesis
    using bpf.invar_update [OF inv assms(2) [unfolded m]] bpf.update_lookup [OF inv assms(2) [unfolded m]] assms(1)
    by (auto simp: writes_entry_def outer_entry_def outer_inv_def s')
qed

lemma delete_outer_succeeds: "fst (delete_outer s p i) = None"
  by (auto simp: delete_outer_def map_delete_def set_outer_def)

lemma delete_outer_effect:
  assumes "outer_inv s" and "delete_outer s p i = (None, s')"
  shows "writes_entry s s' i p \<and> outer_entry s' i p = None"
proof (cases "map_delete (pol_str_maps s i) p")
  case (Inl e)
  then show ?thesis
    using assms by (auto simp: delete_outer_def map_delete_def writes_entry_def outer_entry_def
        split: if_splits intro: exI [of _ "pol_str_maps s"])
next
  case (Inr m)
  have inv: "hash_inv (pol_str_maps s i)" using assms(1) by (simp add: outer_inv_def)
  show ?thesis
    using Inr assms bpf.delete_lookup [OF inv Inr] bpf.invar_delete [OF inv Inr]
    by (auto simp: delete_outer_def set_outer_def writes_entry_def outer_entry_def outer_inv_def)
qed

definition tables_written :: "bpf_state \<Rightarrow> bpf_state \<Rightarrow> nat \<Rightarrow> bytes list list \<Rightarrow> u64 \<Rightarrow> bool" where
  "tables_written s s' i subs p \<longleftrightarrow> outer_inv s' \<and>
     (\<forall>j q. q \<noteq> p \<or> j < i \<or> i + length subs \<le> j \<longrightarrow> outer_entry s' j q = outer_entry s j q) \<and>
     (\<forall>j<length subs. holds_table (subs ! j) (i + j) (outer_entry s' (i + j) p)) \<and>
     (\<exists>f. s' = s\<lparr>pol_str_maps := f\<rparr>)"

lemma tables_written_Nil: "outer_inv s \<Longrightarrow> tables_written s s i [] p"
  by (auto simp: tables_written_def intro: exI [of _ "pol_str_maps s"])

lemma tables_written_Cons:
  assumes w: "writes_entry s s1 i p" and h: "holds_table sub i (outer_entry s1 i p)"
    and t: "tables_written s1 s' (Suc i) subs p"
  shows "tables_written s s' i (sub # subs) p"
proof -
  have "holds_table ((sub # subs) ! j) (i + j) (outer_entry s' (i + j) p)" if "j < length (sub # subs)" for j
    using that t h by (cases j) (auto simp: tables_written_def)
  moreover have "outer_entry s' j q = outer_entry s j q" if "q \<noteq> p \<or> j < i \<or> i + length (sub # subs) \<le> j" for j q
    using that t w by (cases "q = p") (auto simp: tables_written_def writes_entry_def)
  moreover have "\<exists>f. s' = s\<lparr>pol_str_maps := f\<rparr>"
    using t w by (auto simp: tables_written_def writes_entry_def)
  ultimately show ?thesis
    using t by (auto simp: tables_written_def)
qed

lemma build_inner_holds:
  "build_inner A i pre sub = Inr inner \<Longrightarrow> sub \<noteq> [] \<Longrightarrow> holds_table sub i (Some inner)"
  using build_inner_keys [of A i pre sub inner] by (simp add: holds_table_def)

lemma replaceInnerBPFMap_effect:
  assumes "outer_inv s" and "sub \<noteq> []" and "replaceInnerBPFMap A s p i pre sub = (None, s')"
  shows "writes_entry s s' i p \<and> holds_table sub i (outer_entry s' i p)"
proof -
  obtain inner where b: "build_inner A i pre sub = Inr inner"
    and o: "set_outer s i (map_update (nomem A) (pol_str_maps s i) p inner BPF_ANY) = (None, s')"
    using assms(3) by (auto simp: replaceInnerBPFMap_def split: sum.splits)
  show ?thesis
    using set_outer_update [OF assms(1) refl o] build_inner_holds [OF b assms(2)] by simp
qed

lemma generateInnerBPFMaps_effect:
  assumes "outer_inv s" and "sub \<noteq> []" and "generateInnerBPFMaps A s p i pre sub = (None, s')"
  shows "writes_entry s s' i p \<and> holds_table sub i (outer_entry s' i p)"
proof -
  obtain inner where b: "build_inner A i pre sub = Inr inner"
    using assms(3) by (auto simp: generateInnerBPFMaps_def split: sum.splits)
  then obtain fl where o: "set_outer s i (map_update (nomem A) (pol_str_maps s i) p inner fl) = (None, s')"
    using assms(3) by (auto simp: generateInnerBPFMaps_def Let_def split: if_splits)
  show ?thesis
    using set_outer_update [OF assms(1) refl o] build_inner_holds [OF b assms(2)] by simp
qed

lemma replace_loop_effect:
  "outer_inv s \<Longrightarrow> replace_loop A pre p s i subs = (None, s') \<Longrightarrow> tables_written s s' i subs p"
proof (induction subs arbitrary: s i)
  case Nil
  then show ?case by (simp add: tables_written_Nil)
next
  case (Cons sub subs)
  obtain s1 where s1: "(if sub = [] then delete_outer s p i else replaceInnerBPFMap A s p i pre sub) = (None, s1)"
    and rest: "replace_loop A pre p s1 (Suc i) subs = (None, s')"
    using Cons.prems(2) by (auto split: prod.splits option.splits)
  have "writes_entry s s1 i p \<and> holds_table sub i (outer_entry s1 i p)"
  proof (cases "sub = []")
    case True
    then show ?thesis using delete_outer_effect [OF Cons.prems(1), of p i s1] s1 by (simp add: holds_table_def)
  next
    case False
    then show ?thesis using replaceInnerBPFMap_effect [OF Cons.prems(1)] s1 by simp
  qed
  then show ?case
    using Cons.IH [OF writes_entry_inv rest] tables_written_Cons by blast
qed

lemma generate_loop_effect:
  "outer_inv s \<Longrightarrow> \<forall>j\<ge>i. outer_entry s j p = None \<Longrightarrow> generate_loop A pre p s i subs = (None, s') \<Longrightarrow>
     tables_written s s' i subs p"
proof (induction subs arbitrary: s i)
  case Nil
  then show ?case by (simp add: tables_written_Nil)
next
  case (Cons sub subs)
  show ?case
  proof (cases "sub = []")
    case True
    have "writes_entry s s i p \<and> holds_table sub i (outer_entry s i p)"
      using True Cons.prems by (auto simp: writes_entry_def holds_table_def intro: exI [of _ "pol_str_maps s"])
    then show ?thesis
      using Cons.IH [of s "Suc i"] Cons.prems True by (auto intro: tables_written_Cons)
  next
    case False
    then obtain s1 where s1: "generateInnerBPFMaps A s p i pre sub = (None, s1)"
      and rest: "generate_loop A pre p s1 (Suc i) subs = (None, s')"
      using Cons.prems(3) by (auto split: prod.splits option.splits)
    have w: "writes_entry s s1 i p \<and> holds_table sub i (outer_entry s1 i p)"
      using generateInnerBPFMaps_effect [OF Cons.prems(1) False s1] .
    then have "\<forall>j\<ge>Suc i. outer_entry s1 j p = None"
      using Cons.prems(2) by (auto simp: writes_entry_def)
    then show ?thesis
      using Cons.IH [OF writes_entry_inv _ rest] w tables_written_Cons by blast
  qed
qed

section \<open>What the reader finds after the writer is done\<close>

text \<open>The string maps of policy \<open>p\<close> hold the values \<open>V\<close>, each in the table for its length.\<close>

definition policy_holds :: "bpf_state \<Rightarrow> u64 \<Rightarrow> bytes set \<Rightarrow> bool" where
  "policy_holds s p V \<longleftrightarrow>
     (\<forall>i<11. case outer_entry s i p of
        None \<Rightarrow> {v \<in> V. bucket (length v) = i} = {}
      | Some m \<Rightarrow> key_size m = STRING_MAPS_SIZE ! i \<and>
          set (keys m) = pad_to (STRING_MAPS_SIZE ! i) ` {v \<in> V. bucket (length v) = i})"

lemma take_pad_to: "k \<le> n \<Longrightarrow> take k (pad_to n v) = pad_to k v"
  by (rule nth_equalityI) (auto simp: pad_to_def nth_append)

lemma sizes_le: "i < 11 \<Longrightarrow> STRING_MAPS_SIZE ! i \<le> 4096"
  by (auto simp: STRING_MAPS_SIZE_def less_Suc_eq eval_nat_numeral)

lemma tables_written_policy_holds:
  assumes t: "tables_hold subs V" and w: "tables_written s s' 0 subs p"
  shows "policy_holds s' p V"
  unfolding policy_holds_def
proof (intro allI impI)
  fix i :: nat assume i: "i < 11"
  have sub: "set (subs ! i) = pad_to 4096 ` {v \<in> V. bucket (length v) = i}" and "length subs = 11"
    using t i by (auto simp: tables_hold_def)
  then have h: "holds_table (subs ! i) i (outer_entry s' i p)"
    using w i by (auto simp: tables_written_def)
  have "take (STRING_MAPS_SIZE ! i) ` set (subs ! i) =
      pad_to (STRING_MAPS_SIZE ! i) ` {v \<in> V. bucket (length v) = i}"
    by (simp add: sub image_image take_pad_to sizes_le [OF i])
  then show "case outer_entry s' i p of
        None \<Rightarrow> {v \<in> V. bucket (length v) = i} = {}
      | Some m \<Rightarrow> key_size m = STRING_MAPS_SIZE ! i \<and>
          set (keys m) = pad_to (STRING_MAPS_SIZE ! i) ` {v \<in> V. bucket (length v) = i}"
    using h sub by (auto simp: holds_table_def stringMapsSizes_eq split: option.split if_splits)
qed

lemma allow_listed_iff:
  assumes h: "policy_holds s p V" and V: "\<forall>v\<in>V. 0 \<notin> set v \<and> table_length (length v)"
    and x: "0 \<notin> set x" "table_length (length x)"
  shows "allow_listed s p x \<longleftrightarrow> x \<in> V \<and> length x \<notin> misplaced"
proof -
  let ?i = "nat (c_index (length x))"
  have i: "?i < 11" and r: "0 \<le> c_index (length x)" "c_index (length x) \<le> 10"
    using c_index_range [OF x(2)] by auto
  have "allow_listed s p x \<longleftrightarrow>
      pad_to (STRING_MAPS_SIZE ! ?i) x \<in> pad_to (STRING_MAPS_SIZE ! ?i) ` {v \<in> V. bucket (length v) = ?i}"
    using h i r
    by (auto simp: policy_holds_def allow_listed_def get_policy_string_map_def outer_entry_def split: option.splits)
  then show ?thesis
    using code_tables.reader_finds [OF V x refl] by simp
qed

lemma replaceBPFMaps_holds:
  assumes "outer_inv s" and "replaceBPFMaps A s p vs = (None, s')"
  shows "policy_holds s' p (set vs)" and "\<forall>v\<in>set vs. value_ok (curr_kernel_version A) v"
    and "outer_inv s'" and "\<exists>f. s' = s\<lparr>pol_str_maps := f\<rparr>"
    and "q \<noteq> p \<Longrightarrow> outer_entry s' i q = outer_entry s i q"
proof -
  obtain subs where c: "convertValuesToBPFStringMaps (curr_kernel_version A) vs = Inr subs"
    and l: "replace_loop A (curr_kernel_version A < KERNEL_VERSION 5 9 0) p s 0 subs = (None, s')"
    using assms(2) by (auto simp: replaceBPFMaps_def split: sum.splits)
  have t: "tables_hold subs (set vs)" and ok: "\<forall>v\<in>set vs. value_ok (curr_kernel_version A) v"
    using convert_cases [of "curr_kernel_version A" vs] c by auto
  have w: "tables_written s s' 0 subs p"
    by (rule replace_loop_effect [OF assms(1) l])
  show "policy_holds s' p (set vs)" by (rule tables_written_policy_holds [OF t w])
  show "\<forall>v\<in>set vs. value_ok (curr_kernel_version A) v" by (rule ok)
  show "outer_inv s'" "\<exists>f. s' = s\<lparr>pol_str_maps := f\<rparr>" "q \<noteq> p \<Longrightarrow> outer_entry s' i q = outer_entry s i q"
    using w by (auto simp: tables_written_def)
qed

lemma generateBPFMaps_holds:
  assumes "outer_inv s" and "\<forall>i. outer_entry s i p = None" and "generateBPFMaps A s p vs = (None, s')"
  shows "policy_holds s' p (set vs)" and "\<forall>v\<in>set vs. value_ok (curr_kernel_version A) v"
    and "outer_inv s'" and "q \<noteq> p \<Longrightarrow> outer_entry s' i q = outer_entry s i q"
proof -
  obtain subs where c: "convertValuesToBPFStringMaps (curr_kernel_version A) vs = Inr subs"
    and l: "generate_loop A (curr_kernel_version A < KERNEL_VERSION 5 9 0) p s 0 subs = (None, s')"
    using assms(3) by (auto simp: generateBPFMaps_def split: sum.splits)
  have t: "tables_hold subs (set vs)" and ok: "\<forall>v\<in>set vs. value_ok (curr_kernel_version A) v"
    using convert_cases [of "curr_kernel_version A" vs] c by auto
  have w: "tables_written s s' 0 subs p"
    using generate_loop_effect [OF assms(1) _ l] assms(2) by simp
  show "policy_holds s' p (set vs)" by (rule tables_written_policy_holds [OF t w])
  show "\<forall>v\<in>set vs. value_ok (curr_kernel_version A) v" by (rule ok)
  show "outer_inv s'" "q \<noteq> p \<Longrightarrow> outer_entry s' i q = outer_entry s i q"
    using w by (auto simp: tables_written_def)
qed

lemma string_maps_wf_entry:
  "string_maps_wf s \<longleftrightarrow> (\<forall>i<11. \<forall>p m. outer_entry s i p = Some m \<longrightarrow>
     key_size m = STRING_MAPS_SIZE ! i \<and> (\<forall>k\<in>set (keys m). length k = key_size m))"
  by (simp add: string_maps_wf_def outer_entry_def)

lemma policy_holds_wf:
  "policy_holds s p V \<Longrightarrow> i < 11 \<Longrightarrow> outer_entry s i p = Some m \<Longrightarrow>
     key_size m = STRING_MAPS_SIZE ! i \<and> (\<forall>k\<in>set (keys m). length k = key_size m)"
  unfolding policy_holds_def by (erule allE [of _ i]) auto

lemma replaceBPFMaps_wf:
  assumes "outer_inv s" and "replaceBPFMaps A s p vs = (None, s')" and wf: "string_maps_wf s"
  shows "string_maps_wf s'"
  unfolding string_maps_wf_entry
proof (intro allI impI)
  fix i q m assume i: "i < (11 :: nat)" and m: "outer_entry s' i q = Some m"
  show "key_size m = STRING_MAPS_SIZE ! i \<and> (\<forall>k\<in>set (keys m). length k = key_size m)"
  proof (cases "q = p")
    case True
    then show ?thesis
      using policy_holds_wf [OF replaceBPFMaps_holds(1) [OF assms(1,2)] i] m by simp
  next
    case False
    then show ?thesis
      using replaceBPFMaps_holds(5) [OF assms(1,2) False] wf i m by (simp add: string_maps_wf_entry)
  qed
qed

section \<open>When the writer succeeds\<close>

text \<open>Room for the policy in an outer map: it has an entry already, or the map is not full.\<close>

definition outer_room :: "bpf_state \<Rightarrow> u64 \<Rightarrow> nat \<Rightarrow> bool" where
  "outer_room s p i \<longleftrightarrow> outer_entry s i p \<noteq> None \<or> \<not> hash_full (pol_str_maps s i)"

lemma set_outer_any:
  assumes "outer_inv s" and "outer_room s p i"
  shows "\<exists>s'. set_outer s i (map_update False (pol_str_maps s i) p inner BPF_ANY) = (None, s')"
  using assms bpf.update_any_succeeds [of "pol_str_maps s i" False p inner]
  by (auto simp: set_outer_def outer_inv_def outer_room_def outer_entry_def)

lemma replace_step_succeeds:
  assumes "outer_inv s" and "outer_room s p i" and "\<not> nomem A" "\<not> new_map_fails A i"
    and "pre \<longrightarrow> length sub \<le> fixedMaxEntriesPre5_9"
  shows "\<exists>s1. (if sub = [] then delete_outer s p i else replaceInnerBPFMap A s p i pre sub) = (None, s1) \<and>
    writes_entry s s1 i p"
proof (cases "sub = []")
  case True
  obtain s1 where "delete_outer s p i = (None, s1)"
    using delete_outer_succeeds [of s p i] by (metis prod.collapse)
  then show ?thesis
    using True delete_outer_effect [OF assms(1)] by auto
next
  case False
  obtain inner where "build_inner A i pre sub = Inr inner"
    using build_inner_succeeds [OF assms(3,4,5)] by blast
  then obtain s1 where "replaceInnerBPFMap A s p i pre sub = (None, s1)"
    using set_outer_any [OF assms(1,2), of inner] assms(3) by (auto simp: replaceInnerBPFMap_def)
  then show ?thesis
    using False replaceInnerBPFMap_effect [OF assms(1) False] by auto
qed

lemma replace_loop_succeeds:
  "outer_inv s \<Longrightarrow> \<forall>j\<ge>i. outer_room s p j \<Longrightarrow> \<not> nomem A \<Longrightarrow> \<forall>j. \<not> new_map_fails A j \<Longrightarrow>
    \<forall>sub\<in>set subs. pre \<longrightarrow> length sub \<le> fixedMaxEntriesPre5_9 \<Longrightarrow>
    \<exists>s'. replace_loop A pre p s i subs = (None, s')"
proof (induction subs arbitrary: s i)
  case (Cons sub subs)
  obtain s1 where s1: "(if sub = [] then delete_outer s p i else replaceInnerBPFMap A s p i pre sub) = (None, s1)"
    and w: "writes_entry s s1 i p"
    using replace_step_succeeds [of s p i A pre sub] Cons.prems by auto
  have "\<forall>j\<ge>Suc i. outer_room s1 p j"
    using w Cons.prems(2) by (auto simp: writes_entry_def outer_room_def outer_entry_def)
  then show ?case
    using Cons.IH [OF writes_entry_inv [OF w]] s1 Cons.prems by simp
qed simp

lemma tables_hold_length:
  assumes "tables_hold subs (set vs)" and "sub \<in> set subs"
  shows "length sub \<le> length vs"
proof -
  obtain i where i: "i < 11" "sub = subs ! i"
    using assms by (auto simp: tables_hold_def in_set_conv_nth)
  then have d: "distinct sub" and "set sub = pad_to 4096 ` {v \<in> set vs. bucket (length v) = i}"
    using assms(1) by (auto simp: tables_hold_def)
  then have "card (set sub) \<le> card {v \<in> set vs. bucket (length v) = i}"
    by (simp add: card_image_le)
  also have "\<dots> \<le> card (set vs)" by (simp add: card_mono)
  also have "\<dots> \<le> length vs" by (rule card_length)
  finally show ?thesis using d by (simp add: distinct_card)
qed

lemma replaceBPFMaps_succeeds:
  assumes "outer_inv s" and "\<forall>i. outer_room s p i" and "\<not> nomem A" and "\<forall>i. \<not> new_map_fails A i"
    and ok: "\<forall>v\<in>set vs. value_ok (curr_kernel_version A) v"
    and "curr_kernel_version A < KERNEL_VERSION 5 9 0 \<longrightarrow> length vs \<le> fixedMaxEntriesPre5_9"
  shows "\<exists>s'. replaceBPFMaps A s p vs = (None, s')"
proof -
  obtain subs where c: "convertValuesToBPFStringMaps (curr_kernel_version A) vs = Inr subs"
    and t: "tables_hold subs (set vs)"
    using convert_ok [OF ok] by blast
  have "\<forall>sub\<in>set subs. curr_kernel_version A < KERNEL_VERSION 5 9 0 \<longrightarrow> length sub \<le> fixedMaxEntriesPre5_9"
    using tables_hold_length [OF t] assms(6) by (auto intro: order_trans)
  then show ?thesis
    using replace_loop_succeeds [OF assms(1) _ assms(3,4), of 0 p subs] assms(2) c
    by (simp add: replaceBPFMaps_def)
qed

text \<open>An invalid value is refused before any map is touched.\<close>

lemma replaceBPFMaps_invalid:
  assumes "\<exists>v\<in>set vs. \<not> value_ok (curr_kernel_version A) v"
  shows "\<exists>e. replaceBPFMaps A s p vs = (Some e, s) \<and> generateBPFMaps A s p vs = (Some e, s)"
  using assms convert_cases [of "curr_kernel_version A" vs]
  by (auto simp: replaceBPFMaps_def generateBPFMaps_def)

lemma remove_loop_effect:
  "outer_inv s \<Longrightarrow> \<exists>s'. remove_loop p s is = (None, s') \<and> outer_inv s' \<and>
     (\<forall>j q. outer_entry s' j q = (if q = p \<and> j \<in> set is then None else outer_entry s j q))"
proof (induction "is" arbitrary: s)
  case (Cons i "is")
  obtain s1 where s1: "delete_outer s p i = (None, s1)"
    using delete_outer_succeeds [of s p i] by (metis prod.collapse)
  have w: "writes_entry s s1 i p" "outer_entry s1 i p = None"
    using delete_outer_effect [OF Cons.prems s1] by simp_all
  obtain s' where s': "remove_loop p s1 is = (None, s')" "outer_inv s'"
    "\<forall>j q. outer_entry s' j q = (if q = p \<and> j \<in> set is then None else outer_entry s1 j q)"
    using Cons.IH [OF writes_entry_inv [OF w(1)]] by blast
  have "outer_entry s' j q = (if q = p \<and> j \<in> set (i # is) then None else outer_entry s j q)" for j q
    using s'(3) w by (cases "j = i \<and> q = p") (auto simp: writes_entry_def)
  then show ?case using s1 s' by simp
qed simp

section \<open>What a call leaves alone, also when it fails\<close>

definition touches :: "bpf_state \<Rightarrow> bpf_state \<Rightarrow> u64 \<Rightarrow> bool" where
  "touches s s' p \<longleftrightarrow> outer_inv s' \<and> (\<forall>j q. q \<noteq> p \<longrightarrow> outer_entry s' j q = outer_entry s j q) \<and>
     (string_maps_wf s \<longrightarrow> string_maps_wf s') \<and> (\<exists>f. s' = s\<lparr>pol_str_maps := f\<rparr>)"

lemma touches_refl: "outer_inv s \<Longrightarrow> touches s s p"
  by (auto simp: touches_def intro: exI [of _ "pol_str_maps s"])

lemma touches_trans: "touches s s1 p \<Longrightarrow> touches s1 s2 p \<Longrightarrow> touches s s2 p"
  by (auto simp: touches_def)

lemma touches_inv: "touches s s' p \<Longrightarrow> outer_inv s'"
  by (simp add: touches_def)

lemma writes_entry_touches:
  assumes w: "writes_entry s s' i p"
    and e: "\<And>m. i < 11 \<Longrightarrow> outer_entry s' i p = Some m \<Longrightarrow>
      key_size m = STRING_MAPS_SIZE ! i \<and> (\<forall>k\<in>set (keys m). length k = key_size m)"
  shows "touches s s' p"
proof -
  have "string_maps_wf s'" if "string_maps_wf s"
    unfolding string_maps_wf_entry
  proof (intro allI impI)
    fix j q m assume "j < (11 :: nat)" "outer_entry s' j q = Some m"
    then show "key_size m = STRING_MAPS_SIZE ! j \<and> (\<forall>k\<in>set (keys m). length k = key_size m)"
      using e that w by (cases "(j, q) = (i, p)") (auto simp: string_maps_wf_entry writes_entry_def)
  qed
  then show ?thesis using w by (auto simp: touches_def writes_entry_def)
qed

lemma build_inner_wf:
  assumes "build_inner A i pre sub = Inr inner" and "\<forall>v\<in>set sub. length v = 4096" and "i < 11"
  shows "key_size inner = STRING_MAPS_SIZE ! i \<and> (\<forall>k\<in>set (keys inner). length k = key_size inner)"
  using build_inner_keys [OF assms(1)] assms(2) sizes_le [OF assms(3)] by (auto simp: stringMapsSizes_eq)

lemma set_outer_touches:
  assumes o: "outer_inv s" and s': "set_outer s i (map_update nm (pol_str_maps s i) p inner fl) = (e, s')"
    and wf: "i < 11 \<Longrightarrow> key_size inner = STRING_MAPS_SIZE ! i \<and> (\<forall>k\<in>set (keys inner). length k = key_size inner)"
  shows "touches s s' p"
proof (cases e)
  case None
  have "writes_entry s s' i p \<and> outer_entry s' i p = Some inner"
    by (rule set_outer_update [OF o refl s' [unfolded None]])
  then show ?thesis using wf by (auto intro: writes_entry_touches)
next
  case (Some x)
  then have "s' = s" using s' by (auto simp: set_outer_def split: sum.splits)
  then show ?thesis using touches_refl [OF o] by simp
qed

lemma inner_touches:
  assumes o: "outer_inv s" and v: "\<forall>v\<in>set sub. length v = 4096"
  shows "replaceInnerBPFMap A s p i pre sub = (e, s') \<Longrightarrow> touches s s' p"
    and "generateInnerBPFMaps A s p i pre sub = (e, s') \<Longrightarrow> touches s s' p"
    and "delete_outer s p i = (e, s') \<Longrightarrow> touches s s' p"
proof -
  assume r: "replaceInnerBPFMap A s p i pre sub = (e, s')"
  show "touches s s' p"
  proof (cases "build_inner A i pre sub")
    case (Inl x)
    then show ?thesis using r touches_refl [OF o] by (simp add: replaceInnerBPFMap_def)
  next
    case (Inr inner)
    then show ?thesis
      using r set_outer_touches [OF o _ build_inner_wf [OF Inr v]] by (simp add: replaceInnerBPFMap_def)
  qed
next
  assume g: "generateInnerBPFMaps A s p i pre sub = (e, s')"
  show "touches s s' p"
  proof (cases "build_inner A i pre sub")
    case (Inl x)
    then show ?thesis using g touches_refl [OF o] by (simp add: generateInnerBPFMaps_def)
  next
    case (Inr inner)
    then obtain fl where "set_outer s i (map_update (nomem A) (pol_str_maps s i) p inner fl) = (e, s')"
      using g by (auto simp: generateInnerBPFMaps_def Let_def split: if_splits)
    then show ?thesis by (rule set_outer_touches [OF o _ build_inner_wf [OF Inr v]])
  qed
next
  assume d: "delete_outer s p i = (e, s')"
  then have "e = None" using delete_outer_succeeds [of s p i] by simp
  then show "touches s s' p"
    using delete_outer_effect [OF o, of p i s'] d by (auto intro: writes_entry_touches)
qed

lemma replace_loop_touches:
  "outer_inv s \<Longrightarrow> \<forall>sub\<in>set subs. \<forall>v\<in>set sub. length v = 4096 \<Longrightarrow>
     replace_loop A pre p s i subs = (e, s') \<Longrightarrow> touches s s' p"
proof (induction subs arbitrary: s i)
  case Nil
  then show ?case by (simp add: touches_refl)
next
  case (Cons sub subs)
  define step where "step = (if sub = [] then delete_outer s p i else replaceInnerBPFMap A s p i pre sub)"
  have t: "touches s (snd step) p"
    using inner_touches [OF Cons.prems(1), of sub] Cons.prems(2)
    by (cases "sub = []") (auto simp: step_def prod_eq_iff)
  show ?case
  proof (cases "fst step")
    case None
    then have "replace_loop A pre p (snd step) (Suc i) subs = (e, s')"
      using Cons.prems(3) by (cases step) (simp add: step_def [symmetric])
    then show ?thesis
      using Cons.IH [OF touches_inv [OF t]] Cons.prems(2) touches_trans [OF t] by simp
  next
    case (Some x)
    then have "s' = snd step"
      using Cons.prems(3) by (cases step) (simp add: step_def [symmetric])
    then show ?thesis using t by simp
  qed
qed

lemma generate_loop_touches:
  "outer_inv s \<Longrightarrow> \<forall>sub\<in>set subs. \<forall>v\<in>set sub. length v = 4096 \<Longrightarrow>
     generate_loop A pre p s i subs = (e, s') \<Longrightarrow> touches s s' p"
proof (induction subs arbitrary: s i)
  case Nil
  then show ?case by (simp add: touches_refl)
next
  case (Cons sub subs)
  show ?case
  proof (cases "sub = []")
    case True
    then show ?thesis using Cons by simp
  next
    case False
    define step where "step = generateInnerBPFMaps A s p i pre sub"
    have t: "touches s (snd step) p"
      using inner_touches(2) [OF Cons.prems(1), of sub] Cons.prems(2) by (simp add: step_def prod_eq_iff)
    show ?thesis
    proof (cases "fst step")
      case None
      then have "generate_loop A pre p (snd step) (Suc i) subs = (e, s')"
        using Cons.prems(3) False by (cases step) (simp add: step_def [symmetric])
      then show ?thesis
        using Cons.IH [OF touches_inv [OF t]] Cons.prems(2) touches_trans [OF t] by simp
    next
      case (Some x)
      then have "s' = snd step"
        using Cons.prems(3) False by (cases step) (simp add: step_def [symmetric])
      then show ?thesis using t by simp
    qed
  qed
qed

lemma tables_hold_lengths:
  "tables_hold subs (set vs) \<Longrightarrow> \<forall>sub\<in>set subs. \<forall>v\<in>set sub. length v = 4096"
  by (force simp: tables_hold_def in_set_conv_nth)

lemma convert_lengths:
  "convertValuesToBPFStringMaps ver vs = Inr subs \<Longrightarrow> \<forall>sub\<in>set subs. \<forall>v\<in>set sub. length v = 4096"
  using convert_cases [of ver vs] tables_hold_lengths by auto

lemma values_touches:
  assumes "outer_inv s"
  shows "replaceBPFMaps A s p vs = (e, s') \<Longrightarrow> touches s s' p"
    and "generateBPFMaps A s p vs = (e, s') \<Longrightarrow> touches s s' p"
  using assms touches_refl replace_loop_touches [OF assms convert_lengths] generate_loop_touches [OF assms convert_lengths]
  by (auto simp: replaceBPFMaps_def generateBPFMaps_def split: sum.splits)

lemma remove_loop_touches:
  "outer_inv s \<Longrightarrow> remove_loop p s is = (e, s') \<Longrightarrow> touches s s' p"
proof (induction "is" arbitrary: s)
  case Nil
  then show ?case by (simp add: touches_refl)
next
  case (Cons i "is")
  obtain s1 where s1: "delete_outer s p i = (None, s1)"
    using delete_outer_succeeds [of s p i] by (metis prod.collapse)
  have t: "touches s s1 p" using inner_touches(3) [OF Cons.prems(1), of "[]"] s1 by simp
  then show ?case
    using Cons.IH [OF touches_inv [OF t]] Cons.prems(2) s1 touches_trans [OF t] by simp
qed

lemma removeBPFMaps_effect:
  assumes "outer_inv s"
  shows "\<exists>s'. removeBPFMaps s p = (None, s') \<and> touches s s' p \<and> (\<forall>j<11. outer_entry s' j p = None)"
proof -
  obtain s' where s': "remove_loop p s [0..<11] = (None, s')"
    "\<forall>j q. outer_entry s' j q = (if q = p \<and> j \<in> set [0..<11] then None else outer_entry s j q)"
    using remove_loop_effect [OF assms, of p "[0..<11]"] by blast
  then show ?thesis
    using remove_loop_touches [OF assms s'(1)] by (auto simp: removeBPFMaps_def)
qed

section \<open>The settings\<close>

lemma updatePolicySettings_effect:
  assumes "hash_inv (policy_settings_map s)" and "updatePolicySettings A s p m fr = (None, s')"
  shows "\<exists>f. s' = s\<lparr>policy_settings_map := f\<rparr> \<and> hash_inv f \<and>
    map_lookup f = (map_lookup (policy_settings_map s))(p \<mapsto>
      \<lparr>settings_mode = m, allow_foreign_root = (if fr then 1 else 0)\<rparr>)"
  using assms bpf.update_lookup [OF assms(1)] bpf.invar_update [OF assms(1)]
  by (auto simp: updatePolicySettings_def split: sum.splits)

lemma deletePolicySettings_effect:
  assumes "hash_inv (policy_settings_map s)"
  shows "\<exists>f. deletePolicySettings s p = (None, s\<lparr>policy_settings_map := f\<rparr>) \<and> hash_inv f \<and>
    map_lookup f = (map_lookup (policy_settings_map s))(p := None)"
proof (cases "map_delete (policy_settings_map s) p")
  case (Inl e)
  then have "map_lookup (policy_settings_map s) p = None" "e = ENOENT"
    using bpf.delete_error [OF assms] by simp_all
  then show ?thesis
    using Inl assms by (auto simp: deletePolicySettings_def fun_upd_idem intro: exI [of _ "policy_settings_map s"])
next
  case (Inr m)
  then show ?thesis
    using bpf.delete_lookup [OF assms Inr] bpf.invar_delete [OF assms Inr]
    by (auto simp: deletePolicySettings_def)
qed

section \<open>Properties\<close>

text \<open>An agent on a current kernel with memory to spare, for the examples.\<close>

definition sample_agent :: agent_env where
  "sample_agent = \<lparr>curr_kernel_version = KERNEL_VERSION 6 12 0, new_map_fails = (\<lambda>_. False), nomem = False\<rparr>"

lemma init_state_outer:
  "outer_inv init_state" "outer_entry init_state i p = None" "outer_room init_state p i"
  by (simp_all add: outer_inv_def outer_entry_def outer_room_def init_state_def map_lookup_def hash_full_def
      POLICY_STR_OUTER_MAX_ENTRIES_def)

text \<open>
  \<^bold>\<open>C30\<close>. \<^verbatim>\<open>replaceBPFMaps\<close> replaces. When it returns no error, the string maps of the policy hold exactly
  the values passed to it, each padded to the key size of the smallest map that holds it and in no
  other map, all values are valid for the kernel, and the maps of every other policy are untouched.
\<close>

theorem replace_exact:
  assumes "outer_inv s" and "replaceBPFMaps A s p vs = (None, s')"
  shows "policy_holds s' p (set vs) \<and> (\<forall>v\<in>set vs. value_ok (curr_kernel_version A) v) \<and> outer_inv s' \<and>
    (\<forall>q i. q \<noteq> p \<longrightarrow> outer_entry s' i q = outer_entry s i q)"
  using replaceBPFMaps_holds [OF assms] by blast



theorem replace_exact_witness:
  "\<exists>s'. replaceBPFMaps sample_agent init_state 7 [[0x2F, 0x61]] = (None, s') \<and> policy_holds s' 7 {[0x2F, 0x61]}"
proof -
  have "\<exists>s'. replaceBPFMaps sample_agent init_state 7 [[0x2F, 0x61]] = (None, s')"
    by (rule replaceBPFMaps_succeeds)
      (simp_all add: init_state_outer sample_agent_def value_ok_def max_value_len_def KERNEL_VERSION_def)
  then obtain s' where "replaceBPFMaps sample_agent init_state 7 [[0x2F, 0x61]] = (None, s')" ..
  with replace_exact [OF init_state_outer(1) this] show ?thesis by auto
qed

text \<open>
  An empty or too long value is refused before any map is touched, by \<^verbatim>\<open>generateBPFMaps\<close> and by
  \<^verbatim>\<open>replaceBPFMaps\<close>: both return the same error and leave the state as it was.
\<close>

theorem invalid_value_refused:
  assumes "v \<in> set vs" and "v = [] \<or> max_value_len (curr_kernel_version A) < length v"
  shows "\<exists>e. replaceBPFMaps A s p vs = (Some e, s) \<and> generateBPFMaps A s p vs = (Some e, s)"
  using assms by (intro replaceBPFMaps_invalid bexI [of _ v]) (auto simp: value_ok_def)

theorem invalid_value_refused_witness:
  "\<exists>e. replaceBPFMaps sample_agent init_state 7 [[0x2F], []] = (Some e, init_state) \<and>
     generateBPFMaps sample_agent init_state 7 [[0x2F], []] = (Some e, init_state)"
  by (rule invalid_value_refused [of "[]"]) simp_all



end
