(* ===== verification/Event_Stream.thy ===== *)
theory Event_Stream
  imports Exec_Hook
begin

text \<open>
  The consumer of the two event rings, \<^verbatim>\<open>processRingbufEvents\<close> of
  \<^verbatim>\<open>src/internal/bpf/events_common.go\<close>, with \<^verbatim>\<open>FromUint8\<close> and \<^verbatim>\<open>String\<close> of
  \<^verbatim>\<open>src/internal/types/policymode/policy_mode.go\<close>. The lemmas relate what it decodes to the events the
  BPF program submits: for which path lengths the path arrives, and what arrives otherwise.
\<close>

section \<open>Definitions\<close>

record bpfEventHeader =
  hdr_CgTrackerID :: u64
  hdr_PathLen :: u16
  hdr_Mode :: u8
  hdr_Foreign :: u8

record ProcessEvent =
  CgTrackerID :: u64
  ExePath :: bytes
  Mode :: string
  ForeignRoot :: bool

datatype event_error = Err_header | Err_path_length u16 | Err_path_bytes | Panic_policy_mode

definition policymode_String :: "u8 \<Rightarrow> string option" where
  "policymode_String v =
     (if v = 1 then Some ''monitor'' else if v = 2 then Some ''protect'' else None)"

text \<open>\<^verbatim>\<open>binary.Read\<close> of the header in little-endian order: the header and the rest of the buffer.\<close>

definition read_header :: "bytes \<Rightarrow> (bpfEventHeader \<times> bytes) option" where
  "read_header bs =
     (if length bs < 12 then None
      else Some
        (\<lparr>hdr_CgTrackerID = word_of_nat (le_decode (take 8 bs)),
          hdr_PathLen = word_of_nat (le_decode (take 2 (drop 8 bs))),
          hdr_Mode = bs ! 10,
          hdr_Foreign = bs ! 11\<rparr>, drop 12 bs))"

text \<open>
  \<^verbatim>\<open>Read\<close> of a \<^verbatim>\<open>bytes.Buffer\<close> into a fresh slice of \<open>n\<close> bytes: what is missing stays zero, and only an
  empty buffer is an error.
\<close>

definition read_path :: "bytes \<Rightarrow> nat \<Rightarrow> bytes option" where
  "read_path buf n =
     (if buf = [] \<and> n \<noteq> 0 then None
      else Some (take n buf @ replicate (n - length buf) 0))"

definition process_record :: "bytes \<Rightarrow> event_error + ProcessEvent" where
  "process_record raw =
     (case read_header raw of
        None \<Rightarrow> Inl Err_header
      | Some (header, buf) \<Rightarrow>
          if hdr_PathLen header > 4096 then Inl (Err_path_length (hdr_PathLen header))
          else
            (case read_path buf (unat (hdr_PathLen header)) of
               None \<Rightarrow> Inl Err_path_bytes
             | Some pathBytes \<Rightarrow>
                 (case (if hdr_Mode header \<noteq> 0 then policymode_String (hdr_Mode header) else Some '''') of
                    None \<Rightarrow> Inl Panic_policy_mode
                  | Some modeString \<Rightarrow>
                      Inr \<lparr>CgTrackerID = hdr_CgTrackerID header, ExePath = pathBytes, Mode = modeString,
                           ForeignRoot = (hdr_Foreign header \<noteq> 0)\<rparr>)))"

text \<open>The loop: an error skips the record, a panic ends the consumer.\<close>

fun processRingbufEvents :: "bytes list \<Rightarrow> ProcessEvent list" where
  "processRingbufEvents [] = []"
| "processRingbufEvents (r # rs) =
     (case process_record r of
        Inr ev \<Rightarrow> ev # processRingbufEvents rs
      | Inl Panic_policy_mode \<Rightarrow> []
      | Inl e \<Rightarrow> processRingbufEvents rs)"

section \<open>Decoding an encoded event\<close>

lemma nth_header:
  "evt_header e ! 10 = mode e" "evt_header e ! 11 = foreign e"
  by (simp_all add: evt_header_def nth_append)

lemma read_header_evt_bytes:
  assumes "12 \<le> n"
  shows "read_header (evt_bytes e n) =
    Some (\<lparr>hdr_CgTrackerID = cg_tracker_id e, hdr_PathLen = path_len e, hdr_Mode = mode e,
           hdr_Foreign = foreign e\<rparr>, buf_read (path e) 0 (n - 12))"
proof -
  have h: "evt_bytes e n = evt_header e @ buf_read (path e) 0 (n - 12)"
    using assms by (metis append_take_drop_id take_header_evt_bytes drop_header_evt_bytes)
  show ?thesis
    using assms unfolding read_header_def h
    by (simp add: nth_append nth_header) (simp add: evt_header_def le_decode_encode_word)
qed

lemma evt_record_path:
  "evt_record e = evt_bytes e (19 + unat (path_len e) mod 4096)"
  by (simp add: evt_record_def SAFE_PATH_LEN_def)

lemma process_record_evt:
  assumes "unat (path_len e) \<le> 4095"
  shows "process_record (evt_record e) =
    (case (if mode e \<noteq> 0 then policymode_String (mode e) else Some '''') of
       None \<Rightarrow> Inl Panic_policy_mode
     | Some m \<Rightarrow> Inr \<lparr>CgTrackerID = cg_tracker_id e, ExePath = buf_read (path e) 0 (unat (path_len e)),
         Mode = m, ForeignRoot = (foreign e \<noteq> 0)\<rparr>)"
proof -
  let ?n = "unat (path_len e)"
  have r: "read_header (evt_record e) =
    Some (\<lparr>hdr_CgTrackerID = cg_tracker_id e, hdr_PathLen = path_len e, hdr_Mode = mode e,
           hdr_Foreign = foreign e\<rparr>, buf_read (path e) 0 (7 + ?n))"
    using assms read_header_evt_bytes [of "19 + ?n" e] by (simp add: evt_record_path)
  have "buf_read (path e) 0 (7 + ?n) \<noteq> []" by (metis length_buf_read list.size(3) add_is_0 zero_neq_numeral)
  then have "read_path (buf_read (path e) 0 (7 + ?n)) ?n = Some (buf_read (path e) 0 ?n)"
    by (simp add: read_path_def take_buf_read)
  moreover have "\<not> path_len e > 4096" using assms by (simp add: word_less_nat_alt)
  ultimately show ?thesis
    by (simp add: process_record_def r split: option.split)
qed

lemma violation_evt_simps [simp]:
  "cg_tracker_id (violation_evt e cg f str m) = cg"
  "mode (violation_evt e cg f str m) = m"
  "foreign (violation_evt e cg f str m) = (if f then 1 else 0)"
  "path_len (violation_evt e cg f str m) = word_of_nat (length str)"
  by (simp_all add: violation_evt_def Let_def resolved_evt_def)

lemma violation_evt_path:
  assumes "n \<le> copied_len (length str)"
  shows "buf_read (path (violation_evt e cg f str m)) 0 n = take n (pad_to (copied_len (length str)) str)"
  using assms
  by (intro nth_equalityI)
    (auto simp: violation_evt_def Let_def buf_write_def)

definition mode_text :: "u8 \<Rightarrow> string option" where
  "mode_text m = (if m = 0 then Some '''' else policymode_String m)"

text \<open>A path of at most 4094 bytes arrives.\<close>

lemma violation_decoded:
  assumes "length str \<le> 4094" and "mode_text m = Some t"
  shows "process_record (evt_record (violation_evt e cg f str m)) =
    Inr \<lparr>CgTrackerID = cg, ExePath = str, Mode = t, ForeignRoot = f\<rparr>"
proof -
  have n: "unat (path_len (violation_evt e cg f str m)) = length str"
    using assms(1) by (simp add: unat_of_nat)
  have c: "copied_len (length str) = length str + 1" using assms(1) by (simp add: copied_len_def)
  then have "buf_read (path (violation_evt e cg f str m)) 0 (length str) = str"
    using violation_evt_path [of "length str" str e cg f m] by (simp add: pad_to_def)
  then show ?thesis
    using process_record_evt [of "violation_evt e cg f str m"] assms n
    by (cases "m = 0") (simp_all add: mode_text_def)
qed

text \<open>
  A path of 4095 bytes: the mask turns the size of the copy into 0, and the event carries the first
  4095 bytes of the buffer as an earlier event left them.
\<close>

lemma violation_4095:
  assumes "length str = 4095" and "mode_text m = Some t"
  shows "process_record (evt_record (violation_evt e cg f str m)) =
    Inr \<lparr>CgTrackerID = cg, ExePath = buf_read (path e) 0 4095, Mode = t, ForeignRoot = f\<rparr>"
proof -
  have n: "unat (path_len (violation_evt e cg f str m)) = 4095"
    using assms(1) by (simp add: unat_of_nat)
  have c: "copied_len 4095 = 0" by (simp add: copied_len_def)
  have "path (violation_evt e cg f str m) = buf_write (path e) 4097 str"
    using assms(1) by (simp add: violation_evt_def Let_def resolved_evt_def c pad_to_def)
  then have "buf_read (path (violation_evt e cg f str m)) 0 4095 = buf_read (path e) 0 4095"
    by (simp add: buf_read_write_other)
  then show ?thesis
    using process_record_evt [of "violation_evt e cg f str m"] assms n
    by (cases "m = 0") (simp_all add: mode_text_def)
qed

text \<open>A path longer than 4096 bytes is dropped.\<close>

lemma violation_long:
  assumes "4096 < length str" and "length str < 8192"
  shows "process_record (evt_record (violation_evt e cg f str m)) = Inl (Err_path_length (word_of_nat (length str)))"
proof -
  have "path_len (violation_evt e cg f str m) > 4096"
    using assms by (simp add: word_less_nat_alt unat_of_nat)
  then show ?thesis
    by (simp add: process_record_def evt_record_path read_header_evt_bytes)
qed

text \<open>The learning event of a foreign exec carries the flag and no path.\<close>

lemma foreign_learn_decoded:
  "process_record (evt_bytes (e\<lparr>cg_tracker_id := cg, mode := 0, foreign := 1, path_len := 0\<rparr>) 19) =
    Inr \<lparr>CgTrackerID = cg, ExePath = [], Mode = '''', ForeignRoot = True\<rparr>"
  by (simp add: process_record_def read_header_evt_bytes read_path_def)

end
