(* ===== verification/Sample_Kernel.thy ===== *)
theory Sample_Kernel
  imports Exec_Hook Vmlinux_X86
begin

text \<open>
  A family of concrete kernels on which the theorems about the programs are applied: one task in
  one mount namespace, one mount, and a chain of dentries with given names from the executed file
  up to the root of the mount, laid out in memory at the x86 offsets. The names decide the path of
  the binary; two more parameters choose the mount namespace of the file and whether learning is
  enabled.
\<close>

section \<open>Memory\<close>

abbreviation dentry_base :: nat where "dentry_base \<equiv> 0x100000"
abbreviation name_base :: nat where "name_base \<equiv> 0x800000"
abbreviation sample_bprm :: u64 where "sample_bprm \<equiv> 0x2800"

text \<open>The fixed objects: address and 64-bit value of every member that is read.\<close>

definition fixed_words :: "nat \<Rightarrow> nat \<Rightarrow> (nat \<times> nat) list" where
  "fixed_words n file_ns =
     [(0x1000 + 3368, 0x5000),  \<comment> \<open>the namespaces of the task\<close>
      (0x5000 + 24, 0x5100),    \<comment> \<open>its mount namespace\<close>
      (0x5100 + 16, 0xF0000001),
      (0x5200 + 16, 0xF0000002),
      (0x1000 + 3344, 0x6000),  \<comment> \<open>the file system context of the task\<close>
      (0x6000 + 24, 0x4020),    \<comment> \<open>the mount of its root\<close>
      (0x2800 + 64, 0x2000),    \<comment> \<open>the executed file\<close>
      (0x2000 + 64, 0x4020),    \<comment> \<open>its mount\<close>
      (0x2000 + 72, dentry_base),
      (0x4000 + 16, 0x4000),    \<comment> \<open>the mount is its own parent\<close>
      (0x4020, dentry_base + 256 * n),
      (0x4028, 0x7000),         \<comment> \<open>the super block\<close>
      (0x4000 + 240, file_ns)]"

definition chain_bytes :: "bytes list \<Rightarrow> nat \<Rightarrow> nat \<Rightarrow> bytes option" where
  "chain_bytes names file_ns x =
     (let n = length names; nms = names @ [[SLASH]] in
      if dentry_base \<le> x \<and> x < dentry_base + 256 * Suc n
      then
        (let i = (x - dentry_base) div 256; q = (x - dentry_base) mod 256 in
         if q = 16 then Some (le_encode 8 1)
         else if q = 24 then Some (le_encode 8 (dentry_base + 256 * min (Suc i) n))
         else if q = 32
         then Some (le_encode 4 0 @ le_encode 4 (length (nms ! i)) @ le_encode 8 (name_base + 256 * i))
         else None)
      else if name_base \<le> x \<and> x < name_base + 256 * Suc n \<and> x mod 256 = 0
      then Some (nms ! ((x - name_base) div 256))
      else map_option (le_encode 8) (map_of (fixed_words n file_ns) x))"

definition chain_probe :: "bytes list \<Rightarrow> nat \<Rightarrow> u64 \<Rightarrow> u32 \<Rightarrow> int \<times> bytes" where
  "chain_probe names file_ns a n =
     (case chain_bytes names file_ns (unat a) of
        None \<Rightarrow> (-14, replicate (unat n) 0)
      | Some bs \<Rightarrow> (0, take (unat n) (bs @ replicate (unat n) 0)))"

definition chain_kernel :: "bytes list \<Rightarrow> nat \<Rightarrow> bool \<Rightarrow> kenv" where
  "chain_kernel names file_ns learning =
     \<lparr>core_off = (\<lambda>k. map_option word_of_nat (x86_core_off k)),
      qstr_size = 16,
      pids_cgrp_id = 11,
      has_get_current_cgroup_id = True,
      has_bpf_iter_num_new = True,
      has_trace_printk_event = True,
      linux_kernel_version = KERNEL_VERSION 6 12 0,
      load_time_config = \<lparr>cgrp_fs_magic = CGROUP2_SUPER_MAGIC, host_mnt_ns_inum = 0xF0000000,
        cgrpv1_subsys_idx = 0, debug_mode = 0, learning_enabled = (if learning then 1 else 0)\<rparr>,
      probe_read_kernel = chain_probe names file_ns,
      probe_read_map = (\<lambda>bs. (0, bs)),
      get_current_task = 0x1000,
      get_current_cgroup_id = 42,
      get_current_pid_tgid = 0,
      get_current_comm = (0, replicate 16 0),
      get_smp_processor_id = 0,
      rb_room = (\<lambda>_ _ _. True),
      map_nomem = False\<rparr>"

text \<open>The path of the file: every name after a slash, the last name first.\<close>

definition chain_path :: "bytes list \<Rightarrow> bytes" where
  "chain_path names = concat (map (\<lambda>nm. SLASH # nm) (rev names))"

definition chain_ok :: "bytes list \<Rightarrow> bool" where
  "chain_ok names \<longleftrightarrow> names \<noteq> [] \<and> length names \<le> 2000 \<and> (\<forall>nm\<in>set names. length nm \<le> 255 \<and> 0 \<notin> set nm)"

section \<open>Reading it\<close>

lemma chain_sized: "probe_sized (chain_kernel names f l)"
  by (auto simp: probe_sized_def chain_kernel_def chain_probe_def split: option.split)

lemma chain_map_ok: "probe_map_ok (chain_kernel names f l)"
  by (simp add: probe_map_ok_def chain_kernel_def)

lemma chain_log_room: "log_room (chain_kernel names f l)"
  by (simp add: log_room_def chain_kernel_def)

lemma chain_fld: "fld (chain_kernel names f l) k = (case core_offset x86_types k of None \<Rightarrow> 0 | Some (q, t) \<Rightarrow> word_of_nat q)"
  by (simp add: fld_def chain_kernel_def x86_core_off_def split: option.split)

lemma take_pad_le_encode: "take 8 (take 8 (le_encode 8 v @ replicate 8 0)) = le_encode 8 v"
  by simp

lemma chain_read_u64:
  assumes "chain_bytes names f (unat a) = Some (le_encode 8 v)" and "v < 2 ^ 64"
  shows "read_u64 (chain_kernel names f l) a = word_of_nat v"
  using assms le_decode_encode [of v 8]
  by (simp add: read_u64_def u64_of_bytes_def chain_kernel_def chain_probe_def)

lemma chain_fixed:
  assumes "map_of (fixed_words (length names) f) x = Some v" and "x < dentry_base"
  shows "chain_bytes names f x = Some (le_encode 8 v)"
  using assms by (simp add: chain_bytes_def Let_def)

definition dentry_pos :: "nat \<Rightarrow> nat \<Rightarrow> nat" where
  "dentry_pos i q = dentry_base + (256 * i + q)"

definition chain_dentry :: "nat \<Rightarrow> u64" where
  "chain_dentry i = word_of_nat (dentry_base + 256 * i)"

lemma unat_chain_dentry:
  "i \<le> 2000 \<Longrightarrow> q < 256 \<Longrightarrow> unat (chain_dentry i + word_of_nat q) = dentry_pos i q"
  by (simp add: unat_word_ariths unat_of_nat chain_dentry_def dentry_pos_def)

lemma chain_dentry_bytes:
  assumes "i \<le> length names" and "q < 256"
  shows "chain_bytes names f (dentry_pos i q) =
    (if q = 16 then Some (le_encode 8 1)
     else if q = 24 then Some (le_encode 8 (dentry_base + 256 * min (Suc i) (length names)))
     else if q = 32 then Some (le_encode 4 0 @ le_encode 4 (length ((names @ [[SLASH]]) ! i)) @
       le_encode 8 (name_base + 256 * i))
     else None)"
proof -
  have "256 * i + q < 256 * Suc (length names)" using assms by simp
  moreover have "(256 * i + q) div 256 = i" "(256 * i + q) mod 256 = q"
    using assms(2) by (simp_all add: div_add1_eq)
  ultimately show ?thesis
    unfolding chain_bytes_def Let_def dentry_pos_def by (simp only: add_diff_cancel_left' le_add1 add_less_cancel_left simp_thms if_True)
qed

lemma chain_parent:
  assumes "i \<le> length names" and "length names \<le> 2000"
  shows "read_u64 (chain_kernel names f l) (chain_dentry i + 24) = chain_dentry (min (Suc i) (length names))"
proof -
  have u: "unat (chain_dentry i + 24) = dentry_pos i 24"
    using unat_chain_dentry [of i 24] assms by simp
  have "dentry_base + 256 * min (Suc i) (length names) < 2 ^ 64" using assms(2) by simp
  then show ?thesis
    unfolding chain_dentry_def [of "min _ _"]
    by (intro chain_read_u64) (simp_all only: u, simp add: chain_dentry_bytes assms)
qed

lemma chain_hashed:
  assumes "i \<le> length names" and "length names \<le> 2000"
  shows "read_u64 (chain_kernel names f l) (chain_dentry i + 16) = 1"
proof -
  have u: "unat (chain_dentry i + 16) = dentry_pos i 16"
    using unat_chain_dentry [of i 16] assms by simp
  have "read_u64 (chain_kernel names f l) (chain_dentry i + 16) = word_of_nat 1"
    by (rule chain_read_u64) (simp_all only: u, simp_all add: chain_dentry_bytes assms)
  then show ?thesis by simp
qed

lemma chain_qstr:
  assumes "i \<le> length names" and "length names \<le> 2000"
  shows "d_name_qstr (chain_kernel names f l) (chain_dentry i) =
    le_encode 4 0 @ le_encode 4 (length ((names @ [[SLASH]]) ! i)) @ le_encode 8 (name_base + 256 * i)"
proof -
  have u: "unat (chain_dentry i + 32) = dentry_pos i 32"
    using unat_chain_dentry [of i 32] assms by simp
  have f: "fld (chain_kernel names f l) Dentry_d_name = 32"
    by (simp add: chain_fld offset_simps)
  have "chain_bytes names f (unat (chain_dentry i + 32)) =
      Some (le_encode 4 0 @ le_encode 4 (length ((names @ [[SLASH]]) ! i)) @ le_encode 8 (name_base + 256 * i))"
    by (simp only: u, simp add: chain_dentry_bytes assms)
  then show ?thesis
    unfolding d_name_qstr_def f by (simp add: chain_kernel_def chain_probe_def)
qed

lemma chain_name:
  assumes i: "i \<le> length names" and n: "length names \<le> 2000"
    and ok: "\<forall>nm\<in>set names. length nm \<le> 255"
  shows "unat (d_name_len (chain_kernel names f l) (chain_dentry i)) = length ((names @ [[SLASH]]) ! i)"
    and "d_name_bytes (chain_kernel names f l) (chain_dentry i) = (names @ [[SLASH]]) ! i"
proof -
  let ?K = "chain_kernel names f l" and ?nm = "(names @ [[SLASH]]) ! i"
  have len: "length ?nm \<le> 255" using ok i by (auto simp: nth_append)
  have fl: "fld ?K Qstr_len = 4" "fld ?K Qstr_name = 8" by (simp_all add: chain_fld offset_simps)
  have l: "d_name_len ?K (chain_dentry i) = word_of_nat (length ?nm)"
    using le_decode_encode [of "length ?nm" 4] len
    by (simp add: d_name_len_def chain_qstr [OF i n] fl u32_of_bytes_def)
  then show ul: "unat (d_name_len ?K (chain_dentry i)) = length ?nm"
    using len by (simp add: unat_of_nat)
  have "d_name_ptr ?K (chain_dentry i) = word_of_nat (name_base + 256 * i)"
    using le_decode_encode [of "name_base + 256 * i" 8] i n
    by (simp add: d_name_ptr_def chain_qstr [OF i n] fl u64_of_bytes_def)
  moreover have "unat (word_of_nat (name_base + 256 * i) :: u64) = name_base + 256 * i"
    using i n by (simp add: unat_of_nat unat_word_ariths)
  moreover have "chain_bytes names f (name_base + 256 * i) = Some ?nm"
    using i n by (simp add: chain_bytes_def Let_def)
  moreover have "unat (ucast (SAFE_COMPONENT_ACCESS (ucast (d_name_len ?K (chain_dentry i)))) :: u32) = length ?nm"
    using ul len by (simp add: SAFE_COMPONENT_ACCESS_def unat_ucast)
  ultimately show "d_name_bytes ?K (chain_dentry i) = ?nm"
    by (simp add: d_name_bytes_def chain_kernel_def chain_probe_def)
qed

section \<open>The exec\<close>

lemma chain_read_fixed:
  assumes "map_of (fixed_words (length names) f) (unat a) = Some v" and "unat a < dentry_base" and "v < 2 ^ 64"
  shows "read_u64 (chain_kernel names f l) a = word_of_nat v"
  using chain_read_u64 [OF chain_fixed [OF assms(1,2)] assms(3)] .

lemma le_decode_zeros [simp]: "le_decode (replicate n 0) = 0"
  by (induction n) auto

lemma take_le_encode: "k \<le> n \<Longrightarrow> take k (le_encode n v) = le_encode k v"
proof (induction k arbitrary: n v)
  case (Suc k)
  then show ?case by (cases n) auto
qed simp

lemma chain_read_inum:
  assumes "map_of (fixed_words (length names) f) (unat a) = Some v" and "unat a < dentry_base" and "v < 2 ^ 32"
  shows "read_u32 (chain_kernel names f l) a = word_of_nat v"
proof -
  have e: "take 4 (le_encode 8 v) = le_encode 4 v" by (simp add: take_le_encode)
  show ?thesis
    using chain_fixed [OF assms(1,2)] le_decode_encode [of v 4] assms(3)
    by (simp add: read_u32_def u32_of_bytes_def chain_kernel_def chain_probe_def e)
qed

lemma chain_words:
  "read_u64 (chain_kernel names f l) 7464 = 0x5000"
  "read_u64 (chain_kernel names f l) 20504 = 0x5100"
  "read_u64 (chain_kernel names f l) 7440 = 0x6000"
  "read_u64 (chain_kernel names f l) 24600 = 0x4020"
  "read_u64 (chain_kernel names f l) 10304 = 0x2000"
  "read_u64 (chain_kernel names f l) 8256 = 0x4020"
  "read_u64 (chain_kernel names f l) 8264 = 0x100000"
  "read_u64 (chain_kernel names f l) 16400 = 0x4000"
  "read_u64 (chain_kernel names f l) 16424 = 0x7000"
  by (simp_all add: chain_read_fixed fixed_words_def)

lemma chain_mnt_root:
  "length names \<le> 2000 \<Longrightarrow> read_u64 (chain_kernel names f l) 16416 = chain_dentry (length names)"
  by (simp add: chain_read_fixed fixed_words_def chain_dentry_def)

lemma chain_mnt_ns: "f < 2 ^ 64 \<Longrightarrow> read_u64 (chain_kernel names f l) 16624 = word_of_nat f"
  by (simp add: chain_read_fixed fixed_words_def)

lemma chain_inums:
  "read_u32 (chain_kernel names f l) 20752 = 0xF0000001"
  "read_u32 (chain_kernel names f l) 21008 = 0xF0000002"
  by (simp_all add: chain_read_inum fixed_words_def)

lemmas chain_fixed_simps = chain_words chain_mnt_ns chain_inums

lemma chain_exec_file: "exec_file (chain_kernel names f l) sample_bprm = 0x2000"
  by (simp add: exec_file_def chain_fld offset_simps chain_fixed_simps)

lemma chain_task_inum: "task_mnt_ns_inum (chain_kernel names f l) 0x1000 = 0xF0000001"
  by (simp add: task_mnt_ns_inum_def Let_def chain_fld offset_simps chain_fixed_simps)

lemma chain_current_task [simp]: "get_current_task (chain_kernel names f l) = 0x1000"
  by (simp add: chain_kernel_def)

lemma chain_not_bootstrap: "\<not> exec_is_runtime_bootstrap (chain_kernel names f l) s cg"
  by (simp add: exec_is_runtime_bootstrap_def Let_def chain_task_inum)
    (simp add: chain_kernel_def)

lemma chain_tracker:
  "get_tracker_id_from_curr_task (chain_kernel names f l) s =
     (case map_lookup (cgtracker_map s) 42 of Some r \<Rightarrow> r | None \<Rightarrow> 0)"
  by (simp add: get_tracker_id_from_curr_task_def tg_get_current_cgroup_id_def cgrp_get_tracker_id_def
      Let_def chain_kernel_def)

text \<open>The flags of the mount are not in the memory of the sample, so they read as 0.\<close>

lemma chain_mnt_flags: "read_u32 (chain_kernel names f l) 0x4030 = 0"
proof -
  have "chain_bytes names f 0x4030 = None" by (simp add: chain_bytes_def Let_def fixed_words_def)
  then show ?thesis
    by (simp add: read_u32_def u32_of_bytes_def chain_kernel_def chain_probe_def)
qed

lemma chain_foreign:
  "exec_is_foreign_root (chain_kernel names 0x5100 l) sample_bprm = False"
  "exec_is_foreign_root (chain_kernel names 0x5200 l) sample_bprm = True"
  by (simp_all add: exec_is_foreign_root_def Let_def chain_fld offset_simps chain_mnt_flags chain_task_inum
      chain_fixed_simps)

lemma unat_chain_dentry0: "i \<le> 2000 \<Longrightarrow> unat (chain_dentry i) = dentry_pos i 0"
  using unat_chain_dentry [of i 0] by simp

lemma dentry_pos_inj: "dentry_pos i 0 = dentry_pos j 0 \<longleftrightarrow> i = j"
  by (simp add: dentry_pos_def)

lemma chain_dentry_eq: "i \<le> 2000 \<Longrightarrow> j \<le> 2000 \<Longrightarrow> chain_dentry i = chain_dentry j \<longleftrightarrow> i = j"
  using unat_chain_dentry0 [of i] unat_chain_dentry0 [of j] dentry_pos_inj [of i j] by metis

lemma chain_at_root:
  assumes "i \<le> length names" and "length names \<le> 2000"
  shows "at_mnt_root (chain_kernel names f l) (chain_dentry i) 0x4000 \<longleftrightarrow> i = length names"
  using assms chain_parent [OF assms] chain_dentry_eq [of i "min (Suc i) (length names)"]
  by (auto simp: at_mnt_root_def IS_ROOT_def chain_fld offset_simps chain_mnt_root chain_dentry_eq min_def
      split: if_splits)

lemma chain_mnt_parent: "mnt_parent_of (chain_kernel names f l) 0x4000 = 0x4000"
  by (simp add: chain_fld offset_simps chain_words)

lemma chain_stop:
  "length names \<le> 2000 \<Longrightarrow> stop_vfsmount (chain_kernel names f l) = chain_dentry (length names)"
  "stop_dentry (chain_kernel names f l) = 0x7000"
  by (simp_all add: stop_vfsmount_def stop_dentry_def task_root_def Let_def chain_fld offset_simps chain_words
      chain_mnt_root)

lemma chain_not_stop:
  "i \<le> 2000 \<Longrightarrow> chain_dentry i \<noteq> 0x7000"
proof
  assume i: "i \<le> 2000" and "chain_dentry i = 0x7000"
  then have "dentry_pos i 0 = unat (0x7000 :: u64)" using unat_chain_dentry0 [OF i] by simp
  then show False by (simp add: dentry_pos_def)
qed

lemma chain_walk:
  assumes n: "length names \<le> 2000" and "i \<le> length names"
  shows "vfs_walk (chain_kernel names f l) 0x7000 rv (chain_dentry i) 0x4000
    (map chain_dentry [i..<length names]) (chain_dentry (length names)) (Suc (length names - i))"
  using assms(2)
proof (induction "length names - i" arbitrary: i)
  case 0
  then have i: "i = length names" by simp
  have "vfs_walk (chain_kernel names f l) 0x7000 rv (chain_dentry (length names)) 0x4000 [] (chain_dentry (length names)) 1"
    by (rule vfs_walk.global_root)
      (use n in \<open>simp_all add: chain_at_root chain_mnt_parent chain_not_stop\<close>)
  then show ?case by (simp add: i)
next
  case (Suc k)
  then have i: "i < length names" by simp
  let ?K = "chain_kernel names f l"
  have p: "read_u64 ?K (chain_dentry i + fld ?K Dentry_d_parent) = chain_dentry (Suc i)"
    using chain_parent [of i names f l] i n by (simp add: chain_fld offset_simps)
  have "vfs_walk ?K 0x7000 rv (chain_dentry (Suc i)) 0x4000 (map chain_dentry [Suc i..<length names])
      (chain_dentry (length names)) (Suc (length names - Suc i))"
    using Suc.hyps(1) [of "Suc i"] Suc.hyps(2) i by simp
  then have "vfs_walk ?K 0x7000 rv (chain_dentry i) 0x4000 (chain_dentry i # map chain_dentry [Suc i..<length names])
      (chain_dentry (length names)) (Suc (Suc (length names - Suc i)))"
    using chain_not_stop [of i] chain_at_root [of i names f l] i n
    by (intro vfs_walk.component) (simp_all add: p)
  then show ?case
    using i by (simp add: upt_conv_Cons Suc_diff_Suc)
qed

lemma chain_name_ok:
  assumes "chain_ok names" and "i \<le> length names"
  shows "name_ok (chain_kernel names f l) (chain_dentry i)"
proof -
  have "length ((names @ [[SLASH]]) ! i) \<le> 255 \<and> 0 \<notin> set ((names @ [[SLASH]]) ! i)"
    using assms by (auto simp: chain_ok_def nth_append)
  then show ?thesis
    using chain_name [of i names f l] assms by (simp add: chain_ok_def name_ok_def)
qed

lemma chain_walk_string:
  assumes "chain_ok names" and "k \<le> length names"
  shows "walk_string (chain_kernel names f l) (map chain_dentry [i..<k]) = chain_path (drop i (take k names))"
  using assms(2)
proof (induction "k - i" arbitrary: i)
  case 0
  then show ?case by (simp add: chain_path_def)
next
  case (Suc m)
  then have i: "i < k" "i < length names" by simp_all
  have d: "drop i (take k names) = names ! i # drop (Suc i) (take k names)"
    using i Suc.prems Cons_nth_drop_Suc [of i "take k names"] by simp
  have "d_name_bytes (chain_kernel names f l) (chain_dentry i) = names ! i"
    using chain_name(2) [of i names f l] assms(1) i by (simp add: chain_ok_def nth_append)
  then show ?case
    using Suc.hyps(1) [of "Suc i"] Suc.hyps(2) Suc.prems i
    by (simp add: upt_conv_Cons d chain_path_def)
qed

lemma chain_dentry_0: "chain_dentry 0 = 0x100000"
  by (simp add: chain_dentry_def)

lemma chain_path_dentry:
  "path_dentry (chain_kernel names f l) 0x2040 = chain_dentry 0"
  "path_mount (chain_kernel names f l) 0x2040 = 0x4000"
  by (simp_all add: path_dentry_def path_mount_def chain_fld offset_simps chain_words chain_dentry_0)

lemma chain_linked:
  "chain_ok names \<Longrightarrow> \<not> d_unlinked (chain_kernel names f l) (chain_dentry 0)"
  using chain_hashed [of 0 names f l]
  by (simp add: d_unlinked_def d_unhashed_def hlist_bl_unhashed_def chain_fld offset_simps chain_ok_def
      add.commute)

lemma chain_dentry_read:
  "fst (probe_read_kernel (chain_kernel names f l) (0x2040 + fld (chain_kernel names f l) Path_dentry) 8) = 0"
proof -
  have "chain_bytes names f 8264 = Some (le_encode 8 dentry_base)"
    by (rule chain_fixed) (simp_all add: fixed_words_def)
  then show ?thesis
    unfolding chain_fld by (simp add: offset_simps) (simp add: chain_kernel_def chain_probe_def)
qed

lemma chain_path_Nil: "chain_path names = [] \<longleftrightarrow> names = []"
  by (cases names rule: rev_cases) (auto simp: chain_path_def)

lemma chain_exec_ready:
  assumes ok: "chain_ok names" and len: "length (chain_path names) < 8192"
  shows "exec_ready (chain_kernel names f l) sample_bprm (chain_path names)"
proof -
  let ?K = "chain_kernel names f l" and ?n = "length names"
  have n: "?n \<le> 2000" "names \<noteq> []" using ok by (simp_all add: chain_ok_def)
  have ff: "exec_file ?K sample_bprm + fld ?K File_f_path = 0x2040"
    by (simp add: chain_exec_file chain_fld offset_simps)
  have w: "vfs_walk ?K (stop_dentry ?K) (stop_vfsmount ?K) (path_dentry ?K 0x2040) (path_mount ?K 0x2040)
      (map chain_dentry [0..<?n]) (chain_dentry ?n) (Suc ?n)"
    using chain_walk [of names 0 f l] n by (simp add: chain_stop chain_path_dentry)
  have ws: "walk_string ?K (map chain_dentry [0..<?n]) = chain_path names"
    using chain_walk_string [OF ok, of ?n f l 0] by simp
  have str: "resolved_string ?K (path_dentry ?K 0x2040) (map chain_dentry [0..<?n]) (chain_dentry ?n) = chain_path names"
    using chain_linked [OF ok] n by (simp add: resolved_string_def chain_path_dentry ws chain_path_Nil)
  have it: "Suc ?n \<le> path_iterations ?K"
    using n by (simp add: path_iterations_def PATH_ITERATIONS_def chain_kernel_def)
  have "resolvable ?K 0x2040 (chain_path names)"
    unfolding resolvable_def
    using w it str len chain_dentry_read chain_name_ok [OF ok]
    by (intro conjI exI [of _ "map chain_dentry [0..<?n]"] exI [of _ "chain_dentry ?n"] exI [of _ "Suc ?n"]) auto
  then show ?thesis
    by (simp add: exec_ready_def chain_sized chain_map_ok chain_exec_file ff [unfolded chain_exec_file])
qed

section \<open>A state with one container\<close>

text \<open>The cgroup 42 is tracked as itself and has the policy 7, whose string maps are empty.\<close>

definition sample_state :: "u8 \<Rightarrow> u8 \<Rightarrow> bpf_state" where
  "sample_state m fr = init_state
     \<lparr>cgtracker_map := \<lparr>max_entries = TRACKER_MAP_MAX_ENTRIES, elems = [(42, 42)]\<rparr>,
      cg_to_policy_map := \<lparr>max_entries = CGROUP_TO_POLICY_MAX_ENTRIES, elems = [(42, 7)]\<rparr>,
      policy_settings_map := \<lparr>max_entries = POLICY_MAP_MAX_ENTRIES,
        elems = [(7, \<lparr>settings_mode = m, allow_foreign_root = fr\<rparr>)]\<rparr>\<rparr>"

lemma sample_state_simps:
  "map_lookup (cgtracker_map (sample_state m fr)) 42 = Some 42"
  "map_lookup (cg_to_policy_map (sample_state m fr)) 42 = Some 7"
  "map_lookup (policy_settings_map (sample_state m fr)) 7 = Some \<lparr>settings_mode = m, allow_foreign_root = fr\<rparr>"
  "process_evt_storage_map (sample_state m fr) = Some empty_evt"
  "ringbuf_monitoring (sample_state m fr) = []"
  "ringbuf_execve (sample_state m fr) = []"
  "map_lookup (pol_str_maps (sample_state m fr) i) p = None"
  by (simp_all add: sample_state_def init_state_def map_lookup_def)

lemma zero_tail_empty [simp]: "zero_tail empty_evt"
  by (simp add: zero_tail_def empty_evt_def)

lemma sample_state_ready: "buffer_ready (sample_state m fr)" "string_maps_wf (sample_state m fr)"
  by (simp_all add: buffer_ready_def string_maps_wf_def sample_state_simps)

lemma sample_not_listed: "\<not> allow_listed (sample_state m fr) p str"
  by (simp add: allow_listed_def get_policy_string_map_def sample_state_simps)

lemma sample_policed: "policed (chain_kernel names f l) (sample_state m fr) 42 7"
  by (simp add: policed_def chain_tracker chain_not_bootstrap sample_state_simps)

lemma chain_rb_room: "rb_room (chain_kernel names f l) rb n k"
  by (simp add: chain_kernel_def)

lemma chain_kernel_version: "\<not> linux_kernel_version (chain_kernel names f l) < KERNEL_VERSION 5 11 0"
  by (simp add: chain_kernel_def KERNEL_VERSION_def)

lemmas sample_eval = violation_def Let_def chain_tracker chain_not_bootstrap chain_foreign
  chain_kernel_version sample_state_simps sample_not_listed

lemma sample_violation:
  "violation (chain_kernel names 0x5100 l) (sample_state m fr) sample_bprm str =
     Some (7, \<lparr>settings_mode = m, allow_foreign_root = fr\<rparr>)"
  "violation (chain_kernel names 0x5200 l) (sample_state m fr) sample_bprm str =
     (if fr \<noteq> 0 then None else Some (7, \<lparr>settings_mode = m, allow_foreign_root = fr\<rparr>))"
  by (simp_all add: sample_eval)

lemma sample_verdict:
  "verdict (chain_kernel names 0x5100 l) (sample_state m fr) sample_bprm str =
     (if m = POLICY_MODE_MONITOR then 0 else - EPERM)"
  "verdict (chain_kernel names 0x5200 l) (sample_state m fr) sample_bprm str =
     (if fr \<noteq> 0 \<or> m = POLICY_MODE_MONITOR then 0 else - EPERM)"
  by (simp_all add: verdict_def sample_violation)

text \<open>The file \<^verbatim>\<open>/bin/sh\<close>.\<close>

definition sh_names :: "bytes list" where
  "sh_names = [[0x73, 0x68], [0x62, 0x69, 0x6E]]"

definition sh_path :: bytes where
  "sh_path = [0x2F, 0x62, 0x69, 0x6E, 0x2F, 0x73, 0x68]"

lemma sh_chain: "chain_ok sh_names" "chain_path sh_names = sh_path"
  by (simp_all add: chain_ok_def chain_path_def sh_names_def sh_path_def)

lemma sh_ready: "exec_ready (chain_kernel sh_names f l) sample_bprm sh_path"
  using chain_exec_ready [OF sh_chain(1)] by (simp add: sh_chain(2)) (simp add: sh_path_def)

text \<open>The same container before any policy is installed.\<close>

definition tracked_state :: bpf_state where
  "tracked_state = init_state
     \<lparr>cgtracker_map := \<lparr>max_entries = TRACKER_MAP_MAX_ENTRIES, elems = [(42, 42)]\<rparr>\<rparr>"

lemma tracked_state_simps:
  "map_lookup (cgtracker_map tracked_state) 42 = Some 42"
  "policy_settings_map tracked_state = \<lparr>max_entries = POLICY_MAP_MAX_ENTRIES, elems = []\<rparr>"
  "cg_to_policy_map tracked_state = \<lparr>max_entries = CGROUP_TO_POLICY_MAX_ENTRIES, elems = []\<rparr>"
  "process_evt_storage_map tracked_state = Some empty_evt"
  "pol_str_maps tracked_state = (\<lambda>_. \<lparr>max_entries = POLICY_STR_OUTER_MAX_ENTRIES, elems = []\<rparr>)"
  by (simp_all add: tracked_state_def init_state_def map_lookup_def)

end
