(* ===== verification/Long_Paths.thy ===== *)
theory Long_Paths
  imports Policy_Values Event_Stream Sample_Kernel
begin

text \<open>
  What the exec hook does with paths beyond the sizes it is built for. A path of 4095 bytes is
  reported with the text of an earlier event, a path of more than 4096 bytes is reported in a record
  the consumer drops, and a path of more than 8192 bytes runs out of the working segment of the event
  buffer into the padding segment. The padding is never cleared, so such an exec changes the verdict
  of later execs on the same CPU.
\<close>

section \<open>The padding segment\<close>

text \<open>The path of the binary has a component that crosses the start of the working segments.\<close>

definition overflows :: "kenv \<Rightarrow> u64 \<Rightarrow> bool" where
  "overflows K bprm \<longleftrightarrow> exec_file K bprm \<noteq> 0 \<and>
     (let p = exec_file K bprm + fld K File_f_path in
      fst (probe_read_kernel K (p + fld K Path_dentry) 8) = 0 \<and> \<not> d_unlinked K (path_dentry K p) \<and>
      (\<exists>ns1 x ns2 e n. vfs_walk K (stop_dentry K) (stop_vfsmount K) (path_dentry K p) (path_mount K p)
           (ns1 @ x # ns2) e n \<and> n \<le> path_iterations K \<and>
         (\<forall>y\<in>set (ns1 @ x # ns2). name_ok K y) \<and> name_ok K e \<and>
         length (walk_string K ns1) < 8192 \<and>
         8192 < length (walk_string K ns1) + length (d_name_bytes K x)))"

lemma exec_evt_overflows:
  assumes "probe_sized K" and "overflows K bprm"
  shows "path (snd (exec_evt K s cg bprm e)) 8192 \<noteq> 0"
proof -
  have "snd (bpf_d_path_approx K (exec_file K bprm + fld K File_f_path) b) 8192 \<noteq> 0" for b
    using assms(2) unfolding overflows_def Let_def
    by (elim conjE exE) (rule bpf_d_path_approx_overflow [OF assms(1)], assumption+)
  then show ?thesis
    using assms(2) by (simp add: exec_evt_def populate_evt_with_path_def Let_def overflows_def exec_file_def)
qed

lemma copy_exec_path_above:
  assumes "probe_map_ok K" and "4096 \<le> i"
  shows "path (snd (copy_exec_path K e off)) i = path e i"
proof -
  have "unat (SAFE_PATH_LEN (ucast (path_len e) + 1)) < 4096"
    by (simp add: SAFE_PATH_LEN_def)
  then show ?thesis
    using assms by (simp add: copy_exec_path_def Let_def probe_map_ok_def buf_write_other)
qed

lemma enforce_exec_above:
  assumes "probe_map_ok K" and "4096 \<le> i"
  shows "path (fst (snd (enforce_exec K s e cg (exec_is_foreign_root K bprm) p bprm))) i =
    path (snd (exec_evt K s cg bprm e)) i"
  using copy_exec_path_above [OF assms]
  by (simp add: enforce_exec_cases foreign_exec_def compare_exec_def report_violation_def Let_def case_prod_beta
      split: option.split)

lemma overflow_poisons:
  assumes "policed K s cg p" and "process_evt_storage_map s = Some e"
    and "probe_sized K" and "probe_map_ok K" and "overflows K bprm"
  shows "\<exists>e'. process_evt_storage_map (snd (enforce_cgroup_policy K s bprm)) = Some e' \<and> path e' 8192 \<noteq> 0"
  using exec_evt_overflows [OF assms(3,5)] enforce_exec_above [OF assms(4), of 8192]
  by (simp add: policed_hook [OF assms(1)] assms(2) Let_def case_prod_beta)

section \<open>A later exec\<close>

lemma poisoned_no_match:
  assumes h: "policy_holds s p V" and V: "\<forall>v\<in>V. 0 \<notin> set v \<and> table_length (length v)"
    and poison: "path e 8192 \<noteq> 0" and len: "table_length (length str)" "length str \<notin> misplaced"
    and gap: "length str < STRING_MAPS_SIZE ! bucket (length str)"
    and ext: "\<forall>v\<in>V. take (length str) v = str \<longrightarrow> v = str"
  shows "\<not> path_matches s (resolved_evt e str) (word_of_nat (8192 - length str)) p"
proof
  let ?i = "bucket (length str)" and ?n = "length str"
  let ?k = "STRING_MAPS_SIZE ! ?i"
  assume m: "path_matches s (resolved_evt e str) (word_of_nat (8192 - ?n)) p"
  have i: "?i < 11" using len bucket_less by simp
  have idx: "c_index ?n = int ?i" using c_index_bucket len by simp
  have off: "unat (SAFE_PATH_ACCESS (word_of_nat (8192 - ?n))) = 8192 - ?n"
    using resolved_offset [of ?n] len by simp
  have pl: "path_len (resolved_evt e str) = word_of_nat ?n" by (simp add: resolved_evt_def)
  obtain t where t: "outer_entry s ?i p = Some t"
    and key: "buf_read (path (resolved_evt e str)) (8192 - ?n) (key_size t) \<in> set (keys t)"
    using m i idx off pl
    by (auto simp: path_matches_def Let_def get_policy_string_map_def outer_entry_def c_index_def
        split: option.splits)
  have "key_size t = ?k" "set (keys t) = pad_to ?k ` {v \<in> V. bucket (length v) = ?i}"
    using h i t by (auto simp: policy_holds_def)
  then obtain v where v: "v \<in> V" "buf_read (path (resolved_evt e str)) (8192 - ?n) ?k = pad_to ?k v"
    using key by auto
  then have nth: "path (resolved_evt e str) (8192 - ?n + j) = pad_to ?k v ! j" if "j < ?k" for j
    using that by (metis length_buf_read nth_buf_read)
  have "pad_to ?k v ! ?n \<noteq> 0"
    using nth [OF gap] poison len by (simp add: resolved_evt_def buf_write_other)
  then have long: "?n < length v"
    using gap by (cases "?n < length v") (simp_all add: pad_to_def nth_append)
  have "take ?n v = str"
  proof (rule nth_equalityI)
    fix j assume "j < length (take ?n v)"
    then have j: "j < ?n" by simp
    have "path (resolved_evt e str) (8192 - ?n + j) = str ! j"
      using buf_write_at [OF j, of "path e" "8192 - ?n"] by (simp add: resolved_evt_def)
    then show "take ?n v ! j = str ! j"
      using nth [of j] gap long j by (simp add: pad_to_def nth_append)
  qed (use long in simp)
  then show False using ext v(1) long by auto
qed

lemma policed_cong: "maps_of s = maps_of s' \<Longrightarrow> policed K s = policed K s'"
  using maps_of_cong [of s s'] by (simp add: fun_eq_iff policed_def)

lemma poisoned_denied:
  assumes r: "exec_ready K bprm str" and pol: "policed K s cg p"
    and e: "process_evt_storage_map s = Some e" and poison: "path e 8192 \<noteq> 0"
    and st: "map_lookup (policy_settings_map s) p = Some st" "settings_mode st \<noteq> POLICY_MODE_MONITOR"
    and nf: "\<not> exec_is_foreign_root K bprm" and k: "\<not> linux_kernel_version K < KERNEL_VERSION 5 11 0"
    and nm: "\<And>e. path e 8192 \<noteq> 0 \<Longrightarrow>
      \<not> path_matches s (resolved_evt e str) (word_of_nat (8192 - length str)) p"
  shows "fst (enforce_cgroup_policy K s bprm) = - EPERM"
proof -
  have ok: "fst (copy_exec_path K x off) = 0" for x off
    using r by (simp add: exec_ready_def probe_map_ok_def copy_exec_path_def Let_def)
  have m: "\<not> path_matches s (resolved_evt (e\<lparr>cg_tracker_id := cg, foreign := 0\<rparr>) str) (resolved_off str) p"
    using nm [of "e\<lparr>cg_tracker_id := cg, foreign := 0\<rparr>"] poison by simp
  show ?thesis
    using nf k st ok m
    by (simp add: policed_hook [OF pol] e Let_def case_prod_beta enforce_exec_ready [OF r] compare_exec_def
        report_violation_def)
qed

section \<open>Properties\<close>


lemma chain_overflows:
  assumes ok: "chain_ok names" and k: "k < length names"
    and over: "length (chain_path (take k names)) < 8192" "8192 < length (chain_path (take k names)) + length (names ! k)"
  shows "overflows (chain_kernel names f l) sample_bprm"
proof -
  let ?K = "chain_kernel names f l" and ?n = "length names"
  let ?ns1 = "map chain_dentry [0..<k]" and ?ns2 = "map chain_dentry [Suc k..<?n]"
  have n: "?n \<le> 2000" using ok by (simp add: chain_ok_def)
  have ff: "exec_file ?K sample_bprm + fld ?K File_f_path = 0x2040"
    by (simp add: chain_exec_file chain_fld offset_simps)
  have split: "[0..<?n] = [0..<k] @ k # [Suc k..<?n]"
    using k by (metis append_Cons append_Nil le_add1 less_imp_add_positive upt_add_eq_append upt_conv_Cons zero_le)
  have w: "vfs_walk ?K (stop_dentry ?K) (stop_vfsmount ?K) (path_dentry ?K 0x2040) (path_mount ?K 0x2040)
      (?ns1 @ chain_dentry k # ?ns2) (chain_dentry ?n) (Suc ?n)"
    using chain_walk [of names 0 f l] n split by (simp add: chain_stop chain_path_dentry)
  have ws: "walk_string ?K ?ns1 = chain_path (take k names)"
    using chain_walk_string [OF ok, of k f l 0] k by simp
  have it: "Suc ?n \<le> path_iterations ?K"
    using n by (simp add: path_iterations_def PATH_ITERATIONS_def chain_kernel_def)
  have nok: "\<forall>y\<in>set (?ns1 @ chain_dentry k # ?ns2). name_ok ?K y" "name_ok ?K (chain_dentry ?n)"
    using chain_name_ok [OF ok] k by auto
  have nm: "d_name_bytes ?K (chain_dentry k) = names ! k"
    using chain_name [of k names f l] ok k by (simp add: nth_append chain_ok_def)
  show ?thesis
    unfolding overflows_def Let_def ff
    using w it nok over ws nm chain_dentry_read chain_linked [OF ok]
    by (intro conjI exI [of _ ?ns1] exI [of _ "chain_dentry k"] exI [of _ ?ns2] exI [of _ "chain_dentry ?n"]
        exI [of _ "Suc ?n"]) (auto simp: chain_exec_file chain_path_dentry)
qed

text \<open>
  \<^bold>\<open>C39\<close>. A path of exactly 4095 bytes is reported wrongly. The size of the copy into the first segment
  wraps to 0, so the violation is still denied or let through as it should be, but the record decodes
  to the first 4095 bytes that earlier runs left in the buffer.
\<close>

theorem violation_4095_stale:
  assumes "string_maps_wf s" and "exec_ready K bprm str"
    and "process_evt_storage_map s = Some e" and "zero_tail e"
    and "violation K s bprm str = Some (p, st)" and "\<And>n k. rb_room K Ringbuf_monitoring n k"
    and "length str = 4095" and "mode_text (settings_mode st) = Some t"
  shows "\<exists>bs. ringbuf_monitoring (snd (enforce_cgroup_policy K s bprm)) = ringbuf_monitoring s @ [bs] \<and>
    process_record bs = Inr \<lparr>CgTrackerID = get_tracker_id_from_curr_task K s, ExePath = buf_read (path e) 0 4095,
      Mode = t, ForeignRoot = exec_is_foreign_root K bprm\<rparr>"
  using hook_reports [OF assms(1-4)] assms(5,6) violation_4095 [OF assms(7,8)]
  by (simp add: ring_after_def)

text \<open>Sixteen components of 255 bytes, the last shorter by one: a path of 4095 bytes.\<close>

definition names_4095 :: "bytes list" where
  "names_4095 = replicate 254 0x61 # replicate 15 (replicate 255 0x61)"

lemma names_4095_ok: "chain_ok names_4095" "length (chain_path names_4095) = 4095"
  by (simp_all add: chain_ok_def chain_path_def names_4095_def length_concat sum_list_replicate rev_map [symmetric])

theorem violation_4095_stale_witness:
  "\<exists>bs. ringbuf_monitoring (snd (enforce_cgroup_policy (chain_kernel names_4095 0x5100 False)
      (sample_state POLICY_MODE_PROTECT 0) sample_bprm)) = [bs] \<and>
    process_record bs = Inr \<lparr>CgTrackerID = 42, ExePath = replicate 4095 0, Mode = ''protect'', ForeignRoot = False\<rparr>"
proof -
  let ?K = "chain_kernel names_4095 0x5100 False" and ?s = "sample_state POLICY_MODE_PROTECT 0"
  let ?st = "\<lparr>settings_mode = POLICY_MODE_PROTECT, allow_foreign_root = 0\<rparr>"
  have v: "violation ?K ?s sample_bprm (chain_path names_4095) = Some (7, ?st)" by (simp add: sample_violation)
  have m: "mode_text (settings_mode ?st) = Some ''protect''" by (simp add: mode_text_def policymode_String_def)
  have r: "exec_ready ?K sample_bprm (chain_path names_4095)"
    by (rule chain_exec_ready) (simp_all add: names_4095_ok)
  have z: "buf_read (path empty_evt) 0 4095 = replicate 4095 0"
    by (rule buf_read_zeros) (simp add: empty_evt_def)
  show ?thesis
    using violation_4095_stale [OF sample_state_ready(2) r sample_state_simps(4) zero_tail_empty v chain_rb_room
        names_4095_ok(2) m]
    by (simp add: chain_tracker chain_foreign sample_state_simps z)
qed

text \<open>
  \<^bold>\<open>C40\<close>. The violation of a path of 4097 to 8191 bytes is never seen in user space. The hook decides as
  specified and submits one record, but the record announces more bytes than the consumer accepts, so
  it is dropped.
\<close>

theorem long_violation_dropped:
  assumes "string_maps_wf s" and "exec_ready K bprm str"
    and "process_evt_storage_map s = Some e" and "zero_tail e"
    and "violation K s bprm str = Some (p, st)" and "\<And>n k. rb_room K Ringbuf_monitoring n k"
    and "4096 < length str"
  shows "\<exists>bs. ringbuf_monitoring (snd (enforce_cgroup_policy K s bprm)) = ringbuf_monitoring s @ [bs] \<and>
    process_record bs = Inl (Err_path_length (word_of_nat (length str))) \<and> processRingbufEvents [bs] = []"
proof -
  have "length str < 8192" using exec_ready_len [OF assms(2)] by simp
  then show ?thesis
    using hook_reports [OF assms(1-4)] assms(5,6) violation_long [OF assms(7)] by (simp add: ring_after_def)
qed

definition names_4352 :: "bytes list" where
  "names_4352 = replicate 17 (replicate 255 0x61)"

lemma names_4352_ok: "chain_ok names_4352" "length (chain_path names_4352) = 4352"
  by (simp_all add: chain_ok_def chain_path_def names_4352_def length_concat sum_list_replicate rev_map [symmetric])

theorem long_violation_dropped_witness:
  "\<exists>bs. ringbuf_monitoring (snd (enforce_cgroup_policy (chain_kernel names_4352 0x5100 False)
      (sample_state POLICY_MODE_PROTECT 0) sample_bprm)) = [bs] \<and> processRingbufEvents [bs] = []"
proof -
  let ?K = "chain_kernel names_4352 0x5100 False" and ?s = "sample_state POLICY_MODE_PROTECT 0"
  have v: "violation ?K ?s sample_bprm (chain_path names_4352) =
      Some (7, \<lparr>settings_mode = POLICY_MODE_PROTECT, allow_foreign_root = 0\<rparr>)" by (simp add: sample_violation)
  have r: "exec_ready ?K sample_bprm (chain_path names_4352)"
    by (rule chain_exec_ready) (simp_all add: names_4352_ok)
  have l: "4096 < length (chain_path names_4352)" by (simp add: names_4352_ok)
  show ?thesis
    using long_violation_dropped [OF sample_state_ready(2) r sample_state_simps(4) zero_tail_empty v chain_rb_room l]
    by (auto simp: sample_state_simps)
qed

end
