(* ===== verification/Vmlinux_Arm64.thy ===== *)
theory Vmlinux_Arm64
  imports Kernel_Fields
begin

text \<open>
  The kernel types of \<^verbatim>\<open>src/bpf/vmlinux_generated_arm64.h\<close> that the BPF programs read, with
  every type they contain by value, member by member and in the order of the header, and the
  offsets that follow for the members of \<open>kfield\<close>. A named type of the header is one
  definition here; a pointer is \<open>CPtr\<close> whatever it points to.
\<close>

section \<open>Types\<close>

definition arm64_uapi_u64 :: ctype where
  "arm64_uapi_u64 =
   CInt 8"

definition arm64_u64 :: ctype where
  "arm64_u64 =
   arm64_uapi_u64"

definition arm64_uapi_u32 :: ctype where
  "arm64_uapi_u32 =
   CInt 4"

definition arm64_u32 :: ctype where
  "arm64_u32 =
   arm64_uapi_u32"

definition arm64_struct_thread_info :: ctype where
  "arm64_struct_thread_info =
   CStruct [
     CField ''flags'' (CInt 8),
     CField ''ttbr0'' arm64_u64,
     CField '''' (CUnion [CField ''preempt_count'' arm64_u64, CField ''preempt'' (CStruct [CField ''count'' arm64_u32, CField ''need_resched'' arm64_u32])]),
     CField ''cpu'' arm64_u32]"

definition arm64_atomic_t :: ctype where
  "arm64_atomic_t =
   CStruct [
     CField ''counter'' (CInt 4)]"

definition arm64_struct_refcount_struct :: ctype where
  "arm64_struct_refcount_struct =
   CStruct [
     CField ''refs'' arm64_atomic_t]"

definition arm64_refcount_t :: ctype where
  "arm64_refcount_t =
   arm64_struct_refcount_struct"

definition arm64_struct_llist_node :: ctype where
  "arm64_struct_llist_node =
   CStruct [
     CField ''next'' CPtr]"

definition arm64_uapi_u16 :: ctype where
  "arm64_uapi_u16 =
   CInt 2"

definition arm64_u16 :: ctype where
  "arm64_u16 =
   arm64_uapi_u16"

definition arm64_struct_u__call_single_node :: ctype where
  "arm64_struct_u__call_single_node =
   CStruct [
     CField ''llist'' arm64_struct_llist_node,
     CField '''' (CUnion [CField ''u_flags'' (CInt 4), CField ''a_flags'' arm64_atomic_t]),
     CField ''src'' arm64_u16,
     CField ''dst'' arm64_u16]"

definition arm64_struct_load_weight :: ctype where
  "arm64_struct_load_weight =
   CStruct [
     CField ''weight'' (CInt 8),
     CField ''inv_weight'' arm64_u32]"

definition arm64_struct_rb_node :: ctype where
  "arm64_struct_rb_node =
   CStruct [
     CField ''__rb_parent_color'' (CInt 8),
     CField ''rb_right'' CPtr,
     CField ''rb_left'' CPtr]"

definition arm64_struct_list_head :: ctype where
  "arm64_struct_list_head =
   CStruct [
     CField ''next'' CPtr,
     CField ''prev'' CPtr]"

definition arm64_uapi_s64 :: ctype where
  "arm64_uapi_s64 =
   CInt 8"

definition arm64_s64 :: ctype where
  "arm64_s64 =
   arm64_uapi_s64"

definition arm64_struct_sched_avg :: ctype where
  "arm64_struct_sched_avg =
   CStruct [
     CField ''last_update_time'' arm64_u64,
     CField ''load_sum'' arm64_u64,
     CField ''runnable_sum'' arm64_u64,
     CField ''util_sum'' arm64_u32,
     CField ''period_contrib'' arm64_u32,
     CField ''load_avg'' (CInt 8),
     CField ''runnable_avg'' (CInt 8),
     CField ''util_avg'' (CInt 8),
     CField ''util_est'' (CInt 4)]"

definition arm64_struct_sched_entity :: ctype where
  "arm64_struct_sched_entity =
   CStruct [
     CField ''load'' arm64_struct_load_weight,
     CField ''run_node'' arm64_struct_rb_node,
     CField ''deadline'' arm64_u64,
     CField ''min_vruntime'' arm64_u64,
     CField ''min_slice'' arm64_u64,
     CField ''group_node'' arm64_struct_list_head,
     CField ''on_rq'' (CInt 1),
     CField ''sched_delayed'' (CInt 1),
     CField ''rel_deadline'' (CInt 1),
     CField ''custom_slice'' (CInt 1),
     CField ''exec_start'' arm64_u64,
     CField ''sum_exec_runtime'' arm64_u64,
     CField ''prev_sum_exec_runtime'' arm64_u64,
     CField ''vruntime'' arm64_u64,
     CField ''vlag'' arm64_s64,
     CField ''slice'' arm64_u64,
     CField ''nr_migrations'' arm64_u64,
     CField ''depth'' (CInt 4),
     CField ''parent'' CPtr,
     CField ''cfs_rq'' CPtr,
     CField ''my_q'' CPtr,
     CField ''runnable_weight'' (CInt 8),
     CBits '''' (CInt 8) 64,
     CField ''avg'' arm64_struct_sched_avg]"

definition arm64_struct_sched_rt_entity :: ctype where
  "arm64_struct_sched_rt_entity =
   CStruct [
     CField ''run_list'' arm64_struct_list_head,
     CField ''timeout'' (CInt 8),
     CField ''watchdog_stamp'' (CInt 8),
     CField ''time_slice'' (CInt 4),
     CField ''on_rq'' (CInt 2),
     CField ''on_list'' (CInt 2),
     CField ''back'' CPtr]"

definition arm64_ktime_t :: ctype where
  "arm64_ktime_t =
   arm64_s64"

definition arm64_struct_timerqueue_node :: ctype where
  "arm64_struct_timerqueue_node =
   CStruct [
     CField ''node'' arm64_struct_rb_node,
     CField ''expires'' arm64_ktime_t]"

definition arm64_uapi_u8 :: ctype where
  "arm64_uapi_u8 =
   CInt 1"

definition arm64_u8 :: ctype where
  "arm64_u8 =
   arm64_uapi_u8"

definition arm64_struct_hrtimer :: ctype where
  "arm64_struct_hrtimer =
   CStruct [
     CField ''node'' arm64_struct_timerqueue_node,
     CField ''_softexpires'' arm64_ktime_t,
     CField ''function'' CPtr,
     CField ''base'' CPtr,
     CField ''state'' arm64_u8,
     CField ''is_rel'' arm64_u8,
     CField ''is_soft'' arm64_u8,
     CField ''is_hard'' arm64_u8]"

definition arm64_dl_server_has_tasks_f :: ctype where
  "arm64_dl_server_has_tasks_f =
   CPtr"

definition arm64_dl_server_pick_f :: ctype where
  "arm64_dl_server_pick_f =
   CPtr"

definition arm64_struct_sched_dl_entity :: ctype where
  "arm64_struct_sched_dl_entity =
   CStruct [
     CField ''rb_node'' arm64_struct_rb_node,
     CField ''dl_runtime'' arm64_u64,
     CField ''dl_deadline'' arm64_u64,
     CField ''dl_period'' arm64_u64,
     CField ''dl_bw'' arm64_u64,
     CField ''dl_density'' arm64_u64,
     CField ''runtime'' arm64_s64,
     CField ''deadline'' arm64_u64,
     CField ''flags'' (CInt 4),
     CBits ''dl_throttled'' (CInt 4) 1,
     CBits ''dl_yielded'' (CInt 4) 1,
     CBits ''dl_non_contending'' (CInt 4) 1,
     CBits ''dl_overrun'' (CInt 4) 1,
     CBits ''dl_server'' (CInt 4) 1,
     CBits ''dl_server_active'' (CInt 4) 1,
     CBits ''dl_defer'' (CInt 4) 1,
     CBits ''dl_defer_armed'' (CInt 4) 1,
     CBits ''dl_defer_running'' (CInt 4) 1,
     CField ''dl_timer'' arm64_struct_hrtimer,
     CField ''inactive_timer'' arm64_struct_hrtimer,
     CField ''rq'' CPtr,
     CField ''server_has_tasks'' arm64_dl_server_has_tasks_f,
     CField ''server_pick_task'' arm64_dl_server_pick_f,
     CField ''pi_se'' CPtr]"

definition arm64_struct_scx_dsq_list_node :: ctype where
  "arm64_struct_scx_dsq_list_node =
   CStruct [
     CField ''node'' arm64_struct_list_head,
     CField ''flags'' arm64_u32,
     CField ''priv'' arm64_u32]"

definition arm64_uapi_s32 :: ctype where
  "arm64_uapi_s32 =
   CInt 4"

definition arm64_s32 :: ctype where
  "arm64_s32 =
   arm64_uapi_s32"

definition arm64_atomic64_t :: ctype where
  "arm64_atomic64_t =
   CStruct [
     CField ''counter'' arm64_s64]"

definition arm64_atomic_long_t :: ctype where
  "arm64_atomic_long_t =
   arm64_atomic64_t"

definition arm64_struct_sched_ext_entity :: ctype where
  "arm64_struct_sched_ext_entity =
   CStruct [
     CField ''dsq'' CPtr,
     CField ''dsq_list'' arm64_struct_scx_dsq_list_node,
     CField ''dsq_priq'' arm64_struct_rb_node,
     CField ''dsq_seq'' arm64_u32,
     CField ''dsq_flags'' arm64_u32,
     CField ''flags'' arm64_u32,
     CField ''weight'' arm64_u32,
     CField ''sticky_cpu'' arm64_s32,
     CField ''holding_cpu'' arm64_s32,
     CField ''kf_mask'' arm64_u32,
     CField ''kf_tasks'' (CArray 2 CPtr),
     CField ''ops_state'' arm64_atomic_long_t,
     CField ''runnable_node'' arm64_struct_list_head,
     CField ''runnable_at'' (CInt 8),
     CField ''core_sched_at'' arm64_u64,
     CField ''ddsp_dsq_id'' arm64_u64,
     CField ''ddsp_enq_flags'' arm64_u64,
     CField ''slice'' arm64_u64,
     CField ''dsq_vtime'' arm64_u64,
     CField ''disallow'' (CInt 1),
     CField ''cgrp_moving_from'' CPtr,
     CField ''tasks_node'' arm64_struct_list_head]"

definition arm64_struct_uclamp_se :: ctype where
  "arm64_struct_uclamp_se =
   CStruct [
     CBits ''value'' (CInt 4) 11,
     CBits ''bucket_id'' (CInt 4) 3,
     CBits ''active'' (CInt 4) 1,
     CBits ''user_defined'' (CInt 4) 1]"

definition arm64_struct_sched_statistics :: ctype where
  "arm64_struct_sched_statistics =
   CStruct [
     CField ''wait_start'' arm64_u64,
     CField ''wait_max'' arm64_u64,
     CField ''wait_count'' arm64_u64,
     CField ''wait_sum'' arm64_u64,
     CField ''iowait_count'' arm64_u64,
     CField ''iowait_sum'' arm64_u64,
     CField ''sleep_start'' arm64_u64,
     CField ''sleep_max'' arm64_u64,
     CField ''sum_sleep_runtime'' arm64_s64,
     CField ''block_start'' arm64_u64,
     CField ''block_max'' arm64_u64,
     CField ''sum_block_runtime'' arm64_s64,
     CField ''exec_max'' arm64_s64,
     CField ''slice_max'' arm64_u64,
     CField ''nr_migrations_cold'' arm64_u64,
     CField ''nr_failed_migrations_affine'' arm64_u64,
     CField ''nr_failed_migrations_running'' arm64_u64,
     CField ''nr_failed_migrations_hot'' arm64_u64,
     CField ''nr_forced_migrations'' arm64_u64,
     CField ''nr_wakeups'' arm64_u64,
     CField ''nr_wakeups_sync'' arm64_u64,
     CField ''nr_wakeups_migrate'' arm64_u64,
     CField ''nr_wakeups_local'' arm64_u64,
     CField ''nr_wakeups_remote'' arm64_u64,
     CField ''nr_wakeups_affine'' arm64_u64,
     CField ''nr_wakeups_affine_attempts'' arm64_u64,
     CField ''nr_wakeups_passive'' arm64_u64,
     CField ''nr_wakeups_idle'' arm64_u64,
     CField ''core_forceidle_sum'' arm64_u64,
     CBits '''' (CInt 8) 64,
     CBits '''' (CInt 8) 64,
     CBits '''' (CInt 8) 64]"

definition arm64_struct_hlist_head :: ctype where
  "arm64_struct_hlist_head =
   CStruct [
     CField ''first'' CPtr]"

definition arm64_struct_cpumask :: ctype where
  "arm64_struct_cpumask =
   CStruct [
     CField ''bits'' (CArray 64 (CInt 8))]"

definition arm64_cpumask_t :: ctype where
  "arm64_cpumask_t =
   arm64_struct_cpumask"

definition arm64_union_rcu_special :: ctype where
  "arm64_union_rcu_special =
   CUnion [
     CField ''b'' (CStruct [CField ''blocked'' arm64_u8, CField ''need_qs'' arm64_u8, CField ''exp_hint'' arm64_u8, CField ''need_mb'' arm64_u8]),
     CField ''s'' arm64_u32]"

definition arm64_struct_sched_info :: ctype where
  "arm64_struct_sched_info =
   CStruct [
     CField ''pcount'' (CInt 8),
     CField ''run_delay'' (CInt 8),
     CField ''last_arrival'' (CInt 8),
     CField ''last_queued'' (CInt 8)]"

definition arm64_struct_plist_node :: ctype where
  "arm64_struct_plist_node =
   CStruct [
     CField ''prio'' (CInt 4),
     CField ''prio_list'' arm64_struct_list_head,
     CField ''node_list'' arm64_struct_list_head]"

definition arm64_uapi_kernel_clockid_t :: ctype where
  "arm64_uapi_kernel_clockid_t =
   CInt 4"

definition arm64_clockid_t :: ctype where
  "arm64_clockid_t =
   arm64_uapi_kernel_clockid_t"

definition arm64_enum_timespec_type :: ctype where
  "arm64_enum_timespec_type =
   CInt 4"

definition arm64_struct_restart_block :: ctype where
  "arm64_struct_restart_block =
   CStruct [
     CField ''arch_data'' (CInt 8),
     CField ''fn'' CPtr,
     CField '''' (CUnion [CField ''futex'' (CStruct [CField ''uaddr'' CPtr, CField ''val'' arm64_u32, CField ''flags'' arm64_u32, CField ''bitset'' arm64_u32, CField ''time'' arm64_u64, CField ''uaddr2'' CPtr]), CField ''nanosleep'' (CStruct [CField ''clockid'' arm64_clockid_t, CField ''type'' arm64_enum_timespec_type, CField '''' (CUnion [CField ''rmtp'' CPtr, CField ''compat_rmtp'' CPtr]), CField ''expires'' arm64_u64]), CField ''poll'' (CStruct [CField ''ufds'' CPtr, CField ''nfds'' (CInt 4), CField ''has_timeout'' (CInt 4), CField ''tv_sec'' (CInt 8), CField ''tv_nsec'' (CInt 8)])])]"

definition arm64_uapi_kernel_pid_t :: ctype where
  "arm64_uapi_kernel_pid_t =
   CInt 4"

definition arm64_pid_t :: ctype where
  "arm64_pid_t =
   arm64_uapi_kernel_pid_t"

definition arm64_struct_hlist_node :: ctype where
  "arm64_struct_hlist_node =
   CStruct [
     CField ''next'' CPtr,
     CField ''pprev'' CPtr]"

definition arm64_struct_qspinlock :: ctype where
  "arm64_struct_qspinlock =
   CStruct [
     CField '''' (CUnion [CField ''val'' arm64_atomic_t, CField '''' (CStruct [CField ''locked'' arm64_u8, CField ''pending'' arm64_u8]), CField '''' (CStruct [CField ''locked_pending'' arm64_u16, CField ''tail'' arm64_u16])])]"

definition arm64_arch_spinlock_t :: ctype where
  "arm64_arch_spinlock_t =
   arm64_struct_qspinlock"

definition arm64_struct_raw_spinlock :: ctype where
  "arm64_struct_raw_spinlock =
   CStruct [
     CField ''raw_lock'' arm64_arch_spinlock_t]"

definition arm64_raw_spinlock_t :: ctype where
  "arm64_raw_spinlock_t =
   arm64_struct_raw_spinlock"

definition arm64_struct_prev_cputime :: ctype where
  "arm64_struct_prev_cputime =
   CStruct [
     CField ''utime'' arm64_u64,
     CField ''stime'' arm64_u64,
     CField ''lock'' arm64_raw_spinlock_t]"

definition arm64_struct_seqcount :: ctype where
  "arm64_struct_seqcount =
   CStruct [
     CField ''sequence'' (CInt 4)]"

definition arm64_seqcount_t :: ctype where
  "arm64_seqcount_t =
   arm64_struct_seqcount"

definition arm64_enum_vtime_state :: ctype where
  "arm64_enum_vtime_state =
   CInt 4"

definition arm64_struct_vtime :: ctype where
  "arm64_struct_vtime =
   CStruct [
     CField ''seqcount'' arm64_seqcount_t,
     CField ''starttime'' (CInt 8),
     CField ''state'' arm64_enum_vtime_state,
     CField ''cpu'' (CInt 4),
     CField ''utime'' arm64_u64,
     CField ''stime'' arm64_u64,
     CField ''gtime'' arm64_u64]"

definition arm64_struct_rb_root :: ctype where
  "arm64_struct_rb_root =
   CStruct [
     CField ''rb_node'' CPtr]"

definition arm64_struct_rb_root_cached :: ctype where
  "arm64_struct_rb_root_cached =
   CStruct [
     CField ''rb_root'' arm64_struct_rb_root,
     CField ''rb_leftmost'' CPtr]"

definition arm64_struct_timerqueue_head :: ctype where
  "arm64_struct_timerqueue_head =
   CStruct [
     CField ''rb_root'' arm64_struct_rb_root_cached]"

definition arm64_struct_posix_cputimer_base :: ctype where
  "arm64_struct_posix_cputimer_base =
   CStruct [
     CField ''nextevt'' arm64_u64,
     CField ''tqhead'' arm64_struct_timerqueue_head]"

definition arm64_struct_posix_cputimers :: ctype where
  "arm64_struct_posix_cputimers =
   CStruct [
     CField ''bases'' (CArray 3 arm64_struct_posix_cputimer_base),
     CField ''timers_active'' (CInt 4),
     CField ''expiry_active'' (CInt 4)]"

definition arm64_struct_callback_head :: ctype where
  "arm64_struct_callback_head =
   CStruct [
     CField ''next'' CPtr,
     CField ''func'' CPtr]"

definition arm64_struct_optimistic_spin_queue :: ctype where
  "arm64_struct_optimistic_spin_queue =
   CStruct [
     CField ''tail'' arm64_atomic_t]"

definition arm64_struct_mutex :: ctype where
  "arm64_struct_mutex =
   CStruct [
     CField ''owner'' arm64_atomic_long_t,
     CField ''wait_lock'' arm64_raw_spinlock_t,
     CField ''osq'' arm64_struct_optimistic_spin_queue,
     CField ''wait_list'' arm64_struct_list_head]"

definition arm64_struct_posix_cputimers_work :: ctype where
  "arm64_struct_posix_cputimers_work =
   CStruct [
     CField ''work'' arm64_struct_callback_head,
     CField ''mutex'' arm64_struct_mutex,
     CField ''scheduled'' (CInt 4)]"

definition arm64_struct_sysv_sem :: ctype where
  "arm64_struct_sysv_sem =
   CStruct [
     CField ''undo_list'' CPtr]"

definition arm64_struct_sysv_shm :: ctype where
  "arm64_struct_sysv_shm =
   CStruct [
     CField ''shm_clist'' arm64_struct_list_head]"

definition arm64_sigset_t :: ctype where
  "arm64_sigset_t =
   CStruct [
     CField ''sig'' (CArray 1 (CInt 8))]"

definition arm64_struct_sigpending :: ctype where
  "arm64_struct_sigpending =
   CStruct [
     CField ''list'' arm64_struct_list_head,
     CField ''signal'' arm64_sigset_t]"

definition arm64_uapi_kernel_ulong_t :: ctype where
  "arm64_uapi_kernel_ulong_t =
   CInt 8"

definition arm64_uapi_kernel_size_t :: ctype where
  "arm64_uapi_kernel_size_t =
   arm64_uapi_kernel_ulong_t"

definition arm64_size_t :: ctype where
  "arm64_size_t =
   arm64_uapi_kernel_size_t"

definition arm64_uapi_kernel_uid32_t :: ctype where
  "arm64_uapi_kernel_uid32_t =
   CInt 4"

definition arm64_uid_t :: ctype where
  "arm64_uid_t =
   arm64_uapi_kernel_uid32_t"

definition arm64_kuid_t :: ctype where
  "arm64_kuid_t =
   CStruct [
     CField ''val'' arm64_uid_t]"

definition arm64_struct_seccomp :: ctype where
  "arm64_struct_seccomp =
   CStruct [
     CField ''mode'' (CInt 4),
     CField ''filter_count'' arm64_atomic_t,
     CField ''filter'' CPtr]"

definition arm64_struct_syscall_user_dispatch :: ctype where
  "arm64_struct_syscall_user_dispatch =
   CStruct []"

definition arm64_struct_spinlock :: ctype where
  "arm64_struct_spinlock =
   CStruct [
     CField '''' (CUnion [CField ''rlock'' arm64_struct_raw_spinlock])]"

definition arm64_spinlock_t :: ctype where
  "arm64_spinlock_t =
   arm64_struct_spinlock"

definition arm64_struct_wake_q_node :: ctype where
  "arm64_struct_wake_q_node =
   CStruct [
     CField ''next'' CPtr]"

definition arm64_struct_task_io_accounting :: ctype where
  "arm64_struct_task_io_accounting =
   CStruct [
     CField ''rchar'' arm64_u64,
     CField ''wchar'' arm64_u64,
     CField ''syscr'' arm64_u64,
     CField ''syscw'' arm64_u64,
     CField ''read_bytes'' arm64_u64,
     CField ''write_bytes'' arm64_u64,
     CField ''cancelled_write_bytes'' arm64_u64]"

definition arm64_nodemask_t :: ctype where
  "arm64_nodemask_t =
   CStruct [
     CField ''bits'' (CArray 8 (CInt 8))]"

definition arm64_struct_seqcount_spinlock :: ctype where
  "arm64_struct_seqcount_spinlock =
   CStruct [
     CField ''seqcount'' arm64_seqcount_t]"

definition arm64_seqcount_spinlock_t :: ctype where
  "arm64_seqcount_spinlock_t =
   arm64_struct_seqcount_spinlock"

definition arm64_struct_arch_tlbflush_unmap_batch :: ctype where
  "arm64_struct_arch_tlbflush_unmap_batch =
   CStruct []"

definition arm64_struct_tlbflush_unmap_batch :: ctype where
  "arm64_struct_tlbflush_unmap_batch =
   CStruct [
     CField ''arch'' arm64_struct_arch_tlbflush_unmap_batch,
     CField ''flush_required'' (CInt 1),
     CField ''writable'' (CInt 1)]"

definition arm64_struct_page_frag :: ctype where
  "arm64_struct_page_frag =
   CStruct [
     CField ''page'' CPtr,
     CField ''offset'' arm64_uapi_u32,
     CField ''size'' arm64_uapi_u32]"

definition arm64_struct_latency_record :: ctype where
  "arm64_struct_latency_record =
   CStruct [
     CField ''backtrace'' (CArray 12 (CInt 8)),
     CField ''count'' (CInt 4),
     CField ''time'' (CInt 8),
     CField ''max'' (CInt 8)]"

definition arm64_struct_kmap_ctrl :: ctype where
  "arm64_struct_kmap_ctrl =
   CStruct []"

definition arm64_struct_timer_list :: ctype where
  "arm64_struct_timer_list =
   CStruct [
     CField ''entry'' arm64_struct_hlist_node,
     CField ''expires'' (CInt 8),
     CField ''function'' CPtr,
     CField ''flags'' arm64_u32]"

definition arm64_struct_llist_head :: ctype where
  "arm64_struct_llist_head =
   CStruct [
     CField ''first'' CPtr]"

definition arm64_struct_da_monitor :: ctype where
  "arm64_struct_da_monitor =
   CStruct [
     CField ''monitoring'' (CInt 1),
     CField ''curr_state'' (CInt 4)]"

definition arm64_union_rv_task_monitor :: ctype where
  "arm64_union_rv_task_monitor =
   CUnion [
     CField ''da_mon'' arm64_struct_da_monitor]"

definition arm64_struct_cpu_context :: ctype where
  "arm64_struct_cpu_context =
   CStruct [
     CField ''x19'' (CInt 8),
     CField ''x20'' (CInt 8),
     CField ''x21'' (CInt 8),
     CField ''x22'' (CInt 8),
     CField ''x23'' (CInt 8),
     CField ''x24'' (CInt 8),
     CField ''x25'' (CInt 8),
     CField ''x26'' (CInt 8),
     CField ''x27'' (CInt 8),
     CField ''x28'' (CInt 8),
     CField ''fp'' (CInt 8),
     CField ''sp'' (CInt 8),
     CField ''pc'' (CInt 8)]"

definition arm64_struct_user_fpsimd_state :: ctype where
  "arm64_struct_user_fpsimd_state =
   CStruct [
     CField ''vregs'' (CArray 32 (CInt 16)),
     CField ''fpsr'' arm64_uapi_u32,
     CField ''fpcr'' arm64_uapi_u32,
     CField ''__reserved'' (CArray 2 arm64_uapi_u32)]"

definition arm64_enum_fp_type :: ctype where
  "arm64_enum_fp_type =
   CInt 4"

definition arm64_struct_debug_info :: ctype where
  "arm64_struct_debug_info =
   CStruct [
     CField ''suspended_step'' (CInt 4),
     CField ''bps_disabled'' (CInt 4),
     CField ''wps_disabled'' (CInt 4),
     CField ''hbp_break'' (CArray 16 CPtr),
     CField ''hbp_watch'' (CArray 16 CPtr)]"

definition arm64_struct_ptrauth_key :: ctype where
  "arm64_struct_ptrauth_key =
   CStruct [
     CField ''lo'' (CInt 8),
     CField ''hi'' (CInt 8)]"

definition arm64_struct_ptrauth_keys_user :: ctype where
  "arm64_struct_ptrauth_keys_user =
   CStruct [
     CField ''apia'' arm64_struct_ptrauth_key,
     CField ''apib'' arm64_struct_ptrauth_key,
     CField ''apda'' arm64_struct_ptrauth_key,
     CField ''apdb'' arm64_struct_ptrauth_key,
     CField ''apga'' arm64_struct_ptrauth_key]"

definition arm64_struct_ptrauth_keys_kernel :: ctype where
  "arm64_struct_ptrauth_keys_kernel =
   CStruct [
     CField ''apia'' arm64_struct_ptrauth_key]"

definition arm64_struct_thread_struct :: ctype where
  "arm64_struct_thread_struct =
   CStruct [
     CField ''cpu_context'' arm64_struct_cpu_context,
     CBits '''' (CInt 8) 64,
     CField ''uw'' (CStruct [CField ''tp_value'' (CInt 8), CField ''tp2_value'' (CInt 8), CField ''fpmr'' arm64_u64, CField ''pad'' (CInt 8), CField ''fpsimd_state'' arm64_struct_user_fpsimd_state]),
     CField ''fp_type'' arm64_enum_fp_type,
     CField ''fpsimd_cpu'' (CInt 4),
     CField ''sve_state'' CPtr,
     CField ''sme_state'' CPtr,
     CField ''vl'' (CArray 2 (CInt 4)),
     CField ''vl_onexec'' (CArray 2 (CInt 4)),
     CField ''fault_address'' (CInt 8),
     CField ''fault_code'' (CInt 8),
     CField ''debug'' arm64_struct_debug_info,
     CBits '''' (CInt 8) 64,
     CField ''kernel_fpsimd_state'' arm64_struct_user_fpsimd_state,
     CField ''kernel_fpsimd_cpu'' (CInt 4),
     CField ''keys_user'' arm64_struct_ptrauth_keys_user,
     CField ''keys_kernel'' arm64_struct_ptrauth_keys_kernel,
     CField ''mte_ctrl'' arm64_u64,
     CField ''sctlr_user'' arm64_u64,
     CField ''svcr'' arm64_u64,
     CField ''tpidr2_el0'' arm64_u64,
     CField ''por_el0'' arm64_u64]"

definition arm64_struct_task_struct :: ctype where
  "arm64_struct_task_struct =
   CStruct [
     CField ''thread_info'' arm64_struct_thread_info,
     CField ''__state'' (CInt 4),
     CField ''saved_state'' (CInt 4),
     CField ''stack'' CPtr,
     CField ''usage'' arm64_refcount_t,
     CField ''flags'' (CInt 4),
     CField ''ptrace'' (CInt 4),
     CField ''on_cpu'' (CInt 4),
     CField ''wake_entry'' arm64_struct_u__call_single_node,
     CField ''wakee_flips'' (CInt 4),
     CField ''wakee_flip_decay_ts'' (CInt 8),
     CField ''last_wakee'' CPtr,
     CField ''recent_used_cpu'' (CInt 4),
     CField ''wake_cpu'' (CInt 4),
     CField ''on_rq'' (CInt 4),
     CField ''prio'' (CInt 4),
     CField ''static_prio'' (CInt 4),
     CField ''normal_prio'' (CInt 4),
     CField ''rt_priority'' (CInt 4),
     CBits '''' (CInt 8) 64,
     CBits '''' (CInt 8) 64,
     CBits '''' (CInt 8) 64,
     CBits '''' (CInt 8) 64,
     CBits '''' (CInt 8) 64,
     CBits '''' (CInt 8) 64,
     CBits '''' (CInt 8) 64,
     CField ''se'' arm64_struct_sched_entity,
     CField ''rt'' arm64_struct_sched_rt_entity,
     CField ''dl'' arm64_struct_sched_dl_entity,
     CField ''dl_server'' CPtr,
     CField ''scx'' arm64_struct_sched_ext_entity,
     CField ''sched_class'' CPtr,
     CField ''core_node'' arm64_struct_rb_node,
     CField ''core_cookie'' (CInt 8),
     CField ''core_occupation'' (CInt 4),
     CField ''sched_task_group'' CPtr,
     CField ''uclamp_req'' (CArray 2 arm64_struct_uclamp_se),
     CField ''uclamp'' (CArray 2 arm64_struct_uclamp_se),
     CBits '''' (CInt 8) 64,
     CBits '''' (CInt 8) 64,
     CBits '''' (CInt 8) 64,
     CBits '''' (CInt 8) 64,
     CBits '''' (CInt 8) 64,
     CBits '''' (CInt 8) 64,
     CBits '''' (CInt 8) 64,
     CField ''stats'' arm64_struct_sched_statistics,
     CField ''preempt_notifiers'' arm64_struct_hlist_head,
     CField ''btrace_seq'' (CInt 4),
     CField ''policy'' (CInt 4),
     CField ''max_allowed_capacity'' (CInt 8),
     CField ''nr_cpus_allowed'' (CInt 4),
     CField ''cpus_ptr'' CPtr,
     CField ''user_cpus_ptr'' CPtr,
     CField ''cpus_mask'' arm64_cpumask_t,
     CField ''migration_pending'' CPtr,
     CField ''migration_disabled'' (CInt 2),
     CField ''migration_flags'' (CInt 2),
     CField ''rcu_read_lock_nesting'' (CInt 4),
     CField ''rcu_read_unlock_special'' arm64_union_rcu_special,
     CField ''rcu_node_entry'' arm64_struct_list_head,
     CField ''rcu_blocked_node'' CPtr,
     CField ''rcu_tasks_nvcsw'' (CInt 8),
     CField ''rcu_tasks_holdout'' arm64_u8,
     CField ''rcu_tasks_idx'' arm64_u8,
     CField ''rcu_tasks_idle_cpu'' (CInt 4),
     CField ''rcu_tasks_holdout_list'' arm64_struct_list_head,
     CField ''rcu_tasks_exit_cpu'' (CInt 4),
     CField ''rcu_tasks_exit_list'' arm64_struct_list_head,
     CField ''trc_reader_nesting'' (CInt 4),
     CField ''trc_ipi_to_cpu'' (CInt 4),
     CField ''trc_reader_special'' arm64_union_rcu_special,
     CField ''trc_holdout_list'' arm64_struct_list_head,
     CField ''trc_blkd_node'' arm64_struct_list_head,
     CField ''trc_blkd_cpu'' (CInt 4),
     CField ''sched_info'' arm64_struct_sched_info,
     CField ''tasks'' arm64_struct_list_head,
     CField ''pushable_tasks'' arm64_struct_plist_node,
     CField ''pushable_dl_tasks'' arm64_struct_rb_node,
     CField ''mm'' CPtr,
     CField ''active_mm'' CPtr,
     CField ''faults_disabled_mapping'' CPtr,
     CField ''exit_state'' (CInt 4),
     CField ''exit_code'' (CInt 4),
     CField ''exit_signal'' (CInt 4),
     CField ''pdeath_signal'' (CInt 4),
     CField ''jobctl'' (CInt 8),
     CField ''personality'' (CInt 4),
     CBits ''sched_reset_on_fork'' (CInt 4) 1,
     CBits ''sched_contributes_to_load'' (CInt 4) 1,
     CBits ''sched_migrated'' (CInt 4) 1,
     CBits '''' (CInt 8) 29,
     CBits ''sched_remote_wakeup'' (CInt 4) 1,
     CBits ''sched_rt_mutex'' (CInt 4) 1,
     CBits ''in_execve'' (CInt 4) 1,
     CBits ''in_iowait'' (CInt 4) 1,
     CBits ''in_user_fault'' (CInt 4) 1,
     CBits ''in_lru_fault'' (CInt 4) 1,
     CBits ''no_cgroup_migration'' (CInt 4) 1,
     CBits ''frozen'' (CInt 4) 1,
     CBits ''use_memdelay'' (CInt 4) 1,
     CBits ''in_memstall'' (CInt 4) 1,
     CBits ''in_page_owner'' (CInt 4) 1,
     CBits ''in_eventfd'' (CInt 4) 1,
     CBits ''in_thrashing'' (CInt 4) 1,
     CField ''atomic_flags'' (CInt 8),
     CField ''restart_block'' arm64_struct_restart_block,
     CField ''pid'' arm64_pid_t,
     CField ''tgid'' arm64_pid_t,
     CField ''stack_canary'' (CInt 8),
     CField ''real_parent'' CPtr,
     CField ''parent'' CPtr,
     CField ''children'' arm64_struct_list_head,
     CField ''sibling'' arm64_struct_list_head,
     CField ''group_leader'' CPtr,
     CField ''ptraced'' arm64_struct_list_head,
     CField ''ptrace_entry'' arm64_struct_list_head,
     CField ''thread_pid'' CPtr,
     CField ''pid_links'' (CArray 4 arm64_struct_hlist_node),
     CField ''thread_node'' arm64_struct_list_head,
     CField ''vfork_done'' CPtr,
     CField ''set_child_tid'' CPtr,
     CField ''clear_child_tid'' CPtr,
     CField ''worker_private'' CPtr,
     CField ''utime'' arm64_u64,
     CField ''stime'' arm64_u64,
     CField ''gtime'' arm64_u64,
     CField ''prev_cputime'' arm64_struct_prev_cputime,
     CField ''vtime'' arm64_struct_vtime,
     CField ''tick_dep_mask'' arm64_atomic_t,
     CField ''nvcsw'' (CInt 8),
     CField ''nivcsw'' (CInt 8),
     CField ''start_time'' arm64_u64,
     CField ''start_boottime'' arm64_u64,
     CField ''min_flt'' (CInt 8),
     CField ''maj_flt'' (CInt 8),
     CField ''posix_cputimers'' arm64_struct_posix_cputimers,
     CField ''posix_cputimers_work'' arm64_struct_posix_cputimers_work,
     CField ''ptracer_cred'' CPtr,
     CField ''real_cred'' CPtr,
     CField ''cred'' CPtr,
     CField ''cached_requested_key'' CPtr,
     CField ''comm'' (CArray 16 (CInt 1)),
     CField ''nameidata'' CPtr,
     CField ''sysvsem'' arm64_struct_sysv_sem,
     CField ''sysvshm'' arm64_struct_sysv_shm,
     CField ''fs'' CPtr,
     CField ''files'' CPtr,
     CField ''io_uring'' CPtr,
     CField ''nsproxy'' CPtr,
     CField ''signal'' CPtr,
     CField ''sighand'' CPtr,
     CField ''blocked'' arm64_sigset_t,
     CField ''real_blocked'' arm64_sigset_t,
     CField ''saved_sigmask'' arm64_sigset_t,
     CField ''pending'' arm64_struct_sigpending,
     CField ''sas_ss_sp'' (CInt 8),
     CField ''sas_ss_size'' arm64_size_t,
     CField ''sas_ss_flags'' (CInt 4),
     CField ''task_works'' CPtr,
     CField ''audit_context'' CPtr,
     CField ''loginuid'' arm64_kuid_t,
     CField ''sessionid'' (CInt 4),
     CField ''seccomp'' arm64_struct_seccomp,
     CField ''syscall_dispatch'' arm64_struct_syscall_user_dispatch,
     CField ''parent_exec_id'' arm64_u64,
     CField ''self_exec_id'' arm64_u64,
     CField ''alloc_lock'' arm64_spinlock_t,
     CField ''pi_lock'' arm64_raw_spinlock_t,
     CField ''wake_q'' arm64_struct_wake_q_node,
     CField ''pi_waiters'' arm64_struct_rb_root_cached,
     CField ''pi_top_task'' CPtr,
     CField ''pi_blocked_on'' CPtr,
     CField ''in_ubsan'' (CInt 4),
     CField ''journal_info'' CPtr,
     CField ''bio_list'' CPtr,
     CField ''plug'' CPtr,
     CField ''reclaim_state'' CPtr,
     CField ''io_context'' CPtr,
     CField ''capture_control'' CPtr,
     CField ''ptrace_message'' (CInt 8),
     CField ''last_siginfo'' CPtr,
     CField ''ioac'' arm64_struct_task_io_accounting,
     CField ''psi_flags'' (CInt 4),
     CField ''acct_rss_mem1'' arm64_u64,
     CField ''acct_vm_mem1'' arm64_u64,
     CField ''acct_timexpd'' arm64_u64,
     CField ''mems_allowed'' arm64_nodemask_t,
     CField ''mems_allowed_seq'' arm64_seqcount_spinlock_t,
     CField ''cpuset_mem_spread_rotor'' (CInt 4),
     CField ''cgroups'' CPtr,
     CField ''cg_list'' arm64_struct_list_head,
     CField ''robust_list'' CPtr,
     CField ''compat_robust_list'' CPtr,
     CField ''pi_state_list'' arm64_struct_list_head,
     CField ''pi_state_cache'' CPtr,
     CField ''futex_exit_mutex'' arm64_struct_mutex,
     CField ''futex_state'' (CInt 4),
     CField ''perf_recursion'' (CArray 4 arm64_u8),
     CField ''perf_event_ctxp'' CPtr,
     CField ''perf_event_mutex'' arm64_struct_mutex,
     CField ''perf_event_list'' arm64_struct_list_head,
     CField ''mempolicy'' CPtr,
     CField ''il_prev'' (CInt 2),
     CField ''il_weight'' arm64_u8,
     CField ''pref_node_fork'' (CInt 2),
     CField ''numa_scan_seq'' (CInt 4),
     CField ''numa_scan_period'' (CInt 4),
     CField ''numa_scan_period_max'' (CInt 4),
     CField ''numa_preferred_nid'' (CInt 4),
     CField ''numa_migrate_retry'' (CInt 8),
     CField ''node_stamp'' arm64_u64,
     CField ''last_task_numa_placement'' arm64_u64,
     CField ''last_sum_exec_runtime'' arm64_u64,
     CField ''numa_work'' arm64_struct_callback_head,
     CField ''numa_group'' CPtr,
     CField ''numa_faults'' CPtr,
     CField ''total_numa_faults'' (CInt 8),
     CField ''numa_faults_locality'' (CArray 3 (CInt 8)),
     CField ''numa_pages_migrated'' (CInt 8),
     CField ''rseq'' CPtr,
     CField ''rseq_len'' arm64_u32,
     CField ''rseq_sig'' arm64_u32,
     CField ''rseq_event_mask'' (CInt 8),
     CField ''mm_cid'' (CInt 4),
     CField ''last_mm_cid'' (CInt 4),
     CField ''migrate_from_cpu'' (CInt 4),
     CField ''mm_cid_active'' (CInt 4),
     CField ''cid_work'' arm64_struct_callback_head,
     CField ''tlb_ubc'' arm64_struct_tlbflush_unmap_batch,
     CField ''splice_pipe'' CPtr,
     CField ''task_frag'' arm64_struct_page_frag,
     CField ''delays'' CPtr,
     CField ''nr_dirtied'' (CInt 4),
     CField ''nr_dirtied_pause'' (CInt 4),
     CField ''dirty_paused_when'' (CInt 8),
     CField ''latency_record_count'' (CInt 4),
     CField ''latency_record'' (CArray 32 arm64_struct_latency_record),
     CField ''timer_slack_ns'' arm64_u64,
     CField ''default_timer_slack_ns'' arm64_u64,
     CField ''kunit_test'' CPtr,
     CField ''curr_ret_stack'' (CInt 4),
     CField ''curr_ret_depth'' (CInt 4),
     CField ''ret_stack'' CPtr,
     CField ''ftrace_timestamp'' (CInt 8),
     CField ''trace_overrun'' arm64_atomic_t,
     CField ''tracing_graph_pause'' arm64_atomic_t,
     CField ''trace_recursion'' (CInt 8),
     CField ''memcg_in_oom'' CPtr,
     CField ''memcg_nr_pages_over_high'' (CInt 4),
     CField ''active_memcg'' CPtr,
     CField ''objcg'' CPtr,
     CField ''throttle_disk'' CPtr,
     CField ''utask'' CPtr,
     CField ''sequential_io'' (CInt 4),
     CField ''sequential_io_avg'' (CInt 4),
     CField ''kmap_ctrl'' arm64_struct_kmap_ctrl,
     CField ''rcu'' arm64_struct_callback_head,
     CField ''rcu_users'' arm64_refcount_t,
     CField ''pagefault_disabled'' (CInt 4),
     CField ''oom_reaper_list'' CPtr,
     CField ''oom_reaper_timer'' arm64_struct_timer_list,
     CField ''stack_vm_area'' CPtr,
     CField ''stack_refcount'' arm64_refcount_t,
     CField ''security'' CPtr,
     CField ''bpf_storage'' CPtr,
     CField ''bpf_ctx'' CPtr,
     CField ''bpf_net_context'' CPtr,
     CField ''kretprobe_instances'' arm64_struct_llist_head,
     CField ''rv'' (CArray 1 arm64_union_rv_task_monitor),
     CBits '''' (CInt 8) 64,
     CField ''thread'' arm64_struct_thread_struct,
     CBits '''' (CInt 8) 64,
     CBits '''' (CInt 8) 64,
     CBits '''' (CInt 8) 64,
     CBits '''' (CInt 8) 64,
     CBits '''' (CInt 8) 64,
     CBits '''' (CInt 8) 64]"

definition arm64_struct_css_set :: ctype where
  "arm64_struct_css_set =
   CStruct [
     CField ''subsys'' (CArray 13 CPtr),
     CField ''refcount'' arm64_refcount_t,
     CField ''dom_cset'' CPtr,
     CField ''dfl_cgrp'' CPtr,
     CField ''nr_tasks'' (CInt 4),
     CField ''tasks'' arm64_struct_list_head,
     CField ''mg_tasks'' arm64_struct_list_head,
     CField ''dying_tasks'' arm64_struct_list_head,
     CField ''task_iters'' arm64_struct_list_head,
     CField ''e_cset_node'' (CArray 13 arm64_struct_list_head),
     CField ''threaded_csets'' arm64_struct_list_head,
     CField ''threaded_csets_node'' arm64_struct_list_head,
     CField ''hlist'' arm64_struct_hlist_node,
     CField ''cgrp_links'' arm64_struct_list_head,
     CField ''mg_src_preload_node'' arm64_struct_list_head,
     CField ''mg_dst_preload_node'' arm64_struct_list_head,
     CField ''mg_node'' arm64_struct_list_head,
     CField ''mg_src_cgrp'' CPtr,
     CField ''mg_dst_cgrp'' CPtr,
     CField ''mg_dst_cset'' CPtr,
     CField ''dead'' (CInt 1),
     CField ''callback_head'' arm64_struct_callback_head]"

definition arm64_struct_percpu_ref :: ctype where
  "arm64_struct_percpu_ref =
   CStruct [
     CField ''percpu_count_ptr'' (CInt 8),
     CField ''data'' CPtr]"

definition arm64_work_func_t :: ctype where
  "arm64_work_func_t =
   CPtr"

definition arm64_struct_work_struct :: ctype where
  "arm64_struct_work_struct =
   CStruct [
     CField ''data'' arm64_atomic_long_t,
     CField ''entry'' arm64_struct_list_head,
     CField ''func'' arm64_work_func_t]"

definition arm64_struct_rcu_work :: ctype where
  "arm64_struct_rcu_work =
   CStruct [
     CField ''work'' arm64_struct_work_struct,
     CField ''rcu'' arm64_struct_callback_head,
     CField ''wq'' CPtr]"

definition arm64_struct_cgroup_subsys_state :: ctype where
  "arm64_struct_cgroup_subsys_state =
   CStruct [
     CField ''cgroup'' CPtr,
     CField ''ss'' CPtr,
     CField ''refcnt'' arm64_struct_percpu_ref,
     CField ''sibling'' arm64_struct_list_head,
     CField ''children'' arm64_struct_list_head,
     CField ''rstat_css_node'' arm64_struct_list_head,
     CField ''id'' (CInt 4),
     CField ''flags'' (CInt 4),
     CField ''serial_nr'' arm64_u64,
     CField ''online_cnt'' arm64_atomic_t,
     CField ''destroy_work'' arm64_struct_work_struct,
     CField ''destroy_rwork'' arm64_struct_rcu_work,
     CField ''parent'' CPtr,
     CField ''nr_descendants'' (CInt 4)]"

definition arm64_struct_cgroup_file :: ctype where
  "arm64_struct_cgroup_file =
   CStruct [
     CField ''kn'' CPtr,
     CField ''notified_at'' (CInt 8),
     CField ''notify_timer'' arm64_struct_timer_list]"

definition arm64_struct_cacheline_padding :: ctype where
  "arm64_struct_cacheline_padding =
   CStruct [
     CField ''x'' (CArray 0 (CInt 1))]"

definition arm64_struct_task_cputime :: ctype where
  "arm64_struct_task_cputime =
   CStruct [
     CField ''stime'' arm64_u64,
     CField ''utime'' arm64_u64,
     CField ''sum_exec_runtime'' (CInt 8)]"

definition arm64_struct_cgroup_base_stat :: ctype where
  "arm64_struct_cgroup_base_stat =
   CStruct [
     CField ''cputime'' arm64_struct_task_cputime,
     CField ''forceidle_sum'' arm64_u64]"

definition arm64_struct_wait_queue_head :: ctype where
  "arm64_struct_wait_queue_head =
   CStruct [
     CField ''lock'' arm64_spinlock_t,
     CField ''head'' arm64_struct_list_head]"

definition arm64_wait_queue_head_t :: ctype where
  "arm64_wait_queue_head_t =
   arm64_struct_wait_queue_head"

definition arm64_struct_cgroup_bpf :: ctype where
  "arm64_struct_cgroup_bpf =
   CStruct [
     CField ''effective'' (CArray 38 CPtr),
     CField ''progs'' (CArray 38 arm64_struct_hlist_head),
     CField ''flags'' (CArray 38 arm64_u8),
     CField ''storages'' arm64_struct_list_head,
     CField ''inactive'' CPtr,
     CField ''refcnt'' arm64_struct_percpu_ref,
     CField ''release_work'' arm64_struct_work_struct]"

definition arm64_struct_cgroup_freezer_state :: ctype where
  "arm64_struct_cgroup_freezer_state =
   CStruct [
     CField ''freeze'' (CInt 1),
     CField ''e_freeze'' (CInt 4),
     CField ''nr_frozen_descendants'' (CInt 4),
     CField ''nr_frozen_tasks'' (CInt 4)]"

definition arm64_struct_cgroup :: ctype where
  "arm64_struct_cgroup =
   CStruct [
     CField ''self'' arm64_struct_cgroup_subsys_state,
     CField ''flags'' (CInt 8),
     CField ''level'' (CInt 4),
     CField ''max_depth'' (CInt 4),
     CField ''nr_descendants'' (CInt 4),
     CField ''nr_dying_descendants'' (CInt 4),
     CField ''max_descendants'' (CInt 4),
     CField ''nr_populated_csets'' (CInt 4),
     CField ''nr_populated_domain_children'' (CInt 4),
     CField ''nr_populated_threaded_children'' (CInt 4),
     CField ''nr_threaded_children'' (CInt 4),
     CField ''kn'' CPtr,
     CField ''procs_file'' arm64_struct_cgroup_file,
     CField ''events_file'' arm64_struct_cgroup_file,
     CField ''psi_files'' (CArray 4 arm64_struct_cgroup_file),
     CField ''subtree_control'' arm64_u16,
     CField ''subtree_ss_mask'' arm64_u16,
     CField ''old_subtree_control'' arm64_u16,
     CField ''old_subtree_ss_mask'' arm64_u16,
     CField ''subsys'' (CArray 13 CPtr),
     CField ''nr_dying_subsys'' (CArray 13 (CInt 4)),
     CField ''root'' CPtr,
     CField ''cset_links'' arm64_struct_list_head,
     CField ''e_csets'' (CArray 13 arm64_struct_list_head),
     CField ''dom_cgrp'' CPtr,
     CField ''old_dom_cgrp'' CPtr,
     CField ''rstat_cpu'' CPtr,
     CField ''rstat_css_list'' arm64_struct_list_head,
     CBits '''' (CInt 8) 64,
     CBits '''' (CInt 8) 64,
     CBits '''' (CInt 8) 64,
     CBits '''' (CInt 8) 64,
     CBits '''' (CInt 8) 64,
     CBits '''' (CInt 8) 64,
     CField ''_pad_'' arm64_struct_cacheline_padding,
     CField ''rstat_flush_next'' CPtr,
     CField ''last_bstat'' arm64_struct_cgroup_base_stat,
     CField ''bstat'' arm64_struct_cgroup_base_stat,
     CField ''prev_cputime'' arm64_struct_prev_cputime,
     CField ''pidlists'' arm64_struct_list_head,
     CField ''pidlist_mutex'' arm64_struct_mutex,
     CField ''offline_waitq'' arm64_wait_queue_head_t,
     CField ''release_agent_work'' arm64_struct_work_struct,
     CField ''psi'' CPtr,
     CField ''bpf'' arm64_struct_cgroup_bpf,
     CField ''freezer'' arm64_struct_cgroup_freezer_state,
     CField ''bpf_cgrp_storage'' CPtr,
     CField ''ancestors'' (CArray 0 CPtr),
     CBits '''' (CInt 8) 64]"

definition arm64_umode_t :: ctype where
  "arm64_umode_t =
   CInt 2"

definition arm64_struct_kernfs_elem_dir :: ctype where
  "arm64_struct_kernfs_elem_dir =
   CStruct [
     CField ''subdirs'' (CInt 8),
     CField ''children'' arm64_struct_rb_root,
     CField ''root'' CPtr,
     CField ''rev'' (CInt 8)]"

definition arm64_struct_kernfs_elem_symlink :: ctype where
  "arm64_struct_kernfs_elem_symlink =
   CStruct [
     CField ''target_kn'' CPtr]"

definition arm64_uapi_kernel_loff_t :: ctype where
  "arm64_uapi_kernel_loff_t =
   CInt 8"

definition arm64_loff_t :: ctype where
  "arm64_loff_t =
   arm64_uapi_kernel_loff_t"

definition arm64_struct_kernfs_elem_attr :: ctype where
  "arm64_struct_kernfs_elem_attr =
   CStruct [
     CField ''ops'' CPtr,
     CField ''open'' CPtr,
     CField ''size'' arm64_loff_t,
     CField ''notify_next'' CPtr]"

definition arm64_struct_kernfs_node :: ctype where
  "arm64_struct_kernfs_node =
   CStruct [
     CField ''count'' arm64_atomic_t,
     CField ''active'' arm64_atomic_t,
     CField ''parent'' CPtr,
     CField ''name'' CPtr,
     CField ''rb'' arm64_struct_rb_node,
     CField ''ns'' CPtr,
     CField ''hash'' (CInt 4),
     CField ''flags'' (CInt 2),
     CField ''mode'' arm64_umode_t,
     CField '''' (CUnion [CField ''dir'' arm64_struct_kernfs_elem_dir, CField ''symlink'' arm64_struct_kernfs_elem_symlink, CField ''attr'' arm64_struct_kernfs_elem_attr]),
     CField ''id'' arm64_u64,
     CField ''priv'' CPtr,
     CField ''iattr'' CPtr,
     CField ''rcu'' arm64_struct_callback_head]"

definition arm64_struct_nsproxy :: ctype where
  "arm64_struct_nsproxy =
   CStruct [
     CField ''count'' arm64_refcount_t,
     CField ''uts_ns'' CPtr,
     CField ''ipc_ns'' CPtr,
     CField ''mnt_ns'' CPtr,
     CField ''pid_ns_for_children'' CPtr,
     CField ''net_ns'' CPtr,
     CField ''time_ns'' CPtr,
     CField ''time_ns_for_children'' CPtr,
     CField ''cgroup_ns'' CPtr]"

definition arm64_struct_ns_common :: ctype where
  "arm64_struct_ns_common =
   CStruct [
     CField ''stashed'' CPtr,
     CField ''ops'' CPtr,
     CField ''inum'' (CInt 4),
     CField ''count'' arm64_refcount_t]"

definition arm64_struct_mnt_namespace :: ctype where
  "arm64_struct_mnt_namespace =
   CStruct [
     CField ''ns'' arm64_struct_ns_common,
     CField ''root'' CPtr,
     CField ''mounts'' arm64_struct_rb_root,
     CField ''user_ns'' CPtr,
     CField ''ucounts'' CPtr,
     CField ''seq'' arm64_u64,
     CField ''poll'' arm64_wait_queue_head_t,
     CField ''event'' arm64_u64,
     CField ''nr_mounts'' (CInt 4),
     CField ''pending_mounts'' (CInt 4),
     CField ''mnt_ns_tree_node'' arm64_struct_rb_node,
     CField ''passive'' arm64_refcount_t]"

definition arm64_struct_rlimit :: ctype where
  "arm64_struct_rlimit =
   CStruct [
     CField ''rlim_cur'' arm64_uapi_kernel_ulong_t,
     CField ''rlim_max'' arm64_uapi_kernel_ulong_t]"

definition arm64_struct_linux_binprm :: ctype where
  "arm64_struct_linux_binprm =
   CStruct [
     CField ''vma'' CPtr,
     CField ''vma_pages'' (CInt 8),
     CField ''argmin'' (CInt 8),
     CField ''mm'' CPtr,
     CField ''p'' (CInt 8),
     CBits ''have_execfd'' (CInt 4) 1,
     CBits ''execfd_creds'' (CInt 4) 1,
     CBits ''secureexec'' (CInt 4) 1,
     CBits ''point_of_no_return'' (CInt 4) 1,
     CField ''executable'' CPtr,
     CField ''interpreter'' CPtr,
     CField ''file'' CPtr,
     CField ''cred'' CPtr,
     CField ''unsafe'' (CInt 4),
     CField ''per_clear'' (CInt 4),
     CField ''argc'' (CInt 4),
     CField ''envc'' (CInt 4),
     CField ''filename'' CPtr,
     CField ''interp'' CPtr,
     CField ''fdpath'' CPtr,
     CField ''interp_flags'' (CInt 4),
     CField ''execfd'' (CInt 4),
     CField ''loader'' (CInt 8),
     CField ''exec'' (CInt 8),
     CField ''rlim_stack'' arm64_struct_rlimit,
     CField ''buf'' (CArray 256 (CInt 1))]"

definition arm64_fmode_t :: ctype where
  "arm64_fmode_t =
   CInt 4"

definition arm64_struct_path :: ctype where
  "arm64_struct_path =
   CStruct [
     CField ''mnt'' CPtr,
     CField ''dentry'' CPtr]"

definition arm64_errseq_t :: ctype where
  "arm64_errseq_t =
   arm64_u32"

definition arm64_struct_file_ra_state :: ctype where
  "arm64_struct_file_ra_state =
   CStruct [
     CField ''start'' (CInt 8),
     CField ''size'' (CInt 4),
     CField ''async_size'' (CInt 4),
     CField ''ra_pages'' (CInt 4),
     CField ''mmap_miss'' (CInt 4),
     CField ''prev_pos'' arm64_loff_t]"

definition arm64_freeptr_t :: ctype where
  "arm64_freeptr_t =
   CStruct [
     CField ''v'' (CInt 8)]"

definition arm64_struct_file :: ctype where
  "arm64_struct_file =
   CStruct [
     CField ''f_count'' arm64_atomic_long_t,
     CField ''f_lock'' arm64_spinlock_t,
     CField ''f_mode'' arm64_fmode_t,
     CField ''f_op'' CPtr,
     CField ''f_mapping'' CPtr,
     CField ''private_data'' CPtr,
     CField ''f_inode'' CPtr,
     CField ''f_flags'' (CInt 4),
     CField ''f_iocb_flags'' (CInt 4),
     CField ''f_cred'' CPtr,
     CField ''f_path'' arm64_struct_path,
     CField '''' (CUnion [CField ''f_pos_lock'' arm64_struct_mutex, CField ''f_pipe'' arm64_u64]),
     CField ''f_pos'' arm64_loff_t,
     CField ''f_security'' CPtr,
     CField ''f_owner'' CPtr,
     CField ''f_wb_err'' arm64_errseq_t,
     CField ''f_sb_err'' arm64_errseq_t,
     CField ''f_ep'' CPtr,
     CField '''' (CUnion [CField ''f_task_work'' arm64_struct_callback_head, CField ''f_llist'' arm64_struct_llist_node, CField ''f_ra'' arm64_struct_file_ra_state, CField ''f_freeptr'' arm64_freeptr_t])]"

definition arm64_struct_vfsmount :: ctype where
  "arm64_struct_vfsmount =
   CStruct [
     CField ''mnt_root'' CPtr,
     CField ''mnt_sb'' CPtr,
     CField ''mnt_flags'' (CInt 4),
     CField ''mnt_idmap'' CPtr]"

definition arm64_struct_mount :: ctype where
  "arm64_struct_mount =
   CStruct [
     CField ''mnt_hash'' arm64_struct_hlist_node,
     CField ''mnt_parent'' CPtr,
     CField ''mnt_mountpoint'' CPtr,
     CField ''mnt'' arm64_struct_vfsmount,
     CField '''' (CUnion [CField ''mnt_rcu'' arm64_struct_callback_head, CField ''mnt_llist'' arm64_struct_llist_node]),
     CField ''mnt_pcp'' CPtr,
     CField ''mnt_mounts'' arm64_struct_list_head,
     CField ''mnt_child'' arm64_struct_list_head,
     CField ''mnt_instance'' arm64_struct_list_head,
     CField ''mnt_devname'' CPtr,
     CField '''' (CUnion [CField ''mnt_node'' arm64_struct_rb_node, CField ''mnt_list'' arm64_struct_list_head]),
     CField ''mnt_expire'' arm64_struct_list_head,
     CField ''mnt_share'' arm64_struct_list_head,
     CField ''mnt_slave_list'' arm64_struct_list_head,
     CField ''mnt_slave'' arm64_struct_list_head,
     CField ''mnt_master'' CPtr,
     CField ''mnt_ns'' CPtr,
     CField ''mnt_mp'' CPtr,
     CField '''' (CUnion [CField ''mnt_mp_list'' arm64_struct_hlist_node, CField ''mnt_umount'' arm64_struct_hlist_node]),
     CField ''mnt_umounting'' arm64_struct_list_head,
     CField ''mnt_fsnotify_marks'' CPtr,
     CField ''mnt_fsnotify_mask'' arm64_uapi_u32,
     CField ''mnt_id'' (CInt 4),
     CField ''mnt_id_unique'' arm64_u64,
     CField ''mnt_group_id'' (CInt 4),
     CField ''mnt_expiry_mark'' (CInt 4),
     CField ''mnt_pins'' arm64_struct_hlist_head,
     CField ''mnt_stuck_children'' arm64_struct_hlist_head]"

definition arm64_struct_hlist_bl_node :: ctype where
  "arm64_struct_hlist_bl_node =
   CStruct [
     CField ''next'' CPtr,
     CField ''pprev'' CPtr]"

definition arm64_struct_qstr :: ctype where
  "arm64_struct_qstr =
   CStruct [
     CField '''' (CUnion [CField '''' (CStruct [CField ''hash'' arm64_u32, CField ''len'' arm64_u32]), CField ''hash_len'' arm64_u64]),
     CField ''name'' CPtr]"

definition arm64_struct_lockref :: ctype where
  "arm64_struct_lockref =
   CStruct [
     CField '''' (CUnion [CField ''lock_count'' arm64_uapi_u64, CField '''' (CStruct [CField ''lock'' arm64_spinlock_t, CField ''count'' (CInt 4)])])]"

definition arm64_struct_dentry :: ctype where
  "arm64_struct_dentry =
   CStruct [
     CField ''d_flags'' (CInt 4),
     CField ''d_seq'' arm64_seqcount_spinlock_t,
     CField ''d_hash'' arm64_struct_hlist_bl_node,
     CField ''d_parent'' CPtr,
     CField ''d_name'' arm64_struct_qstr,
     CField ''d_inode'' CPtr,
     CField ''d_iname'' (CArray 40 (CInt 1)),
     CField ''d_op'' CPtr,
     CField ''d_sb'' CPtr,
     CField ''d_time'' (CInt 8),
     CField ''d_fsdata'' CPtr,
     CField ''d_lockref'' arm64_struct_lockref,
     CField '''' (CUnion [CField ''d_lru'' arm64_struct_list_head, CField ''d_wait'' CPtr]),
     CField ''d_sib'' arm64_struct_hlist_node,
     CField ''d_children'' arm64_struct_hlist_head,
     CField ''d_u'' (CUnion [CField ''d_alias'' arm64_struct_hlist_node, CField ''d_in_lookup_hash'' arm64_struct_hlist_bl_node, CField ''d_rcu'' arm64_struct_callback_head])]"

definition arm64_struct_fs_struct :: ctype where
  "arm64_struct_fs_struct =
   CStruct [
     CField ''users'' (CInt 4),
     CField ''lock'' arm64_spinlock_t,
     CField ''seq'' arm64_seqcount_spinlock_t,
     CField ''umask'' (CInt 4),
     CField ''in_exec'' (CInt 4),
     CField ''root'' arm64_struct_path,
     CField ''pwd'' arm64_struct_path]"

definition arm64_struct_bpf_raw_tracepoint_args :: ctype where
  "arm64_struct_bpf_raw_tracepoint_args =
   CStruct [
     CField ''args'' (CArray 0 arm64_uapi_u64)]"

definition arm64_struct_trace_entry :: ctype where
  "arm64_struct_trace_entry =
   CStruct [
     CField ''type'' (CInt 2),
     CField ''flags'' (CInt 1),
     CField ''preempt_count'' (CInt 1),
     CField ''pid'' (CInt 4)]"

definition arm64_struct_trace_event_raw_bpf_trace_printk :: ctype where
  "arm64_struct_trace_event_raw_bpf_trace_printk =
   CStruct [
     CField ''ent'' arm64_struct_trace_entry,
     CField ''__data_loc_bpf_string'' arm64_u32,
     CField ''__data'' (CArray 0 (CInt 1))]"

section \<open>The types the programs name\<close>

definition arm64_types :: "string \<Rightarrow> ctype" where
  "arm64_types s =
     (case map_of
        [(''task_struct'', arm64_struct_task_struct),
         (''css_set'', arm64_struct_css_set),
         (''cgroup'', arm64_struct_cgroup),
         (''cgroup_subsys_state'', arm64_struct_cgroup_subsys_state),
         (''kernfs_node'', arm64_struct_kernfs_node),
         (''nsproxy'', arm64_struct_nsproxy),
         (''mnt_namespace'', arm64_struct_mnt_namespace),
         (''ns_common'', arm64_struct_ns_common),
         (''linux_binprm'', arm64_struct_linux_binprm),
         (''file'', arm64_struct_file),
         (''path'', arm64_struct_path),
         (''vfsmount'', arm64_struct_vfsmount),
         (''mount'', arm64_struct_mount),
         (''dentry'', arm64_struct_dentry),
         (''qstr'', arm64_struct_qstr),
         (''hlist_bl_node'', arm64_struct_hlist_bl_node),
         (''fs_struct'', arm64_struct_fs_struct),
         (''bpf_raw_tracepoint_args'', arm64_struct_bpf_raw_tracepoint_args),
         (''trace_event_raw_bpf_trace_printk'', arm64_struct_trace_event_raw_bpf_trace_printk)] s of
        Some t \<Rightarrow> t
      | None \<Rightarrow> CStruct [])"

definition arm64_cgroup_subsys_id :: "(string \<times> nat) list" where
  "arm64_cgroup_subsys_id =
     [(''cpuset_cgrp_id'', 0),
      (''cpu_cgrp_id'', 1),
      (''cpuacct_cgrp_id'', 2),
      (''io_cgrp_id'', 3),
      (''memory_cgrp_id'', 4),
      (''devices_cgrp_id'', 5),
      (''freezer_cgrp_id'', 6),
      (''net_cls_cgrp_id'', 7),
      (''perf_event_cgrp_id'', 8),
      (''net_prio_cgrp_id'', 9),
      (''pids_cgrp_id'', 10),
      (''rdma_cgrp_id'', 11),
      (''misc_cgrp_id'', 12),
      (''CGROUP_SUBSYS_COUNT'', 13)]"

definition arm64_bpf_func_id :: "(string \<times> nat) list" where
  "arm64_bpf_func_id =
     [(''BPF_FUNC_unspec'', 0),
      (''BPF_FUNC_map_lookup_elem'', 1),
      (''BPF_FUNC_map_update_elem'', 2),
      (''BPF_FUNC_map_delete_elem'', 3),
      (''BPF_FUNC_probe_read'', 4),
      (''BPF_FUNC_ktime_get_ns'', 5),
      (''BPF_FUNC_trace_printk'', 6),
      (''BPF_FUNC_get_prandom_u32'', 7),
      (''BPF_FUNC_get_smp_processor_id'', 8),
      (''BPF_FUNC_skb_store_bytes'', 9),
      (''BPF_FUNC_l3_csum_replace'', 10),
      (''BPF_FUNC_l4_csum_replace'', 11),
      (''BPF_FUNC_tail_call'', 12),
      (''BPF_FUNC_clone_redirect'', 13),
      (''BPF_FUNC_get_current_pid_tgid'', 14),
      (''BPF_FUNC_get_current_uid_gid'', 15),
      (''BPF_FUNC_get_current_comm'', 16),
      (''BPF_FUNC_get_cgroup_classid'', 17),
      (''BPF_FUNC_skb_vlan_push'', 18),
      (''BPF_FUNC_skb_vlan_pop'', 19),
      (''BPF_FUNC_skb_get_tunnel_key'', 20),
      (''BPF_FUNC_skb_set_tunnel_key'', 21),
      (''BPF_FUNC_perf_event_read'', 22),
      (''BPF_FUNC_redirect'', 23),
      (''BPF_FUNC_get_route_realm'', 24),
      (''BPF_FUNC_perf_event_output'', 25),
      (''BPF_FUNC_skb_load_bytes'', 26),
      (''BPF_FUNC_get_stackid'', 27),
      (''BPF_FUNC_csum_diff'', 28),
      (''BPF_FUNC_skb_get_tunnel_opt'', 29),
      (''BPF_FUNC_skb_set_tunnel_opt'', 30),
      (''BPF_FUNC_skb_change_proto'', 31),
      (''BPF_FUNC_skb_change_type'', 32),
      (''BPF_FUNC_skb_under_cgroup'', 33),
      (''BPF_FUNC_get_hash_recalc'', 34),
      (''BPF_FUNC_get_current_task'', 35),
      (''BPF_FUNC_probe_write_user'', 36),
      (''BPF_FUNC_current_task_under_cgroup'', 37),
      (''BPF_FUNC_skb_change_tail'', 38),
      (''BPF_FUNC_skb_pull_data'', 39),
      (''BPF_FUNC_csum_update'', 40),
      (''BPF_FUNC_set_hash_invalid'', 41),
      (''BPF_FUNC_get_numa_node_id'', 42),
      (''BPF_FUNC_skb_change_head'', 43),
      (''BPF_FUNC_xdp_adjust_head'', 44),
      (''BPF_FUNC_probe_read_str'', 45),
      (''BPF_FUNC_get_socket_cookie'', 46),
      (''BPF_FUNC_get_socket_uid'', 47),
      (''BPF_FUNC_set_hash'', 48),
      (''BPF_FUNC_setsockopt'', 49),
      (''BPF_FUNC_skb_adjust_room'', 50),
      (''BPF_FUNC_redirect_map'', 51),
      (''BPF_FUNC_sk_redirect_map'', 52),
      (''BPF_FUNC_sock_map_update'', 53),
      (''BPF_FUNC_xdp_adjust_meta'', 54),
      (''BPF_FUNC_perf_event_read_value'', 55),
      (''BPF_FUNC_perf_prog_read_value'', 56),
      (''BPF_FUNC_getsockopt'', 57),
      (''BPF_FUNC_override_return'', 58),
      (''BPF_FUNC_sock_ops_cb_flags_set'', 59),
      (''BPF_FUNC_msg_redirect_map'', 60),
      (''BPF_FUNC_msg_apply_bytes'', 61),
      (''BPF_FUNC_msg_cork_bytes'', 62),
      (''BPF_FUNC_msg_pull_data'', 63),
      (''BPF_FUNC_bind'', 64),
      (''BPF_FUNC_xdp_adjust_tail'', 65),
      (''BPF_FUNC_skb_get_xfrm_state'', 66),
      (''BPF_FUNC_get_stack'', 67),
      (''BPF_FUNC_skb_load_bytes_relative'', 68),
      (''BPF_FUNC_fib_lookup'', 69),
      (''BPF_FUNC_sock_hash_update'', 70),
      (''BPF_FUNC_msg_redirect_hash'', 71),
      (''BPF_FUNC_sk_redirect_hash'', 72),
      (''BPF_FUNC_lwt_push_encap'', 73),
      (''BPF_FUNC_lwt_seg6_store_bytes'', 74),
      (''BPF_FUNC_lwt_seg6_adjust_srh'', 75),
      (''BPF_FUNC_lwt_seg6_action'', 76),
      (''BPF_FUNC_rc_repeat'', 77),
      (''BPF_FUNC_rc_keydown'', 78),
      (''BPF_FUNC_skb_cgroup_id'', 79),
      (''BPF_FUNC_get_current_cgroup_id'', 80),
      (''BPF_FUNC_get_local_storage'', 81),
      (''BPF_FUNC_sk_select_reuseport'', 82),
      (''BPF_FUNC_skb_ancestor_cgroup_id'', 83),
      (''BPF_FUNC_sk_lookup_tcp'', 84),
      (''BPF_FUNC_sk_lookup_udp'', 85),
      (''BPF_FUNC_sk_release'', 86),
      (''BPF_FUNC_map_push_elem'', 87),
      (''BPF_FUNC_map_pop_elem'', 88),
      (''BPF_FUNC_map_peek_elem'', 89),
      (''BPF_FUNC_msg_push_data'', 90),
      (''BPF_FUNC_msg_pop_data'', 91),
      (''BPF_FUNC_rc_pointer_rel'', 92),
      (''BPF_FUNC_spin_lock'', 93),
      (''BPF_FUNC_spin_unlock'', 94),
      (''BPF_FUNC_sk_fullsock'', 95),
      (''BPF_FUNC_tcp_sock'', 96),
      (''BPF_FUNC_skb_ecn_set_ce'', 97),
      (''BPF_FUNC_get_listener_sock'', 98),
      (''BPF_FUNC_skc_lookup_tcp'', 99),
      (''BPF_FUNC_tcp_check_syncookie'', 100),
      (''BPF_FUNC_sysctl_get_name'', 101),
      (''BPF_FUNC_sysctl_get_current_value'', 102),
      (''BPF_FUNC_sysctl_get_new_value'', 103),
      (''BPF_FUNC_sysctl_set_new_value'', 104),
      (''BPF_FUNC_strtol'', 105),
      (''BPF_FUNC_strtoul'', 106),
      (''BPF_FUNC_sk_storage_get'', 107),
      (''BPF_FUNC_sk_storage_delete'', 108),
      (''BPF_FUNC_send_signal'', 109),
      (''BPF_FUNC_tcp_gen_syncookie'', 110),
      (''BPF_FUNC_skb_output'', 111),
      (''BPF_FUNC_probe_read_user'', 112),
      (''BPF_FUNC_probe_read_kernel'', 113),
      (''BPF_FUNC_probe_read_user_str'', 114),
      (''BPF_FUNC_probe_read_kernel_str'', 115),
      (''BPF_FUNC_tcp_send_ack'', 116),
      (''BPF_FUNC_send_signal_thread'', 117),
      (''BPF_FUNC_jiffies64'', 118),
      (''BPF_FUNC_read_branch_records'', 119),
      (''BPF_FUNC_get_ns_current_pid_tgid'', 120),
      (''BPF_FUNC_xdp_output'', 121),
      (''BPF_FUNC_get_netns_cookie'', 122),
      (''BPF_FUNC_get_current_ancestor_cgroup_id'', 123),
      (''BPF_FUNC_sk_assign'', 124),
      (''BPF_FUNC_ktime_get_boot_ns'', 125),
      (''BPF_FUNC_seq_printf'', 126),
      (''BPF_FUNC_seq_write'', 127),
      (''BPF_FUNC_sk_cgroup_id'', 128),
      (''BPF_FUNC_sk_ancestor_cgroup_id'', 129),
      (''BPF_FUNC_ringbuf_output'', 130),
      (''BPF_FUNC_ringbuf_reserve'', 131),
      (''BPF_FUNC_ringbuf_submit'', 132),
      (''BPF_FUNC_ringbuf_discard'', 133),
      (''BPF_FUNC_ringbuf_query'', 134),
      (''BPF_FUNC_csum_level'', 135),
      (''BPF_FUNC_skc_to_tcp6_sock'', 136),
      (''BPF_FUNC_skc_to_tcp_sock'', 137),
      (''BPF_FUNC_skc_to_tcp_timewait_sock'', 138),
      (''BPF_FUNC_skc_to_tcp_request_sock'', 139),
      (''BPF_FUNC_skc_to_udp6_sock'', 140),
      (''BPF_FUNC_get_task_stack'', 141),
      (''BPF_FUNC_load_hdr_opt'', 142),
      (''BPF_FUNC_store_hdr_opt'', 143),
      (''BPF_FUNC_reserve_hdr_opt'', 144),
      (''BPF_FUNC_inode_storage_get'', 145),
      (''BPF_FUNC_inode_storage_delete'', 146),
      (''BPF_FUNC_d_path'', 147),
      (''BPF_FUNC_copy_from_user'', 148),
      (''BPF_FUNC_snprintf_btf'', 149),
      (''BPF_FUNC_seq_printf_btf'', 150),
      (''BPF_FUNC_skb_cgroup_classid'', 151),
      (''BPF_FUNC_redirect_neigh'', 152),
      (''BPF_FUNC_per_cpu_ptr'', 153),
      (''BPF_FUNC_this_cpu_ptr'', 154),
      (''BPF_FUNC_redirect_peer'', 155),
      (''BPF_FUNC_task_storage_get'', 156),
      (''BPF_FUNC_task_storage_delete'', 157),
      (''BPF_FUNC_get_current_task_btf'', 158),
      (''BPF_FUNC_bprm_opts_set'', 159),
      (''BPF_FUNC_ktime_get_coarse_ns'', 160),
      (''BPF_FUNC_ima_inode_hash'', 161),
      (''BPF_FUNC_sock_from_file'', 162),
      (''BPF_FUNC_check_mtu'', 163),
      (''BPF_FUNC_for_each_map_elem'', 164),
      (''BPF_FUNC_snprintf'', 165),
      (''BPF_FUNC_sys_bpf'', 166),
      (''BPF_FUNC_btf_find_by_name_kind'', 167),
      (''BPF_FUNC_sys_close'', 168),
      (''BPF_FUNC_timer_init'', 169),
      (''BPF_FUNC_timer_set_callback'', 170),
      (''BPF_FUNC_timer_start'', 171),
      (''BPF_FUNC_timer_cancel'', 172),
      (''BPF_FUNC_get_func_ip'', 173),
      (''BPF_FUNC_get_attach_cookie'', 174),
      (''BPF_FUNC_task_pt_regs'', 175),
      (''BPF_FUNC_get_branch_snapshot'', 176),
      (''BPF_FUNC_trace_vprintk'', 177),
      (''BPF_FUNC_skc_to_unix_sock'', 178),
      (''BPF_FUNC_kallsyms_lookup_name'', 179),
      (''BPF_FUNC_find_vma'', 180),
      (''BPF_FUNC_loop'', 181),
      (''BPF_FUNC_strncmp'', 182),
      (''BPF_FUNC_get_func_arg'', 183),
      (''BPF_FUNC_get_func_ret'', 184),
      (''BPF_FUNC_get_func_arg_cnt'', 185),
      (''BPF_FUNC_get_retval'', 186),
      (''BPF_FUNC_set_retval'', 187),
      (''BPF_FUNC_xdp_get_buff_len'', 188),
      (''BPF_FUNC_xdp_load_bytes'', 189),
      (''BPF_FUNC_xdp_store_bytes'', 190),
      (''BPF_FUNC_copy_from_user_task'', 191),
      (''BPF_FUNC_skb_set_tstamp'', 192),
      (''BPF_FUNC_ima_file_hash'', 193),
      (''BPF_FUNC_kptr_xchg'', 194),
      (''BPF_FUNC_map_lookup_percpu_elem'', 195),
      (''BPF_FUNC_skc_to_mptcp_sock'', 196),
      (''BPF_FUNC_dynptr_from_mem'', 197),
      (''BPF_FUNC_ringbuf_reserve_dynptr'', 198),
      (''BPF_FUNC_ringbuf_submit_dynptr'', 199),
      (''BPF_FUNC_ringbuf_discard_dynptr'', 200),
      (''BPF_FUNC_dynptr_read'', 201),
      (''BPF_FUNC_dynptr_write'', 202),
      (''BPF_FUNC_dynptr_data'', 203),
      (''BPF_FUNC_tcp_raw_gen_syncookie_ipv4'', 204),
      (''BPF_FUNC_tcp_raw_gen_syncookie_ipv6'', 205),
      (''BPF_FUNC_tcp_raw_check_syncookie_ipv4'', 206),
      (''BPF_FUNC_tcp_raw_check_syncookie_ipv6'', 207),
      (''BPF_FUNC_ktime_get_tai_ns'', 208),
      (''BPF_FUNC_user_ringbuf_drain'', 209),
      (''BPF_FUNC_cgrp_storage_get'', 210),
      (''BPF_FUNC_cgrp_storage_delete'', 211),
      (''__BPF_FUNC_MAX_ID'', 212)]"

definition arm64_bpf_map_type :: "(string \<times> nat) list" where
  "arm64_bpf_map_type =
     [(''BPF_MAP_TYPE_UNSPEC'', 0),
      (''BPF_MAP_TYPE_HASH'', 1),
      (''BPF_MAP_TYPE_ARRAY'', 2),
      (''BPF_MAP_TYPE_PROG_ARRAY'', 3),
      (''BPF_MAP_TYPE_PERF_EVENT_ARRAY'', 4),
      (''BPF_MAP_TYPE_PERCPU_HASH'', 5),
      (''BPF_MAP_TYPE_PERCPU_ARRAY'', 6),
      (''BPF_MAP_TYPE_STACK_TRACE'', 7),
      (''BPF_MAP_TYPE_CGROUP_ARRAY'', 8),
      (''BPF_MAP_TYPE_LRU_HASH'', 9),
      (''BPF_MAP_TYPE_LRU_PERCPU_HASH'', 10),
      (''BPF_MAP_TYPE_LPM_TRIE'', 11),
      (''BPF_MAP_TYPE_ARRAY_OF_MAPS'', 12),
      (''BPF_MAP_TYPE_HASH_OF_MAPS'', 13),
      (''BPF_MAP_TYPE_DEVMAP'', 14),
      (''BPF_MAP_TYPE_SOCKMAP'', 15),
      (''BPF_MAP_TYPE_CPUMAP'', 16),
      (''BPF_MAP_TYPE_XSKMAP'', 17),
      (''BPF_MAP_TYPE_SOCKHASH'', 18),
      (''BPF_MAP_TYPE_CGROUP_STORAGE_DEPRECATED'', 19),
      (''BPF_MAP_TYPE_CGROUP_STORAGE'', 19),
      (''BPF_MAP_TYPE_REUSEPORT_SOCKARRAY'', 20),
      (''BPF_MAP_TYPE_PERCPU_CGROUP_STORAGE_DEPRECATED'', 21),
      (''BPF_MAP_TYPE_PERCPU_CGROUP_STORAGE'', 21),
      (''BPF_MAP_TYPE_QUEUE'', 22),
      (''BPF_MAP_TYPE_STACK'', 23),
      (''BPF_MAP_TYPE_SK_STORAGE'', 24),
      (''BPF_MAP_TYPE_DEVMAP_HASH'', 25),
      (''BPF_MAP_TYPE_STRUCT_OPS'', 26),
      (''BPF_MAP_TYPE_RINGBUF'', 27),
      (''BPF_MAP_TYPE_INODE_STORAGE'', 28),
      (''BPF_MAP_TYPE_TASK_STORAGE'', 29),
      (''BPF_MAP_TYPE_BLOOM_FILTER'', 30),
      (''BPF_MAP_TYPE_USER_RINGBUF'', 31),
      (''BPF_MAP_TYPE_CGRP_STORAGE'', 32),
      (''BPF_MAP_TYPE_ARENA'', 33),
      (''__MAX_BPF_MAP_TYPE'', 34)]"

section \<open>Sizes and alignments\<close>

lemma layout_arm64_uapi_u64 [layout_simps]: "layout arm64_uapi_u64 = (8, 8)"
  unfolding arm64_uapi_u64_def by (simp add: layout_simps align_up_def bit_place_def pad_end_def del: One_nat_def cong: layout_congs)

lemma layout_arm64_u64 [layout_simps]: "layout arm64_u64 = (8, 8)"
  unfolding arm64_u64_def by (simp add: layout_simps align_up_def bit_place_def pad_end_def del: One_nat_def cong: layout_congs)

lemma layout_arm64_uapi_u32 [layout_simps]: "layout arm64_uapi_u32 = (4, 4)"
  unfolding arm64_uapi_u32_def by (simp add: layout_simps align_up_def bit_place_def pad_end_def del: One_nat_def cong: layout_congs)

lemma layout_arm64_u32 [layout_simps]: "layout arm64_u32 = (4, 4)"
  unfolding arm64_u32_def by (simp add: layout_simps align_up_def bit_place_def pad_end_def del: One_nat_def cong: layout_congs)

lemma layout_arm64_struct_thread_info [layout_simps]: "layout arm64_struct_thread_info = (32, 8)"
  unfolding arm64_struct_thread_info_def by (simp add: layout_simps align_up_def bit_place_def pad_end_def del: One_nat_def cong: layout_congs)

lemma layout_arm64_atomic_t [layout_simps]: "layout arm64_atomic_t = (4, 4)"
  unfolding arm64_atomic_t_def by (simp add: layout_simps align_up_def bit_place_def pad_end_def del: One_nat_def cong: layout_congs)

lemma layout_arm64_struct_refcount_struct [layout_simps]: "layout arm64_struct_refcount_struct = (4, 4)"
  unfolding arm64_struct_refcount_struct_def by (simp add: layout_simps align_up_def bit_place_def pad_end_def del: One_nat_def cong: layout_congs)

lemma layout_arm64_refcount_t [layout_simps]: "layout arm64_refcount_t = (4, 4)"
  unfolding arm64_refcount_t_def by (simp add: layout_simps align_up_def bit_place_def pad_end_def del: One_nat_def cong: layout_congs)

lemma layout_arm64_struct_llist_node [layout_simps]: "layout arm64_struct_llist_node = (8, 8)"
  unfolding arm64_struct_llist_node_def by (simp add: layout_simps align_up_def bit_place_def pad_end_def del: One_nat_def cong: layout_congs)

lemma layout_arm64_uapi_u16 [layout_simps]: "layout arm64_uapi_u16 = (2, 2)"
  unfolding arm64_uapi_u16_def by (simp add: layout_simps align_up_def bit_place_def pad_end_def del: One_nat_def cong: layout_congs)

lemma layout_arm64_u16 [layout_simps]: "layout arm64_u16 = (2, 2)"
  unfolding arm64_u16_def by (simp add: layout_simps align_up_def bit_place_def pad_end_def del: One_nat_def cong: layout_congs)

lemma layout_arm64_struct_u__call_single_node [layout_simps]: "layout arm64_struct_u__call_single_node = (16, 8)"
  unfolding arm64_struct_u__call_single_node_def by (simp add: layout_simps align_up_def bit_place_def pad_end_def del: One_nat_def cong: layout_congs)

lemma layout_arm64_struct_load_weight [layout_simps]: "layout arm64_struct_load_weight = (16, 8)"
  unfolding arm64_struct_load_weight_def by (simp add: layout_simps align_up_def bit_place_def pad_end_def del: One_nat_def cong: layout_congs)

lemma layout_arm64_struct_rb_node [layout_simps]: "layout arm64_struct_rb_node = (24, 8)"
  unfolding arm64_struct_rb_node_def by (simp add: layout_simps align_up_def bit_place_def pad_end_def del: One_nat_def cong: layout_congs)

lemma layout_arm64_struct_list_head [layout_simps]: "layout arm64_struct_list_head = (16, 8)"
  unfolding arm64_struct_list_head_def by (simp add: layout_simps align_up_def bit_place_def pad_end_def del: One_nat_def cong: layout_congs)

lemma layout_arm64_uapi_s64 [layout_simps]: "layout arm64_uapi_s64 = (8, 8)"
  unfolding arm64_uapi_s64_def by (simp add: layout_simps align_up_def bit_place_def pad_end_def del: One_nat_def cong: layout_congs)

lemma layout_arm64_s64 [layout_simps]: "layout arm64_s64 = (8, 8)"
  unfolding arm64_s64_def by (simp add: layout_simps align_up_def bit_place_def pad_end_def del: One_nat_def cong: layout_congs)

lemma layout_arm64_struct_sched_avg [layout_simps]: "layout arm64_struct_sched_avg = (64, 8)"
  unfolding arm64_struct_sched_avg_def by (simp add: layout_simps align_up_def bit_place_def pad_end_def del: One_nat_def cong: layout_congs)

lemma layout_arm64_struct_sched_entity [layout_simps]: "layout arm64_struct_sched_entity = (256, 8)"
  unfolding arm64_struct_sched_entity_def by (simp add: layout_simps align_up_def bit_place_def pad_end_def del: One_nat_def cong: layout_congs)

lemma layout_arm64_struct_sched_rt_entity [layout_simps]: "layout arm64_struct_sched_rt_entity = (48, 8)"
  unfolding arm64_struct_sched_rt_entity_def by (simp add: layout_simps align_up_def bit_place_def pad_end_def del: One_nat_def cong: layout_congs)

lemma layout_arm64_ktime_t [layout_simps]: "layout arm64_ktime_t = (8, 8)"
  unfolding arm64_ktime_t_def by (simp add: layout_simps align_up_def bit_place_def pad_end_def del: One_nat_def cong: layout_congs)

lemma layout_arm64_struct_timerqueue_node [layout_simps]: "layout arm64_struct_timerqueue_node = (32, 8)"
  unfolding arm64_struct_timerqueue_node_def by (simp add: layout_simps align_up_def bit_place_def pad_end_def del: One_nat_def cong: layout_congs)

lemma layout_arm64_uapi_u8 [layout_simps]: "layout arm64_uapi_u8 = (1, 1)"
  unfolding arm64_uapi_u8_def by (simp add: layout_simps align_up_def bit_place_def pad_end_def del: One_nat_def cong: layout_congs)

lemma layout_arm64_u8 [layout_simps]: "layout arm64_u8 = (1, 1)"
  unfolding arm64_u8_def by (simp add: layout_simps align_up_def bit_place_def pad_end_def del: One_nat_def cong: layout_congs)

lemma layout_arm64_struct_hrtimer [layout_simps]: "layout arm64_struct_hrtimer = (64, 8)"
  unfolding arm64_struct_hrtimer_def by (simp add: layout_simps align_up_def bit_place_def pad_end_def del: One_nat_def cong: layout_congs)

lemma layout_arm64_dl_server_has_tasks_f [layout_simps]: "layout arm64_dl_server_has_tasks_f = (8, 8)"
  unfolding arm64_dl_server_has_tasks_f_def by (simp add: layout_simps align_up_def bit_place_def pad_end_def del: One_nat_def cong: layout_congs)

lemma layout_arm64_dl_server_pick_f [layout_simps]: "layout arm64_dl_server_pick_f = (8, 8)"
  unfolding arm64_dl_server_pick_f_def by (simp add: layout_simps align_up_def bit_place_def pad_end_def del: One_nat_def cong: layout_congs)

lemma layout_arm64_struct_sched_dl_entity [layout_simps]: "layout arm64_struct_sched_dl_entity = (248, 8)"
  unfolding arm64_struct_sched_dl_entity_def by (simp add: layout_simps align_up_def bit_place_def pad_end_def del: One_nat_def cong: layout_congs)

lemma layout_arm64_struct_scx_dsq_list_node [layout_simps]: "layout arm64_struct_scx_dsq_list_node = (24, 8)"
  unfolding arm64_struct_scx_dsq_list_node_def by (simp add: layout_simps align_up_def bit_place_def pad_end_def del: One_nat_def cong: layout_congs)

lemma layout_arm64_uapi_s32 [layout_simps]: "layout arm64_uapi_s32 = (4, 4)"
  unfolding arm64_uapi_s32_def by (simp add: layout_simps align_up_def bit_place_def pad_end_def del: One_nat_def cong: layout_congs)

lemma layout_arm64_s32 [layout_simps]: "layout arm64_s32 = (4, 4)"
  unfolding arm64_s32_def by (simp add: layout_simps align_up_def bit_place_def pad_end_def del: One_nat_def cong: layout_congs)

lemma layout_arm64_atomic64_t [layout_simps]: "layout arm64_atomic64_t = (8, 8)"
  unfolding arm64_atomic64_t_def by (simp add: layout_simps align_up_def bit_place_def pad_end_def del: One_nat_def cong: layout_congs)

lemma layout_arm64_atomic_long_t [layout_simps]: "layout arm64_atomic_long_t = (8, 8)"
  unfolding arm64_atomic_long_t_def by (simp add: layout_simps align_up_def bit_place_def pad_end_def del: One_nat_def cong: layout_congs)

lemma layout_arm64_struct_sched_ext_entity [layout_simps]: "layout arm64_struct_sched_ext_entity = (208, 8)"
  unfolding arm64_struct_sched_ext_entity_def by (simp add: layout_simps align_up_def bit_place_def pad_end_def del: One_nat_def cong: layout_congs)

lemma layout_arm64_struct_uclamp_se [layout_simps]: "layout arm64_struct_uclamp_se = (4, 4)"
  unfolding arm64_struct_uclamp_se_def by (simp add: layout_simps align_up_def bit_place_def pad_end_def del: One_nat_def cong: layout_congs)

lemma layout_arm64_struct_sched_statistics [layout_simps]: "layout arm64_struct_sched_statistics = (256, 8)"
  unfolding arm64_struct_sched_statistics_def by (simp add: layout_simps align_up_def bit_place_def pad_end_def del: One_nat_def cong: layout_congs)

lemma layout_arm64_struct_hlist_head [layout_simps]: "layout arm64_struct_hlist_head = (8, 8)"
  unfolding arm64_struct_hlist_head_def by (simp add: layout_simps align_up_def bit_place_def pad_end_def del: One_nat_def cong: layout_congs)

lemma layout_arm64_struct_cpumask [layout_simps]: "layout arm64_struct_cpumask = (512, 8)"
  unfolding arm64_struct_cpumask_def by (simp add: layout_simps align_up_def bit_place_def pad_end_def del: One_nat_def cong: layout_congs)

lemma layout_arm64_cpumask_t [layout_simps]: "layout arm64_cpumask_t = (512, 8)"
  unfolding arm64_cpumask_t_def by (simp add: layout_simps align_up_def bit_place_def pad_end_def del: One_nat_def cong: layout_congs)

lemma layout_arm64_union_rcu_special [layout_simps]: "layout arm64_union_rcu_special = (4, 4)"
  unfolding arm64_union_rcu_special_def by (simp add: layout_simps align_up_def bit_place_def pad_end_def del: One_nat_def cong: layout_congs)

lemma layout_arm64_struct_sched_info [layout_simps]: "layout arm64_struct_sched_info = (32, 8)"
  unfolding arm64_struct_sched_info_def by (simp add: layout_simps align_up_def bit_place_def pad_end_def del: One_nat_def cong: layout_congs)

lemma layout_arm64_struct_plist_node [layout_simps]: "layout arm64_struct_plist_node = (40, 8)"
  unfolding arm64_struct_plist_node_def by (simp add: layout_simps align_up_def bit_place_def pad_end_def del: One_nat_def cong: layout_congs)

lemma layout_arm64_uapi_kernel_clockid_t [layout_simps]: "layout arm64_uapi_kernel_clockid_t = (4, 4)"
  unfolding arm64_uapi_kernel_clockid_t_def by (simp add: layout_simps align_up_def bit_place_def pad_end_def del: One_nat_def cong: layout_congs)

lemma layout_arm64_clockid_t [layout_simps]: "layout arm64_clockid_t = (4, 4)"
  unfolding arm64_clockid_t_def by (simp add: layout_simps align_up_def bit_place_def pad_end_def del: One_nat_def cong: layout_congs)

lemma layout_arm64_enum_timespec_type [layout_simps]: "layout arm64_enum_timespec_type = (4, 4)"
  unfolding arm64_enum_timespec_type_def by (simp add: layout_simps align_up_def bit_place_def pad_end_def del: One_nat_def cong: layout_congs)

lemma layout_arm64_struct_restart_block [layout_simps]: "layout arm64_struct_restart_block = (56, 8)"
  unfolding arm64_struct_restart_block_def by (simp add: layout_simps align_up_def bit_place_def pad_end_def del: One_nat_def cong: layout_congs)

lemma layout_arm64_uapi_kernel_pid_t [layout_simps]: "layout arm64_uapi_kernel_pid_t = (4, 4)"
  unfolding arm64_uapi_kernel_pid_t_def by (simp add: layout_simps align_up_def bit_place_def pad_end_def del: One_nat_def cong: layout_congs)

lemma layout_arm64_pid_t [layout_simps]: "layout arm64_pid_t = (4, 4)"
  unfolding arm64_pid_t_def by (simp add: layout_simps align_up_def bit_place_def pad_end_def del: One_nat_def cong: layout_congs)

lemma layout_arm64_struct_hlist_node [layout_simps]: "layout arm64_struct_hlist_node = (16, 8)"
  unfolding arm64_struct_hlist_node_def by (simp add: layout_simps align_up_def bit_place_def pad_end_def del: One_nat_def cong: layout_congs)

lemma layout_arm64_struct_qspinlock [layout_simps]: "layout arm64_struct_qspinlock = (4, 4)"
  unfolding arm64_struct_qspinlock_def by (simp add: layout_simps align_up_def bit_place_def pad_end_def del: One_nat_def cong: layout_congs)

lemma layout_arm64_arch_spinlock_t [layout_simps]: "layout arm64_arch_spinlock_t = (4, 4)"
  unfolding arm64_arch_spinlock_t_def by (simp add: layout_simps align_up_def bit_place_def pad_end_def del: One_nat_def cong: layout_congs)

lemma layout_arm64_struct_raw_spinlock [layout_simps]: "layout arm64_struct_raw_spinlock = (4, 4)"
  unfolding arm64_struct_raw_spinlock_def by (simp add: layout_simps align_up_def bit_place_def pad_end_def del: One_nat_def cong: layout_congs)

lemma layout_arm64_raw_spinlock_t [layout_simps]: "layout arm64_raw_spinlock_t = (4, 4)"
  unfolding arm64_raw_spinlock_t_def by (simp add: layout_simps align_up_def bit_place_def pad_end_def del: One_nat_def cong: layout_congs)

lemma layout_arm64_struct_prev_cputime [layout_simps]: "layout arm64_struct_prev_cputime = (24, 8)"
  unfolding arm64_struct_prev_cputime_def by (simp add: layout_simps align_up_def bit_place_def pad_end_def del: One_nat_def cong: layout_congs)

lemma layout_arm64_struct_seqcount [layout_simps]: "layout arm64_struct_seqcount = (4, 4)"
  unfolding arm64_struct_seqcount_def by (simp add: layout_simps align_up_def bit_place_def pad_end_def del: One_nat_def cong: layout_congs)

lemma layout_arm64_seqcount_t [layout_simps]: "layout arm64_seqcount_t = (4, 4)"
  unfolding arm64_seqcount_t_def by (simp add: layout_simps align_up_def bit_place_def pad_end_def del: One_nat_def cong: layout_congs)

lemma layout_arm64_enum_vtime_state [layout_simps]: "layout arm64_enum_vtime_state = (4, 4)"
  unfolding arm64_enum_vtime_state_def by (simp add: layout_simps align_up_def bit_place_def pad_end_def del: One_nat_def cong: layout_congs)

lemma layout_arm64_struct_vtime [layout_simps]: "layout arm64_struct_vtime = (48, 8)"
  unfolding arm64_struct_vtime_def by (simp add: layout_simps align_up_def bit_place_def pad_end_def del: One_nat_def cong: layout_congs)

lemma layout_arm64_struct_rb_root [layout_simps]: "layout arm64_struct_rb_root = (8, 8)"
  unfolding arm64_struct_rb_root_def by (simp add: layout_simps align_up_def bit_place_def pad_end_def del: One_nat_def cong: layout_congs)

lemma layout_arm64_struct_rb_root_cached [layout_simps]: "layout arm64_struct_rb_root_cached = (16, 8)"
  unfolding arm64_struct_rb_root_cached_def by (simp add: layout_simps align_up_def bit_place_def pad_end_def del: One_nat_def cong: layout_congs)

lemma layout_arm64_struct_timerqueue_head [layout_simps]: "layout arm64_struct_timerqueue_head = (16, 8)"
  unfolding arm64_struct_timerqueue_head_def by (simp add: layout_simps align_up_def bit_place_def pad_end_def del: One_nat_def cong: layout_congs)

lemma layout_arm64_struct_posix_cputimer_base [layout_simps]: "layout arm64_struct_posix_cputimer_base = (24, 8)"
  unfolding arm64_struct_posix_cputimer_base_def by (simp add: layout_simps align_up_def bit_place_def pad_end_def del: One_nat_def cong: layout_congs)

lemma layout_arm64_struct_posix_cputimers [layout_simps]: "layout arm64_struct_posix_cputimers = (80, 8)"
  unfolding arm64_struct_posix_cputimers_def by (simp add: layout_simps align_up_def bit_place_def pad_end_def del: One_nat_def cong: layout_congs)

lemma layout_arm64_struct_callback_head [layout_simps]: "layout arm64_struct_callback_head = (16, 8)"
  unfolding arm64_struct_callback_head_def by (simp add: layout_simps align_up_def bit_place_def pad_end_def del: One_nat_def cong: layout_congs)

lemma layout_arm64_struct_optimistic_spin_queue [layout_simps]: "layout arm64_struct_optimistic_spin_queue = (4, 4)"
  unfolding arm64_struct_optimistic_spin_queue_def by (simp add: layout_simps align_up_def bit_place_def pad_end_def del: One_nat_def cong: layout_congs)

lemma layout_arm64_struct_mutex [layout_simps]: "layout arm64_struct_mutex = (32, 8)"
  unfolding arm64_struct_mutex_def by (simp add: layout_simps align_up_def bit_place_def pad_end_def del: One_nat_def cong: layout_congs)

lemma layout_arm64_struct_posix_cputimers_work [layout_simps]: "layout arm64_struct_posix_cputimers_work = (56, 8)"
  unfolding arm64_struct_posix_cputimers_work_def by (simp add: layout_simps align_up_def bit_place_def pad_end_def del: One_nat_def cong: layout_congs)

lemma layout_arm64_struct_sysv_sem [layout_simps]: "layout arm64_struct_sysv_sem = (8, 8)"
  unfolding arm64_struct_sysv_sem_def by (simp add: layout_simps align_up_def bit_place_def pad_end_def del: One_nat_def cong: layout_congs)

lemma layout_arm64_struct_sysv_shm [layout_simps]: "layout arm64_struct_sysv_shm = (16, 8)"
  unfolding arm64_struct_sysv_shm_def by (simp add: layout_simps align_up_def bit_place_def pad_end_def del: One_nat_def cong: layout_congs)

lemma layout_arm64_sigset_t [layout_simps]: "layout arm64_sigset_t = (8, 8)"
  unfolding arm64_sigset_t_def by (simp add: layout_simps align_up_def bit_place_def pad_end_def del: One_nat_def cong: layout_congs)

lemma layout_arm64_struct_sigpending [layout_simps]: "layout arm64_struct_sigpending = (24, 8)"
  unfolding arm64_struct_sigpending_def by (simp add: layout_simps align_up_def bit_place_def pad_end_def del: One_nat_def cong: layout_congs)

lemma layout_arm64_uapi_kernel_ulong_t [layout_simps]: "layout arm64_uapi_kernel_ulong_t = (8, 8)"
  unfolding arm64_uapi_kernel_ulong_t_def by (simp add: layout_simps align_up_def bit_place_def pad_end_def del: One_nat_def cong: layout_congs)

lemma layout_arm64_uapi_kernel_size_t [layout_simps]: "layout arm64_uapi_kernel_size_t = (8, 8)"
  unfolding arm64_uapi_kernel_size_t_def by (simp add: layout_simps align_up_def bit_place_def pad_end_def del: One_nat_def cong: layout_congs)

lemma layout_arm64_size_t [layout_simps]: "layout arm64_size_t = (8, 8)"
  unfolding arm64_size_t_def by (simp add: layout_simps align_up_def bit_place_def pad_end_def del: One_nat_def cong: layout_congs)

lemma layout_arm64_uapi_kernel_uid32_t [layout_simps]: "layout arm64_uapi_kernel_uid32_t = (4, 4)"
  unfolding arm64_uapi_kernel_uid32_t_def by (simp add: layout_simps align_up_def bit_place_def pad_end_def del: One_nat_def cong: layout_congs)

lemma layout_arm64_uid_t [layout_simps]: "layout arm64_uid_t = (4, 4)"
  unfolding arm64_uid_t_def by (simp add: layout_simps align_up_def bit_place_def pad_end_def del: One_nat_def cong: layout_congs)

lemma layout_arm64_kuid_t [layout_simps]: "layout arm64_kuid_t = (4, 4)"
  unfolding arm64_kuid_t_def by (simp add: layout_simps align_up_def bit_place_def pad_end_def del: One_nat_def cong: layout_congs)

lemma layout_arm64_struct_seccomp [layout_simps]: "layout arm64_struct_seccomp = (16, 8)"
  unfolding arm64_struct_seccomp_def by (simp add: layout_simps align_up_def bit_place_def pad_end_def del: One_nat_def cong: layout_congs)

lemma layout_arm64_struct_syscall_user_dispatch [layout_simps]: "layout arm64_struct_syscall_user_dispatch = (0, 1)"
  unfolding arm64_struct_syscall_user_dispatch_def by (simp add: layout_simps align_up_def bit_place_def pad_end_def del: One_nat_def cong: layout_congs)

lemma layout_arm64_struct_spinlock [layout_simps]: "layout arm64_struct_spinlock = (4, 4)"
  unfolding arm64_struct_spinlock_def by (simp add: layout_simps align_up_def bit_place_def pad_end_def del: One_nat_def cong: layout_congs)

lemma layout_arm64_spinlock_t [layout_simps]: "layout arm64_spinlock_t = (4, 4)"
  unfolding arm64_spinlock_t_def by (simp add: layout_simps align_up_def bit_place_def pad_end_def del: One_nat_def cong: layout_congs)

lemma layout_arm64_struct_wake_q_node [layout_simps]: "layout arm64_struct_wake_q_node = (8, 8)"
  unfolding arm64_struct_wake_q_node_def by (simp add: layout_simps align_up_def bit_place_def pad_end_def del: One_nat_def cong: layout_congs)

lemma layout_arm64_struct_task_io_accounting [layout_simps]: "layout arm64_struct_task_io_accounting = (56, 8)"
  unfolding arm64_struct_task_io_accounting_def by (simp add: layout_simps align_up_def bit_place_def pad_end_def del: One_nat_def cong: layout_congs)

lemma layout_arm64_nodemask_t [layout_simps]: "layout arm64_nodemask_t = (64, 8)"
  unfolding arm64_nodemask_t_def by (simp add: layout_simps align_up_def bit_place_def pad_end_def del: One_nat_def cong: layout_congs)

lemma layout_arm64_struct_seqcount_spinlock [layout_simps]: "layout arm64_struct_seqcount_spinlock = (4, 4)"
  unfolding arm64_struct_seqcount_spinlock_def by (simp add: layout_simps align_up_def bit_place_def pad_end_def del: One_nat_def cong: layout_congs)

lemma layout_arm64_seqcount_spinlock_t [layout_simps]: "layout arm64_seqcount_spinlock_t = (4, 4)"
  unfolding arm64_seqcount_spinlock_t_def by (simp add: layout_simps align_up_def bit_place_def pad_end_def del: One_nat_def cong: layout_congs)

lemma layout_arm64_struct_arch_tlbflush_unmap_batch [layout_simps]: "layout arm64_struct_arch_tlbflush_unmap_batch = (0, 1)"
  unfolding arm64_struct_arch_tlbflush_unmap_batch_def by (simp add: layout_simps align_up_def bit_place_def pad_end_def del: One_nat_def cong: layout_congs)

lemma layout_arm64_struct_tlbflush_unmap_batch [layout_simps]: "layout arm64_struct_tlbflush_unmap_batch = (2, 1)"
  unfolding arm64_struct_tlbflush_unmap_batch_def by (simp add: layout_simps align_up_def bit_place_def pad_end_def del: One_nat_def cong: layout_congs)

lemma layout_arm64_struct_page_frag [layout_simps]: "layout arm64_struct_page_frag = (16, 8)"
  unfolding arm64_struct_page_frag_def by (simp add: layout_simps align_up_def bit_place_def pad_end_def del: One_nat_def cong: layout_congs)

lemma layout_arm64_struct_latency_record [layout_simps]: "layout arm64_struct_latency_record = (120, 8)"
  unfolding arm64_struct_latency_record_def by (simp add: layout_simps align_up_def bit_place_def pad_end_def del: One_nat_def cong: layout_congs)

lemma layout_arm64_struct_kmap_ctrl [layout_simps]: "layout arm64_struct_kmap_ctrl = (0, 1)"
  unfolding arm64_struct_kmap_ctrl_def by (simp add: layout_simps align_up_def bit_place_def pad_end_def del: One_nat_def cong: layout_congs)

lemma layout_arm64_struct_timer_list [layout_simps]: "layout arm64_struct_timer_list = (40, 8)"
  unfolding arm64_struct_timer_list_def by (simp add: layout_simps align_up_def bit_place_def pad_end_def del: One_nat_def cong: layout_congs)

lemma layout_arm64_struct_llist_head [layout_simps]: "layout arm64_struct_llist_head = (8, 8)"
  unfolding arm64_struct_llist_head_def by (simp add: layout_simps align_up_def bit_place_def pad_end_def del: One_nat_def cong: layout_congs)

lemma layout_arm64_struct_da_monitor [layout_simps]: "layout arm64_struct_da_monitor = (8, 4)"
  unfolding arm64_struct_da_monitor_def by (simp add: layout_simps align_up_def bit_place_def pad_end_def del: One_nat_def cong: layout_congs)

lemma layout_arm64_union_rv_task_monitor [layout_simps]: "layout arm64_union_rv_task_monitor = (8, 4)"
  unfolding arm64_union_rv_task_monitor_def by (simp add: layout_simps align_up_def bit_place_def pad_end_def del: One_nat_def cong: layout_congs)

lemma layout_arm64_struct_cpu_context [layout_simps]: "layout arm64_struct_cpu_context = (104, 8)"
  unfolding arm64_struct_cpu_context_def by (simp add: layout_simps align_up_def bit_place_def pad_end_def del: One_nat_def cong: layout_congs)

lemma layout_arm64_struct_user_fpsimd_state [layout_simps]: "layout arm64_struct_user_fpsimd_state = (528, 16)"
  unfolding arm64_struct_user_fpsimd_state_def by (simp add: layout_simps align_up_def bit_place_def pad_end_def del: One_nat_def cong: layout_congs)

lemma layout_arm64_enum_fp_type [layout_simps]: "layout arm64_enum_fp_type = (4, 4)"
  unfolding arm64_enum_fp_type_def by (simp add: layout_simps align_up_def bit_place_def pad_end_def del: One_nat_def cong: layout_congs)

lemma layout_arm64_struct_debug_info [layout_simps]: "layout arm64_struct_debug_info = (272, 8)"
  unfolding arm64_struct_debug_info_def by (simp add: layout_simps align_up_def bit_place_def pad_end_def del: One_nat_def cong: layout_congs)

lemma layout_arm64_struct_ptrauth_key [layout_simps]: "layout arm64_struct_ptrauth_key = (16, 8)"
  unfolding arm64_struct_ptrauth_key_def by (simp add: layout_simps align_up_def bit_place_def pad_end_def del: One_nat_def cong: layout_congs)

lemma layout_arm64_struct_ptrauth_keys_user [layout_simps]: "layout arm64_struct_ptrauth_keys_user = (80, 8)"
  unfolding arm64_struct_ptrauth_keys_user_def by (simp add: layout_simps align_up_def bit_place_def pad_end_def del: One_nat_def cong: layout_congs)

lemma layout_arm64_struct_ptrauth_keys_kernel [layout_simps]: "layout arm64_struct_ptrauth_keys_kernel = (16, 8)"
  unfolding arm64_struct_ptrauth_keys_kernel_def by (simp add: layout_simps align_up_def bit_place_def pad_end_def del: One_nat_def cong: layout_congs)

lemma layout_arm64_struct_thread_struct [layout_simps]: "layout arm64_struct_thread_struct = (1680, 16)"
  unfolding arm64_struct_thread_struct_def by (simp add: layout_simps align_up_def bit_place_def pad_end_def del: One_nat_def cong: layout_congs)

lemma layout_arm64_struct_task_struct [layout_simps]: "layout arm64_struct_task_struct = (9600, 16)"
  unfolding arm64_struct_task_struct_def by (simp add: layout_simps align_up_def bit_place_def pad_end_def del: One_nat_def cong: layout_congs)

lemma layout_arm64_struct_css_set [layout_simps]: "layout arm64_struct_css_set = (568, 8)"
  unfolding arm64_struct_css_set_def by (simp add: layout_simps align_up_def bit_place_def pad_end_def del: One_nat_def cong: layout_congs)

lemma layout_arm64_struct_percpu_ref [layout_simps]: "layout arm64_struct_percpu_ref = (16, 8)"
  unfolding arm64_struct_percpu_ref_def by (simp add: layout_simps align_up_def bit_place_def pad_end_def del: One_nat_def cong: layout_congs)

lemma layout_arm64_work_func_t [layout_simps]: "layout arm64_work_func_t = (8, 8)"
  unfolding arm64_work_func_t_def by (simp add: layout_simps align_up_def bit_place_def pad_end_def del: One_nat_def cong: layout_congs)

lemma layout_arm64_struct_work_struct [layout_simps]: "layout arm64_struct_work_struct = (32, 8)"
  unfolding arm64_struct_work_struct_def by (simp add: layout_simps align_up_def bit_place_def pad_end_def del: One_nat_def cong: layout_congs)

lemma layout_arm64_struct_rcu_work [layout_simps]: "layout arm64_struct_rcu_work = (56, 8)"
  unfolding arm64_struct_rcu_work_def by (simp add: layout_simps align_up_def bit_place_def pad_end_def del: One_nat_def cong: layout_congs)

lemma layout_arm64_struct_cgroup_subsys_state [layout_simps]: "layout arm64_struct_cgroup_subsys_state = (208, 8)"
  unfolding arm64_struct_cgroup_subsys_state_def by (simp add: layout_simps align_up_def bit_place_def pad_end_def del: One_nat_def cong: layout_congs)

lemma layout_arm64_struct_cgroup_file [layout_simps]: "layout arm64_struct_cgroup_file = (56, 8)"
  unfolding arm64_struct_cgroup_file_def by (simp add: layout_simps align_up_def bit_place_def pad_end_def del: One_nat_def cong: layout_congs)

lemma layout_arm64_struct_cacheline_padding [layout_simps]: "layout arm64_struct_cacheline_padding = (0, 1)"
  unfolding arm64_struct_cacheline_padding_def by (simp add: layout_simps align_up_def bit_place_def pad_end_def del: One_nat_def cong: layout_congs)

lemma layout_arm64_struct_task_cputime [layout_simps]: "layout arm64_struct_task_cputime = (24, 8)"
  unfolding arm64_struct_task_cputime_def by (simp add: layout_simps align_up_def bit_place_def pad_end_def del: One_nat_def cong: layout_congs)

lemma layout_arm64_struct_cgroup_base_stat [layout_simps]: "layout arm64_struct_cgroup_base_stat = (32, 8)"
  unfolding arm64_struct_cgroup_base_stat_def by (simp add: layout_simps align_up_def bit_place_def pad_end_def del: One_nat_def cong: layout_congs)

lemma layout_arm64_struct_wait_queue_head [layout_simps]: "layout arm64_struct_wait_queue_head = (24, 8)"
  unfolding arm64_struct_wait_queue_head_def by (simp add: layout_simps align_up_def bit_place_def pad_end_def del: One_nat_def cong: layout_congs)

lemma layout_arm64_wait_queue_head_t [layout_simps]: "layout arm64_wait_queue_head_t = (24, 8)"
  unfolding arm64_wait_queue_head_t_def by (simp add: layout_simps align_up_def bit_place_def pad_end_def del: One_nat_def cong: layout_congs)

lemma layout_arm64_struct_cgroup_bpf [layout_simps]: "layout arm64_struct_cgroup_bpf = (720, 8)"
  unfolding arm64_struct_cgroup_bpf_def by (simp add: layout_simps align_up_def bit_place_def pad_end_def del: One_nat_def cong: layout_congs)

lemma layout_arm64_struct_cgroup_freezer_state [layout_simps]: "layout arm64_struct_cgroup_freezer_state = (16, 4)"
  unfolding arm64_struct_cgroup_freezer_state_def by (simp add: layout_simps align_up_def bit_place_def pad_end_def del: One_nat_def cong: layout_congs)

lemma layout_arm64_struct_cgroup [layout_simps]: "layout arm64_struct_cgroup = (2048, 8)"
  unfolding arm64_struct_cgroup_def by (simp add: layout_simps align_up_def bit_place_def pad_end_def del: One_nat_def cong: layout_congs)

lemma layout_arm64_umode_t [layout_simps]: "layout arm64_umode_t = (2, 2)"
  unfolding arm64_umode_t_def by (simp add: layout_simps align_up_def bit_place_def pad_end_def del: One_nat_def cong: layout_congs)

lemma layout_arm64_struct_kernfs_elem_dir [layout_simps]: "layout arm64_struct_kernfs_elem_dir = (32, 8)"
  unfolding arm64_struct_kernfs_elem_dir_def by (simp add: layout_simps align_up_def bit_place_def pad_end_def del: One_nat_def cong: layout_congs)

lemma layout_arm64_struct_kernfs_elem_symlink [layout_simps]: "layout arm64_struct_kernfs_elem_symlink = (8, 8)"
  unfolding arm64_struct_kernfs_elem_symlink_def by (simp add: layout_simps align_up_def bit_place_def pad_end_def del: One_nat_def cong: layout_congs)

lemma layout_arm64_uapi_kernel_loff_t [layout_simps]: "layout arm64_uapi_kernel_loff_t = (8, 8)"
  unfolding arm64_uapi_kernel_loff_t_def by (simp add: layout_simps align_up_def bit_place_def pad_end_def del: One_nat_def cong: layout_congs)

lemma layout_arm64_loff_t [layout_simps]: "layout arm64_loff_t = (8, 8)"
  unfolding arm64_loff_t_def by (simp add: layout_simps align_up_def bit_place_def pad_end_def del: One_nat_def cong: layout_congs)

lemma layout_arm64_struct_kernfs_elem_attr [layout_simps]: "layout arm64_struct_kernfs_elem_attr = (32, 8)"
  unfolding arm64_struct_kernfs_elem_attr_def by (simp add: layout_simps align_up_def bit_place_def pad_end_def del: One_nat_def cong: layout_congs)

lemma layout_arm64_struct_kernfs_node [layout_simps]: "layout arm64_struct_kernfs_node = (136, 8)"
  unfolding arm64_struct_kernfs_node_def by (simp add: layout_simps align_up_def bit_place_def pad_end_def del: One_nat_def cong: layout_congs)

lemma layout_arm64_struct_nsproxy [layout_simps]: "layout arm64_struct_nsproxy = (72, 8)"
  unfolding arm64_struct_nsproxy_def by (simp add: layout_simps align_up_def bit_place_def pad_end_def del: One_nat_def cong: layout_congs)

lemma layout_arm64_struct_ns_common [layout_simps]: "layout arm64_struct_ns_common = (24, 8)"
  unfolding arm64_struct_ns_common_def by (simp add: layout_simps align_up_def bit_place_def pad_end_def del: One_nat_def cong: layout_congs)

lemma layout_arm64_struct_mnt_namespace [layout_simps]: "layout arm64_struct_mnt_namespace = (136, 8)"
  unfolding arm64_struct_mnt_namespace_def by (simp add: layout_simps align_up_def bit_place_def pad_end_def del: One_nat_def cong: layout_congs)

lemma layout_arm64_struct_rlimit [layout_simps]: "layout arm64_struct_rlimit = (16, 8)"
  unfolding arm64_struct_rlimit_def by (simp add: layout_simps align_up_def bit_place_def pad_end_def del: One_nat_def cong: layout_congs)

lemma layout_arm64_struct_linux_binprm [layout_simps]: "layout arm64_struct_linux_binprm = (416, 8)"
  unfolding arm64_struct_linux_binprm_def by (simp add: layout_simps align_up_def bit_place_def pad_end_def del: One_nat_def cong: layout_congs)

lemma layout_arm64_fmode_t [layout_simps]: "layout arm64_fmode_t = (4, 4)"
  unfolding arm64_fmode_t_def by (simp add: layout_simps align_up_def bit_place_def pad_end_def del: One_nat_def cong: layout_congs)

lemma layout_arm64_struct_path [layout_simps]: "layout arm64_struct_path = (16, 8)"
  unfolding arm64_struct_path_def by (simp add: layout_simps align_up_def bit_place_def pad_end_def del: One_nat_def cong: layout_congs)

lemma layout_arm64_errseq_t [layout_simps]: "layout arm64_errseq_t = (4, 4)"
  unfolding arm64_errseq_t_def by (simp add: layout_simps align_up_def bit_place_def pad_end_def del: One_nat_def cong: layout_congs)

lemma layout_arm64_struct_file_ra_state [layout_simps]: "layout arm64_struct_file_ra_state = (32, 8)"
  unfolding arm64_struct_file_ra_state_def by (simp add: layout_simps align_up_def bit_place_def pad_end_def del: One_nat_def cong: layout_congs)

lemma layout_arm64_freeptr_t [layout_simps]: "layout arm64_freeptr_t = (8, 8)"
  unfolding arm64_freeptr_t_def by (simp add: layout_simps align_up_def bit_place_def pad_end_def del: One_nat_def cong: layout_congs)

lemma layout_arm64_struct_file [layout_simps]: "layout arm64_struct_file = (184, 8)"
  unfolding arm64_struct_file_def by (simp add: layout_simps align_up_def bit_place_def pad_end_def del: One_nat_def cong: layout_congs)

lemma layout_arm64_struct_vfsmount [layout_simps]: "layout arm64_struct_vfsmount = (32, 8)"
  unfolding arm64_struct_vfsmount_def by (simp add: layout_simps align_up_def bit_place_def pad_end_def del: One_nat_def cong: layout_congs)

lemma layout_arm64_struct_mount [layout_simps]: "layout arm64_struct_mount = (336, 8)"
  unfolding arm64_struct_mount_def by (simp add: layout_simps align_up_def bit_place_def pad_end_def del: One_nat_def cong: layout_congs)

lemma layout_arm64_struct_hlist_bl_node [layout_simps]: "layout arm64_struct_hlist_bl_node = (16, 8)"
  unfolding arm64_struct_hlist_bl_node_def by (simp add: layout_simps align_up_def bit_place_def pad_end_def del: One_nat_def cong: layout_congs)

lemma layout_arm64_struct_qstr [layout_simps]: "layout arm64_struct_qstr = (16, 8)"
  unfolding arm64_struct_qstr_def by (simp add: layout_simps align_up_def bit_place_def pad_end_def del: One_nat_def cong: layout_congs)

lemma layout_arm64_struct_lockref [layout_simps]: "layout arm64_struct_lockref = (8, 8)"
  unfolding arm64_struct_lockref_def by (simp add: layout_simps align_up_def bit_place_def pad_end_def del: One_nat_def cong: layout_congs)

lemma layout_arm64_struct_dentry [layout_simps]: "layout arm64_struct_dentry = (192, 8)"
  unfolding arm64_struct_dentry_def by (simp add: layout_simps align_up_def bit_place_def pad_end_def del: One_nat_def cong: layout_congs)

lemma layout_arm64_struct_fs_struct [layout_simps]: "layout arm64_struct_fs_struct = (56, 8)"
  unfolding arm64_struct_fs_struct_def by (simp add: layout_simps align_up_def bit_place_def pad_end_def del: One_nat_def cong: layout_congs)

lemma layout_arm64_struct_bpf_raw_tracepoint_args [layout_simps]: "layout arm64_struct_bpf_raw_tracepoint_args = (0, 8)"
  unfolding arm64_struct_bpf_raw_tracepoint_args_def by (simp add: layout_simps align_up_def bit_place_def pad_end_def del: One_nat_def cong: layout_congs)

lemma layout_arm64_struct_trace_entry [layout_simps]: "layout arm64_struct_trace_entry = (8, 4)"
  unfolding arm64_struct_trace_entry_def by (simp add: layout_simps align_up_def bit_place_def pad_end_def del: One_nat_def cong: layout_congs)

lemma layout_arm64_struct_trace_event_raw_bpf_trace_printk [layout_simps]: "layout arm64_struct_trace_event_raw_bpf_trace_printk = (12, 4)"
  unfolding arm64_struct_trace_event_raw_bpf_trace_printk_def by (simp add: layout_simps align_up_def bit_place_def pad_end_def del: One_nat_def cong: layout_congs)

section \<open>Well-formedness\<close>

lemma wf_arm64_uapi_u64 [wf_ctype_simps]: "wf_ctype arm64_uapi_u64"
  unfolding arm64_uapi_u64_def by (simp add: wf_ctype_simps layout_simps cong: layout_congs)

lemma wf_arm64_u64 [wf_ctype_simps]: "wf_ctype arm64_u64"
  unfolding arm64_u64_def by (simp add: wf_ctype_simps layout_simps cong: layout_congs)

lemma wf_arm64_uapi_u32 [wf_ctype_simps]: "wf_ctype arm64_uapi_u32"
  unfolding arm64_uapi_u32_def by (simp add: wf_ctype_simps layout_simps cong: layout_congs)

lemma wf_arm64_u32 [wf_ctype_simps]: "wf_ctype arm64_u32"
  unfolding arm64_u32_def by (simp add: wf_ctype_simps layout_simps cong: layout_congs)

lemma wf_arm64_struct_thread_info [wf_ctype_simps]: "wf_ctype arm64_struct_thread_info"
  unfolding arm64_struct_thread_info_def by (simp add: wf_ctype_simps layout_simps cong: layout_congs)

lemma wf_arm64_atomic_t [wf_ctype_simps]: "wf_ctype arm64_atomic_t"
  unfolding arm64_atomic_t_def by (simp add: wf_ctype_simps layout_simps cong: layout_congs)

lemma wf_arm64_struct_refcount_struct [wf_ctype_simps]: "wf_ctype arm64_struct_refcount_struct"
  unfolding arm64_struct_refcount_struct_def by (simp add: wf_ctype_simps layout_simps cong: layout_congs)

lemma wf_arm64_refcount_t [wf_ctype_simps]: "wf_ctype arm64_refcount_t"
  unfolding arm64_refcount_t_def by (simp add: wf_ctype_simps layout_simps cong: layout_congs)

lemma wf_arm64_struct_llist_node [wf_ctype_simps]: "wf_ctype arm64_struct_llist_node"
  unfolding arm64_struct_llist_node_def by (simp add: wf_ctype_simps layout_simps cong: layout_congs)

lemma wf_arm64_uapi_u16 [wf_ctype_simps]: "wf_ctype arm64_uapi_u16"
  unfolding arm64_uapi_u16_def by (simp add: wf_ctype_simps layout_simps cong: layout_congs)

lemma wf_arm64_u16 [wf_ctype_simps]: "wf_ctype arm64_u16"
  unfolding arm64_u16_def by (simp add: wf_ctype_simps layout_simps cong: layout_congs)

lemma wf_arm64_struct_u__call_single_node [wf_ctype_simps]: "wf_ctype arm64_struct_u__call_single_node"
  unfolding arm64_struct_u__call_single_node_def by (simp add: wf_ctype_simps layout_simps cong: layout_congs)

lemma wf_arm64_struct_load_weight [wf_ctype_simps]: "wf_ctype arm64_struct_load_weight"
  unfolding arm64_struct_load_weight_def by (simp add: wf_ctype_simps layout_simps cong: layout_congs)

lemma wf_arm64_struct_rb_node [wf_ctype_simps]: "wf_ctype arm64_struct_rb_node"
  unfolding arm64_struct_rb_node_def by (simp add: wf_ctype_simps layout_simps cong: layout_congs)

lemma wf_arm64_struct_list_head [wf_ctype_simps]: "wf_ctype arm64_struct_list_head"
  unfolding arm64_struct_list_head_def by (simp add: wf_ctype_simps layout_simps cong: layout_congs)

lemma wf_arm64_uapi_s64 [wf_ctype_simps]: "wf_ctype arm64_uapi_s64"
  unfolding arm64_uapi_s64_def by (simp add: wf_ctype_simps layout_simps cong: layout_congs)

lemma wf_arm64_s64 [wf_ctype_simps]: "wf_ctype arm64_s64"
  unfolding arm64_s64_def by (simp add: wf_ctype_simps layout_simps cong: layout_congs)

lemma wf_arm64_struct_sched_avg [wf_ctype_simps]: "wf_ctype arm64_struct_sched_avg"
  unfolding arm64_struct_sched_avg_def by (simp add: wf_ctype_simps layout_simps cong: layout_congs)

lemma wf_arm64_struct_sched_entity [wf_ctype_simps]: "wf_ctype arm64_struct_sched_entity"
  unfolding arm64_struct_sched_entity_def by (simp add: wf_ctype_simps layout_simps cong: layout_congs)

lemma wf_arm64_struct_sched_rt_entity [wf_ctype_simps]: "wf_ctype arm64_struct_sched_rt_entity"
  unfolding arm64_struct_sched_rt_entity_def by (simp add: wf_ctype_simps layout_simps cong: layout_congs)

lemma wf_arm64_ktime_t [wf_ctype_simps]: "wf_ctype arm64_ktime_t"
  unfolding arm64_ktime_t_def by (simp add: wf_ctype_simps layout_simps cong: layout_congs)

lemma wf_arm64_struct_timerqueue_node [wf_ctype_simps]: "wf_ctype arm64_struct_timerqueue_node"
  unfolding arm64_struct_timerqueue_node_def by (simp add: wf_ctype_simps layout_simps cong: layout_congs)

lemma wf_arm64_uapi_u8 [wf_ctype_simps]: "wf_ctype arm64_uapi_u8"
  unfolding arm64_uapi_u8_def by (simp add: wf_ctype_simps layout_simps cong: layout_congs)

lemma wf_arm64_u8 [wf_ctype_simps]: "wf_ctype arm64_u8"
  unfolding arm64_u8_def by (simp add: wf_ctype_simps layout_simps cong: layout_congs)

lemma wf_arm64_struct_hrtimer [wf_ctype_simps]: "wf_ctype arm64_struct_hrtimer"
  unfolding arm64_struct_hrtimer_def by (simp add: wf_ctype_simps layout_simps cong: layout_congs)

lemma wf_arm64_dl_server_has_tasks_f [wf_ctype_simps]: "wf_ctype arm64_dl_server_has_tasks_f"
  unfolding arm64_dl_server_has_tasks_f_def by (simp add: wf_ctype_simps layout_simps cong: layout_congs)

lemma wf_arm64_dl_server_pick_f [wf_ctype_simps]: "wf_ctype arm64_dl_server_pick_f"
  unfolding arm64_dl_server_pick_f_def by (simp add: wf_ctype_simps layout_simps cong: layout_congs)

lemma wf_arm64_struct_sched_dl_entity [wf_ctype_simps]: "wf_ctype arm64_struct_sched_dl_entity"
  unfolding arm64_struct_sched_dl_entity_def by (simp add: wf_ctype_simps layout_simps cong: layout_congs)

lemma wf_arm64_struct_scx_dsq_list_node [wf_ctype_simps]: "wf_ctype arm64_struct_scx_dsq_list_node"
  unfolding arm64_struct_scx_dsq_list_node_def by (simp add: wf_ctype_simps layout_simps cong: layout_congs)

lemma wf_arm64_uapi_s32 [wf_ctype_simps]: "wf_ctype arm64_uapi_s32"
  unfolding arm64_uapi_s32_def by (simp add: wf_ctype_simps layout_simps cong: layout_congs)

lemma wf_arm64_s32 [wf_ctype_simps]: "wf_ctype arm64_s32"
  unfolding arm64_s32_def by (simp add: wf_ctype_simps layout_simps cong: layout_congs)

lemma wf_arm64_atomic64_t [wf_ctype_simps]: "wf_ctype arm64_atomic64_t"
  unfolding arm64_atomic64_t_def by (simp add: wf_ctype_simps layout_simps cong: layout_congs)

lemma wf_arm64_atomic_long_t [wf_ctype_simps]: "wf_ctype arm64_atomic_long_t"
  unfolding arm64_atomic_long_t_def by (simp add: wf_ctype_simps layout_simps cong: layout_congs)

lemma wf_arm64_struct_sched_ext_entity [wf_ctype_simps]: "wf_ctype arm64_struct_sched_ext_entity"
  unfolding arm64_struct_sched_ext_entity_def by (simp add: wf_ctype_simps layout_simps cong: layout_congs)

lemma wf_arm64_struct_uclamp_se [wf_ctype_simps]: "wf_ctype arm64_struct_uclamp_se"
  unfolding arm64_struct_uclamp_se_def by (simp add: wf_ctype_simps layout_simps cong: layout_congs)

lemma wf_arm64_struct_sched_statistics [wf_ctype_simps]: "wf_ctype arm64_struct_sched_statistics"
  unfolding arm64_struct_sched_statistics_def by (simp add: wf_ctype_simps layout_simps cong: layout_congs)

lemma wf_arm64_struct_hlist_head [wf_ctype_simps]: "wf_ctype arm64_struct_hlist_head"
  unfolding arm64_struct_hlist_head_def by (simp add: wf_ctype_simps layout_simps cong: layout_congs)

lemma wf_arm64_struct_cpumask [wf_ctype_simps]: "wf_ctype arm64_struct_cpumask"
  unfolding arm64_struct_cpumask_def by (simp add: wf_ctype_simps layout_simps cong: layout_congs)

lemma wf_arm64_cpumask_t [wf_ctype_simps]: "wf_ctype arm64_cpumask_t"
  unfolding arm64_cpumask_t_def by (simp add: wf_ctype_simps layout_simps cong: layout_congs)

lemma wf_arm64_union_rcu_special [wf_ctype_simps]: "wf_ctype arm64_union_rcu_special"
  unfolding arm64_union_rcu_special_def by (simp add: wf_ctype_simps layout_simps cong: layout_congs)

lemma wf_arm64_struct_sched_info [wf_ctype_simps]: "wf_ctype arm64_struct_sched_info"
  unfolding arm64_struct_sched_info_def by (simp add: wf_ctype_simps layout_simps cong: layout_congs)

lemma wf_arm64_struct_plist_node [wf_ctype_simps]: "wf_ctype arm64_struct_plist_node"
  unfolding arm64_struct_plist_node_def by (simp add: wf_ctype_simps layout_simps cong: layout_congs)

lemma wf_arm64_uapi_kernel_clockid_t [wf_ctype_simps]: "wf_ctype arm64_uapi_kernel_clockid_t"
  unfolding arm64_uapi_kernel_clockid_t_def by (simp add: wf_ctype_simps layout_simps cong: layout_congs)

lemma wf_arm64_clockid_t [wf_ctype_simps]: "wf_ctype arm64_clockid_t"
  unfolding arm64_clockid_t_def by (simp add: wf_ctype_simps layout_simps cong: layout_congs)

lemma wf_arm64_enum_timespec_type [wf_ctype_simps]: "wf_ctype arm64_enum_timespec_type"
  unfolding arm64_enum_timespec_type_def by (simp add: wf_ctype_simps layout_simps cong: layout_congs)

lemma wf_arm64_struct_restart_block [wf_ctype_simps]: "wf_ctype arm64_struct_restart_block"
  unfolding arm64_struct_restart_block_def by (simp add: wf_ctype_simps layout_simps cong: layout_congs)

lemma wf_arm64_uapi_kernel_pid_t [wf_ctype_simps]: "wf_ctype arm64_uapi_kernel_pid_t"
  unfolding arm64_uapi_kernel_pid_t_def by (simp add: wf_ctype_simps layout_simps cong: layout_congs)

lemma wf_arm64_pid_t [wf_ctype_simps]: "wf_ctype arm64_pid_t"
  unfolding arm64_pid_t_def by (simp add: wf_ctype_simps layout_simps cong: layout_congs)

lemma wf_arm64_struct_hlist_node [wf_ctype_simps]: "wf_ctype arm64_struct_hlist_node"
  unfolding arm64_struct_hlist_node_def by (simp add: wf_ctype_simps layout_simps cong: layout_congs)

lemma wf_arm64_struct_qspinlock [wf_ctype_simps]: "wf_ctype arm64_struct_qspinlock"
  unfolding arm64_struct_qspinlock_def by (simp add: wf_ctype_simps layout_simps cong: layout_congs)

lemma wf_arm64_arch_spinlock_t [wf_ctype_simps]: "wf_ctype arm64_arch_spinlock_t"
  unfolding arm64_arch_spinlock_t_def by (simp add: wf_ctype_simps layout_simps cong: layout_congs)

lemma wf_arm64_struct_raw_spinlock [wf_ctype_simps]: "wf_ctype arm64_struct_raw_spinlock"
  unfolding arm64_struct_raw_spinlock_def by (simp add: wf_ctype_simps layout_simps cong: layout_congs)

lemma wf_arm64_raw_spinlock_t [wf_ctype_simps]: "wf_ctype arm64_raw_spinlock_t"
  unfolding arm64_raw_spinlock_t_def by (simp add: wf_ctype_simps layout_simps cong: layout_congs)

lemma wf_arm64_struct_prev_cputime [wf_ctype_simps]: "wf_ctype arm64_struct_prev_cputime"
  unfolding arm64_struct_prev_cputime_def by (simp add: wf_ctype_simps layout_simps cong: layout_congs)

lemma wf_arm64_struct_seqcount [wf_ctype_simps]: "wf_ctype arm64_struct_seqcount"
  unfolding arm64_struct_seqcount_def by (simp add: wf_ctype_simps layout_simps cong: layout_congs)

lemma wf_arm64_seqcount_t [wf_ctype_simps]: "wf_ctype arm64_seqcount_t"
  unfolding arm64_seqcount_t_def by (simp add: wf_ctype_simps layout_simps cong: layout_congs)

lemma wf_arm64_enum_vtime_state [wf_ctype_simps]: "wf_ctype arm64_enum_vtime_state"
  unfolding arm64_enum_vtime_state_def by (simp add: wf_ctype_simps layout_simps cong: layout_congs)

lemma wf_arm64_struct_vtime [wf_ctype_simps]: "wf_ctype arm64_struct_vtime"
  unfolding arm64_struct_vtime_def by (simp add: wf_ctype_simps layout_simps cong: layout_congs)

lemma wf_arm64_struct_rb_root [wf_ctype_simps]: "wf_ctype arm64_struct_rb_root"
  unfolding arm64_struct_rb_root_def by (simp add: wf_ctype_simps layout_simps cong: layout_congs)

lemma wf_arm64_struct_rb_root_cached [wf_ctype_simps]: "wf_ctype arm64_struct_rb_root_cached"
  unfolding arm64_struct_rb_root_cached_def by (simp add: wf_ctype_simps layout_simps cong: layout_congs)

lemma wf_arm64_struct_timerqueue_head [wf_ctype_simps]: "wf_ctype arm64_struct_timerqueue_head"
  unfolding arm64_struct_timerqueue_head_def by (simp add: wf_ctype_simps layout_simps cong: layout_congs)

lemma wf_arm64_struct_posix_cputimer_base [wf_ctype_simps]: "wf_ctype arm64_struct_posix_cputimer_base"
  unfolding arm64_struct_posix_cputimer_base_def by (simp add: wf_ctype_simps layout_simps cong: layout_congs)

lemma wf_arm64_struct_posix_cputimers [wf_ctype_simps]: "wf_ctype arm64_struct_posix_cputimers"
  unfolding arm64_struct_posix_cputimers_def by (simp add: wf_ctype_simps layout_simps cong: layout_congs)

lemma wf_arm64_struct_callback_head [wf_ctype_simps]: "wf_ctype arm64_struct_callback_head"
  unfolding arm64_struct_callback_head_def by (simp add: wf_ctype_simps layout_simps cong: layout_congs)

lemma wf_arm64_struct_optimistic_spin_queue [wf_ctype_simps]: "wf_ctype arm64_struct_optimistic_spin_queue"
  unfolding arm64_struct_optimistic_spin_queue_def by (simp add: wf_ctype_simps layout_simps cong: layout_congs)

lemma wf_arm64_struct_mutex [wf_ctype_simps]: "wf_ctype arm64_struct_mutex"
  unfolding arm64_struct_mutex_def by (simp add: wf_ctype_simps layout_simps cong: layout_congs)

lemma wf_arm64_struct_posix_cputimers_work [wf_ctype_simps]: "wf_ctype arm64_struct_posix_cputimers_work"
  unfolding arm64_struct_posix_cputimers_work_def by (simp add: wf_ctype_simps layout_simps cong: layout_congs)

lemma wf_arm64_struct_sysv_sem [wf_ctype_simps]: "wf_ctype arm64_struct_sysv_sem"
  unfolding arm64_struct_sysv_sem_def by (simp add: wf_ctype_simps layout_simps cong: layout_congs)

lemma wf_arm64_struct_sysv_shm [wf_ctype_simps]: "wf_ctype arm64_struct_sysv_shm"
  unfolding arm64_struct_sysv_shm_def by (simp add: wf_ctype_simps layout_simps cong: layout_congs)

lemma wf_arm64_sigset_t [wf_ctype_simps]: "wf_ctype arm64_sigset_t"
  unfolding arm64_sigset_t_def by (simp add: wf_ctype_simps layout_simps cong: layout_congs)

lemma wf_arm64_struct_sigpending [wf_ctype_simps]: "wf_ctype arm64_struct_sigpending"
  unfolding arm64_struct_sigpending_def by (simp add: wf_ctype_simps layout_simps cong: layout_congs)

lemma wf_arm64_uapi_kernel_ulong_t [wf_ctype_simps]: "wf_ctype arm64_uapi_kernel_ulong_t"
  unfolding arm64_uapi_kernel_ulong_t_def by (simp add: wf_ctype_simps layout_simps cong: layout_congs)

lemma wf_arm64_uapi_kernel_size_t [wf_ctype_simps]: "wf_ctype arm64_uapi_kernel_size_t"
  unfolding arm64_uapi_kernel_size_t_def by (simp add: wf_ctype_simps layout_simps cong: layout_congs)

lemma wf_arm64_size_t [wf_ctype_simps]: "wf_ctype arm64_size_t"
  unfolding arm64_size_t_def by (simp add: wf_ctype_simps layout_simps cong: layout_congs)

lemma wf_arm64_uapi_kernel_uid32_t [wf_ctype_simps]: "wf_ctype arm64_uapi_kernel_uid32_t"
  unfolding arm64_uapi_kernel_uid32_t_def by (simp add: wf_ctype_simps layout_simps cong: layout_congs)

lemma wf_arm64_uid_t [wf_ctype_simps]: "wf_ctype arm64_uid_t"
  unfolding arm64_uid_t_def by (simp add: wf_ctype_simps layout_simps cong: layout_congs)

lemma wf_arm64_kuid_t [wf_ctype_simps]: "wf_ctype arm64_kuid_t"
  unfolding arm64_kuid_t_def by (simp add: wf_ctype_simps layout_simps cong: layout_congs)

lemma wf_arm64_struct_seccomp [wf_ctype_simps]: "wf_ctype arm64_struct_seccomp"
  unfolding arm64_struct_seccomp_def by (simp add: wf_ctype_simps layout_simps cong: layout_congs)

lemma wf_arm64_struct_syscall_user_dispatch [wf_ctype_simps]: "wf_ctype arm64_struct_syscall_user_dispatch"
  unfolding arm64_struct_syscall_user_dispatch_def by (simp add: wf_ctype_simps layout_simps cong: layout_congs)

lemma wf_arm64_struct_spinlock [wf_ctype_simps]: "wf_ctype arm64_struct_spinlock"
  unfolding arm64_struct_spinlock_def by (simp add: wf_ctype_simps layout_simps cong: layout_congs)

lemma wf_arm64_spinlock_t [wf_ctype_simps]: "wf_ctype arm64_spinlock_t"
  unfolding arm64_spinlock_t_def by (simp add: wf_ctype_simps layout_simps cong: layout_congs)

lemma wf_arm64_struct_wake_q_node [wf_ctype_simps]: "wf_ctype arm64_struct_wake_q_node"
  unfolding arm64_struct_wake_q_node_def by (simp add: wf_ctype_simps layout_simps cong: layout_congs)

lemma wf_arm64_struct_task_io_accounting [wf_ctype_simps]: "wf_ctype arm64_struct_task_io_accounting"
  unfolding arm64_struct_task_io_accounting_def by (simp add: wf_ctype_simps layout_simps cong: layout_congs)

lemma wf_arm64_nodemask_t [wf_ctype_simps]: "wf_ctype arm64_nodemask_t"
  unfolding arm64_nodemask_t_def by (simp add: wf_ctype_simps layout_simps cong: layout_congs)

lemma wf_arm64_struct_seqcount_spinlock [wf_ctype_simps]: "wf_ctype arm64_struct_seqcount_spinlock"
  unfolding arm64_struct_seqcount_spinlock_def by (simp add: wf_ctype_simps layout_simps cong: layout_congs)

lemma wf_arm64_seqcount_spinlock_t [wf_ctype_simps]: "wf_ctype arm64_seqcount_spinlock_t"
  unfolding arm64_seqcount_spinlock_t_def by (simp add: wf_ctype_simps layout_simps cong: layout_congs)

lemma wf_arm64_struct_arch_tlbflush_unmap_batch [wf_ctype_simps]: "wf_ctype arm64_struct_arch_tlbflush_unmap_batch"
  unfolding arm64_struct_arch_tlbflush_unmap_batch_def by (simp add: wf_ctype_simps layout_simps cong: layout_congs)

lemma wf_arm64_struct_tlbflush_unmap_batch [wf_ctype_simps]: "wf_ctype arm64_struct_tlbflush_unmap_batch"
  unfolding arm64_struct_tlbflush_unmap_batch_def by (simp add: wf_ctype_simps layout_simps cong: layout_congs)

lemma wf_arm64_struct_page_frag [wf_ctype_simps]: "wf_ctype arm64_struct_page_frag"
  unfolding arm64_struct_page_frag_def by (simp add: wf_ctype_simps layout_simps cong: layout_congs)

lemma wf_arm64_struct_latency_record [wf_ctype_simps]: "wf_ctype arm64_struct_latency_record"
  unfolding arm64_struct_latency_record_def by (simp add: wf_ctype_simps layout_simps cong: layout_congs)

lemma wf_arm64_struct_kmap_ctrl [wf_ctype_simps]: "wf_ctype arm64_struct_kmap_ctrl"
  unfolding arm64_struct_kmap_ctrl_def by (simp add: wf_ctype_simps layout_simps cong: layout_congs)

lemma wf_arm64_struct_timer_list [wf_ctype_simps]: "wf_ctype arm64_struct_timer_list"
  unfolding arm64_struct_timer_list_def by (simp add: wf_ctype_simps layout_simps cong: layout_congs)

lemma wf_arm64_struct_llist_head [wf_ctype_simps]: "wf_ctype arm64_struct_llist_head"
  unfolding arm64_struct_llist_head_def by (simp add: wf_ctype_simps layout_simps cong: layout_congs)

lemma wf_arm64_struct_da_monitor [wf_ctype_simps]: "wf_ctype arm64_struct_da_monitor"
  unfolding arm64_struct_da_monitor_def by (simp add: wf_ctype_simps layout_simps cong: layout_congs)

lemma wf_arm64_union_rv_task_monitor [wf_ctype_simps]: "wf_ctype arm64_union_rv_task_monitor"
  unfolding arm64_union_rv_task_monitor_def by (simp add: wf_ctype_simps layout_simps cong: layout_congs)

lemma wf_arm64_struct_cpu_context [wf_ctype_simps]: "wf_ctype arm64_struct_cpu_context"
  unfolding arm64_struct_cpu_context_def by (simp add: wf_ctype_simps layout_simps cong: layout_congs)

lemma wf_arm64_struct_user_fpsimd_state [wf_ctype_simps]: "wf_ctype arm64_struct_user_fpsimd_state"
  unfolding arm64_struct_user_fpsimd_state_def by (simp add: wf_ctype_simps layout_simps cong: layout_congs)

lemma wf_arm64_enum_fp_type [wf_ctype_simps]: "wf_ctype arm64_enum_fp_type"
  unfolding arm64_enum_fp_type_def by (simp add: wf_ctype_simps layout_simps cong: layout_congs)

lemma wf_arm64_struct_debug_info [wf_ctype_simps]: "wf_ctype arm64_struct_debug_info"
  unfolding arm64_struct_debug_info_def by (simp add: wf_ctype_simps layout_simps cong: layout_congs)

lemma wf_arm64_struct_ptrauth_key [wf_ctype_simps]: "wf_ctype arm64_struct_ptrauth_key"
  unfolding arm64_struct_ptrauth_key_def by (simp add: wf_ctype_simps layout_simps cong: layout_congs)

lemma wf_arm64_struct_ptrauth_keys_user [wf_ctype_simps]: "wf_ctype arm64_struct_ptrauth_keys_user"
  unfolding arm64_struct_ptrauth_keys_user_def by (simp add: wf_ctype_simps layout_simps cong: layout_congs)

lemma wf_arm64_struct_ptrauth_keys_kernel [wf_ctype_simps]: "wf_ctype arm64_struct_ptrauth_keys_kernel"
  unfolding arm64_struct_ptrauth_keys_kernel_def by (simp add: wf_ctype_simps layout_simps cong: layout_congs)

lemma wf_arm64_struct_thread_struct [wf_ctype_simps]: "wf_ctype arm64_struct_thread_struct"
  unfolding arm64_struct_thread_struct_def by (simp add: wf_ctype_simps layout_simps cong: layout_congs)

lemma wf_arm64_struct_task_struct [wf_ctype_simps]: "wf_ctype arm64_struct_task_struct"
  unfolding arm64_struct_task_struct_def by (simp add: wf_ctype_simps layout_simps cong: layout_congs)

lemma wf_arm64_struct_css_set [wf_ctype_simps]: "wf_ctype arm64_struct_css_set"
  unfolding arm64_struct_css_set_def by (simp add: wf_ctype_simps layout_simps cong: layout_congs)

lemma wf_arm64_struct_percpu_ref [wf_ctype_simps]: "wf_ctype arm64_struct_percpu_ref"
  unfolding arm64_struct_percpu_ref_def by (simp add: wf_ctype_simps layout_simps cong: layout_congs)

lemma wf_arm64_work_func_t [wf_ctype_simps]: "wf_ctype arm64_work_func_t"
  unfolding arm64_work_func_t_def by (simp add: wf_ctype_simps layout_simps cong: layout_congs)

lemma wf_arm64_struct_work_struct [wf_ctype_simps]: "wf_ctype arm64_struct_work_struct"
  unfolding arm64_struct_work_struct_def by (simp add: wf_ctype_simps layout_simps cong: layout_congs)

lemma wf_arm64_struct_rcu_work [wf_ctype_simps]: "wf_ctype arm64_struct_rcu_work"
  unfolding arm64_struct_rcu_work_def by (simp add: wf_ctype_simps layout_simps cong: layout_congs)

lemma wf_arm64_struct_cgroup_subsys_state [wf_ctype_simps]: "wf_ctype arm64_struct_cgroup_subsys_state"
  unfolding arm64_struct_cgroup_subsys_state_def by (simp add: wf_ctype_simps layout_simps cong: layout_congs)

lemma wf_arm64_struct_cgroup_file [wf_ctype_simps]: "wf_ctype arm64_struct_cgroup_file"
  unfolding arm64_struct_cgroup_file_def by (simp add: wf_ctype_simps layout_simps cong: layout_congs)

lemma wf_arm64_struct_cacheline_padding [wf_ctype_simps]: "wf_ctype arm64_struct_cacheline_padding"
  unfolding arm64_struct_cacheline_padding_def by (simp add: wf_ctype_simps layout_simps cong: layout_congs)

lemma wf_arm64_struct_task_cputime [wf_ctype_simps]: "wf_ctype arm64_struct_task_cputime"
  unfolding arm64_struct_task_cputime_def by (simp add: wf_ctype_simps layout_simps cong: layout_congs)

lemma wf_arm64_struct_cgroup_base_stat [wf_ctype_simps]: "wf_ctype arm64_struct_cgroup_base_stat"
  unfolding arm64_struct_cgroup_base_stat_def by (simp add: wf_ctype_simps layout_simps cong: layout_congs)

lemma wf_arm64_struct_wait_queue_head [wf_ctype_simps]: "wf_ctype arm64_struct_wait_queue_head"
  unfolding arm64_struct_wait_queue_head_def by (simp add: wf_ctype_simps layout_simps cong: layout_congs)

lemma wf_arm64_wait_queue_head_t [wf_ctype_simps]: "wf_ctype arm64_wait_queue_head_t"
  unfolding arm64_wait_queue_head_t_def by (simp add: wf_ctype_simps layout_simps cong: layout_congs)

lemma wf_arm64_struct_cgroup_bpf [wf_ctype_simps]: "wf_ctype arm64_struct_cgroup_bpf"
  unfolding arm64_struct_cgroup_bpf_def by (simp add: wf_ctype_simps layout_simps cong: layout_congs)

lemma wf_arm64_struct_cgroup_freezer_state [wf_ctype_simps]: "wf_ctype arm64_struct_cgroup_freezer_state"
  unfolding arm64_struct_cgroup_freezer_state_def by (simp add: wf_ctype_simps layout_simps cong: layout_congs)

lemma wf_arm64_struct_cgroup [wf_ctype_simps]: "wf_ctype arm64_struct_cgroup"
  unfolding arm64_struct_cgroup_def by (simp add: wf_ctype_simps layout_simps cong: layout_congs)

lemma wf_arm64_umode_t [wf_ctype_simps]: "wf_ctype arm64_umode_t"
  unfolding arm64_umode_t_def by (simp add: wf_ctype_simps layout_simps cong: layout_congs)

lemma wf_arm64_struct_kernfs_elem_dir [wf_ctype_simps]: "wf_ctype arm64_struct_kernfs_elem_dir"
  unfolding arm64_struct_kernfs_elem_dir_def by (simp add: wf_ctype_simps layout_simps cong: layout_congs)

lemma wf_arm64_struct_kernfs_elem_symlink [wf_ctype_simps]: "wf_ctype arm64_struct_kernfs_elem_symlink"
  unfolding arm64_struct_kernfs_elem_symlink_def by (simp add: wf_ctype_simps layout_simps cong: layout_congs)

lemma wf_arm64_uapi_kernel_loff_t [wf_ctype_simps]: "wf_ctype arm64_uapi_kernel_loff_t"
  unfolding arm64_uapi_kernel_loff_t_def by (simp add: wf_ctype_simps layout_simps cong: layout_congs)

lemma wf_arm64_loff_t [wf_ctype_simps]: "wf_ctype arm64_loff_t"
  unfolding arm64_loff_t_def by (simp add: wf_ctype_simps layout_simps cong: layout_congs)

lemma wf_arm64_struct_kernfs_elem_attr [wf_ctype_simps]: "wf_ctype arm64_struct_kernfs_elem_attr"
  unfolding arm64_struct_kernfs_elem_attr_def by (simp add: wf_ctype_simps layout_simps cong: layout_congs)

lemma wf_arm64_struct_kernfs_node [wf_ctype_simps]: "wf_ctype arm64_struct_kernfs_node"
  unfolding arm64_struct_kernfs_node_def by (simp add: wf_ctype_simps layout_simps cong: layout_congs)

lemma wf_arm64_struct_nsproxy [wf_ctype_simps]: "wf_ctype arm64_struct_nsproxy"
  unfolding arm64_struct_nsproxy_def by (simp add: wf_ctype_simps layout_simps cong: layout_congs)

lemma wf_arm64_struct_ns_common [wf_ctype_simps]: "wf_ctype arm64_struct_ns_common"
  unfolding arm64_struct_ns_common_def by (simp add: wf_ctype_simps layout_simps cong: layout_congs)

lemma wf_arm64_struct_mnt_namespace [wf_ctype_simps]: "wf_ctype arm64_struct_mnt_namespace"
  unfolding arm64_struct_mnt_namespace_def by (simp add: wf_ctype_simps layout_simps cong: layout_congs)

lemma wf_arm64_struct_rlimit [wf_ctype_simps]: "wf_ctype arm64_struct_rlimit"
  unfolding arm64_struct_rlimit_def by (simp add: wf_ctype_simps layout_simps cong: layout_congs)

lemma wf_arm64_struct_linux_binprm [wf_ctype_simps]: "wf_ctype arm64_struct_linux_binprm"
  unfolding arm64_struct_linux_binprm_def by (simp add: wf_ctype_simps layout_simps cong: layout_congs)

lemma wf_arm64_fmode_t [wf_ctype_simps]: "wf_ctype arm64_fmode_t"
  unfolding arm64_fmode_t_def by (simp add: wf_ctype_simps layout_simps cong: layout_congs)

lemma wf_arm64_struct_path [wf_ctype_simps]: "wf_ctype arm64_struct_path"
  unfolding arm64_struct_path_def by (simp add: wf_ctype_simps layout_simps cong: layout_congs)

lemma wf_arm64_errseq_t [wf_ctype_simps]: "wf_ctype arm64_errseq_t"
  unfolding arm64_errseq_t_def by (simp add: wf_ctype_simps layout_simps cong: layout_congs)

lemma wf_arm64_struct_file_ra_state [wf_ctype_simps]: "wf_ctype arm64_struct_file_ra_state"
  unfolding arm64_struct_file_ra_state_def by (simp add: wf_ctype_simps layout_simps cong: layout_congs)

lemma wf_arm64_freeptr_t [wf_ctype_simps]: "wf_ctype arm64_freeptr_t"
  unfolding arm64_freeptr_t_def by (simp add: wf_ctype_simps layout_simps cong: layout_congs)

lemma wf_arm64_struct_file [wf_ctype_simps]: "wf_ctype arm64_struct_file"
  unfolding arm64_struct_file_def by (simp add: wf_ctype_simps layout_simps cong: layout_congs)

lemma wf_arm64_struct_vfsmount [wf_ctype_simps]: "wf_ctype arm64_struct_vfsmount"
  unfolding arm64_struct_vfsmount_def by (simp add: wf_ctype_simps layout_simps cong: layout_congs)

lemma wf_arm64_struct_mount [wf_ctype_simps]: "wf_ctype arm64_struct_mount"
  unfolding arm64_struct_mount_def by (simp add: wf_ctype_simps layout_simps cong: layout_congs)

lemma wf_arm64_struct_hlist_bl_node [wf_ctype_simps]: "wf_ctype arm64_struct_hlist_bl_node"
  unfolding arm64_struct_hlist_bl_node_def by (simp add: wf_ctype_simps layout_simps cong: layout_congs)

lemma wf_arm64_struct_qstr [wf_ctype_simps]: "wf_ctype arm64_struct_qstr"
  unfolding arm64_struct_qstr_def by (simp add: wf_ctype_simps layout_simps cong: layout_congs)

lemma wf_arm64_struct_lockref [wf_ctype_simps]: "wf_ctype arm64_struct_lockref"
  unfolding arm64_struct_lockref_def by (simp add: wf_ctype_simps layout_simps cong: layout_congs)

lemma wf_arm64_struct_dentry [wf_ctype_simps]: "wf_ctype arm64_struct_dentry"
  unfolding arm64_struct_dentry_def by (simp add: wf_ctype_simps layout_simps cong: layout_congs)

lemma wf_arm64_struct_fs_struct [wf_ctype_simps]: "wf_ctype arm64_struct_fs_struct"
  unfolding arm64_struct_fs_struct_def by (simp add: wf_ctype_simps layout_simps cong: layout_congs)

lemma wf_arm64_struct_bpf_raw_tracepoint_args [wf_ctype_simps]: "wf_ctype arm64_struct_bpf_raw_tracepoint_args"
  unfolding arm64_struct_bpf_raw_tracepoint_args_def by (simp add: wf_ctype_simps layout_simps cong: layout_congs)

lemma wf_arm64_struct_trace_entry [wf_ctype_simps]: "wf_ctype arm64_struct_trace_entry"
  unfolding arm64_struct_trace_entry_def by (simp add: wf_ctype_simps layout_simps cong: layout_congs)

lemma wf_arm64_struct_trace_event_raw_bpf_trace_printk [wf_ctype_simps]: "wf_ctype arm64_struct_trace_event_raw_bpf_trace_printk"
  unfolding arm64_struct_trace_event_raw_bpf_trace_printk_def by (simp add: wf_ctype_simps layout_simps cong: layout_congs)

section \<open>Offsets of the members the programs read\<close>

lemma offsetof_arm64_struct_task_struct_cgroups [offset_simps]:
  "offsetof arm64_struct_task_struct ''cgroups'' = Some (3352, CPtr)"
  unfolding arm64_struct_task_struct_def
  by (simp add: layout_simps align_up_def bit_place_def pad_end_def shift_offset_def
      del: One_nat_def cong: layout_congs offset_congs)

lemma offsetof_arm64_struct_task_struct_nsproxy [offset_simps]:
  "offsetof arm64_struct_task_struct ''nsproxy'' = Some (2920, CPtr)"
  unfolding arm64_struct_task_struct_def
  by (simp add: layout_simps align_up_def bit_place_def pad_end_def shift_offset_def
      del: One_nat_def cong: layout_congs offset_congs)

lemma offsetof_arm64_struct_task_struct_real_parent [offset_simps]:
  "offsetof arm64_struct_task_struct ''real_parent'' = Some (2320, CPtr)"
  unfolding arm64_struct_task_struct_def
  by (simp add: layout_simps align_up_def bit_place_def pad_end_def shift_offset_def
      del: One_nat_def cong: layout_congs offset_congs)

lemma offsetof_arm64_struct_task_struct_fs [offset_simps]:
  "offsetof arm64_struct_task_struct ''fs'' = Some (2896, CPtr)"
  unfolding arm64_struct_task_struct_def
  by (simp add: layout_simps align_up_def bit_place_def pad_end_def shift_offset_def
      del: One_nat_def cong: layout_congs offset_congs)

lemma offsetof_arm64_struct_css_set_subsys [offset_simps]:
  "offsetof arm64_struct_css_set ''subsys'' = Some (0, CArray 13 CPtr)"
  unfolding arm64_struct_css_set_def
  by (simp add: layout_simps align_up_def bit_place_def pad_end_def shift_offset_def
      del: One_nat_def cong: layout_congs offset_congs)

lemma offsetof_arm64_struct_css_set_dfl_cgrp [offset_simps]:
  "offsetof arm64_struct_css_set ''dfl_cgrp'' = Some (120, CPtr)"
  unfolding arm64_struct_css_set_def
  by (simp add: layout_simps align_up_def bit_place_def pad_end_def shift_offset_def
      del: One_nat_def cong: layout_congs offset_congs)

lemma offsetof_arm64_struct_cgroup_subsys_state_cgroup [offset_simps]:
  "offsetof arm64_struct_cgroup_subsys_state ''cgroup'' = Some (0, CPtr)"
  unfolding arm64_struct_cgroup_subsys_state_def
  by (simp add: layout_simps align_up_def bit_place_def pad_end_def shift_offset_def
      del: One_nat_def cong: layout_congs offset_congs)

lemma offsetof_arm64_struct_cgroup_self [offset_simps]:
  "offsetof arm64_struct_cgroup ''self'' = Some (0, arm64_struct_cgroup_subsys_state)"
  unfolding arm64_struct_cgroup_def
  by (simp add: layout_simps align_up_def bit_place_def pad_end_def shift_offset_def
      del: One_nat_def cong: layout_congs offset_congs)

lemma offsetof_arm64_struct_cgroup_subsys_state_parent [offset_simps]:
  "offsetof arm64_struct_cgroup_subsys_state ''parent'' = Some (192, CPtr)"
  unfolding arm64_struct_cgroup_subsys_state_def
  by (simp add: layout_simps align_up_def bit_place_def pad_end_def shift_offset_def
      del: One_nat_def cong: layout_congs offset_congs)

lemma offsetof_arm64_struct_cgroup_level [offset_simps]:
  "offsetof arm64_struct_cgroup ''level'' = Some (216, CInt 4)"
  unfolding arm64_struct_cgroup_def
  by (simp add: layout_simps align_up_def bit_place_def pad_end_def shift_offset_def
      del: One_nat_def cong: layout_congs offset_congs)

lemma offsetof_arm64_struct_cgroup_kn [offset_simps]:
  "offsetof arm64_struct_cgroup ''kn'' = Some (256, CPtr)"
  unfolding arm64_struct_cgroup_def
  by (simp add: layout_simps align_up_def bit_place_def pad_end_def shift_offset_def
      del: One_nat_def cong: layout_congs offset_congs)

lemma offsetof_arm64_struct_cgroup_ancestors [offset_simps]:
  "offsetof arm64_struct_cgroup ''ancestors'' = Some (2040, CArray 0 CPtr)"
  unfolding arm64_struct_cgroup_def
  by (simp add: layout_simps align_up_def bit_place_def pad_end_def shift_offset_def
      del: One_nat_def cong: layout_congs offset_congs)

lemma offsetof_arm64_struct_kernfs_node_id [offset_simps]:
  "offsetof arm64_struct_kernfs_node ''id'' = Some (96, arm64_u64)"
  unfolding arm64_struct_kernfs_node_def
  by (simp add: layout_simps align_up_def bit_place_def pad_end_def shift_offset_def
      del: One_nat_def cong: layout_congs offset_congs)

lemma offsetof_arm64_struct_nsproxy_mnt_ns [offset_simps]:
  "offsetof arm64_struct_nsproxy ''mnt_ns'' = Some (24, CPtr)"
  unfolding arm64_struct_nsproxy_def
  by (simp add: layout_simps align_up_def bit_place_def pad_end_def shift_offset_def
      del: One_nat_def cong: layout_congs offset_congs)

lemma offsetof_arm64_struct_mnt_namespace_ns [offset_simps]:
  "offsetof arm64_struct_mnt_namespace ''ns'' = Some (0, arm64_struct_ns_common)"
  unfolding arm64_struct_mnt_namespace_def
  by (simp add: layout_simps align_up_def bit_place_def pad_end_def shift_offset_def
      del: One_nat_def cong: layout_congs offset_congs)

lemma offsetof_arm64_struct_ns_common_inum [offset_simps]:
  "offsetof arm64_struct_ns_common ''inum'' = Some (16, CInt 4)"
  unfolding arm64_struct_ns_common_def
  by (simp add: layout_simps align_up_def bit_place_def pad_end_def shift_offset_def
      del: One_nat_def cong: layout_congs offset_congs)

lemma offsetof_arm64_struct_linux_binprm_file [offset_simps]:
  "offsetof arm64_struct_linux_binprm ''file'' = Some (64, CPtr)"
  unfolding arm64_struct_linux_binprm_def
  by (simp add: layout_simps align_up_def bit_place_def pad_end_def shift_offset_def
      del: One_nat_def cong: layout_congs offset_congs)

lemma offsetof_arm64_struct_file_f_path [offset_simps]:
  "offsetof arm64_struct_file ''f_path'' = Some (64, arm64_struct_path)"
  unfolding arm64_struct_file_def
  by (simp add: layout_simps align_up_def bit_place_def pad_end_def shift_offset_def
      del: One_nat_def cong: layout_congs offset_congs)

lemma offsetof_arm64_struct_path_mnt [offset_simps]:
  "offsetof arm64_struct_path ''mnt'' = Some (0, CPtr)"
  unfolding arm64_struct_path_def
  by (simp add: layout_simps align_up_def bit_place_def pad_end_def shift_offset_def
      del: One_nat_def cong: layout_congs offset_congs)

lemma offsetof_arm64_struct_path_dentry [offset_simps]:
  "offsetof arm64_struct_path ''dentry'' = Some (8, CPtr)"
  unfolding arm64_struct_path_def
  by (simp add: layout_simps align_up_def bit_place_def pad_end_def shift_offset_def
      del: One_nat_def cong: layout_congs offset_congs)

lemma offsetof_arm64_struct_vfsmount_mnt_root [offset_simps]:
  "offsetof arm64_struct_vfsmount ''mnt_root'' = Some (0, CPtr)"
  unfolding arm64_struct_vfsmount_def
  by (simp add: layout_simps align_up_def bit_place_def pad_end_def shift_offset_def
      del: One_nat_def cong: layout_congs offset_congs)

lemma offsetof_arm64_struct_vfsmount_mnt_flags [offset_simps]:
  "offsetof arm64_struct_vfsmount ''mnt_flags'' = Some (16, CInt 4)"
  unfolding arm64_struct_vfsmount_def
  by (simp add: layout_simps align_up_def bit_place_def pad_end_def shift_offset_def
      del: One_nat_def cong: layout_congs offset_congs)

lemma offsetof_arm64_struct_vfsmount_mnt_sb [offset_simps]:
  "offsetof arm64_struct_vfsmount ''mnt_sb'' = Some (8, CPtr)"
  unfolding arm64_struct_vfsmount_def
  by (simp add: layout_simps align_up_def bit_place_def pad_end_def shift_offset_def
      del: One_nat_def cong: layout_congs offset_congs)

lemma offsetof_arm64_struct_mount_mnt [offset_simps]:
  "offsetof arm64_struct_mount ''mnt'' = Some (32, arm64_struct_vfsmount)"
  unfolding arm64_struct_mount_def
  by (simp add: layout_simps align_up_def bit_place_def pad_end_def shift_offset_def
      del: One_nat_def cong: layout_congs offset_congs)

lemma offsetof_arm64_struct_mount_mnt_parent [offset_simps]:
  "offsetof arm64_struct_mount ''mnt_parent'' = Some (16, CPtr)"
  unfolding arm64_struct_mount_def
  by (simp add: layout_simps align_up_def bit_place_def pad_end_def shift_offset_def
      del: One_nat_def cong: layout_congs offset_congs)

lemma offsetof_arm64_struct_mount_mnt_mountpoint [offset_simps]:
  "offsetof arm64_struct_mount ''mnt_mountpoint'' = Some (24, CPtr)"
  unfolding arm64_struct_mount_def
  by (simp add: layout_simps align_up_def bit_place_def pad_end_def shift_offset_def
      del: One_nat_def cong: layout_congs offset_congs)

lemma offsetof_arm64_struct_mount_mnt_ns [offset_simps]:
  "offsetof arm64_struct_mount ''mnt_ns'' = Some (240, CPtr)"
  unfolding arm64_struct_mount_def
  by (simp add: layout_simps align_up_def bit_place_def pad_end_def shift_offset_def
      del: One_nat_def cong: layout_congs offset_congs)

lemma offsetof_arm64_struct_dentry_d_hash [offset_simps]:
  "offsetof arm64_struct_dentry ''d_hash'' = Some (8, arm64_struct_hlist_bl_node)"
  unfolding arm64_struct_dentry_def
  by (simp add: layout_simps align_up_def bit_place_def pad_end_def shift_offset_def
      del: One_nat_def cong: layout_congs offset_congs)

lemma offsetof_arm64_struct_dentry_d_parent [offset_simps]:
  "offsetof arm64_struct_dentry ''d_parent'' = Some (24, CPtr)"
  unfolding arm64_struct_dentry_def
  by (simp add: layout_simps align_up_def bit_place_def pad_end_def shift_offset_def
      del: One_nat_def cong: layout_congs offset_congs)

lemma offsetof_arm64_struct_dentry_d_name [offset_simps]:
  "offsetof arm64_struct_dentry ''d_name'' = Some (32, arm64_struct_qstr)"
  unfolding arm64_struct_dentry_def
  by (simp add: layout_simps align_up_def bit_place_def pad_end_def shift_offset_def
      del: One_nat_def cong: layout_congs offset_congs)

lemma offsetof_arm64_struct_hlist_bl_node_pprev [offset_simps]:
  "offsetof arm64_struct_hlist_bl_node ''pprev'' = Some (8, CPtr)"
  unfolding arm64_struct_hlist_bl_node_def
  by (simp add: layout_simps align_up_def bit_place_def pad_end_def shift_offset_def
      del: One_nat_def cong: layout_congs offset_congs)

lemma offsetof_arm64_struct_qstr_len [offset_simps]:
  "offsetof arm64_struct_qstr ''len'' = Some (4, arm64_u32)"
  unfolding arm64_struct_qstr_def
  by (simp add: layout_simps align_up_def bit_place_def pad_end_def shift_offset_def
      del: One_nat_def cong: layout_congs offset_congs)

lemma offsetof_arm64_struct_qstr_name [offset_simps]:
  "offsetof arm64_struct_qstr ''name'' = Some (8, CPtr)"
  unfolding arm64_struct_qstr_def
  by (simp add: layout_simps align_up_def bit_place_def pad_end_def shift_offset_def
      del: One_nat_def cong: layout_congs offset_congs)

lemma offsetof_arm64_struct_fs_struct_root [offset_simps]:
  "offsetof arm64_struct_fs_struct ''root'' = Some (24, arm64_struct_path)"
  unfolding arm64_struct_fs_struct_def
  by (simp add: layout_simps align_up_def bit_place_def pad_end_def shift_offset_def
      del: One_nat_def cong: layout_congs offset_congs)

section \<open>The offset table\<close>

definition arm64_core_off :: "kfield \<Rightarrow> nat option" where
  "arm64_core_off k = map_option fst (core_offset arm64_types k)"

lemma arm64_Task_cgroups [offset_simps]: "core_offset arm64_types Task_cgroups = Some (3352, CPtr)"
  by (simp add: core_offset_def arm64_types_def offset_simps)

lemma arm64_Task_nsproxy [offset_simps]: "core_offset arm64_types Task_nsproxy = Some (2920, CPtr)"
  by (simp add: core_offset_def arm64_types_def offset_simps)

lemma arm64_Task_real_parent [offset_simps]: "core_offset arm64_types Task_real_parent = Some (2320, CPtr)"
  by (simp add: core_offset_def arm64_types_def offset_simps)

lemma arm64_Task_fs [offset_simps]: "core_offset arm64_types Task_fs = Some (2896, CPtr)"
  by (simp add: core_offset_def arm64_types_def offset_simps)

lemma arm64_Css_set_subsys [offset_simps]: "core_offset arm64_types Css_set_subsys = Some (0, CArray 13 CPtr)"
  by (simp add: core_offset_def arm64_types_def offset_simps)

lemma arm64_Css_set_dfl_cgrp [offset_simps]: "core_offset arm64_types Css_set_dfl_cgrp = Some (120, CPtr)"
  by (simp add: core_offset_def arm64_types_def offset_simps)

lemma arm64_Css_cgroup [offset_simps]: "core_offset arm64_types Css_cgroup = Some (0, CPtr)"
  by (simp add: core_offset_def arm64_types_def offset_simps)

lemma arm64_Cgroup_self [offset_simps]: "core_offset arm64_types Cgroup_self = Some (0, arm64_struct_cgroup_subsys_state)"
  by (simp add: core_offset_def arm64_types_def offset_simps)

lemma arm64_Cgroup_self_parent [offset_simps]: "core_offset arm64_types Cgroup_self_parent = Some (192, CPtr)"
  by (simp add: core_offset_def arm64_types_def offset_simps)

lemma arm64_Cgroup_level [offset_simps]: "core_offset arm64_types Cgroup_level = Some (216, CInt 4)"
  by (simp add: core_offset_def arm64_types_def offset_simps)

lemma arm64_Cgroup_kn [offset_simps]: "core_offset arm64_types Cgroup_kn = Some (256, CPtr)"
  by (simp add: core_offset_def arm64_types_def offset_simps)

lemma arm64_Cgroup_ancestors [offset_simps]: "core_offset arm64_types Cgroup_ancestors = Some (2040, CArray 0 CPtr)"
  by (simp add: core_offset_def arm64_types_def offset_simps)

lemma arm64_Kernfs_node_id [offset_simps]: "core_offset arm64_types Kernfs_node_id = Some (96, arm64_u64)"
  by (simp add: core_offset_def arm64_types_def offset_simps)

lemma arm64_Kernfs_node_old_id_id [offset_simps]: "core_offset arm64_types Kernfs_node_old_id_id = None"
  by (simp add: core_offset_def arm64_types_def offset_simps) (simp add: arm64_u64_def arm64_uapi_u64_def)

lemma arm64_Nsproxy_mnt_ns [offset_simps]: "core_offset arm64_types Nsproxy_mnt_ns = Some (24, CPtr)"
  by (simp add: core_offset_def arm64_types_def offset_simps)

lemma arm64_Mnt_namespace_ns_inum [offset_simps]: "core_offset arm64_types Mnt_namespace_ns_inum = Some (16, CInt 4)"
  by (simp add: core_offset_def arm64_types_def offset_simps)

lemma arm64_Linux_binprm_file [offset_simps]: "core_offset arm64_types Linux_binprm_file = Some (64, CPtr)"
  by (simp add: core_offset_def arm64_types_def offset_simps)

lemma arm64_File_f_path [offset_simps]: "core_offset arm64_types File_f_path = Some (64, arm64_struct_path)"
  by (simp add: core_offset_def arm64_types_def offset_simps)

lemma arm64_Path_mnt [offset_simps]: "core_offset arm64_types Path_mnt = Some (0, CPtr)"
  by (simp add: core_offset_def arm64_types_def offset_simps)

lemma arm64_Path_dentry [offset_simps]: "core_offset arm64_types Path_dentry = Some (8, CPtr)"
  by (simp add: core_offset_def arm64_types_def offset_simps)

lemma arm64_Vfsmount_mnt_root [offset_simps]: "core_offset arm64_types Vfsmount_mnt_root = Some (0, CPtr)"
  by (simp add: core_offset_def arm64_types_def offset_simps)

lemma arm64_Vfsmount_mnt_flags [offset_simps]: "core_offset arm64_types Vfsmount_mnt_flags = Some (16, CInt 4)"
  by (simp add: core_offset_def arm64_types_def offset_simps)

lemma arm64_Vfsmount_mnt_sb [offset_simps]: "core_offset arm64_types Vfsmount_mnt_sb = Some (8, CPtr)"
  by (simp add: core_offset_def arm64_types_def offset_simps)

lemma arm64_Mount_mnt [offset_simps]: "core_offset arm64_types Mount_mnt = Some (32, arm64_struct_vfsmount)"
  by (simp add: core_offset_def arm64_types_def offset_simps)

lemma arm64_Mount_mnt_parent [offset_simps]: "core_offset arm64_types Mount_mnt_parent = Some (16, CPtr)"
  by (simp add: core_offset_def arm64_types_def offset_simps)

lemma arm64_Mount_mnt_mountpoint [offset_simps]: "core_offset arm64_types Mount_mnt_mountpoint = Some (24, CPtr)"
  by (simp add: core_offset_def arm64_types_def offset_simps)

lemma arm64_Mount_mnt_ns [offset_simps]: "core_offset arm64_types Mount_mnt_ns = Some (240, CPtr)"
  by (simp add: core_offset_def arm64_types_def offset_simps)

lemma arm64_Dentry_d_hash [offset_simps]: "core_offset arm64_types Dentry_d_hash = Some (8, arm64_struct_hlist_bl_node)"
  by (simp add: core_offset_def arm64_types_def offset_simps)

lemma arm64_Dentry_d_parent [offset_simps]: "core_offset arm64_types Dentry_d_parent = Some (24, CPtr)"
  by (simp add: core_offset_def arm64_types_def offset_simps)

lemma arm64_Dentry_d_name [offset_simps]: "core_offset arm64_types Dentry_d_name = Some (32, arm64_struct_qstr)"
  by (simp add: core_offset_def arm64_types_def offset_simps)

lemma arm64_Hlist_bl_node_pprev [offset_simps]: "core_offset arm64_types Hlist_bl_node_pprev = Some (8, CPtr)"
  by (simp add: core_offset_def arm64_types_def offset_simps)

lemma arm64_Qstr_len [offset_simps]: "core_offset arm64_types Qstr_len = Some (4, arm64_u32)"
  by (simp add: core_offset_def arm64_types_def offset_simps)

lemma arm64_Qstr_name [offset_simps]: "core_offset arm64_types Qstr_name = Some (8, CPtr)"
  by (simp add: core_offset_def arm64_types_def offset_simps)

lemma arm64_Fs_struct_root [offset_simps]: "core_offset arm64_types Fs_struct_root = Some (24, arm64_struct_path)"
  by (simp add: core_offset_def arm64_types_def offset_simps)

end
