(* ===== verification/Kernel_Layout.thy ===== *)
theory Kernel_Layout
  imports D_Path Vmlinux_X86 Vmlinux_Arm64
begin

text \<open>
  What the layouts of the two vmlinux headers mean for the programs: the size of every read against
  the size of the member it reads, and the one member for which they differ, \<^verbatim>\<open>fs_struct.root\<close>. The
  locale \<open>kernel_types\<close> collects what a set of kernel types must provide; both headers do.
\<close>

section \<open>The interface\<close>

text \<open>Every member a program reads by value is as large as the variable it is read into, but for the task root.\<close>

definition reads_fit :: "(string \<Rightarrow> ctype) \<Rightarrow> kfield \<Rightarrow> bool" where
  "reads_fit T k =
     (case core_offset T k of
        None \<Rightarrow> k = Kernfs_node_old_id_id
      | Some (q, t) \<Rightarrow> k \<in> embedded \<or> access_size t = read_width k)"

definition core_off_of :: "(string \<Rightarrow> ctype) \<Rightarrow> kfield \<Rightarrow> u64 option" where
  "core_off_of T k = map_option (\<lambda>(q, t). word_of_nat q) (core_offset T k)"

locale kernel_types =
  fixes T :: "string \<Rightarrow> ctype"
  assumes types_wf: "wf_ctype (T (fst (kfield_path k)))"
    and widths: "k \<noteq> Fs_struct_root \<Longrightarrow> reads_fit T k"
    and root_is_path: "\<exists>q. core_offset T Fs_struct_root = Some (q, T ''path'')"
    and path_size: "sizeof (T ''path'') = 16"
    and path_mnt_first: "core_offset T Path_mnt = Some (0, CPtr)"
    and dentry_sb: "\<exists>t u. core_offset T Path_dentry = Some (8, t) \<and> core_offset T Vfsmount_mnt_sb = Some (8, u)"
    and mnt_root_first: "\<exists>t. core_offset T Vfsmount_mnt_root = Some (0, t)"
begin

lemma read_inside:
  assumes "core_offset T k = Some (q, t)" "k \<notin> embedded" "k \<noteq> Fs_struct_root" "\<nexists>n u. t = CArray n u"
  shows "q + read_width k \<le> sizeof (T (fst (kfield_path k)))"
proof -
  have "access_size t = sizeof t" using assms(4) by (cases t) auto
  then have "sizeof t = read_width k"
    using widths [OF assms(3)] assms(1,2) by (simp add: reads_fit_def)
  then show ?thesis using core_offset_bounds [OF types_wf assms(1)] by simp
qed

lemma root_read_short:
  "\<exists>q t. core_offset T Fs_struct_root = Some (q, t) \<and> sizeof t = 16 \<and> read_width Fs_struct_root = 8"
  using root_is_path path_size by auto

text \<open>
  The variable \<^verbatim>\<open>root\<close> of \<^verbatim>\<open>bpf_d_path_approx\<close> is a pointer, and what it gets is the first member of the
  embedded \<^verbatim>\<open>struct path\<close>: the address of a mount, read as the address of a path.
\<close>

lemma root_confusion:
  assumes "core_off K = core_off_of T" and "fs = read_u64 K (get_current_task K + fld K Task_fs)"
    and "v = read_u64 K (fs + fld K Fs_struct_root + fld K Path_mnt)"
  shows "stop_dentry K = read_u64 K (v + fld K Vfsmount_mnt_sb) \<and>
    stop_vfsmount K = read_u64 K (v + fld K Vfsmount_mnt_root)"
proof -
  have "fld K Path_mnt = 0" "fld K Vfsmount_mnt_root = 0" "fld K Vfsmount_mnt_sb = 8" "fld K Path_dentry = 8"
    using path_mnt_first mnt_root_first dentry_sb by (auto simp: fld_def assms(1) core_off_of_def)
  then show ?thesis
    by (simp add: stop_dentry_def stop_vfsmount_def task_root_def Let_def assms(2,3))
qed

end

section \<open>The two headers\<close>

lemmas width_simps = reads_fit_def embedded_def sizeof_def offset_simps layout_simps

lemma x86_access_sizes:
  "access_size x86_u64 = 8" "access_size x86_u32 = 4" "access_size x86_struct_qstr = 16"
proof -
  show "access_size x86_u64 = 8" "access_size x86_u32 = 4"
    by (simp_all add: x86_u64_def x86_uapi_u64_def x86_u32_def x86_uapi_u32_def sizeof_def)
  have "access_size x86_struct_qstr = sizeof x86_struct_qstr"
    by (simp only: x86_struct_qstr_def access_size.simps)
  then show "access_size x86_struct_qstr = 16"
    by (simp add: sizeof_def layout_simps)
qed

lemma arm64_access_sizes:
  "access_size arm64_u64 = 8" "access_size arm64_u32 = 4" "access_size arm64_struct_qstr = 16"
proof -
  show "access_size arm64_u64 = 8" "access_size arm64_u32 = 4"
    by (simp_all add: arm64_u64_def arm64_uapi_u64_def arm64_u32_def arm64_uapi_u32_def sizeof_def)
  have "access_size arm64_struct_qstr = sizeof arm64_struct_qstr"
    by (simp only: arm64_struct_qstr_def access_size.simps)
  then show "access_size arm64_struct_qstr = 16"
    by (simp add: sizeof_def layout_simps)
qed

lemma x86_reads_fit: "k \<noteq> Fs_struct_root \<Longrightarrow> reads_fit x86_types k"
  by (cases k) (simp_all add: width_simps x86_access_sizes)

lemma arm64_reads_fit: "k \<noteq> Fs_struct_root \<Longrightarrow> reads_fit arm64_types k"
  by (cases k) (simp_all add: width_simps arm64_access_sizes)

interpretation x86_kernel: kernel_types x86_types
proof unfold_locales
  fix k
  show "wf_ctype (x86_types (fst (kfield_path k)))"
    by (cases k) (simp_all add: x86_types_def wf_ctype_simps)
  show "k \<noteq> Fs_struct_root \<Longrightarrow> reads_fit x86_types k" by (rule x86_reads_fit)
qed (simp_all add: offset_simps x86_types_def sizeof_def layout_simps)

interpretation arm64_kernel: kernel_types arm64_types
proof unfold_locales
  fix k
  show "wf_ctype (arm64_types (fst (kfield_path k)))"
    by (cases k) (simp_all add: arm64_types_def wf_ctype_simps)
  show "k \<noteq> Fs_struct_root \<Longrightarrow> reads_fit arm64_types k" by (rule arm64_reads_fit)
qed (simp_all add: offset_simps arm64_types_def sizeof_def layout_simps)

section \<open>Properties\<close>



text \<open>
  \<^bold>\<open>C38\<close>. The root the path resolution stops at is not the root of the task. On a kernel with the layout of
  either header, the dentry compared with the walk is the super block of the mount of the task's root,
  and the mount compared with it is the root dentry of that mount.
\<close>

theorem task_root_confusion:
  assumes "core_off K = core_off_of x86_types \<or> core_off K = core_off_of arm64_types"
    and "v = read_u64 K (read_u64 K (get_current_task K + fld K Task_fs) + fld K Fs_struct_root + fld K Path_mnt)"
  shows "stop_dentry K = read_u64 K (v + fld K Vfsmount_mnt_sb) \<and>
    stop_vfsmount K = read_u64 K (v + fld K Vfsmount_mnt_root)"
  using x86_kernel.root_confusion [OF _ refl assms(2)] arm64_kernel.root_confusion [OF _ refl assms(2)] assms(1)
  by blast

end
