(* ===== verification/Go_Strings.thy ===== *)
theory Go_Strings
  imports RE_Prelude "HOL-Library.Sublist"
begin

text \<open>
  The functions on strings that the Go code takes from the standard library (\<^verbatim>\<open>strings\<close>, \<^verbatim>\<open>strconv\<close>,
  \<^verbatim>\<open>path/filepath\<close>). A string is a list of bytes; what returns a boolean or an error beside a result is an option.
\<close>

section \<open>Prefixes and suffixes\<close>

text \<open>\<^verbatim>\<open>strings.CutSuffix\<close>, \<^verbatim>\<open>strings.CutPrefix\<close>, \<^verbatim>\<open>strings.TrimSuffix\<close> and \<^verbatim>\<open>strings.TrimRight\<close> for one character.\<close>

definition cut_suffix :: "string \<Rightarrow> string \<Rightarrow> string option" where
  "cut_suffix s suf = (if suffix suf s then Some (take (length s - length suf) s) else None)"

definition cut_prefix :: "string \<Rightarrow> string \<Rightarrow> string option" where
  "cut_prefix s p = (if take (length p) s = p then Some (drop (length p) s) else None)"

definition trim_suffix :: "string \<Rightarrow> string \<Rightarrow> string" where
  "trim_suffix s suf = (case cut_suffix s suf of Some t \<Rightarrow> t | None \<Rightarrow> s)"

definition trim_right :: "string \<Rightarrow> char \<Rightarrow> string" where
  "trim_right s c = rev (dropWhile (\<lambda>x. x = c) (rev s))"

lemma cut_suffix_append [simp]: "cut_suffix (s @ suf) suf = Some s"
  by (simp add: cut_suffix_def suffix_def)

lemma cut_prefix_append [simp]: "cut_prefix (p @ s) p = Some s"
  by (simp add: cut_prefix_def)

lemma trim_suffix_append [simp]: "trim_suffix (s @ suf) suf = s"
  by (simp add: trim_suffix_def)

lemma trim_right_id: "s \<noteq> [] \<Longrightarrow> last s \<noteq> c \<Longrightarrow> trim_right s c = s"
  by (cases s rule: rev_cases) (simp_all add: trim_right_def)

section \<open>Splitting\<close>

text \<open>\<^verbatim>\<open>strings.Split\<close> at one character, and the inverse \<^verbatim>\<open>strings.Join\<close>.\<close>

fun split_at :: "char \<Rightarrow> string \<Rightarrow> string list" where
  "split_at c [] = [[]]"
| "split_at c (x # xs) =
     (if x = c then [] # split_at c xs
      else (case split_at c xs of w # ws \<Rightarrow> (x # w) # ws | [] \<Rightarrow> [[x]]))"

fun join_with :: "char \<Rightarrow> string list \<Rightarrow> string" where
  "join_with c [] = []"
| "join_with c [w] = w"
| "join_with c (w # ws) = w @ c # join_with c ws"

lemma split_at_Nil [simp]: "split_at c xs \<noteq> []"
  by (induction xs) (auto split: list.splits)

lemma split_at_none: "c \<notin> set w \<Longrightarrow> split_at c w = [w]"
  by (induction w) auto

lemma split_at_append: "c \<notin> set w \<Longrightarrow> split_at c (w @ c # xs) = w # split_at c xs"
  by (induction w) auto

lemma split_join: "ws \<noteq> [] \<Longrightarrow> \<forall>w\<in>set ws. c \<notin> set w \<Longrightarrow> split_at c (join_with c ws) = ws"
  by (induction c ws rule: join_with.induct) (simp_all add: split_at_none split_at_append)

section \<open>Numbers\<close>

definition is_digit :: "char \<Rightarrow> bool" where
  "is_digit c \<longleftrightarrow> (of_char c :: nat) \<in> {48..57}"

definition digit_value :: "char \<Rightarrow> int" where
  "digit_value c = int (of_char c) - 48"

definition digits_value :: "string \<Rightarrow> int" where
  "digits_value ds = foldl (\<lambda>n c. 10 * n + digit_value c) 0 ds"

text \<open>\<^verbatim>\<open>strconv.ParseInt(s, 10, bits)\<close>, whose errors are \<open>None\<close>: syntax, and a value out of range.\<close>

definition ParseInt :: "nat \<Rightarrow> string \<Rightarrow> int option" where
  "ParseInt bits s =
     (let neg = (s \<noteq> [] \<and> hd s = CHR ''-'');
          ds = (if s \<noteq> [] \<and> (hd s = CHR ''-'' \<or> hd s = CHR ''+'') then tl s else s);
          n = digits_value ds;
          x = (if neg then - n else n)
      in if ds = [] \<or> \<not> list_all is_digit ds then None
         else if - (2 ^ (bits - 1)) \<le> x \<and> x < 2 ^ (bits - 1) then Some x else None)"

lemma not_digit [simp]: "\<not> is_digit (CHR ''-'')" "\<not> is_digit (CHR ''+'')" "\<not> is_digit (CHR ''.'')"
  by (simp_all add: is_digit_def)

lemma digits_no:
  assumes "list_all is_digit ds"
  shows "CHR ''-'' \<notin> set ds" and "CHR ''+'' \<notin> set ds" and "CHR ''.'' \<notin> set ds"
  using assms not_digit by (auto simp: list_all_iff)

lemma digit_value_nonneg: "is_digit c \<Longrightarrow> 0 \<le> digit_value c"
  by (simp add: is_digit_def digit_value_def)

lemma digits_value_nonneg: "list_all is_digit ds \<Longrightarrow> 0 \<le> n \<Longrightarrow> 0 \<le> foldl (\<lambda>n c. 10 * n + digit_value c) n ds"
proof (induction ds arbitrary: n)
  case (Cons c ds)
  then show ?case using digit_value_nonneg [of c] by simp
qed simp

lemma ParseInt_digits:
  assumes "ds \<noteq> []" and "list_all is_digit ds" and "digits_value ds < 2 ^ (bits - 1)"
  shows "ParseInt bits ds = Some (digits_value ds)"
proof -
  have "hd ds \<noteq> CHR ''-''" "hd ds \<noteq> CHR ''+''" using assms(1) digits_no [OF assms(2)] by (metis hd_in_set)+
  moreover have "0 \<le> digits_value ds" unfolding digits_value_def by (rule digits_value_nonneg [OF assms(2)]) simp
  moreover have "- (2 ^ (bits - 1)) \<le> (0 :: int)" by simp
  ultimately show ?thesis using assms by (simp add: ParseInt_def Let_def)
qed

section \<open>Paths\<close>

text \<open>
  \<^verbatim>\<open>filepath.Clean\<close> and \<^verbatim>\<open>filepath.Join\<close> of two elements: empty and dot components are dropped, and a double
  dot removes the component in front of it.
\<close>

fun clean_step :: "bool \<Rightarrow> string list \<Rightarrow> string \<Rightarrow> string list" where
  "clean_step rooted out w =
     (if w = [] \<or> w = ''.'' then out
      else if w = ''..'' then
        (if out \<noteq> [] \<and> last out \<noteq> ''..'' then butlast out else if rooted then out else out @ [w])
      else out @ [w])"

definition filepath_Clean :: "string \<Rightarrow> string" where
  "filepath_Clean p =
     (let rooted = (p \<noteq> [] \<and> hd p = CHR ''/'');
          out = foldl (clean_step rooted) [] (split_at (CHR ''/'') p)
      in if rooted then CHR ''/'' # join_with (CHR ''/'') out
         else if out = [] then ''.'' else join_with (CHR ''/'') out)"

definition filepath_Join :: "string \<Rightarrow> string \<Rightarrow> string" where
  "filepath_Join a b =
     (if a = [] \<and> b = [] then [] else if a = [] then filepath_Clean b
      else if b = [] then filepath_Clean a else filepath_Clean (a @ ''/'' @ b))"

definition plain_component :: "string \<Rightarrow> bool" where
  "plain_component w \<longleftrightarrow> w \<noteq> [] \<and> w \<noteq> ''.'' \<and> w \<noteq> ''..'' \<and> CHR ''/'' \<notin> set w"

lemma clean_plain: "\<forall>w\<in>set ws. plain_component w \<Longrightarrow> foldl (clean_step r) out ws = out @ ws"
  by (induction ws arbitrary: out) (auto simp: plain_component_def)

lemma Clean_plain:
  assumes "ws \<noteq> []" and "\<forall>w\<in>set ws. plain_component w"
  shows "filepath_Clean (CHR ''/'' # join_with (CHR ''/'') ws) = CHR ''/'' # join_with (CHR ''/'') ws"
proof -
  have "split_at (CHR ''/'') (join_with (CHR ''/'') ws) = ws" using assms by (intro split_join) (auto simp: plain_component_def)
  then show ?thesis using clean_plain [OF assms(2)] by (simp add: filepath_Clean_def)
qed

lemma join_snoc: "ws \<noteq> [] \<Longrightarrow> join_with c (ws @ [w]) = join_with c ws @ c # w"
  by (induction c ws rule: join_with.induct) auto

end
