(* ===== verification/Kernel_Version.thy ===== *)
theory Kernel_Version
  imports Go_Strings Bpf_Runtime
begin

text \<open>
  The version of the kernel as the agent reads it, \<^verbatim>\<open>src/internal/kernels/kernels.go\<close>. The branches on the
  version compare it with \<^verbatim>\<open>KERNEL_VERSION\<close> numbers on both sides of the maps.
\<close>

definition nth_part :: "string list \<Rightarrow> nat \<Rightarrow> string" where
  "nth_part vers i = (if i < length vers then vers ! i else [])"

definition KernelStringToNumeric :: "string \<Rightarrow> int" where
  "KernelStringToNumeric ver =
     (let verStr = hd (split_at (CHR ''-'') ver);
          numeric = trim_right verStr (CHR ''+'');
          vers = split_at (CHR ''.'') numeric
      in case ParseInt 32 (nth_part vers 0) of
           None \<Rightarrow> 0
         | Some major \<Rightarrow>
             (let minor = (case ParseInt 32 (nth_part vers 1) of Some n \<Rightarrow> n | None \<Rightarrow> 0);
                  patch = (case ParseInt 32 (nth_part vers 2) of Some n \<Rightarrow> n | None \<Rightarrow> 0);
                  patch = (if patch > 255 then 255 else patch)
              in major * 2 ^ 16 + minor * 2 ^ 8 + patch))"

text \<open>The version of a running kernel, from the release that \<^verbatim>\<open>uname\<close> reports.\<close>

definition currKernelVersion :: "string \<Rightarrow> int" where
  "currKernelVersion release = KernelStringToNumeric (trim_suffix (hd (split_at (CHR ''-'') release)) ''+'')"

definition VersionIsLowerThan :: "int \<Rightarrow> string \<Rightarrow> bool" where
  "VersionIsLowerThan current version \<longleftrightarrow> current < KernelStringToNumeric version"

definition CurrVersionIsLowerThan :: "string \<Rightarrow> string \<Rightarrow> bool" where
  "CurrVersionIsLowerThan release version \<longleftrightarrow> currKernelVersion release < KernelStringToNumeric version"

definition CurrVersionIsGreaterOrEqualThan :: "string \<Rightarrow> string \<Rightarrow> bool" where
  "CurrVersionIsGreaterOrEqualThan release version \<longleftrightarrow> \<not> CurrVersionIsLowerThan release version"

section \<open>The number is the one the programs compare with\<close>

definition version_number :: "string \<Rightarrow> bool" where
  "version_number ds \<longleftrightarrow> ds \<noteq> [] \<and> list_all is_digit ds \<and> digits_value ds < 2 ^ 31"

lemma version_number_parse: "version_number ds \<Longrightarrow> ParseInt 32 ds = Some (digits_value ds)"
  using ParseInt_digits [of ds 32] by (simp add: version_number_def)

lemma release_split:
  assumes "version_number a" "version_number b" "version_number c"
  defines "v \<equiv> a @ ''.'' @ b @ ''.'' @ c"
  shows "split_at (CHR ''.'') v = [a, b, c]" and "CHR ''-'' \<notin> set v" and "trim_right v (CHR ''+'') = v"
    and "trim_suffix v ''+'' = v"
proof -
  have d: "list_all is_digit a" "list_all is_digit b" "list_all is_digit c" "c \<noteq> []" using assms(1-3) by (simp_all add: version_number_def)
  note n = digits_no [OF d(1)] digits_no [OF d(2)] digits_no [OF d(3)]
  show "split_at (CHR ''.'') v = [a, b, c]" using n by (simp add: v_def split_at_append split_at_none)
  show "CHR ''-'' \<notin> set v" using n by (simp add: v_def)
  have "last c \<noteq> CHR ''+''" using digits_no(2) [OF d(3)] last_in_set [OF d(4)] by metis
  then have l: "v \<noteq> []" "last v \<noteq> CHR ''+''" using d(4) by (simp_all add: v_def)
  then show "trim_right v (CHR ''+'') = v" by (rule trim_right_id)
  have "\<not> suffix ''+'' v" using l(2) by (auto simp: suffix_def)
  then show "trim_suffix v ''+'' = v" by (simp add: trim_suffix_def cut_suffix_def)
qed

text \<open>A release of three numbers, with any vendor suffix behind a dash, gives the number of its three parts.\<close>

lemma release_numeric:
  assumes "version_number a" "version_number b" "version_number c" and "r = [] \<or> hd r = CHR ''-''"
  shows "currKernelVersion (a @ ''.'' @ b @ ''.'' @ c @ r) = KERNEL_VERSION (digits_value a) (digits_value b) (digits_value c)"
    and "KernelStringToNumeric (a @ ''.'' @ b @ ''.'' @ c @ r) = KERNEL_VERSION (digits_value a) (digits_value b) (digits_value c)"
proof -
  let ?v = "a @ ''.'' @ b @ ''.'' @ c"
  note s = release_split [OF assms(1-3)]
  have h: "hd (split_at (CHR ''-'') (a @ ''.'' @ b @ ''.'' @ c @ r)) = ?v"
  proof (cases r)
    case Nil
    then show ?thesis using split_at_none [OF s(2)] by simp
  next
    case (Cons x xs)
    then have "a @ ''.'' @ b @ ''.'' @ c @ r = ?v @ CHR ''-'' # xs" using assms(4) by simp
    then show ?thesis using split_at_append [OF s(2), of xs] by simp
  qed
  have k: "KernelStringToNumeric w = KERNEL_VERSION (digits_value a) (digits_value b) (digits_value c)"
    if "hd (split_at (CHR ''-'') w) = ?v" for w
    unfolding KernelStringToNumeric_def Let_def that s(1,3)
    using version_number_parse assms(1-3) by (simp add: nth_part_def KERNEL_VERSION_def)
  then show "KernelStringToNumeric (a @ ''.'' @ b @ ''.'' @ c @ r) = KERNEL_VERSION (digits_value a) (digits_value b) (digits_value c)"
    using h by blast
  show "currKernelVersion (a @ ''.'' @ b @ ''.'' @ c @ r) = KERNEL_VERSION (digits_value a) (digits_value b) (digits_value c)"
    unfolding currKernelVersion_def h s(4) by (rule k) (simp add: split_at_none [OF s(2)] del: append.simps)
qed

text \<open>The bounds the agent tests for are those of the programs.\<close>

lemma version_bounds:
  "VersionIsLowerThan current ''5.11'' \<longleftrightarrow> current < KERNEL_VERSION 5 11 0"
  "VersionIsLowerThan current ''5.9'' \<longleftrightarrow> current < KERNEL_VERSION 5 9 0"
proof -
  have "KernelStringToNumeric ''5.11'' = KERNEL_VERSION 5 11 0" "KernelStringToNumeric ''5.9'' = KERNEL_VERSION 5 9 0"
    by code_simp+
  then show "VersionIsLowerThan current ''5.11'' \<longleftrightarrow> current < KERNEL_VERSION 5 11 0"
    "VersionIsLowerThan current ''5.9'' \<longleftrightarrow> current < KERNEL_VERSION 5 9 0" by (simp_all add: VersionIsLowerThan_def)
qed

end
