(* ===== verification/Cgroup_Policy.thy ===== *)
theory Cgroup_Policy
  imports Policy_Values
begin

text \<open>
  The map from the cgroup of a container to its policy, \<^verbatim>\<open>src/internal/bpf/cgroup_policy.go\<close>: adding a
  policy to cgroups without ever changing the policy a cgroup has, removing a policy from all its
  cgroups, and forgetting cgroups.
\<close>

section \<open>Definitions\<close>

datatype CgroupPolicyOperation = AddPolicyToCgroups | RemovePolicy | RemoveCgroups

type_synonym cg_map = "(u64, u64) bpf_hash"

fun add_loop :: "bool \<Rightarrow> cg_map \<Rightarrow> u64 \<Rightarrow> u64 list \<Rightarrow> go_error option \<times> cg_map" where
  "add_loop nm cgToPol targetPolID [] = (None, cgToPol)"
| "add_loop nm cgToPol targetPolID (cgID # cgroupIDs) =
     (case map_update nm cgToPol cgID targetPolID BPF_NOEXIST of
        Inr cgToPol' \<Rightarrow> add_loop nm cgToPol' targetPolID cgroupIDs
      | Inl e \<Rightarrow>
          if e \<noteq> EEXIST then (Some (Err_map e), cgToPol)
          else
            (case map_lookup cgToPol cgID of
               None \<Rightarrow> (Some (Err_map ENOENT), cgToPol)
             | Some existingPolID \<Rightarrow>
                 if existingPolID \<noteq> targetPolID then (Some (Err_overlapping cgID existingPolID), cgToPol)
                 else add_loop nm cgToPol targetPolID cgroupIDs))"

definition addPolicyToCgroups :: "bool \<Rightarrow> cg_map \<Rightarrow> u64 \<Rightarrow> u64 list \<Rightarrow> go_error option \<times> cg_map" where
  "addPolicyToCgroups nm cgToPol targetPolID cgroupIDs =
     (if targetPolID = 0 then (Some Err_policy_zero, cgToPol)
      else add_loop nm cgToPol targetPolID cgroupIDs)"

text \<open>\<^verbatim>\<open>BatchDelete\<close>: the number of deleted keys, and an error at the first key that is missing.\<close>

fun batch_delete :: "cg_map \<Rightarrow> u64 list \<Rightarrow> (nat \<times> errno option) \<times> cg_map" where
  "batch_delete m [] = ((0, None), m)"
| "batch_delete m (k # ks) =
     (case map_delete m k of
        Inl e \<Rightarrow> ((0, Some e), m)
      | Inr m' \<Rightarrow> (case batch_delete m' ks of ((n, r), m'') \<Rightarrow> ((Suc n, r), m'')))"

definition removePolicyFromCgroups :: "cg_map \<Rightarrow> u64 \<Rightarrow> go_error option \<times> cg_map" where
  "removePolicyFromCgroups cgToPol targetPolID =
     (if targetPolID = 0 then (Some Err_policy_zero, cgToPol)
      else
        (let cgIDList = map fst (filter (\<lambda>(cgID, polID). targetPolID = polID) (elems cgToPol)) in
         if cgIDList = [] then (None, cgToPol)
         else
           (case batch_delete cgToPol cgIDList of
              ((count, Some e), m) \<Rightarrow> (Some (Err_map e), m)
            | ((count, None), m) \<Rightarrow>
                (if count \<noteq> length cgIDList then Some (Err_map ENOENT) else None, m))))"

fun remove_cgroups_loop :: "cg_map \<Rightarrow> u64 list \<Rightarrow> go_error list \<times> cg_map" where
  "remove_cgroups_loop m [] = ([], m)"
| "remove_cgroups_loop m (cgID # cgroupIDs) =
     (case map_delete m cgID of
        Inr m' \<Rightarrow> remove_cgroups_loop m' cgroupIDs
      | Inl e \<Rightarrow>
          (case remove_cgroups_loop m cgroupIDs of
             (es, m') \<Rightarrow> (if e = ENOENT then es else Err_map e # es, m')))"

definition removeCgroups :: "cg_map \<Rightarrow> u64 \<Rightarrow> u64 list \<Rightarrow> go_error list \<times> cg_map" where
  "removeCgroups cgToPol targetPolID cgroupIDs =
     (if targetPolID \<noteq> 0 then ([Err_policy_nonzero targetPolID], cgToPol)
      else remove_cgroups_loop cgToPol cgroupIDs)"

definition UpdateCgroupPolicy ::
  "bool \<Rightarrow> bpf_state \<Rightarrow> u64 \<Rightarrow> u64 list \<Rightarrow> CgroupPolicyOperation \<Rightarrow> go_error list \<times> bpf_state" where
  "UpdateCgroupPolicy nm s targetPolID cgroupIDs op =
     (let (es, m) =
        (case op of
           AddPolicyToCgroups \<Rightarrow>
             map_prod (\<lambda>e. case e of None \<Rightarrow> [] | Some x \<Rightarrow> [x]) id
               (addPolicyToCgroups nm (cg_to_policy_map s) targetPolID cgroupIDs)
         | RemovePolicy \<Rightarrow>
             map_prod (\<lambda>e. case e of None \<Rightarrow> [] | Some x \<Rightarrow> [x]) id
               (removePolicyFromCgroups (cg_to_policy_map s) targetPolID)
         | RemoveCgroups \<Rightarrow> removeCgroups (cg_to_policy_map s) targetPolID cgroupIDs)
      in (es, s\<lparr>cg_to_policy_map := m\<rparr>))"

section \<open>Adding a policy\<close>

lemma noexist_cases:
  assumes "hash_inv m"
  shows "(\<exists>m'. map_update nm m k v BPF_NOEXIST = Inr m' \<and> map_lookup m k = None \<and> hash_inv m' \<and>
      map_lookup m' = (map_lookup m)(k \<mapsto> v)) \<or>
    map_update nm m k v BPF_NOEXIST = Inl EEXIST \<and> map_lookup m k \<noteq> None \<or>
    (\<exists>e. map_update nm m k v BPF_NOEXIST = Inl e \<and> e \<noteq> EEXIST \<and> map_lookup m k = None \<and> (nm \<or> hash_full m))"
proof (cases "map_update nm m k v BPF_NOEXIST")
  case (Inl e)
  then show ?thesis by (auto simp: map_update_def hash_full_def split: option.splits if_splits)
next
  case (Inr m')
  have "map_lookup m k = None" using Inr by (auto simp: map_update_def split: option.splits)
  then show ?thesis
    using bpf.update_lookup [OF assms Inr] bpf.invar_update [OF assms Inr] Inr by blast
qed

text \<open>Whatever happens, a cgroup that has a policy keeps it, and no cgroup gets another policy than the target.\<close>

lemma add_loop_keeps:
  "hash_inv m \<Longrightarrow> add_loop nm m p cgs = (r, m') \<Longrightarrow>
     hash_inv m' \<and> (\<forall>c. map_lookup m' c = map_lookup m c \<or>
       map_lookup m c = None \<and> c \<in> set cgs \<and> map_lookup m' c = Some p)"
proof (induction cgs arbitrary: m)
  case (Cons cg cgs)
  from noexist_cases [OF Cons.prems(1), of nm cg p]
  consider (new) m1 where "map_update nm m cg p BPF_NOEXIST = Inr m1" "map_lookup m cg = None" "hash_inv m1"
      "map_lookup m1 = (map_lookup m)(cg \<mapsto> p)"
    | (old) q where "map_update nm m cg p BPF_NOEXIST = Inl EEXIST" "map_lookup m cg = Some q"
    | (err) e where "map_update nm m cg p BPF_NOEXIST = Inl e" "e \<noteq> EEXIST"
    by blast
  then show ?case
  proof cases
    case new
    then have "add_loop nm m1 p cgs = (r, m')" using Cons.prems(2) by simp
    from Cons.IH [OF new(3) this] show ?thesis using new(2,4) by (auto split: if_splits)
  next
    case old
    then show ?thesis
      using Cons.prems Cons.IH [OF Cons.prems(1)] by (auto split: if_splits)
  next
    case err
    then show ?thesis using Cons.prems by simp
  qed
qed simp

lemma add_loop_success:
  "hash_inv m \<Longrightarrow> add_loop nm m p cgs = (None, m') \<Longrightarrow> c \<in> set cgs \<Longrightarrow> map_lookup m' c = Some p"
proof (induction cgs arbitrary: m)
  case (Cons cg cgs)
  from noexist_cases [OF Cons.prems(1), of nm cg p]
  consider (new) m1 where "map_update nm m cg p BPF_NOEXIST = Inr m1" "map_lookup m cg = None" "hash_inv m1"
      "map_lookup m1 = (map_lookup m)(cg \<mapsto> p)"
    | (old) q where "map_update nm m cg p BPF_NOEXIST = Inl EEXIST" "map_lookup m cg = Some q"
    | (err) e where "map_update nm m cg p BPF_NOEXIST = Inl e" "e \<noteq> EEXIST"
    by blast
  then show ?case
  proof cases
    case new
    then have l: "add_loop nm m1 p cgs = (None, m')" using Cons.prems(2) by simp
    show ?thesis
      using Cons.IH [OF new(3) l] add_loop_keeps [OF new(3) l] Cons.prems(3) new(4)
      by (cases "c = cg") (auto split: if_splits)
  next
    case old
    then have l: "add_loop nm m p cgs = (None, m')" and q: "q = p"
      using Cons.prems by (auto split: if_splits)
    have "map_lookup m' cg = Some p"
      using add_loop_keeps [OF Cons.prems(1) l] old(2) q by (metis option.distinct(1))
    then show ?thesis
      using Cons.IH [OF Cons.prems(1) l] Cons.prems(3) by auto
  next
    case err
    then show ?thesis using Cons.prems by simp
  qed
qed simp

text \<open>With room in the map the only way to fail is a cgroup of another policy.\<close>

lemma add_loop_total:
  "hash_inv m \<Longrightarrow> length (elems m) + length cgs \<le> max_entries m \<Longrightarrow>
     \<forall>c\<in>set cgs. \<forall>q. map_lookup m c = Some q \<longrightarrow> q = p \<Longrightarrow>
     \<exists>m'. add_loop False m p cgs = (None, m')"
proof (induction cgs arbitrary: m)
  case (Cons cg cgs)
  show ?case
  proof (cases "map_lookup m cg")
    case None
    then have u: "map_update False m cg p BPF_NOEXIST = Inr (m\<lparr>elems := AList.update cg p (elems m)\<rparr>)"
      using Cons.prems(2) by (simp add: map_update_def)
    let ?m = "m\<lparr>elems := AList.update cg p (elems m)\<rparr>"
    have "length (elems ?m) = Suc (length (elems m))"
      using None length_update_new [of cg "elems m" p] by (simp add: map_lookup_def map_of_eq_None_keys)
    moreover have "\<forall>c\<in>set cgs. \<forall>q. map_lookup ?m c = Some q \<longrightarrow> q = p"
      using bpf.update_lookup [OF Cons.prems(1) u] Cons.prems(3) by simp
    ultimately show ?thesis
      using Cons.IH [OF bpf.invar_update [OF Cons.prems(1) u]] Cons.prems(2) u by simp
  next
    case (Some q)
    then have "map_update False m cg p BPF_NOEXIST = Inl EEXIST" by (simp add: map_update_def)
    then show ?thesis using Cons.IH [OF Cons.prems(1)] Cons.prems Some by simp
  qed
qed simp

section \<open>Removing\<close>

lemma batch_delete_effect:
  "hash_inv m \<Longrightarrow> distinct ks \<Longrightarrow> \<forall>k\<in>set ks. map_lookup m k \<noteq> None \<Longrightarrow>
     \<exists>m'. batch_delete m ks = ((length ks, None), m') \<and> hash_inv m' \<and>
       (\<forall>c. map_lookup m' c = (if c \<in> set ks then None else map_lookup m c))"
proof (induction ks arbitrary: m)
  case (Cons k ks)
  obtain m1 where d: "map_delete m k = Inr m1"
    using Cons.prems(3) by (auto simp: map_delete_def)
  have l: "map_lookup m1 = (map_lookup m)(k := None)" and inv: "hash_inv m1"
    using bpf.delete_lookup [OF Cons.prems(1) d] bpf.invar_delete [OF Cons.prems(1) d] by simp_all
  have ex: "\<forall>j\<in>set ks. map_lookup m1 j \<noteq> None"
    using Cons.prems(2,3) by (auto simp: l)
  obtain m' where m': "batch_delete m1 ks = ((length ks, None), m')" "hash_inv m'"
    "\<forall>c. map_lookup m' c = (if c \<in> set ks then None else map_lookup m1 c)"
    using Cons.IH [OF inv _ ex] Cons.prems(2) by auto
  then show ?case using d l by auto
qed simp

lemma elems_lookup: "hash_inv m \<Longrightarrow> (k, v) \<in> set (elems m) \<longleftrightarrow> map_lookup m k = Some v"
  by (simp add: hash_inv_def map_lookup_def)

lemma removePolicyFromCgroups_effect:
  assumes inv: "hash_inv m" and p: "p \<noteq> 0"
  shows "\<exists>m'. removePolicyFromCgroups m p = (None, m') \<and> hash_inv m' \<and>
    (\<forall>c. map_lookup m' c = (if map_lookup m c = Some p then None else map_lookup m c))"
proof -
  let ?ks = "map fst (filter (\<lambda>(cgID, polID). p = polID) (elems m))"
  have mem: "k \<in> set ?ks \<longleftrightarrow> map_lookup m k = Some p" for k
    using elems_lookup [OF inv, of k] by force
  have d: "distinct ?ks"
    using inv by (simp add: hash_inv_def distinct_map_filter)
  have ex: "\<forall>k\<in>set ?ks. map_lookup m k \<noteq> None"
    using mem by (metis option.distinct(1))
  obtain m' where m': "batch_delete m ?ks = ((length ?ks, None), m')" "hash_inv m'"
    "\<forall>c. map_lookup m' c = (if c \<in> set ?ks then None else map_lookup m c)"
    using batch_delete_effect [OF inv d ex] by blast
  show ?thesis
  proof (cases "?ks = []")
    case True
    then have "\<forall>c. map_lookup m c \<noteq> Some p" using mem by (metis empty_iff empty_set)
    moreover have "removePolicyFromCgroups m p = (None, m)"
      unfolding removePolicyFromCgroups_def Let_def using p True by (simp del: map_is_Nil_conv)
    ultimately show ?thesis using inv by simp
  next
    case False
    then have "removePolicyFromCgroups m p = (None, m')"
      unfolding removePolicyFromCgroups_def Let_def using p m'(1) by (simp del: map_is_Nil_conv)
    then show ?thesis using m' mem by simp
  qed
qed

lemma remove_cgroups_loop_effect:
  "hash_inv m \<Longrightarrow>
     \<exists>m'. remove_cgroups_loop m cgs = ([], m') \<and> hash_inv m' \<and>
       (\<forall>c. map_lookup m' c = (if c \<in> set cgs then None else map_lookup m c))"
proof (induction cgs arbitrary: m)
  case (Cons k ks)
  show ?case
  proof (cases "map_delete m k")
    case (Inl e)
    then have "map_lookup m k = None" "e = ENOENT"
      using bpf.delete_error [OF Cons.prems] by simp_all
    then show ?thesis using Cons.IH [OF Cons.prems] Inl by auto
  next
    case (Inr m1)
    then show ?thesis
      using Cons.IH [OF bpf.invar_delete [OF Cons.prems Inr]] bpf.delete_lookup [OF Cons.prems Inr] by auto
  qed
qed simp

section \<open>The three steps of an installation\<close>

text \<open>What the agent keeps of the maps.\<close>

definition agent_inv :: "bpf_state \<Rightarrow> bool" where
  "agent_inv s \<longleftrightarrow> outer_inv s \<and> string_maps_wf s \<and> hash_inv (policy_settings_map s) \<and>
     hash_inv (cg_to_policy_map s)"

lemma UpdateCgroupPolicy_add:
  assumes "hash_inv (cg_to_policy_map s)" and "UpdateCgroupPolicy nm s p cgs AddPolicyToCgroups = ([], s')"
  shows "\<exists>m. s' = s\<lparr>cg_to_policy_map := m\<rparr> \<and> hash_inv m \<and> (\<forall>c\<in>set cgs. map_lookup m c = Some p)"
proof -
  obtain x m where x: "addPolicyToCgroups nm (cg_to_policy_map s) p cgs = (x, m)" by fastforce
  then have m: "addPolicyToCgroups nm (cg_to_policy_map s) p cgs = (None, m)"
    and s': "s' = s\<lparr>cg_to_policy_map := m\<rparr>"
    using assms(2) by (auto simp: UpdateCgroupPolicy_def split: option.splits)
  then have l: "add_loop nm (cg_to_policy_map s) p cgs = (None, m)"
    by (auto simp: addPolicyToCgroups_def split: if_splits)
  show ?thesis
    using s' add_loop_keeps [OF assms(1) l] add_loop_success [OF assms(1) l] by auto
qed

text \<open>The state after the three steps of an installation that succeeded.\<close>

lemma installed_state:
  assumes inv: "agent_inv s"
    and r: "replaceBPFMaps A s p vs = (None, s1)"
    and u: "updatePolicySettings A s1 p m fr = (None, s2)"
    and a: "UpdateCgroupPolicy nm s2 p cgs AddPolicyToCgroups = ([], s3)"
  shows "string_maps_wf s3" and "policy_holds s3 p (set vs)"
    and "map_lookup (policy_settings_map s3) p =
      Some \<lparr>settings_mode = m, allow_foreign_root = (if fr then 1 else 0)\<rparr>"
    and "\<forall>c\<in>set cgs. map_lookup (cg_to_policy_map s3) c = Some p"
    and "cgtracker_map s3 = cgtracker_map s" and "process_evt_storage_map s3 = process_evt_storage_map s"
    and "\<forall>v\<in>set vs. value_ok (curr_kernel_version A) v"
proof -
  have o: "outer_inv s" using inv by (simp add: agent_inv_def)
  obtain f1 where s1: "s1 = s\<lparr>pol_str_maps := f1\<rparr>" using replaceBPFMaps_holds(4) [OF o r] by (rule exE)
  have h1: "hash_inv (policy_settings_map s1)" using inv s1 by (simp add: agent_inv_def)
  obtain f2 where s2: "s2 = s1\<lparr>policy_settings_map := f2\<rparr>" and l2: "map_lookup f2 = (map_lookup (policy_settings_map s1))(p \<mapsto>
      \<lparr>settings_mode = m, allow_foreign_root = (if fr then 1 else 0)\<rparr>)"
    using updatePolicySettings_effect [OF h1 u] by (elim exE conjE)
  have h2: "hash_inv (cg_to_policy_map s2)" using inv s1 s2 by (simp add: agent_inv_def)
  obtain f3 where s3: "s3 = s2\<lparr>cg_to_policy_map := f3\<rparr>" and l3: "\<forall>c\<in>set cgs. map_lookup f3 c = Some p"
    using UpdateCgroupPolicy_add [OF h2 a] by (elim exE conjE)
  have str: "pol_str_maps s3 = pol_str_maps s1" using s2 s3 by simp
  have "string_maps_wf s" using inv by (simp add: agent_inv_def)
  then have "string_maps_wf s1" by (rule replaceBPFMaps_wf [OF o r])
  then show "string_maps_wf s3" by (simp only: string_maps_wf_def str)
  have "outer_entry s3 = outer_entry s1" using str by (simp add: fun_eq_iff outer_entry_def)
  then show "policy_holds s3 p (set vs)"
    using replaceBPFMaps_holds(1) [OF o r] by (simp only: policy_holds_def)
  show "map_lookup (policy_settings_map s3) p =
      Some \<lparr>settings_mode = m, allow_foreign_root = (if fr then 1 else 0)\<rparr>"
    using s2 s3 l2 by simp
  show "\<forall>c\<in>set cgs. map_lookup (cg_to_policy_map s3) c = Some p" using s3 l3 by simp
  show "cgtracker_map s3 = cgtracker_map s" "process_evt_storage_map s3 = process_evt_storage_map s"
    using s1 s2 s3 by simp_all
  show "\<forall>v\<in>set vs. value_ok (curr_kernel_version A) v" by (rule replaceBPFMaps_holds(2) [OF o r])
qed

section \<open>Properties\<close>

text \<open>
  \<^bold>\<open>C33\<close>. Adding a policy to cgroups never takes a cgroup away from another policy, also when it fails half
  way: afterwards every cgroup has the policy it had, or it had none, is in the list and has the new
  one. When no error is returned, every cgroup of the list has the new policy.
\<close>

theorem add_never_steals:
  assumes "hash_inv m" and "addPolicyToCgroups nm m p cgs = (r, m')"
  shows "hash_inv m' \<and>
    (\<forall>c. map_lookup m' c = map_lookup m c \<or> map_lookup m c = None \<and> c \<in> set cgs \<and> map_lookup m' c = Some p) \<and>
    (r = None \<longrightarrow> p \<noteq> 0 \<and> (\<forall>c\<in>set cgs. map_lookup m' c = Some p))"
proof (cases "p = 0")
  case True
  then show ?thesis using assms by (auto simp: addPolicyToCgroups_def)
next
  case False
  then have l: "add_loop nm m p cgs = (r, m')" using assms(2) by (simp add: addPolicyToCgroups_def)
  show ?thesis
    using add_loop_keeps [OF assms(1) l] add_loop_success [OF assms(1), of nm p cgs m'] l False by blast
qed

text \<open>A map in which the cgroup 5 has the policy 2.\<close>

definition sample_cg_map :: cg_map where
  "sample_cg_map = \<lparr>max_entries = 10, elems = [(5, 2)]\<rparr>"

lemma sample_cg_map_inv: "hash_inv sample_cg_map"
  by (simp add: sample_cg_map_def hash_inv_def)

theorem add_never_steals_witness:
  "\<exists>m'. addPolicyToCgroups False sample_cg_map 7 [4, 5, 6] = (Some (Err_overlapping 5 2), m') \<and>
     map_lookup m' 5 = Some 2"
proof -
  have e: "\<exists>m'. addPolicyToCgroups False sample_cg_map 7 [4, 5, 6] = (Some (Err_overlapping 5 2), m')"
    by (simp add: addPolicyToCgroups_def sample_cg_map_def map_update_def map_lookup_def)
  then obtain m' where m': "addPolicyToCgroups False sample_cg_map 7 [4, 5, 6] = (Some (Err_overlapping 5 2), m')" ..
  have "map_lookup sample_cg_map 5 = Some 2" by (simp add: sample_cg_map_def map_lookup_def)
  then have "map_lookup m' 5 = Some 2"
    using add_never_steals [OF sample_cg_map_inv m'] by (metis option.distinct(1))
  with m' show ?thesis by blast
qed

text \<open>
  With memory and room in the map, adding a policy other than 0 fails only because of a cgroup
  that has another policy: if there is none in the list, no error is returned.
\<close>

theorem add_total:
  assumes "hash_inv m" and "p \<noteq> 0" and "length (elems m) + length cgs \<le> max_entries m"
    and "\<forall>c\<in>set cgs. map_lookup m c = None \<or> map_lookup m c = Some p"
  shows "\<exists>m'. addPolicyToCgroups False m p cgs = (None, m') \<and> (\<forall>c\<in>set cgs. map_lookup m' c = Some p)"
proof -
  obtain m' where "add_loop False m p cgs = (None, m')"
    using add_loop_total [OF assms(1,3)] assms(4) by fastforce
  then show ?thesis
    using assms(2) add_loop_success [OF assms(1)] by (simp add: addPolicyToCgroups_def)
qed

theorem add_total_witness:
  "\<exists>m'. addPolicyToCgroups False sample_cg_map 2 [5, 6] = (None, m') \<and> map_lookup m' 6 = Some 2"
  using add_total [OF sample_cg_map_inv, of 2 "[5, 6]"] by (auto simp: sample_cg_map_def map_lookup_def)



end
