(* ===== verification/Cgroup_Tracker.thy ===== *)
theory Cgroup_Tracker
  imports Cgroup_Helpers
begin

text \<open>
  The cgroup tracker: the two tracepoint programs of \<^verbatim>\<open>src/bpf/main.c\<close>
  (\<^verbatim>\<open>tg_cgtracker_cgroup_mkdir\<close>, \<^verbatim>\<open>tg_cgtracker_cgroup_release\<close>) and the registration of a container
  by user space (\<^verbatim>\<open>UpdateCgTrackerMap\<close> of \<^verbatim>\<open>src/internal/bpf/cgtracker.go\<close>), which walks the cgroup
  directory while new cgroups may appear below it. The tracker map names, for every cgroup of a
  container, the cgroup the container was registered with.
\<close>

section \<open>The tracepoint programs\<close>

definition tg_cgtracker_cgroup_mkdir :: "kenv \<Rightarrow> bpf_state \<Rightarrow> u64 \<Rightarrow> int \<times> bpf_state" where
  "tg_cgtracker_cgroup_mkdir K s cgrp =
     (let cgid = get_cgroup_id K cgrp in
      if cgid = 0 then (0, emit_log_event K s LOG_FAIL_TO_RESOLVE_CGROUP_ID)
      else
        (let cgid_parent = cgroup_get_parent_id K cgrp in
         if cgid_parent = 0 then (0, emit_log_event K s LOG_FAIL_TO_RESOLVE_PARENT_CGROUP_ID)
         else
           (case map_lookup (cgtracker_map s) cgid_parent of
              Some cgid_tracker \<Rightarrow>
                (0, s\<lparr>cgtracker_map :=
                       or_same (map_update (map_nomem K) (cgtracker_map s) cgid cgid_tracker BPF_ANY)
                         (cgtracker_map s)\<rparr>)
            | None \<Rightarrow> (0, s))))"

definition tg_cgtracker_cgroup_release :: "kenv \<Rightarrow> bpf_state \<Rightarrow> u64 \<Rightarrow> int \<times> bpf_state" where
  "tg_cgtracker_cgroup_release K s cgrp =
     (let cgid = get_cgroup_id K cgrp in
      if cgid = 0 then (0, emit_log_event K s LOG_FAIL_TO_RESOLVE_CGROUP_ID)
      else
        (0, s\<lparr>cgtracker_map := or_same (map_delete (cgtracker_map s) cgid) (cgtracker_map s)\<rparr>))"

section \<open>Registering a container\<close>

text \<open>
  \<^verbatim>\<open>UpdateCgTrackerMap\<close> stores the cgroup of the container under itself and then walks the directory
  tree below it. The walk is a list of pending actions, because cgroups appear and disappear while
  it runs: \<open>Visit c\<close> calls the callback on the directory of \<open>c\<close> (which reads its identifier), \<open>Put c\<close> is
  the map update of that callback, \<open>ReadDir c\<close> lists the directory. A directory that has gone yields
  no identifier and an empty listing; both errors are only logged, as is a failed update.
\<close>

datatype walk_action = Visit u64 | Put u64 | ReadDir u64

definition UpdateCgTrackerMap ::
  "bool \<Rightarrow> (u64, u64) bpf_hash \<Rightarrow> u64 \<Rightarrow> bool \<Rightarrow> errno + (u64, u64) bpf_hash \<times> walk_action list" where
  "UpdateCgTrackerMap nm m cgID has_path =
     (case map_update nm m cgID cgID BPF_ANY of
        Inl e \<Rightarrow> Inl e
      | Inr m' \<Rightarrow> Inr (m', if has_path then [ReadDir cgID] else []))"

fun walk_next ::
  "bool \<Rightarrow> (u64 \<Rightarrow> bool) \<Rightarrow> (u64 \<Rightarrow> u64 list) \<Rightarrow> u64 \<Rightarrow> (u64, u64) bpf_hash \<Rightarrow> walk_action list \<Rightarrow>
   (u64, u64) bpf_hash \<times> walk_action list" where
  "walk_next nm exists subdirs cgID m [] = (m, [])"
| "walk_next nm exists subdirs cgID m (Visit c # todo) =
     (m, if exists c then Put c # ReadDir c # todo else ReadDir c # todo)"
| "walk_next nm exists subdirs cgID m (Put c # todo) = (or_same (map_update nm m c cgID BPF_ANY) m, todo)"
| "walk_next nm exists subdirs cgID m (ReadDir c # todo) =
     (m, if exists c then map Visit (subdirs c) @ todo else todo)"

section \<open>What one run does to the tracker map\<close>

lemma mkdir_tracks_child:
  assumes "hash_inv (cgtracker_map s)" and "\<not> map_nomem K"
    and "get_cgroup_id K cgrp = c" "c \<noteq> 0" and "cgroup_get_parent_id K cgrp = p" "p \<noteq> 0"
    and "map_lookup (cgtracker_map s) c \<noteq> None \<or> \<not> hash_full (cgtracker_map s)"
  shows "map_lookup (cgtracker_map (snd (tg_cgtracker_cgroup_mkdir K s cgrp))) =
     (case map_lookup (cgtracker_map s) p of
        Some t \<Rightarrow> (map_lookup (cgtracker_map s))(c \<mapsto> t)
      | None \<Rightarrow> map_lookup (cgtracker_map s))"
  using assms bpf.or_same_update_lookup [OF assms(1,2,7)]
  by (auto simp: tg_cgtracker_cgroup_mkdir_def Let_def split: option.splits)

lemma release_untracks:
  assumes "hash_inv (cgtracker_map s)" and "get_cgroup_id K cgrp = c" "c \<noteq> 0"
  shows "map_lookup (cgtracker_map (snd (tg_cgtracker_cgroup_release K s cgrp))) =
    (map_lookup (cgtracker_map s))(c := None)"
  using assms bpf.or_same_delete_lookup [OF assms(1), of c]
  by (auto simp: tg_cgtracker_cgroup_release_def Let_def)

lemma tracker_programs_keep_inv:
  assumes "hash_inv (cgtracker_map s)"
  shows "hash_inv (cgtracker_map (snd (tg_cgtracker_cgroup_mkdir K s cgrp)))"
    and "hash_inv (cgtracker_map (snd (tg_cgtracker_cgroup_release K s cgrp)))"
  using assms
  by (auto simp: tg_cgtracker_cgroup_mkdir_def tg_cgtracker_cgroup_release_def Let_def hook_frame
      emit_defs bpf.or_same_update_invar bpf.or_same_delete_invar split: option.splits)

section \<open>Cgroups over time\<close>

text \<open>
  The cgroups of the system while a container \<open>r\<close> is registered: the live cgroups, the parent each
  cgroup was created under (identifiers are never reused, so this also covers the dead ones), the
  state the programs share, and the pending actions of the walk. Creating a cgroup and running the
  program attached to its creation is one step, and so is removing one; between any two steps the
  walk may take one of its own.
\<close>

record cg_system =
  live :: "u64 set"
  parent_of :: "u64 \<Rightarrow> u64 option"
  shared :: bpf_state
  todo :: "walk_action list"

abbreviation tracker :: "cg_system \<Rightarrow> u64 \<Rightarrow> u64 option" where
  "tracker S \<equiv> map_lookup (cgtracker_map (shared S))"

inductive below :: "(u64 \<Rightarrow> u64 option) \<Rightarrow> u64 \<Rightarrow> u64 \<Rightarrow> bool" for par r where
  self: "below par r r"
| child: "below par r p \<Longrightarrow> par c = Some p \<Longrightarrow> below par r c"

inductive cg_step :: "u64 \<Rightarrow> cg_system \<Rightarrow> cg_system \<Rightarrow> bool" for r where
  mkdir: "get_cgroup_id K cgrp = c \<Longrightarrow> c \<noteq> 0 \<Longrightarrow> cgroup_get_parent_id K cgrp = p \<Longrightarrow> p \<noteq> 0 \<Longrightarrow>
    p \<in> live S \<Longrightarrow> c \<notin> live S \<Longrightarrow> c \<noteq> r \<Longrightarrow> parent_of S c = None \<Longrightarrow> (\<forall>x. parent_of S x \<noteq> Some c) \<Longrightarrow>
    tracker S c = None \<Longrightarrow> \<not> map_nomem K \<Longrightarrow> \<not> hash_full (cgtracker_map (shared S)) \<Longrightarrow>
    cg_step r S (S\<lparr>live := insert c (live S), parent_of := (parent_of S)(c \<mapsto> p),
      shared := snd (tg_cgtracker_cgroup_mkdir K (shared S) cgrp)\<rparr>)"
| release: "get_cgroup_id K cgrp = c \<Longrightarrow> c \<noteq> 0 \<Longrightarrow> c \<in> live S \<Longrightarrow>
    (\<forall>x\<in>live S. parent_of S x \<noteq> Some c) \<Longrightarrow>
    cg_step r S (S\<lparr>live := live S - {c}, shared := snd (tg_cgtracker_cgroup_release K (shared S) cgrp)\<rparr>)"
| walk: "\<not> hash_full (cgtracker_map (shared S)) \<Longrightarrow> (\<forall>d. set (subdirs d) = {x \<in> live S. parent_of S x = Some d}) \<Longrightarrow>
    walk_next False (\<lambda>c. c \<in> live S) subdirs r (cgtracker_map (shared S)) (todo S) = (m, t) \<Longrightarrow>
    cg_step r S (S\<lparr>shared := (shared S)\<lparr>cgtracker_map := m\<rparr>, todo := t\<rparr>)"

inductive cg_steps :: "u64 \<Rightarrow> cg_system \<Rightarrow> cg_system \<Rightarrow> bool" for r where
  start: "cg_steps r S S"
| step: "cg_steps r S T \<Longrightarrow> cg_step r T U \<Longrightarrow> cg_steps r S U"

text \<open>The state right after the first update of the registration, with the walk about to start.\<close>

definition registered :: "u64 \<Rightarrow> cg_system \<Rightarrow> bool" where
  "registered r S \<longleftrightarrow> (\<exists>m0. hash_inv m0 \<and> (\<forall>c. map_lookup m0 c \<noteq> Some r) \<and>
     UpdateCgTrackerMap False m0 r True = Inr (cgtracker_map (shared S), todo S)) \<and>
     (\<forall>x\<in>live S. \<forall>p. parent_of S x = Some p \<longrightarrow> p \<in> live S)"

text \<open>What the walk still has to reach.\<close>

definition pending :: "u64 \<Rightarrow> cg_system \<Rightarrow> u64 \<Rightarrow> bool" where
  "pending r S x \<longleftrightarrow> (\<exists>y. below (parent_of S) r y \<and> below (parent_of S) y x \<and>
     (Visit y \<in> set (todo S) \<or> Put y \<in> set (todo S) \<or> ReadDir y \<in> set (todo S) \<and> y \<noteq> x))"

text \<open>A pending update is followed by the listing of the same directory.\<close>

fun puts_ok :: "walk_action list \<Rightarrow> bool" where
  "puts_ok [] = True"
| "puts_ok (Put y # t) = (ReadDir y \<in> set t \<and> puts_ok t)"
| "puts_ok (_ # t) = puts_ok t"

definition walk_inv :: "u64 \<Rightarrow> cg_system \<Rightarrow> bool" where
  "walk_inv r S \<longleftrightarrow> hash_inv (cgtracker_map (shared S)) \<and>
     (\<forall>x\<in>live S. \<forall>p. parent_of S x = Some p \<longrightarrow> p \<in> live S) \<and>
     (\<forall>x\<in>live S. below (parent_of S) r x \<longrightarrow> tracker S x = Some r \<or> pending r S x) \<and>
     (\<forall>c. tracker S c = Some r \<longrightarrow> below (parent_of S) r c) \<and>
     (\<forall>y. Visit y \<in> set (todo S) \<or> Put y \<in> set (todo S) \<or> ReadDir y \<in> set (todo S) \<longrightarrow> below (parent_of S) r y) \<and>
     puts_ok (todo S)"

subsection \<open>The tree\<close>

lemma below_trans: "below par y x \<Longrightarrow> below par r y \<Longrightarrow> below par r x"
  by (induction rule: below.induct) (auto intro: below.intros)

lemma below_top: "below par y x \<Longrightarrow> y = x \<or> (\<exists>z. par z = Some y \<and> below par z x)"
  by (induction rule: below.induct) (auto intro: below.intros)

lemma below_upd:
  assumes "par c = None" "\<forall>x. par x \<noteq> Some c" "p \<noteq> c"
  shows "below (par(c \<mapsto> p)) y x \<longleftrightarrow> below par y x \<or> x = c \<and> below par y p"
proof
  assume "below (par(c \<mapsto> p)) y x"
  then show "below par y x \<or> x = c \<and> below par y p"
    by (induction rule: below.induct) (use assms in \<open>auto intro: below.intros split: if_splits\<close>)
next
  have mono: "below (par(c \<mapsto> p)) y z" if "below par y z" for z
    using that
  proof (induction rule: below.induct)
    case (child q z)
    have "(par(c \<mapsto> p)) z = Some q" using child.hyps assms(1) by auto
    then show ?case by (rule below.child [OF child.IH])
  qed (rule below.self)
  assume "below par y x \<or> x = c \<and> below par y p"
  then show "below (par(c \<mapsto> p)) y x"
    using mono below.child [of "par(c \<mapsto> p)" y p c] by auto
qed

lemma below_orphan: "par c = None \<Longrightarrow> below par y c \<longleftrightarrow> y = c"
  by (auto elim: below.cases intro: below.intros)

lemma below_live:
  "below par y x \<Longrightarrow> x \<in> L \<Longrightarrow> \<forall>z\<in>L. \<forall>p. par z = Some p \<longrightarrow> p \<in> L \<Longrightarrow> y \<in> L"
  by (induction rule: below.induct) auto

lemma puts_ok_visits [simp]: "puts_ok (map Visit xs @ t) = puts_ok t"
  by (induction xs) auto

subsection \<open>Every step keeps the invariant\<close>

lemma walk_inv_mkdir:
  assumes I: "walk_inv r S"
    and K: "get_cgroup_id K cgrp = c" "c \<noteq> 0" "cgroup_get_parent_id K cgrp = p" "p \<noteq> 0"
    and fresh: "p \<in> live S" "c \<notin> live S" "c \<noteq> r" "parent_of S c = None" "\<forall>x. parent_of S x \<noteq> Some c"
      "tracker S c = None"
    and room: "\<not> map_nomem K" "\<not> hash_full (cgtracker_map (shared S))"
  shows "walk_inv r (S\<lparr>live := insert c (live S), parent_of := (parent_of S)(c \<mapsto> p),
      shared := snd (tg_cgtracker_cgroup_mkdir K (shared S) cgrp)\<rparr>)" (is "walk_inv r ?S")
proof -
  let ?par = "parent_of S" and ?T = "tracker S"
  have inv: "hash_inv (cgtracker_map (shared S))" using I by (simp add: walk_inv_def)
  have T: "map_lookup (cgtracker_map (snd (tg_cgtracker_cgroup_mkdir K (shared S) cgrp))) = (case ?T p of Some t \<Rightarrow> ?T(c \<mapsto> t) | None \<Rightarrow> ?T)"
    using mkdir_tracks_child [OF inv room(1) K] room(2) by blast
  have pc: "p \<noteq> c" using fresh by auto
  note b = below_upd [OF fresh(4,5) pc]
  have rc: "\<not> below ?par r c" using below_orphan [of ?par c r] fresh(3,4) by simp
  have pend: "pending r ?S x" if "pending r S x" for x
    using that rc by (auto simp: pending_def b)
  have pend_c: "pending r ?S c" if pp: "pending r S p"
  proof -
    obtain y where y: "below ?par r y" "below ?par y p"
      "Visit y \<in> set (todo S) \<or> Put y \<in> set (todo S) \<or> ReadDir y \<in> set (todo S)"
      using pp by (auto simp: pending_def)
    then have "y \<noteq> c" using rc by auto
    then show ?thesis using y by (auto simp: pending_def b)
  qed
  have cov: "tracker ?S x = Some r \<or> pending r ?S x"
    if x: "x \<in> insert c (live S)" "below (?par(c \<mapsto> p)) r x" for x
  proof (cases "x = c")
    case True
    then have "below ?par r p" using x rc by (simp add: b)
    then have "?T p = Some r \<or> pending r S p" using I fresh(1) by (simp add: walk_inv_def)
    then show ?thesis using True pend_c by (auto simp: T)
  next
    case False
    then have "?T x = Some r \<or> pending r S x" using x I by (simp add: walk_inv_def b)
    then show ?thesis using False pend by (auto simp: T split: option.split)
  qed
  have exact: "below (?par(c \<mapsto> p)) r q" if "tracker ?S q = Some r" for q
    using that I fresh(6) by (auto simp: T b walk_inv_def split: option.splits if_splits)
  have closed: "\<forall>x\<in>insert c (live S). \<forall>q. (?par(c \<mapsto> p)) x = Some q \<longrightarrow> q \<in> insert c (live S)"
    using I fresh(1) by (auto simp: walk_inv_def)
  have "hash_inv (cgtracker_map (shared ?S))"
    using tracker_programs_keep_inv(1) [OF inv] by simp
  then show ?thesis
    using cov exact closed I by (simp add: walk_inv_def b)
qed

lemma walk_inv_release:
  assumes I: "walk_inv r S" and K: "get_cgroup_id K cgrp = c" "c \<noteq> 0"
    and leaf: "\<forall>x\<in>live S. parent_of S x \<noteq> Some c"
  shows "walk_inv r (S\<lparr>live := live S - {c}, shared := snd (tg_cgtracker_cgroup_release K (shared S) cgrp)\<rparr>)"
    (is "walk_inv r ?S")
proof -
  have inv: "hash_inv (cgtracker_map (shared S))" using I by (simp add: walk_inv_def)
  have T: "map_lookup (cgtracker_map (snd (tg_cgtracker_cgroup_release K (shared S) cgrp))) = (tracker S)(c := None)"
    by (rule release_untracks [OF inv K])
  have pend: "pending r ?S x = pending r S x" for x by (simp add: pending_def)
  have "hash_inv (cgtracker_map (shared ?S))"
    using tracker_programs_keep_inv(2) [OF inv] by simp
  then show ?thesis
    using I leaf unfolding walk_inv_def pend by (auto simp: T)
qed

text \<open>A step of the walk: what remains to be shown is coverage, for the live cgroups below \<open>r\<close>.\<close>

lemma walk_inv_update:
  assumes I: "walk_inv r S" and inv: "hash_inv m" and "puts_ok t"
    and below: "\<forall>y. Visit y \<in> set t \<or> Put y \<in> set t \<or> ReadDir y \<in> set t \<longrightarrow> below (parent_of S) r y"
    and exact: "\<forall>c. map_lookup m c = Some r \<longrightarrow> below (parent_of S) r c"
    and keep: "\<forall>x. tracker S x = Some r \<longrightarrow> map_lookup m x = Some r"
    and cov: "\<forall>x\<in>live S. below (parent_of S) r x \<longrightarrow> pending r S x \<longrightarrow>
      map_lookup m x = Some r \<or> pending r (S\<lparr>todo := t\<rparr>) x"
  shows "walk_inv r (S\<lparr>shared := (shared S)\<lparr>cgtracker_map := m\<rparr>, todo := t\<rparr>)"
proof -
  have p: "pending r (S\<lparr>shared := s, todo := t\<rparr>) x = pending r (S\<lparr>todo := t\<rparr>) x" for s x
    by (simp add: pending_def)
  show ?thesis
    using I inv assms(3) below exact keep cov unfolding walk_inv_def p by auto
qed

lemma walk_inv_walk:
  assumes I: "walk_inv r S" and room: "\<not> hash_full (cgtracker_map (shared S))"
    and sub: "\<forall>d. set (subdirs d) = {x \<in> live S. parent_of S x = Some d}"
    and next_step: "walk_next False (\<lambda>c. c \<in> live S) subdirs r (cgtracker_map (shared S)) (todo S) = (m, t)"
  shows "walk_inv r (S\<lparr>shared := (shared S)\<lparr>cgtracker_map := m\<rparr>, todo := t\<rparr>)"
proof -
  let ?m = "cgtracker_map (shared S)" and ?par = "parent_of S"
  have inv: "hash_inv ?m" and closed: "\<forall>x\<in>live S. \<forall>p. ?par x = Some p \<longrightarrow> p \<in> live S"
    and exact: "\<forall>c. tracker S c = Some r \<longrightarrow> below ?par r c"
    and under: "\<And>y. Visit y \<in> set (todo S) \<or> Put y \<in> set (todo S) \<or> ReadDir y \<in> set (todo S) \<Longrightarrow> below ?par r y"
    and puts: "puts_ok (todo S)"
    using I by (auto simp: walk_inv_def)
  consider (no_task) "todo S = []" | (visit) c t0 where "todo S = Visit c # t0"
    | (put) c t0 where "todo S = Put c # t0" | (readdir) c t0 where "todo S = ReadDir c # t0"
    by (metis list.exhaust walk_action.exhaust)
  then show ?thesis
  proof cases
    case no_task
    then show ?thesis
      using next_step inv exact by (intro walk_inv_update [OF I]) (auto simp: pending_def)
  next
    case (visit c t0)
    then have m: "m = ?m" and t: "t = (if c \<in> live S then Put c # ReadDir c # t0 else ReadDir c # t0)"
      using next_step by auto
    have "pending r (S\<lparr>todo := t\<rparr>) x" if x: "x \<in> live S" and p: "pending r S x" for x
      using p below_live [OF _ x closed, of c] visit t by (fastforce simp: pending_def)
    then show ?thesis
      using inv exact puts under visit by (intro walk_inv_update [OF I]) (auto simp: m t)
  next
    case (put c t0)
    then have m: "m = or_same (map_update False ?m c r BPF_ANY) ?m" and t: "t = t0"
      using next_step by auto
    have rd: "ReadDir c \<in> set t0" "puts_ok t0" using puts put by simp_all
    have T: "map_lookup m = (tracker S)(c \<mapsto> r)"
      unfolding m by (rule bpf.or_same_update_lookup [OF inv]) (use room in simp_all)
    have "map_lookup m x = Some r \<or> pending r (S\<lparr>todo := t0\<rparr>) x" if p: "pending r S x" for x
      using p rd put by (auto simp: pending_def T)
    moreover have "hash_inv m" using bpf.or_same_update_invar [OF inv] by (simp add: m)
    ultimately show ?thesis
      using exact rd under put by (intro walk_inv_update [OF I]) (auto simp: T t)
  next
    case (readdir c t0)
    then have m: "m = ?m" and t: "t = (if c \<in> live S then map Visit (subdirs c) @ t0 else t0)"
      using next_step by auto
    have cov: "pending r (S\<lparr>todo := t\<rparr>) x" if x: "x \<in> live S" and p: "pending r S x" for x
    proof -
      obtain y where y: "below ?par r y" "below ?par y x"
        and a: "Visit y \<in> set (todo S) \<or> Put y \<in> set (todo S) \<or> ReadDir y \<in> set (todo S) \<and> y \<noteq> x"
        using p by (auto simp: pending_def)
      show ?thesis
      proof (cases "y = c \<and> c \<noteq> x")
        case True
        then obtain z where z: "?par z = Some c" "below ?par z x" using below_top [OF y(2)] by auto
        have "z \<in> live S" by (rule below_live [OF z(2) x closed])
        then have "Visit z \<in> set t" using z closed sub t by auto
        moreover have "below ?par r z" using y(1) z(1) True by (auto intro: below.child)
        ultimately show ?thesis using z(2) by (auto simp: pending_def)
      next
        case False
        then show ?thesis using a y readdir t by (auto simp: pending_def)
      qed
    qed
    have "below ?par r z" if "z \<in> set (subdirs c)" for z
      using that sub under [of c] readdir by (auto intro: below.child)
    then show ?thesis
      using cov inv exact puts under readdir by (intro walk_inv_update [OF I]) (auto simp: m t)
  qed
qed

lemma walk_inv_step: "cg_step r S T \<Longrightarrow> walk_inv r S \<Longrightarrow> walk_inv r T"
  by (induction rule: cg_step.induct) (auto intro: walk_inv_mkdir walk_inv_release walk_inv_walk)

lemma walk_inv_steps: "cg_steps r S T \<Longrightarrow> walk_inv r S \<Longrightarrow> walk_inv r T"
  by (induction rule: cg_steps.induct) (auto intro: walk_inv_step)

lemma walk_inv_registered:
  assumes "registered r S"
  shows "walk_inv r S"
proof -
  obtain m0 where inv: "hash_inv m0" and none: "\<forall>c. map_lookup m0 c \<noteq> Some r"
    and reg: "UpdateCgTrackerMap False m0 r True = Inr (cgtracker_map (shared S), todo S)"
    and closed: "\<forall>x\<in>live S. \<forall>p. parent_of S x = Some p \<longrightarrow> p \<in> live S"
    using assms by (auto simp: registered_def)
  have u: "map_update False m0 r r BPF_ANY = Inr (cgtracker_map (shared S))" and t: "todo S = [ReadDir r]"
    using reg by (auto simp: UpdateCgTrackerMap_def split: sum.splits)
  have T: "tracker S = (map_lookup m0)(r \<mapsto> r)" by (rule bpf.update_lookup [OF inv u])
  have "tracker S x = Some r \<or> pending r S x" if "below (parent_of S) r x" for x
    using that by (cases "x = r") (auto simp: T pending_def t intro: below.intros)
  moreover have "below (parent_of S) r c" if "tracker S c = Some r" for c
    using that none by (auto simp: T intro: below.intros split: if_splits)
  ultimately show ?thesis
    using bpf.invar_update [OF inv u] closed by (auto simp: walk_inv_def t intro: below.intros)
qed

lemma walk_covers:
  assumes "registered r S" and "cg_steps r S T" and "todo T = []" and "x \<in> live T"
  shows "tracker T x = Some r \<longleftrightarrow> below (parent_of T) r x"
proof -
  have I: "walk_inv r T" using walk_inv_steps [OF assms(2) walk_inv_registered [OF assms(1)]] .
  have "\<not> pending r T x" using assms(3) by (simp add: pending_def)
  then show ?thesis using I assms(4) by (auto simp: walk_inv_def)
qed

section \<open>Properties\<close>

text \<open>
  \<^bold>\<open>C12\<close>. A registration that races with new cgroups covers all of them. From the moment after the first
  update of \<^verbatim>\<open>UpdateCgTrackerMap\<close>, let cgroups be created and removed anywhere in the tree while the walk
  runs, in any order of steps. When the walk has ended, a live cgroup is tracked by the container
  exactly when it is the container's cgroup or below it.
\<close>

theorem registration_covers:
  assumes "registered r S" and "cg_steps r S T" and "todo T = []" and "x \<in> live T"
  shows "tracker T x = Some r \<longleftrightarrow> below (parent_of T) r x"
  using walk_covers [OF assms] .


text \<open>A container 1 with a child 5, which has a child 6, when the registration has made its first update.\<close>

definition sample_tree :: "u64 \<Rightarrow> u64 option" where
  "sample_tree = [5 \<mapsto> 1, 6 \<mapsto> 5]"

definition sample_subdirs :: "u64 \<Rightarrow> u64 list" where
  "sample_subdirs d = (if d = 1 then [5] else if d = 5 then [6] else [])"

definition sample_system :: "(u64 \<times> u64) list \<Rightarrow> walk_action list \<Rightarrow> cg_system" where
  "sample_system entries t = \<lparr>live = {1, 5, 6}, parent_of = sample_tree,
     shared = init_state\<lparr>cgtracker_map := \<lparr>max_entries = TRACKER_MAP_MAX_ENTRIES, elems = entries\<rparr>\<rparr>, todo = t\<rparr>"

lemma sample_subdirs_live: "set (sample_subdirs d) = {x \<in> {1, 5, 6}. sample_tree x = Some d}"
  by (auto simp: sample_subdirs_def sample_tree_def)

lemma sample_walk_step:
  assumes "length entries < 10"
    and "walk_next False (\<lambda>c. c \<in> {1, 5, 6}) sample_subdirs 1 \<lparr>max_entries = TRACKER_MAP_MAX_ENTRIES, elems = entries\<rparr> t =
      (\<lparr>max_entries = TRACKER_MAP_MAX_ENTRIES, elems = entries'\<rparr>, t')"
    and "cg_steps 1 S (sample_system entries t)"
  shows "cg_steps 1 S (sample_system entries' t')"
proof -
  have "cg_step 1 (sample_system entries t) ((sample_system entries t)\<lparr>
      shared := (shared (sample_system entries t))\<lparr>cgtracker_map := \<lparr>max_entries = TRACKER_MAP_MAX_ENTRIES, elems = entries'\<rparr>\<rparr>,
      todo := t'\<rparr>)"
    by (rule cg_step.walk [of _ sample_subdirs])
      (use assms(1,2) in \<open>simp_all add: sample_system_def hash_full_def TRACKER_MAP_MAX_ENTRIES_def sample_subdirs_live\<close>)
  then have "cg_step 1 (sample_system entries t) (sample_system entries' t')"
    by (simp add: sample_system_def)
  with assms(3) show ?thesis by (rule cg_steps.step)
qed

lemma sample_walk: "cg_steps 1 (sample_system [(1, 1)] [ReadDir 1]) (sample_system [(1, 1), (5, 1), (6, 1)] [])"
proof -
  let ?S = "sample_system [(1, 1)] [ReadDir 1]"
  note upd = map_update_def map_lookup_def or_same_def TRACKER_MAP_MAX_ENTRIES_def sample_subdirs_def
  have "cg_steps 1 ?S ?S" by (rule cg_steps.start)
  then have "cg_steps 1 ?S (sample_system [(1, 1)] [Visit 5])"
    by (rule sample_walk_step [rotated 2]) (simp_all add: upd)
  then have "cg_steps 1 ?S (sample_system [(1, 1)] [Put 5, ReadDir 5])"
    by (rule sample_walk_step [rotated 2]) (simp_all add: upd)
  then have "cg_steps 1 ?S (sample_system [(1, 1), (5, 1)] [ReadDir 5])"
    by (rule sample_walk_step [rotated 2]) (simp_all add: upd)
  then have "cg_steps 1 ?S (sample_system [(1, 1), (5, 1)] [Visit 6])"
    by (rule sample_walk_step [rotated 2]) (simp_all add: upd)
  then have "cg_steps 1 ?S (sample_system [(1, 1), (5, 1)] [Put 6, ReadDir 6])"
    by (rule sample_walk_step [rotated 2]) (simp_all add: upd)
  then have "cg_steps 1 ?S (sample_system [(1, 1), (5, 1), (6, 1)] [ReadDir 6])"
    by (rule sample_walk_step [rotated 2]) (simp_all add: upd)
  then show ?thesis
    by (rule sample_walk_step [rotated 2]) (simp_all add: upd)
qed

theorem registration_covers_witness:
  "tracker (sample_system [(1, 1), (5, 1), (6, 1)] []) 6 = Some 1 \<and> below sample_tree 1 6"
proof -
  have "\<exists>m0. hash_inv m0 \<and> (\<forall>c. map_lookup m0 c \<noteq> Some 1) \<and> UpdateCgTrackerMap False m0 1 True =
      Inr (\<lparr>max_entries = TRACKER_MAP_MAX_ENTRIES, elems = [(1, 1)]\<rparr>, [ReadDir 1])"
    by (rule exI [of _ "\<lparr>max_entries = TRACKER_MAP_MAX_ENTRIES, elems = []\<rparr>"])
      (simp add: hash_inv_def map_lookup_def UpdateCgTrackerMap_def map_update_def TRACKER_MAP_MAX_ENTRIES_def)
  then have "registered 1 (sample_system [(1, 1)] [ReadDir 1])"
    unfolding registered_def by (simp add: sample_system_def) (simp add: sample_tree_def)
  from registration_covers [OF this sample_walk, of 6] have "tracker (sample_system [(1, 1), (5, 1), (6, 1)] []) 6 = Some 1 \<longleftrightarrow>
      below sample_tree 1 6"
    by (simp add: sample_system_def)
  moreover have "tracker (sample_system [(1, 1), (5, 1), (6, 1)] []) 6 = Some 1"
    by (simp add: sample_system_def map_lookup_def)
  ultimately show ?thesis by simp
qed

end
