(* ===== verification/Workload_Policy.thy ===== *)
theory Workload_Policy
  imports Bpf_State
begin

text \<open>
  The policy a user writes: the types of \<^verbatim>\<open>src/api/v1alpha1/workloadpolicy_types.go\<close>, the options of
  \<^verbatim>\<open>workloadpolicy_options.go\<close> and the modes of \<^verbatim>\<open>src/internal/types/policymode/policy_mode.go\<close>. A Go string
  that names an object is a \<open>string\<close>; a path or an option value, whose bytes matter, is a list of bytes.
  A Go map is an association list.
\<close>

section \<open>Modes\<close>

definition MonitorString :: string where
  "MonitorString = ''monitor''"

definition ProtectString :: string where
  "ProtectString = ''protect''"

definition IsValid :: "string \<Rightarrow> bool" where
  "IsValid m \<longleftrightarrow> m = MonitorString \<or> m = ProtectString"

text \<open>\<^verbatim>\<open>ParseMode\<close> panics on any other string, which is \<open>None\<close> here.\<close>

definition ParseMode :: "string \<Rightarrow> u8 option" where
  "ParseMode s =
     (if s = MonitorString then Some POLICY_MODE_MONITOR
      else if s = ProtectString then Some POLICY_MODE_PROTECT
      else None)"

datatype PolicyMode = PolicyMode_UNSPECIFIED | PolicyMode_MONITOR | PolicyMode_PROTECT

definition ParsePolicyModeToProto :: "string \<Rightarrow> PolicyMode" where
  "ParsePolicyModeToProto s =
     (if s = MonitorString then PolicyMode_MONITOR
      else if s = ProtectString then PolicyMode_PROTECT
      else PolicyMode_UNSPECIFIED)"

section \<open>Rules and options\<close>

record WorkloadPolicyRules =
  Allowed :: "bytes list"
  Options :: "(string \<times> bytes) list"

definition OptionAllowForeignRootExec :: string where
  "OptionAllowForeignRootExec = ''ALLOW_FOREIGN_ROOT_EXEC''"

definition isKnownOption :: "string \<Rightarrow> bool" where
  "isKnownOption key \<longleftrightarrow> key = OptionAllowForeignRootExec"

text \<open>
  \<^verbatim>\<open>strings.TrimSpace\<close> and \<^verbatim>\<open>strings.ToLower\<close>. The encodings of the white space characters of Unicode are
  listed; no character outside ASCII has an ASCII lower case letter of the values compared below, so
  lowering the ASCII letters decides the comparison.
\<close>

definition white_space :: "bytes list" where
  "white_space =
     [[0x09], [0x0A], [0x0B], [0x0C], [0x0D], [0x20], [0xC2, 0x85], [0xC2, 0xA0], [0xE1, 0x9A, 0x80],
      [0xE2, 0x80, 0x80], [0xE2, 0x80, 0x81], [0xE2, 0x80, 0x82], [0xE2, 0x80, 0x83], [0xE2, 0x80, 0x84],
      [0xE2, 0x80, 0x85], [0xE2, 0x80, 0x86], [0xE2, 0x80, 0x87], [0xE2, 0x80, 0x88], [0xE2, 0x80, 0x89],
      [0xE2, 0x80, 0x8A], [0xE2, 0x80, 0xA8], [0xE2, 0x80, 0xA9], [0xE2, 0x80, 0xAF], [0xE2, 0x81, 0x9F],
      [0xE3, 0x80, 0x80]]"

definition space_prefix :: "bytes list \<Rightarrow> bytes \<Rightarrow> nat" where
  "space_prefix seqs v =
     (case filter (\<lambda>w. take (length w) v = w) seqs of [] \<Rightarrow> 0 | w # _ \<Rightarrow> length w)"

function trim_left :: "bytes list \<Rightarrow> bytes \<Rightarrow> bytes" where
  "trim_left seqs v =
     (if v = [] \<or> space_prefix seqs v = 0 then v else trim_left seqs (drop (space_prefix seqs v) v))"
  by auto
termination
  by (relation "measure (\<lambda>(seqs, v). length v)") auto

declare trim_left.simps [simp del]

definition TrimSpace :: "bytes \<Rightarrow> bytes" where
  "TrimSpace v = rev (trim_left (map rev white_space) (rev (trim_left white_space v)))"

definition lower_byte :: "u8 \<Rightarrow> u8" where
  "lower_byte b = (if 0x41 \<le> b \<and> b \<le> 0x5A then b + 0x20 else b)"

definition optionEnabled :: "bytes \<Rightarrow> bool" where
  "optionEnabled value \<longleftrightarrow>
     map lower_byte (TrimSpace value) \<in> {[0x31], [0x74, 0x72, 0x75, 0x65]}"

text \<open>A missing key reads as the empty string.\<close>

definition AllowForeignRootExec :: "WorkloadPolicyRules \<Rightarrow> bool" where
  "AllowForeignRootExec r =
     optionEnabled (case map_of (Options r) OptionAllowForeignRootExec of Some v \<Rightarrow> v | None \<Rightarrow> [])"

section \<open>The policy\<close>

text \<open>The rules are pointers; a null pointer is \<open>None\<close>.\<close>

record WorkloadPolicy =
  wp_Namespace :: string
  wp_Name :: string
  wp_Mode :: string
  RulesByContainer :: "(string \<times> WorkloadPolicyRules option) list"

definition NamespacedName :: "WorkloadPolicy \<Rightarrow> string" where
  "NamespacedName wp = wp_Namespace wp @ ''/'' @ wp_Name wp"

section \<open>Properties\<close>

lemma ParseMode_iff_valid: "ParseMode s \<noteq> None \<longleftrightarrow> IsValid s"
  by (simp add: ParseMode_def IsValid_def)

lemma empty_option_disabled: "\<not> optionEnabled []"
  by (simp add: optionEnabled_def TrimSpace_def trim_left.simps)

end
