(* ===== verification/Resolver.thy ===== *)
theory Resolver
  imports Cgroup_Policy Cgroup_Tracker Workload_Policy
begin

text \<open>
  The resolver of \<^verbatim>\<open>src/internal/resolver\<close>: the cache of pods and containers that the container runtime
  reports, the identifiers of the policies, and the operations that keep the BPF maps in step with
  both. Every exported operation runs under one lock, so operations are functions from a state to a
  state. A Go map that is iterated is an association list in the order of the iteration; a pointer
  into the cache is the entry itself, written back where the source changes it in place.
\<close>

section \<open>The functions the manager provides\<close>

text \<open>
  \<^verbatim>\<open>GetPolicyUpdateBinariesFunc\<close>, \<^verbatim>\<open>GetPolicySettingsUpdateFunc\<close>, \<^verbatim>\<open>GetCgroupPolicyUpdateFunc\<close> and
  \<^verbatim>\<open>GetCgTrackerUpdateFunc\<close>. During a shutdown their errors are ignored. Errors are lists, as joined
  errors are; the empty list is \<^verbatim>\<open>nil\<close>.
\<close>

record Manager =
  agent :: agent_env
  isShuttingDown :: bool

datatype PolicyValuesOperation = AddValuesToPolicy | RemoveValuesFromPolicy | ReplaceValuesInPolicy

datatype PolicySettingsOperation = UpdateSettings | DeleteSettings

definition handleErrOnShutdown :: "Manager \<Rightarrow> go_error list \<Rightarrow> go_error list" where
  "handleErrOnShutdown M err = (if isShuttingDown M then [] else err)"

definition errs :: "go_error option \<Rightarrow> go_error list" where
  "errs e = (case e of None \<Rightarrow> [] | Some x \<Rightarrow> [x])"

definition policyUpdateBinaries ::
  "Manager \<Rightarrow> bpf_state \<Rightarrow> u64 \<Rightarrow> bytes list \<Rightarrow> PolicyValuesOperation \<Rightarrow> go_error list \<times> bpf_state" where
  "policyUpdateBinaries M s policyID values op =
     (let (e, s') =
        (case op of
           AddValuesToPolicy \<Rightarrow> generateBPFMaps (agent M) s policyID values
         | RemoveValuesFromPolicy \<Rightarrow> removeBPFMaps s policyID
         | ReplaceValuesInPolicy \<Rightarrow> replaceBPFMaps (agent M) s policyID values)
      in (handleErrOnShutdown M (errs e), s'))"

definition policySettingsUpdate ::
  "Manager \<Rightarrow> bpf_state \<Rightarrow> u64 \<Rightarrow> u8 \<Rightarrow> bool \<Rightarrow> PolicySettingsOperation \<Rightarrow> go_error list \<times> bpf_state" where
  "policySettingsUpdate M s policyID m allowForeignRoot op =
     (let (e, s') =
        (case op of
           UpdateSettings \<Rightarrow> updatePolicySettings (agent M) s policyID m allowForeignRoot
         | DeleteSettings \<Rightarrow> deletePolicySettings s policyID)
      in (handleErrOnShutdown M (errs e), s'))"

definition cgroupToPolicyMapUpdate ::
  "Manager \<Rightarrow> bpf_state \<Rightarrow> u64 \<Rightarrow> u64 list \<Rightarrow> CgroupPolicyOperation \<Rightarrow> go_error list \<times> bpf_state" where
  "cgroupToPolicyMapUpdate M s polID cgroupIDs op =
     (let (e, s') = UpdateCgroupPolicy (nomem (agent M)) s polID cgroupIDs op
      in (handleErrOnShutdown M e, s'))"

text \<open>
  The tracker update with the walk run to its end: \<open>nested\<close> gives the identifiers the walk reads below
  the path of the container, in its order. An empty path means no walk.
\<close>

definition cgTrackerUpdate ::
  "Manager \<Rightarrow> (string \<Rightarrow> u64 list) \<Rightarrow> bpf_state \<Rightarrow> u64 \<Rightarrow> string \<Rightarrow> go_error list \<times> bpf_state" where
  "cgTrackerUpdate M nested s cgID cgroupPath =
     (let nm = nomem (agent M) in
      case map_update nm (cgtracker_map s) cgID cgID BPF_ANY of
        Inl e \<Rightarrow> (handleErrOnShutdown M [Err_map e], s)
      | Inr m \<Rightarrow>
          ([], s\<lparr>cgtracker_map :=
             (if cgroupPath = [] then m
              else fold (\<lambda>c m. or_same (map_update nm m c cgID BPF_ANY) m) (nested cgroupPath) m)\<rparr>))"

section \<open>State\<close>

record PodMeta =
  pod_ID :: string
  pod_Namespace :: string
  pod_Name :: string
  WorkloadName :: string
  WorkloadType :: string
  Labels :: "(string \<times> string) list"

record ContainerMeta =
  container_ID :: string
  container_Name :: string
  CgroupID :: u64

record ContainerInput =
  ContainerMeta :: ContainerMeta
  CgroupPath :: string

record PodInput =
  input_Meta :: PodMeta
  input_Containers :: "(string \<times> ContainerInput) list"

record podEntry =
  meta :: PodMeta
  containers :: "(string \<times> ContainerMeta) list"

record ContainerView =
  view_Meta :: ContainerMeta
  view_PodMeta :: PodMeta

datatype resolver_error =
    Err_bpf "go_error list"
  | Err_policy_not_found string string
  | Err_container_exists string
  | Err_no_pod u64
  | Err_no_pod_entry string
  | Err_no_container u64
  | Panic_policy_mode_string string
  | Panic_nil_rules string

datatype PolicyState = POLICY_STATE_UNSPECIFIED | POLICY_STATE_READY | POLICY_STATE_ERROR

record PolicyStatus =
  State :: PolicyState
  StatusMode :: PolicyMode
  Message :: "resolver_error option"

type_synonym policyByContainer = "(string \<times> u64) list"

record wpInfo =
  polByContainer :: policyByContainer
  status :: PolicyStatus

record Resolver =
  nriSynchronized :: bool
  podCache :: "(string \<times> podEntry) list"
  cgroupIDToPodID :: "(u64 \<times> string) list"
  nextPolicyID :: u64
  wpState :: "(string \<times> wpInfo) list"

definition NewResolver :: Resolver where
  "NewResolver = \<lparr>nriSynchronized = False, podCache = [], cgroupIDToPodID = [], nextPolicyID = 1, wpState = []\<rparr>"

abbreviation PolicyIDNone :: u64 where "PolicyIDNone \<equiv> 0"

definition PolicyLabelKey :: string where
  "PolicyLabelKey = ''runtimeenforcer.kubewarden.io/policy''"

definition policyName :: "podEntry \<Rightarrow> string" where
  "policyName pod = (case map_of (Labels (meta pod)) PolicyLabelKey of Some v \<Rightarrow> v | None \<Rightarrow> [])"

definition podNamespace :: "podEntry \<Rightarrow> string" where
  "podNamespace pod = pod_Namespace (meta pod)"

definition matchPolicy :: "podEntry \<Rightarrow> string \<Rightarrow> string \<Rightarrow> bool" where
  "matchPolicy pod name namespace \<longleftrightarrow> policyName pod = name \<and> podNamespace pod = namespace"

section \<open>Policies\<close>

definition allocPolicyID :: "Resolver \<Rightarrow> u64 \<times> Resolver" where
  "allocPolicyID r = (nextPolicyID r, r\<lparr>nextPolicyID := nextPolicyID r + 1\<rparr>)"

definition upsertPolicyIDInBPF ::
  "Manager \<Rightarrow> bpf_state \<Rightarrow> u64 \<Rightarrow> bytes list \<Rightarrow> u8 \<Rightarrow> bool \<Rightarrow> PolicyValuesOperation \<Rightarrow>
   go_error list \<times> bpf_state" where
  "upsertPolicyIDInBPF M s policyID allowedBinaries m allowForeignRoot valuesOp =
     (case policyUpdateBinaries M s policyID allowedBinaries valuesOp of
        ([], s') \<Rightarrow> policySettingsUpdate M s' policyID m allowForeignRoot UpdateSettings
      | (err, s') \<Rightarrow> (err, s'))"

definition clearPolicyIDFromBPF :: "Manager \<Rightarrow> bpf_state \<Rightarrow> u64 \<Rightarrow> go_error list \<times> bpf_state" where
  "clearPolicyIDFromBPF M s policyID =
     (case policyUpdateBinaries M s policyID [] RemoveValuesFromPolicy of
        ([], s') \<Rightarrow> policySettingsUpdate M s' policyID 0 False DeleteSettings
      | (err, s') \<Rightarrow> (err, s'))"

fun apply_loop ::
  "Manager \<Rightarrow> bpf_state \<Rightarrow> (string \<times> ContainerMeta) list \<Rightarrow> policyByContainer \<Rightarrow>
   resolver_error option \<times> bpf_state" where
  "apply_loop M s [] applied = (None, s)"
| "apply_loop M s ((_, container) # cs) applied =
     (case map_of applied (container_Name container) of
        None \<Rightarrow> apply_loop M s cs applied
      | Some polID \<Rightarrow>
          (case cgroupToPolicyMapUpdate M s polID [CgroupID container] AddPolicyToCgroups of
             ([], s') \<Rightarrow> apply_loop M s' cs applied
           | (err, s') \<Rightarrow> (Some (Err_bpf err), s')))"

definition applyPolicyToPod ::
  "Manager \<Rightarrow> bpf_state \<Rightarrow> podEntry \<Rightarrow> policyByContainer \<Rightarrow> resolver_error option \<times> bpf_state" where
  "applyPolicyToPod M s state applied = apply_loop M s (containers state) applied"

fun remove_policy_loop ::
  "Manager \<Rightarrow> bpf_state \<Rightarrow> (string \<times> ContainerMeta) list \<Rightarrow> policyByContainer \<Rightarrow> policyByContainer \<Rightarrow>
   resolver_error option \<times> policyByContainer \<times> bpf_state" where
  "remove_policy_loop M s [] wps removed = (None, wps, s)"
| "remove_policy_loop M s ((_, container) # cs) wps removed =
     (case map_of removed (container_Name container) of
        None \<Rightarrow> remove_policy_loop M s cs wps removed
      | Some policyID \<Rightarrow>
          (case cgroupToPolicyMapUpdate M s PolicyIDNone [CgroupID container] RemoveCgroups of
             ([], s1) \<Rightarrow>
               (case clearPolicyIDFromBPF M s1 policyID of
                  ([], s2) \<Rightarrow>
                    remove_policy_loop M s2 cs (AList.delete (container_Name container) wps) removed
                | (err, s2) \<Rightarrow> (Some (Err_bpf err), wps, s2))
           | (err, s1) \<Rightarrow> (Some (Err_bpf err), wps, s1)))"

definition removePolicyFromPod ::
  "Manager \<Rightarrow> bpf_state \<Rightarrow> podEntry \<Rightarrow> policyByContainer \<Rightarrow> policyByContainer \<Rightarrow>
   resolver_error option \<times> policyByContainer \<times> bpf_state" where
  "removePolicyFromPod M s pod wps removed = remove_policy_loop M s (containers pod) wps removed"

definition applyPolicyToPodIfPresent ::
  "Manager \<Rightarrow> Resolver \<Rightarrow> bpf_state \<Rightarrow> podEntry \<Rightarrow> resolver_error option \<times> bpf_state" where
  "applyPolicyToPodIfPresent M r s state =
     (let name = policyName state in
      if name = [] then (None, s)
      else
        (case map_of (wpState r) (podNamespace state @ ''/'' @ name) of
           None \<Rightarrow> (Some (Err_policy_not_found (podNamespace state) name), s)
         | Some info \<Rightarrow> applyPolicyToPod M s state (polByContainer info)))"

text \<open>
  The loop of \<^verbatim>\<open>syncWorkloadPolicy\<close> over the containers of the specification. The identifiers of new
  containers are collected; those the workload had are only read.
\<close>

fun sync_loop ::
  "Manager \<Rightarrow> Resolver \<Rightarrow> bpf_state \<Rightarrow> u8 \<Rightarrow> policyByContainer \<Rightarrow> policyByContainer \<Rightarrow>
   (string \<times> WorkloadPolicyRules option) list \<Rightarrow>
   (resolver_error + policyByContainer) \<times> Resolver \<times> bpf_state" where
  "sync_loop M r s m pol newContainers [] = (Inr newContainers, r, s)"
| "sync_loop M r s m pol newContainers ((containerName, containerRules) # rules) =
     (let (polID, r', newContainers', op) =
        (case map_of pol containerName of
           Some polID \<Rightarrow> (polID, r, newContainers, ReplaceValuesInPolicy)
         | None \<Rightarrow>
             (let (polID, r') = allocPolicyID r
              in (polID, r', AList.update containerName polID newContainers, AddValuesToPolicy)))
      in case containerRules of
           None \<Rightarrow> (Inl (Panic_nil_rules containerName), r', s)
         | Some cr \<Rightarrow>
             (case upsertPolicyIDInBPF M s polID (Allowed cr) m (AllowForeignRootExec cr) op of
                ([], s') \<Rightarrow> sync_loop M r' s' m pol newContainers' rules
              | (err, s') \<Rightarrow> (Inl (Err_bpf err), r', s')))"

definition syncWorkloadPolicy ::
  "Manager \<Rightarrow> Resolver \<Rightarrow> bpf_state \<Rightarrow> WorkloadPolicy \<Rightarrow> policyByContainer \<Rightarrow>
   (resolver_error + policyByContainer) \<times> Resolver \<times> bpf_state" where
  "syncWorkloadPolicy M r s wp pol =
     (case ParseMode (wp_Mode wp) of
        None \<Rightarrow> (Inl (Panic_policy_mode_string (wp_Mode wp)), r, s)
      | Some m \<Rightarrow> sync_loop M r s m pol [] (RulesByContainer wp))"

text \<open>The loop of \<^verbatim>\<open>ReconcileWP\<close> over the cached pods.\<close>

fun pods_loop ::
  "Manager \<Rightarrow> bpf_state \<Rightarrow> WorkloadPolicy \<Rightarrow> policyByContainer \<Rightarrow> policyByContainer \<Rightarrow> policyByContainer \<Rightarrow>
   (string \<times> podEntry) list \<Rightarrow> resolver_error option \<times> policyByContainer \<times> bpf_state" where
  "pods_loop M s wp pol applied removed [] = (None, pol, s)"
| "pods_loop M s wp pol applied removed ((_, pod) # pods) =
     (if \<not> matchPolicy pod (wp_Name wp) (wp_Namespace wp)
      then pods_loop M s wp pol applied removed pods
      else
        (case removePolicyFromPod M s pod pol removed of
           (Some err, pol', s1) \<Rightarrow> (Some err, pol', s1)
         | (None, pol', s1) \<Rightarrow>
             (case applyPolicyToPod M s1 pod applied of
                (Some err, s2) \<Rightarrow> (Some err, pol', s2)
              | (None, s2) \<Rightarrow> pods_loop M s2 wp pol' applied removed pods)))"

definition set_info :: "Resolver \<Rightarrow> string \<Rightarrow> policyByContainer \<Rightarrow> PolicyStatus \<Rightarrow> Resolver" where
  "set_info r key pol st = r\<lparr>wpState := AList.update key \<lparr>polByContainer = pol, status = st\<rparr> (wpState r)\<rparr>"

definition is_panic :: "resolver_error \<Rightarrow> bool" where
  "is_panic e \<longleftrightarrow> (case e of Panic_policy_mode_string _ \<Rightarrow> True | Panic_nil_rules _ \<Rightarrow> True | _ \<Rightarrow> False)"

definition ReconcileWP ::
  "Manager \<Rightarrow> Resolver \<Rightarrow> bpf_state \<Rightarrow> WorkloadPolicy \<Rightarrow> resolver_error option \<times> Resolver \<times> bpf_state" where
  "ReconcileWP M r s wp =
     (let pm = ParsePolicyModeToProto (wp_Mode wp);
          wpKey = NamespacedName wp;
          info = (case map_of (wpState r) wpKey of
                    Some i \<Rightarrow> i
                  | None \<Rightarrow> \<lparr>polByContainer = [], status =
                      \<lparr>State = POLICY_STATE_UNSPECIFIED, StatusMode = PolicyMode_UNSPECIFIED, Message = None\<rparr>\<rparr>);
          failed = (\<lambda>e. \<lparr>State = POLICY_STATE_ERROR, StatusMode = pm, Message = Some e\<rparr>);
          r0 = set_info r wpKey (polByContainer info) (status info)
      in case syncWorkloadPolicy M r0 s wp (polByContainer info) of
           (Inl err, r1, s1) \<Rightarrow>
             (Some err, (if is_panic err then r1 else set_info r1 wpKey (polByContainer info) (failed err)), s1)
         | (Inr newContainers, r1, s1) \<Rightarrow>
             (let pol = fold (\<lambda>(c, i) m. AList.update c i m) newContainers (polByContainer info);
                  applied = filter (\<lambda>(c, i). map_of (RulesByContainer wp) c \<noteq> None) pol;
                  removed = filter (\<lambda>(c, i). map_of (RulesByContainer wp) c = None) pol
              in case pods_loop M s1 wp pol applied removed (podCache r1) of
                   (Some err, pol', s2) \<Rightarrow> (Some err, set_info r1 wpKey pol' (failed err), s2)
                 | (None, pol', s2) \<Rightarrow>
                     (None, set_info r1 wpKey pol'
                        \<lparr>State = POLICY_STATE_READY, StatusMode = pm, Message = None\<rparr>, s2)))"

fun delete_loop ::
  "Manager \<Rightarrow> bpf_state \<Rightarrow> policyByContainer \<Rightarrow> resolver_error option \<times> bpf_state" where
  "delete_loop M s [] = (None, s)"
| "delete_loop M s ((_, policyID) # pol) =
     (case cgroupToPolicyMapUpdate M s policyID [] RemovePolicy of
        ([], s1) \<Rightarrow>
          (case clearPolicyIDFromBPF M s1 policyID of
             ([], s2) \<Rightarrow> delete_loop M s2 pol
           | (err, s2) \<Rightarrow> (Some (Err_bpf err), s2))
      | (err, s1) \<Rightarrow> (Some (Err_bpf err), s1))"

definition HandleWPDelete ::
  "Manager \<Rightarrow> Resolver \<Rightarrow> bpf_state \<Rightarrow> WorkloadPolicy \<Rightarrow> resolver_error option \<times> Resolver \<times> bpf_state" where
  "HandleWPDelete M r s wp =
     (let wpKey = NamespacedName wp in
      case map_of (wpState r) wpKey of
        None \<Rightarrow> (None, r, s)
      | Some info \<Rightarrow>
          (let r' = r\<lparr>wpState := AList.delete wpKey (wpState r)\<rparr>;
               (e, s') = delete_loop M s (polByContainer info)
           in (e, r', s')))"

definition GetPolicyStatuses :: "Resolver \<Rightarrow> (string \<times> PolicyStatus) list" where
  "GetPolicyStatuses r = map (\<lambda>(k, v). (k, status v)) (wpState r)"

section \<open>Pods and containers\<close>

fun containers_loop ::
  "Manager \<Rightarrow> (string \<Rightarrow> u64 list) \<Rightarrow> string \<Rightarrow> podEntry \<Rightarrow> (u64 \<times> string) list \<Rightarrow> bpf_state \<Rightarrow>
   (string \<times> ContainerInput) list \<Rightarrow>
   resolver_error option \<times> podEntry \<times> (u64 \<times> string) list \<times> bpf_state" where
  "containers_loop M nested podID state cgs s [] = (None, state, cgs, s)"
| "containers_loop M nested podID state cgs s ((containerID, container) # cs) =
     (let cm = ContainerMeta container in
      case map_of (containers state) containerID of
        Some info \<Rightarrow>
          if CgroupID info = CgroupID cm \<and> container_Name info = container_Name cm
          then containers_loop M nested podID state cgs s cs
          else (Some (Err_container_exists containerID), state, cgs, s)
      | None \<Rightarrow>
          (let state' = state\<lparr>containers := AList.update containerID cm (containers state)\<rparr>;
               cgs' = AList.update (CgroupID cm) podID cgs
           in case cgTrackerUpdate M nested s (CgroupID cm) (CgroupPath container) of
                ([], s') \<Rightarrow> containers_loop M nested podID state' cgs' s' cs
              | (err, s') \<Rightarrow> (Some (Err_bpf err), state', cgs', s')))"

definition AddPodContainerFromNri ::
  "Manager \<Rightarrow> (string \<Rightarrow> u64 list) \<Rightarrow> Resolver \<Rightarrow> bpf_state \<Rightarrow> PodInput \<Rightarrow>
   resolver_error option \<times> Resolver \<times> bpf_state" where
  "AddPodContainerFromNri M nested r s pod =
     (let podID = pod_ID (input_Meta pod);
          cached = map_of (podCache r) podID;
          state = (case cached of Some st \<Rightarrow> st | None \<Rightarrow> \<lparr>meta = input_Meta pod, containers = []\<rparr>)
      in case containers_loop M nested podID state (cgroupIDToPodID r) s (input_Containers pod) of
           (Some err, state', cgs, s') \<Rightarrow>
             (Some err, r\<lparr>cgroupIDToPodID := cgs, podCache :=
                (if cached = None then podCache r else AList.update podID state' (podCache r))\<rparr>, s')
         | (None, state', cgs, s') \<Rightarrow>
             (let r' = r\<lparr>cgroupIDToPodID := cgs, podCache := AList.update podID state' (podCache r)\<rparr>;
                  (e, s'') = applyPolicyToPodIfPresent M r' s' state'
              in (e, r', s'')))"

definition RemovePodContainerFromNri ::
  "Manager \<Rightarrow> Resolver \<Rightarrow> bpf_state \<Rightarrow> string \<Rightarrow> string \<Rightarrow> go_error list \<times> Resolver \<times> bpf_state" where
  "RemovePodContainerFromNri M r s podID containerID =
     (case map_of (podCache r) podID of
        None \<Rightarrow> ([], r, s)
      | Some state \<Rightarrow>
          (case map_of (containers state) containerID of
             None \<Rightarrow> ([], r, s)
           | Some container \<Rightarrow>
               (let cache =
                  (if length (containers state) = 1 then AList.delete podID (podCache r)
                   else AList.update podID
                     (state\<lparr>containers := AList.delete containerID (containers state)\<rparr>) (podCache r));
                    r' = r\<lparr>podCache := cache,
                      cgroupIDToPodID := AList.delete (CgroupID container) (cgroupIDToPodID r)\<rparr>;
                    (e, s') = cgroupToPolicyMapUpdate M s PolicyIDNone [CgroupID container] RemoveCgroups
                in (e, r', s'))))"

definition GetContainerView :: "Resolver \<Rightarrow> u64 \<Rightarrow> resolver_error + ContainerView" where
  "GetContainerView r cgID =
     (case map_of (cgroupIDToPodID r) cgID of
        None \<Rightarrow> Inl (Err_no_pod cgID)
      | Some podID \<Rightarrow>
          (case map_of (podCache r) podID of
             None \<Rightarrow> Inl (Err_no_pod_entry podID)
           | Some pod \<Rightarrow>
               (case filter (\<lambda>(i, m). cgID = CgroupID m) (containers pod) of
                  [] \<Rightarrow> Inl (Err_no_container cgID)
                | (containerID, m) # _ \<Rightarrow>
                    Inr \<lparr>view_Meta = \<lparr>container_ID = containerID, container_Name = container_Name m,
                           CgroupID = cgID\<rparr>,
                         view_PodMeta = meta pod\<rparr>)))"

text \<open>The snapshot of the cache for debugging copies every entry.\<close>

record PodView =
  PodView_Meta :: PodMeta
  PodView_Containers :: "(string \<times> ContainerMeta) list"

definition toView :: "podEntry \<Rightarrow> PodView" where
  "toView pod = \<lparr>PodView_Meta = meta pod, PodView_Containers = containers pod\<rparr>"

definition PodCacheSnapshot :: "Resolver \<Rightarrow> (string \<times> PodView) list" where
  "PodCacheSnapshot r = map (\<lambda>(podID, entry). (podID, toView entry)) (podCache r)"

text \<open>The readiness of the agent.\<close>

definition NRISynchronized :: "Resolver \<Rightarrow> Resolver" where
  "NRISynchronized r = r\<lparr>nriSynchronized := True\<rparr>"

definition IsNRISynchronized :: "Resolver \<Rightarrow> bool" where
  "IsNRISynchronized r = nriSynchronized r"

definition Ping :: "Resolver \<Rightarrow> string option" where
  "Ping r = (if nriSynchronized r then None else Some ''waiting for NRI synchronization to complete'')"

end
