(* ===== verification/Resolver_Maps.thy ===== *)
theory Resolver_Maps
  imports Resolver
begin

text \<open>
  What the operations of the resolver do to the BPF maps: the effect of every call of the manager, the
  loops over containers, pods and rules, and the parts of the state each of them leaves alone. The
  lemmas hold for failing calls too where they do not say otherwise.
\<close>

section \<open>Frames\<close>

text \<open>What the programs own of the state: no operation below changes it.\<close>

definition programs_view where
  "programs_view s = (cgtracker_map s, process_evt_storage_map s, ringbuf_logs s, ringbuf_monitoring s,
     ringbuf_execve s, trace_pipe s)"

text \<open>Only the values and settings of the policies in \<open>P\<close> may have changed.\<close>

definition pol_frame :: "bpf_state \<Rightarrow> bpf_state \<Rightarrow> u64 set \<Rightarrow> bool" where
  "pol_frame s s' P \<longleftrightarrow> agent_inv s' \<and> programs_view s' = programs_view s \<and>
     cg_to_policy_map s' = cg_to_policy_map s \<and>
     (\<forall>q. q \<notin> P \<longrightarrow> (\<forall>j. outer_entry s' j q = outer_entry s j q) \<and>
       map_lookup (policy_settings_map s') q = map_lookup (policy_settings_map s) q)"

lemma pol_frame_refl: "agent_inv s \<Longrightarrow> pol_frame s s P"
  by (simp add: pol_frame_def)

lemma pol_frame_trans: "pol_frame s s1 P \<Longrightarrow> pol_frame s1 s2 Q \<Longrightarrow> pol_frame s s2 (P \<union> Q)"
  by (simp add: pol_frame_def)

lemma pol_frame_mono: "pol_frame s s' P \<Longrightarrow> P \<subseteq> Q \<Longrightarrow> pol_frame s s' Q"
  by (auto simp: pol_frame_def)

lemma pol_frame_inv: "pol_frame s s' P \<Longrightarrow> agent_inv s'"
  by (simp add: pol_frame_def)

lemma touches_frame:
  assumes "agent_inv s" and "touches s s' p"
  shows "pol_frame s s' {p}"
proof -
  obtain f where f: "s' = s\<lparr>pol_str_maps := f\<rparr>" using assms(2) by (auto simp: touches_def)
  show ?thesis
    using assms unfolding pol_frame_def agent_inv_def touches_def
    by (simp add: f programs_view_def)
qed

lemma settings_frame:
  assumes "agent_inv s" and "s' = s\<lparr>policy_settings_map := f\<rparr>" and "hash_inv f"
    and "\<And>q. q \<noteq> p \<Longrightarrow> map_lookup f q = map_lookup (policy_settings_map s) q"
  shows "pol_frame s s' {p}"
  using assms
  by (simp add: pol_frame_def agent_inv_def programs_view_def outer_inv_def string_maps_wf_def outer_entry_def)

section \<open>The calls of the manager\<close>

lemma errs_simps [simp]: "errs None = []" "errs (Some x) = [x]" "errs e = [] \<longleftrightarrow> e = None"
  by (auto simp: errs_def split: option.splits)

lemma binaries_frame:
  assumes "agent_inv s" and "policyUpdateBinaries M s p vs op = (e, s')"
  shows "pol_frame s s' {p}"
proof -
  have o: "outer_inv s" using assms(1) by (simp add: agent_inv_def)
  have "touches s s' p"
    using assms(2) values_touches [OF o, of "agent M" p vs] removeBPFMaps_effect [OF o, of p]
    by (cases op) (auto simp: policyUpdateBinaries_def split: prod.splits)
  then show ?thesis by (rule touches_frame [OF assms(1)])
qed

lemma settings_update_frame:
  assumes "agent_inv s" and "policySettingsUpdate M s p m fr op = (e, s')"
  shows "pol_frame s s' {p}"
proof -
  have h: "hash_inv (policy_settings_map s)" using assms(1) by (simp add: agent_inv_def)
  show ?thesis
  proof (cases op)
    case UpdateSettings
    obtain x where x: "updatePolicySettings (agent M) s p m fr = (x, s')"
      using assms(2) UpdateSettings by (auto simp: policySettingsUpdate_def split: prod.splits)
    show ?thesis
    proof (cases x)
      case None
      then obtain f where "s' = s\<lparr>policy_settings_map := f\<rparr>" "hash_inv f"
        "map_lookup f = (map_lookup (policy_settings_map s))(p \<mapsto>
          \<lparr>settings_mode = m, allow_foreign_root = (if fr then 1 else 0)\<rparr>)"
        using updatePolicySettings_effect [OF h] x by blast
      then show ?thesis using settings_frame [OF assms(1)] by simp
    next
      case (Some y)
      then have "s' = s" using x by (auto simp: updatePolicySettings_def split: sum.splits)
      then show ?thesis using pol_frame_refl [OF assms(1)] by simp
    qed
  next
    case DeleteSettings
    obtain f where f: "deletePolicySettings s p = (None, s\<lparr>policy_settings_map := f\<rparr>)" "hash_inv f"
      "map_lookup f = (map_lookup (policy_settings_map s))(p := None)"
      using deletePolicySettings_effect [OF h] by blast
    then have "s' = s\<lparr>policy_settings_map := f\<rparr>"
      using assms(2) DeleteSettings by (simp add: policySettingsUpdate_def)
    then show ?thesis using settings_frame [OF assms(1)] f by simp
  qed
qed

lemma upsert_frame:
  assumes "agent_inv s" and "upsertPolicyIDInBPF M s p vs m fr op = (e, s')"
  shows "pol_frame s s' {p}"
proof -
  obtain e1 s1 where b: "policyUpdateBinaries M s p vs op = (e1, s1)" by fastforce
  have f1: "pol_frame s s1 {p}" by (rule binaries_frame [OF assms(1) b])
  show ?thesis
  proof (cases "e1 = []")
    case True
    then have "policySettingsUpdate M s1 p m fr UpdateSettings = (e, s')"
      using assms(2) b by (simp add: upsertPolicyIDInBPF_def)
    then have "pol_frame s1 s' {p}" by (rule settings_update_frame [OF pol_frame_inv [OF f1]])
    from pol_frame_trans [OF f1 this] show ?thesis by simp
  next
    case False
    then have "s' = s1" using assms(2) b by (cases e1) (simp_all add: upsertPolicyIDInBPF_def)
    then show ?thesis using f1 by simp
  qed
qed

text \<open>A policy that is installed with the given rules and mode.\<close>

definition installed :: "bpf_state \<Rightarrow> u64 \<Rightarrow> WorkloadPolicyRules \<Rightarrow> u8 \<Rightarrow> bool" where
  "installed s p cr m \<longleftrightarrow> policy_holds s p (set (Allowed cr)) \<and> (\<forall>v\<in>set (Allowed cr). table_length (length v)) \<and>
     map_lookup (policy_settings_map s) p =
       Some \<lparr>settings_mode = m, allow_foreign_root = (if AllowForeignRootExec cr then 1 else 0)\<rparr>"

lemma policy_holds_cong: "(\<And>j. outer_entry s' j p = outer_entry s j p) \<Longrightarrow> policy_holds s' p V = policy_holds s p V"
  by (simp add: policy_holds_def)

lemma installed_frame: "pol_frame s s' P \<Longrightarrow> p \<notin> P \<Longrightarrow> installed s p cr m \<Longrightarrow> installed s' p cr m"
  using policy_holds_cong [of s' p s] by (simp add: installed_def pol_frame_def)

lemma upsert_installs:
  assumes inv: "agent_inv s" and M: "\<not> isShuttingDown M" and op: "op \<noteq> RemoveValuesFromPolicy"
    and fresh: "op = AddValuesToPolicy \<Longrightarrow> \<forall>j. outer_entry s j p = None"
    and u: "upsertPolicyIDInBPF M s p (Allowed cr) m (AllowForeignRootExec cr) op = ([], s')"
  shows "installed s' p cr m"
proof -
  have o: "outer_inv s" using inv by (simp add: agent_inv_def)
  obtain e1 s1 where b: "policyUpdateBinaries M s p (Allowed cr) op = (e1, s1)" by fastforce
  have e1: "e1 = []" using u b by (cases e1) (simp_all add: upsertPolicyIDInBPF_def)
  have f1: "pol_frame s s1 {p}" by (rule binaries_frame [OF inv b])
  have "policy_holds s1 p (set (Allowed cr)) \<and> (\<forall>v\<in>set (Allowed cr). value_ok (curr_kernel_version (agent M)) v)"
  proof (cases op)
    case AddValuesToPolicy
    then have "generateBPFMaps (agent M) s p (Allowed cr) = (None, s1)"
      using b e1 M by (auto simp: policyUpdateBinaries_def handleErrOnShutdown_def split: prod.splits)
    then show ?thesis using generateBPFMaps_holds(1,2) [OF o fresh [OF AddValuesToPolicy]] by blast
  next
    case ReplaceValuesInPolicy
    then have "replaceBPFMaps (agent M) s p (Allowed cr) = (None, s1)"
      using b e1 M by (auto simp: policyUpdateBinaries_def handleErrOnShutdown_def split: prod.splits)
    then show ?thesis using replaceBPFMaps_holds(1,2) [OF o] by blast
  qed (use op in simp)
  then have h1: "policy_holds s1 p (set (Allowed cr))" "\<forall>v\<in>set (Allowed cr). table_length (length v)"
    using value_ok_table_length by blast+
  have su: "policySettingsUpdate M s1 p m (AllowForeignRootExec cr) UpdateSettings = ([], s')"
    using u b e1 by (simp add: upsertPolicyIDInBPF_def)
  then have "updatePolicySettings (agent M) s1 p m (AllowForeignRootExec cr) = (None, s')"
    using M by (auto simp: policySettingsUpdate_def handleErrOnShutdown_def split: prod.splits)
  moreover have "hash_inv (policy_settings_map s1)" using pol_frame_inv [OF f1] by (simp add: agent_inv_def)
  ultimately obtain f where f: "s' = s1\<lparr>policy_settings_map := f\<rparr>"
    "map_lookup f = (map_lookup (policy_settings_map s1))(p \<mapsto>
      \<lparr>settings_mode = m, allow_foreign_root = (if AllowForeignRootExec cr then 1 else 0)\<rparr>)"
    using updatePolicySettings_effect by blast
  have "policy_holds s' p (set (Allowed cr))"
    using h1(1) policy_holds_cong [of s' p s1] f(1) by (simp add: outer_entry_def)
  then show ?thesis using h1(2) f by (simp add: installed_def)
qed

lemma clear_effect:
  assumes inv: "agent_inv s"
  shows "\<exists>s'. clearPolicyIDFromBPF M s p = ([], s') \<and> pol_frame s s' {p} \<and>
    (\<forall>j<11. outer_entry s' j p = None) \<and> map_lookup (policy_settings_map s') p = None"
proof -
  have o: "outer_inv s" using inv by (simp add: agent_inv_def)
  obtain s1 where s1: "removeBPFMaps s p = (None, s1)" "touches s s1 p" "\<forall>j<11. outer_entry s1 j p = None"
    using removeBPFMaps_effect [OF o] by blast
  have f1: "pol_frame s s1 {p}" by (rule touches_frame [OF inv s1(2)])
  have h: "hash_inv (policy_settings_map s1)" using pol_frame_inv [OF f1] by (simp add: agent_inv_def)
  obtain f where f: "deletePolicySettings s1 p = (None, s1\<lparr>policy_settings_map := f\<rparr>)" "hash_inv f"
    "map_lookup f = (map_lookup (policy_settings_map s1))(p := None)"
    using deletePolicySettings_effect [OF h] by blast
  have f2: "pol_frame s1 (s1\<lparr>policy_settings_map := f\<rparr>) {p}"
    using settings_frame [OF pol_frame_inv [OF f1] refl f(2)] f(3) by simp
  have "clearPolicyIDFromBPF M s p = ([], s1\<lparr>policy_settings_map := f\<rparr>)"
    using s1(1) f(1)
    by (simp add: clearPolicyIDFromBPF_def policyUpdateBinaries_def policySettingsUpdate_def handleErrOnShutdown_def)
  then show ?thesis
    using pol_frame_trans [OF f1 f2] s1(3) f(3) by (simp add: outer_entry_def)
qed

section \<open>The map from cgroups to policies\<close>

text \<open>Only this map has changed.\<close>

definition cg_frame :: "bpf_state \<Rightarrow> bpf_state \<Rightarrow> bool" where
  "cg_frame s s' \<longleftrightarrow> (\<exists>m. s' = s\<lparr>cg_to_policy_map := m\<rparr> \<and> hash_inv m)"

abbreviation cg_policy :: "bpf_state \<Rightarrow> u64 \<Rightarrow> u64 option" where
  "cg_policy s \<equiv> map_lookup (cg_to_policy_map s)"

lemma cg_frame_inv: "agent_inv s \<Longrightarrow> cg_frame s s' \<Longrightarrow> agent_inv s'"
  by (auto simp: cg_frame_def agent_inv_def outer_inv_def string_maps_wf_def)

lemma cg_frame_trans: "cg_frame s s1 \<Longrightarrow> cg_frame s1 s2 \<Longrightarrow> cg_frame s s2"
  by (auto simp: cg_frame_def)

lemma cg_frame_refl: "agent_inv s \<Longrightarrow> cg_frame s s"
  by (auto simp: cg_frame_def agent_inv_def intro: exI [of _ "cg_to_policy_map s"])

lemma cg_frame_simps:
  assumes "cg_frame s s'"
  shows "programs_view s' = programs_view s" and "policy_settings_map s' = policy_settings_map s"
    and "outer_entry s' = outer_entry s" and "installed s' = installed s"
proof -
  obtain m where s': "s' = s\<lparr>cg_to_policy_map := m\<rparr>" using assms by (auto simp: cg_frame_def)
  show "programs_view s' = programs_view s" "policy_settings_map s' = policy_settings_map s"
    by (simp_all add: s' programs_view_def)
  show o: "outer_entry s' = outer_entry s" by (simp add: s' fun_eq_iff outer_entry_def)
  show "installed s' = installed s" by (simp add: fun_eq_iff installed_def policy_holds_def o) (simp add: s')
qed

lemma cg_add:
  assumes "agent_inv s" and "cgroupToPolicyMapUpdate M s p [c] AddPolicyToCgroups = (e, s')"
  shows "cg_frame s s' \<and> (\<forall>d. cg_policy s' d = cg_policy s d \<or> cg_policy s d = None \<and> d = c \<and> cg_policy s' d = Some p) \<and>
    (e = [] \<and> \<not> isShuttingDown M \<longrightarrow> cg_policy s' c = Some p)"
proof -
  have h: "hash_inv (cg_to_policy_map s)" using assms(1) by (simp add: agent_inv_def)
  obtain x m where x: "addPolicyToCgroups (nomem (agent M)) (cg_to_policy_map s) p [c] = (x, m)" by fastforce
  then have s': "s' = s\<lparr>cg_to_policy_map := m\<rparr>" and e: "e = handleErrOnShutdown M (errs x)"
    using assms(2) by (auto simp: cgroupToPolicyMapUpdate_def UpdateCgroupPolicy_def errs_def)
  show ?thesis
  proof (cases "p = 0")
    case True
    then have "m = cg_to_policy_map s" "x \<noteq> None" using x by (auto simp: addPolicyToCgroups_def)
    moreover from this have "s' = s" using s' by simp
    ultimately show ?thesis using cg_frame_refl [OF assms(1)] e by (auto simp: handleErrOnShutdown_def)
  next
    case False
    then have l: "add_loop (nomem (agent M)) (cg_to_policy_map s) p [c] = (x, m)"
      using x by (simp add: addPolicyToCgroups_def)
    have "x = None \<Longrightarrow> map_lookup m c = Some p" using add_loop_success [OF h, of _ p "[c]" m c] l by simp
    then show ?thesis
      using add_loop_keeps [OF h l] s' e by (auto simp: cg_frame_def handleErrOnShutdown_def)
  qed
qed

lemma cg_remove:
  assumes "agent_inv s"
  shows "\<exists>s'. cgroupToPolicyMapUpdate M s 0 [c] RemoveCgroups = ([], s') \<and> cg_frame s s' \<and>
    (\<forall>d. cg_policy s' d = (if d = c then None else cg_policy s d))"
proof -
  have h: "hash_inv (cg_to_policy_map s)" using assms by (simp add: agent_inv_def)
  obtain m where m: "remove_cgroups_loop (cg_to_policy_map s) [c] = ([], m)" "hash_inv m"
    "\<forall>d. map_lookup m d = (if d \<in> set [c] then None else cg_policy s d)"
    using remove_cgroups_loop_effect [OF h, of "[c]"] by blast
  then have "cgroupToPolicyMapUpdate M s 0 [c] RemoveCgroups = ([], s\<lparr>cg_to_policy_map := m\<rparr>)"
    by (simp add: cgroupToPolicyMapUpdate_def UpdateCgroupPolicy_def removeCgroups_def handleErrOnShutdown_def
        del: remove_cgroups_loop.simps)
  then show ?thesis using m by (auto simp: cg_frame_def)
qed

lemma cg_remove_policy:
  assumes "agent_inv s" and "p \<noteq> 0"
  shows "\<exists>s'. cgroupToPolicyMapUpdate M s p [] RemovePolicy = ([], s') \<and> cg_frame s s' \<and>
    (\<forall>d. cg_policy s' d = (if cg_policy s d = Some p then None else cg_policy s d))"
proof -
  have h: "hash_inv (cg_to_policy_map s)" using assms by (simp add: agent_inv_def)
  obtain m where m: "removePolicyFromCgroups (cg_to_policy_map s) p = (None, m)" "hash_inv m"
    "\<forall>d. map_lookup m d = (if cg_policy s d = Some p then None else cg_policy s d)"
    using removePolicyFromCgroups_effect [OF h assms(2)] by blast
  then have "cgroupToPolicyMapUpdate M s p [] RemovePolicy = ([], s\<lparr>cg_to_policy_map := m\<rparr>)"
    by (simp add: cgroupToPolicyMapUpdate_def UpdateCgroupPolicy_def handleErrOnShutdown_def)
  then show ?thesis using m by (auto simp: cg_frame_def)
qed

section \<open>The loops over containers\<close>

text \<open>The container of cgroup \<open>d\<close> has the policy \<open>p\<close> in \<open>applied\<close>.\<close>

definition wants :: "(string \<times> ContainerMeta) list \<Rightarrow> policyByContainer \<Rightarrow> u64 \<Rightarrow> u64 \<Rightarrow> bool" where
  "wants cs applied d p \<longleftrightarrow> (\<exists>ct\<in>snd ` set cs. CgroupID ct = d \<and> map_of applied (container_Name ct) = Some p)"

text \<open>A cgroup keeps its policy, or it had none and gets one that a container of it wants.\<close>

definition gains :: "(u64 \<Rightarrow> u64 \<Rightarrow> bool) \<Rightarrow> bpf_state \<Rightarrow> bpf_state \<Rightarrow> bool" where
  "gains W s s' \<longleftrightarrow> (\<forall>d. cg_policy s' d = cg_policy s d \<or> cg_policy s d = None \<and> (\<exists>p. W d p \<and> cg_policy s' d = Some p))"

lemma gains_trans: "gains W s s1 \<Longrightarrow> gains W s1 s2 \<Longrightarrow> gains W s s2"
  unfolding gains_def by metis

lemma gains_mono: "gains W s s' \<Longrightarrow> (\<And>d p. W d p \<Longrightarrow> V d p) \<Longrightarrow> gains V s s'"
  unfolding gains_def by metis

lemma gains_keeps: "gains W s s' \<Longrightarrow> cg_policy s d = Some p \<Longrightarrow> cg_policy s' d = Some p"
  unfolding gains_def by (metis option.distinct(1))

lemma apply_loop_effect:
  "agent_inv s \<Longrightarrow> apply_loop M s cs applied = (e, s') \<Longrightarrow> cg_frame s s' \<and> gains (wants cs applied) s s'"
proof (induction cs arbitrary: s)
  case Nil
  then show ?case by (simp add: cg_frame_refl gains_def)
next
  case (Cons c cs)
  obtain i ct where c: "c = (i, ct)" by (cases c)
  have up: "gains (wants (c # cs) applied) a b" if "gains (wants cs applied) a b" for a b
    using that by (rule gains_mono) (auto simp: wants_def)
  show ?case
  proof (cases "map_of applied (container_Name ct)")
    case None
    then show ?thesis using Cons.IH [OF Cons.prems(1)] Cons.prems(2) c up by simp
  next
    case (Some p)
    obtain e1 s1 where s1: "cgroupToPolicyMapUpdate M s p [CgroupID ct] AddPolicyToCgroups = (e1, s1)" by fastforce
    have f1: "cg_frame s s1" using cg_add [OF Cons.prems(1) s1] by blast
    have "wants (c # cs) applied (CgroupID ct) p" using c Some by (simp add: wants_def)
    then have g1: "gains (wants (c # cs) applied) s s1"
      using cg_add [OF Cons.prems(1) s1] unfolding gains_def by blast
    show ?thesis
    proof (cases "e1 = []")
      case True
      then have "apply_loop M s1 cs applied = (e, s')" using Cons.prems(2) c Some s1 by simp
      note ih = Cons.IH [OF cg_frame_inv [OF Cons.prems(1) f1] this]
      show ?thesis
        using cg_frame_trans [OF f1] gains_trans [OF g1] up ih by blast
    next
      case False
      then have "s' = s1" using Cons.prems(2) c Some s1 by (cases e1) simp_all
      then show ?thesis using f1 g1 by simp
    qed
  qed
qed

lemma apply_loop_success:
  "agent_inv s \<Longrightarrow> \<not> isShuttingDown M \<Longrightarrow> apply_loop M s cs applied = (None, s') \<Longrightarrow>
    ct \<in> snd ` set cs \<Longrightarrow> map_of applied (container_Name ct) = Some p \<Longrightarrow> cg_policy s' (CgroupID ct) = Some p"
proof (induction cs arbitrary: s)
  case (Cons c cs)
  obtain i x where c: "c = (i, x)" by (cases c)
  show ?case
  proof (cases "map_of applied (container_Name x)")
    case None
    then show ?thesis using Cons c by auto
  next
    case (Some q)
    obtain e1 s1 where s1: "cgroupToPolicyMapUpdate M s q [CgroupID x] AddPolicyToCgroups = (e1, s1)" by fastforce
    have e1: "e1 = []" using Cons.prems(3) c Some s1 by (cases e1) simp_all
    note a = cg_add [OF Cons.prems(1) s1]
    have rest: "apply_loop M s1 cs applied = (None, s')" using Cons.prems(3) c Some s1 e1 by simp
    have inv1: "agent_inv s1" using cg_frame_inv [OF Cons.prems(1)] a by blast
    show ?thesis
    proof (cases "ct = x")
      case True
      then have "cg_policy s1 (CgroupID ct) = Some q" using a e1 Cons.prems(2) by simp
      then have "cg_policy s' (CgroupID ct) = Some q"
        using apply_loop_effect [OF inv1 rest] gains_keeps by blast
      then show ?thesis using True Some Cons.prems(5) by simp
    next
      case False
      then show ?thesis using Cons.IH [OF inv1 Cons.prems(2) rest] Cons.prems(4,5) c by auto
    qed
  qed
qed simp

text \<open>
  A general frame: nothing has changed but the values and settings of the policies in \<open>P\<close> and the
  entries of the cgroups in \<open>C\<close>.
\<close>

definition same_policy :: "bpf_state \<Rightarrow> bpf_state \<Rightarrow> u64 \<Rightarrow> bool" where
  "same_policy s s' q \<longleftrightarrow> (\<forall>j. outer_entry s' j q = outer_entry s j q) \<and>
     map_lookup (policy_settings_map s') q = map_lookup (policy_settings_map s) q"

definition agent_frame :: "bpf_state \<Rightarrow> bpf_state \<Rightarrow> u64 set \<Rightarrow> u64 set \<Rightarrow> bool" where
  "agent_frame s s' P C \<longleftrightarrow> agent_inv s' \<and> programs_view s' = programs_view s \<and>
     (\<forall>q. q \<notin> P \<longrightarrow> same_policy s s' q) \<and> (\<forall>d. d \<notin> C \<longrightarrow> cg_policy s' d = cg_policy s d)"

lemma agent_frame_refl: "agent_inv s \<Longrightarrow> agent_frame s s P C"
  by (simp add: agent_frame_def same_policy_def)

lemma agent_frame_trans:
  "agent_frame s s1 P C \<Longrightarrow> agent_frame s1 s2 Q D \<Longrightarrow> agent_frame s s2 (P \<union> Q) (C \<union> D)"
  by (simp add: agent_frame_def same_policy_def)

lemma agent_frame_mono: "agent_frame s s' P C \<Longrightarrow> P \<subseteq> Q \<Longrightarrow> C \<subseteq> D \<Longrightarrow> agent_frame s s' Q D"
  unfolding agent_frame_def by blast

lemma agent_frame_inv: "agent_frame s s' P C \<Longrightarrow> agent_inv s'"
  by (simp add: agent_frame_def)

lemma agent_frame_cg: "agent_frame s s' P C \<Longrightarrow> d \<notin> C \<Longrightarrow> cg_policy s' d = cg_policy s d"
  by (simp add: agent_frame_def)

lemma pol_frame_agent: "pol_frame s s' P \<Longrightarrow> agent_frame s s' P {}"
  by (simp add: pol_frame_def agent_frame_def same_policy_def)

lemma cg_frame_agent:
  assumes "agent_inv s" and "cg_frame s s'" and "\<And>d. d \<notin> C \<Longrightarrow> cg_policy s' d = cg_policy s d"
  shows "agent_frame s s' {} C"
  using cg_frame_inv [OF assms(1,2)] cg_frame_simps [OF assms(2)] assms(3)
  by (simp add: agent_frame_def same_policy_def)

lemma installed_same: "same_policy s s' p \<Longrightarrow> installed s' p cr m = installed s p cr m"
  using policy_holds_cong [of s' p s] by (simp add: installed_def same_policy_def)

text \<open>No map holds anything of the policy.\<close>

definition cleared :: "bpf_state \<Rightarrow> u64 \<Rightarrow> bool" where
  "cleared s p \<longleftrightarrow> (\<forall>j<11. outer_entry s j p = None) \<and> map_lookup (policy_settings_map s) p = None"

lemma cleared_same: "same_policy s s' p \<Longrightarrow> cleared s' p = cleared s p"
  by (simp add: cleared_def same_policy_def)

text \<open>The containers of a list whose policy is removed, and their policies.\<close>

definition dropped :: "(string \<times> ContainerMeta) list \<Rightarrow> policyByContainer \<Rightarrow> ContainerMeta set" where
  "dropped cs removed = {ct \<in> snd ` set cs. map_of removed (container_Name ct) \<noteq> None}"

definition dropped_ids :: "(string \<times> ContainerMeta) list \<Rightarrow> policyByContainer \<Rightarrow> u64 set" where
  "dropped_ids cs removed = {p. \<exists>ct\<in>snd ` set cs. map_of removed (container_Name ct) = Some p}"

lemma dropped_simps [simp]:
  "dropped [] removed = {}" "dropped_ids [] removed = {}"
  "dropped (c # cs) removed =
     (if map_of removed (container_Name (snd c)) = None then {} else {snd c}) \<union> dropped cs removed"
  "dropped_ids (c # cs) removed = set_option (map_of removed (container_Name (snd c))) \<union> dropped_ids cs removed"
  "dropped (cs @ ds) removed = dropped cs removed \<union> dropped ds removed"
  "dropped_ids (cs @ ds) removed = dropped_ids cs removed \<union> dropped_ids ds removed"
  by (auto simp: dropped_def dropped_ids_def)

lemma remove_step:
  assumes inv: "agent_inv s"
  shows "\<exists>s1 s2. cgroupToPolicyMapUpdate M s PolicyIDNone [c] RemoveCgroups = ([], s1) \<and>
    clearPolicyIDFromBPF M s1 p = ([], s2) \<and> agent_frame s s2 {p} {c} \<and> cg_policy s2 c = None \<and> cleared s2 p"
proof -
  obtain s1 where s1: "cgroupToPolicyMapUpdate M s PolicyIDNone [c] RemoveCgroups = ([], s1)" "cg_frame s s1"
    "\<forall>d. cg_policy s1 d = (if d = c then None else cg_policy s d)"
    using cg_remove [OF inv] by blast
  have f1: "agent_frame s s1 {} {c}" by (rule cg_frame_agent [OF inv s1(2)]) (simp add: s1(3))
  obtain s2 where s2: "clearPolicyIDFromBPF M s1 p = ([], s2)" "pol_frame s1 s2 {p}" "cleared s2 p"
    using clear_effect [OF agent_frame_inv [OF f1]] unfolding cleared_def by blast
  note f2 = pol_frame_agent [OF s2(2)]
  have "cg_policy s2 c = None" using agent_frame_cg [OF f2, of c] s1(3) by simp
  then show ?thesis using s1(1) s2(1,3) agent_frame_trans [OF f1 f2] by auto
qed

lemma remove_policy_loop_effect:
  "agent_inv s \<Longrightarrow> \<exists>wps' s'. remove_policy_loop M s cs wps removed = (None, wps', s') \<and>
     agent_frame s s' (dropped_ids cs removed) (CgroupID ` dropped cs removed) \<and>
     (\<forall>d\<in>CgroupID ` dropped cs removed. cg_policy s' d = None) \<and> (\<forall>p\<in>dropped_ids cs removed. cleared s' p) \<and>
     (\<forall>n. map_of wps' n = (if n \<in> container_Name ` dropped cs removed then None else map_of wps n)) \<and>
     (distinct (map fst wps) \<longrightarrow> distinct (map fst wps'))"
proof (induction cs arbitrary: s wps)
  case Nil
  then show ?case by (simp add: agent_frame_refl)
next
  case (Cons c cs)
  obtain i ct where c: "c = (i, ct)" by (cases c)
  show ?case
  proof (cases "map_of removed (container_Name ct)")
    case None
    then show ?thesis using Cons.IH [OF Cons.prems] c by simp
  next
    case (Some p)
    obtain s1 s2 where r: "cgroupToPolicyMapUpdate M s PolicyIDNone [CgroupID ct] RemoveCgroups = ([], s1)"
      "clearPolicyIDFromBPF M s1 p = ([], s2)" and f: "agent_frame s s2 {p} {CgroupID ct}"
      and e: "cg_policy s2 (CgroupID ct) = None" "cleared s2 p"
      using remove_step [OF Cons.prems] by blast
    let ?w = "AList.delete (container_Name ct) wps"
    obtain wps' s' where ih: "remove_policy_loop M s2 cs ?w removed = (None, wps', s')"
      "agent_frame s2 s' (dropped_ids cs removed) (CgroupID ` dropped cs removed)"
      "\<forall>d\<in>CgroupID ` dropped cs removed. cg_policy s' d = None" "\<forall>p\<in>dropped_ids cs removed. cleared s' p"
      "\<forall>n. map_of wps' n = (if n \<in> container_Name ` dropped cs removed then None else map_of ?w n)"
      "distinct (map fst ?w) \<longrightarrow> distinct (map fst wps')"
      using Cons.IH [OF agent_frame_inv [OF f], of ?w] by (elim exE conjE)
    have "cg_policy s' (CgroupID ct) = None"
      using ih(3) e(1) agent_frame_cg [OF ih(2), of "CgroupID ct"] by (cases "CgroupID ct \<in> CgroupID ` dropped cs removed") auto
    moreover have "cleared s' p"
      using ih(2,4) e(2) cleared_same [of s2 s' p] by (cases "p \<in> dropped_ids cs removed") (auto simp: agent_frame_def)
    moreover have "distinct (map fst wps) \<longrightarrow> distinct (map fst wps')"
      using ih(6) distinct_delete [of wps "container_Name ct"] by simp
    moreover have "remove_policy_loop M s (c # cs) wps removed = (None, wps', s')"
      using c Some r ih(1) by simp
    moreover have "map_of wps' n = (if n \<in> container_Name ` dropped (c # cs) removed then None else map_of wps n)" for n
      using ih(5) c Some by (simp add: delete_conv')
    moreover have "agent_frame s s' (dropped_ids (c # cs) removed) (CgroupID ` dropped (c # cs) removed)"
      using agent_frame_trans [OF f ih(2)] c Some by simp
    ultimately show ?thesis
      using ih(3,4) c Some by (intro exI [of _ wps'] exI [of _ s']) simp
  qed
qed

section \<open>The loop over the cached pods\<close>

text \<open>The containers of the cached pods that a workload policy applies to.\<close>

definition matched :: "WorkloadPolicy \<Rightarrow> (string \<times> podEntry) list \<Rightarrow> (string \<times> ContainerMeta) list" where
  "matched wp pods = concat (map (containers \<circ> snd)
     (filter (\<lambda>pod. matchPolicy (snd pod) (wp_Name wp) (wp_Namespace wp)) pods))"

lemma matched_simps [simp]:
  "matched wp [] = []"
  "matched wp ((i, pod) # pods) =
     (if matchPolicy pod (wp_Name wp) (wp_Namespace wp) then containers pod else []) @ matched wp pods"
  by (simp_all add: matched_def)

lemma dropped_cgroups: "CgroupID ` dropped cs removed \<subseteq> CgroupID ` snd ` set cs"
  by (auto simp: dropped_def)

lemma dropped_removed: "n \<in> container_Name ` dropped cs removed \<Longrightarrow> map_of removed n \<noteq> None"
  by (auto simp: dropped_def)

text \<open>A pod that is processed without an error: the two loops over its containers.\<close>

lemma apply_frame:
  assumes "agent_inv s" and "apply_loop M s cs applied = (e, s')"
  shows "agent_frame s s' {} (CgroupID ` snd ` set cs)"
proof (rule cg_frame_agent [OF assms(1)])
  note a = apply_loop_effect [OF assms]
  show "cg_frame s s'" using a by simp
  fix d assume "d \<notin> CgroupID ` snd ` set cs"
  then have "\<not> wants cs applied d p" for p by (auto simp: wants_def)
  then show "cg_policy s' d = cg_policy s d" using a by (auto simp: gains_def)
qed

lemma pod_frame:
  assumes "agent_inv s" and "remove_policy_loop M s cs pol removed = (None, pol', s1)"
    and "apply_loop M s1 cs applied = (e, s2)"
  shows "agent_frame s s2 (dropped_ids cs removed) (CgroupID ` snd ` set cs)"
    and "p \<in> dropped_ids cs removed \<Longrightarrow> cleared s2 p"
proof -
  have r: "agent_frame s s1 (dropped_ids cs removed) (CgroupID ` dropped cs removed)"
      "\<forall>p\<in>dropped_ids cs removed. cleared s1 p"
    using remove_policy_loop_effect [OF assms(1), of M cs pol removed] assms(2) by simp_all
  note a = apply_frame [OF agent_frame_inv [OF r(1)] assms(3)]
  show "agent_frame s s2 (dropped_ids cs removed) (CgroupID ` snd ` set cs)"
    using agent_frame_trans [OF r(1) a] by (rule agent_frame_mono) (use dropped_cgroups in auto)
  show "p \<in> dropped_ids cs removed \<Longrightarrow> cleared s2 p"
    using r(2) a cleared_same [of s1 s2 p] by (simp add: agent_frame_def)
qed

text \<open>The policy a container ends up with, from the one its cgroup had.\<close>

definition target :: "policyByContainer \<Rightarrow> policyByContainer \<Rightarrow> string \<Rightarrow> u64 option \<Rightarrow> u64 option" where
  "target applied removed n old =
     (case map_of applied n of Some p \<Rightarrow> Some p | None \<Rightarrow> if map_of removed n = None then old else None)"

lemma distinct_cgroup:
  "distinct (map (CgroupID \<circ> snd) cs) \<Longrightarrow> ct \<in> snd ` set cs \<Longrightarrow> ct' \<in> snd ` set cs \<Longrightarrow>
    CgroupID ct = CgroupID ct' \<Longrightarrow> ct = ct'"
  by (auto simp: distinct_map inj_on_def)

lemma dropped_cgroup:
  assumes "distinct (map (CgroupID \<circ> snd) cs)" and "ct \<in> snd ` set cs" and "CgroupID ct \<in> CgroupID ` dropped cs removed"
  shows "map_of removed (container_Name ct) \<noteq> None"
proof -
  obtain ct' where "ct' \<in> snd ` set cs" "map_of removed (container_Name ct') \<noteq> None" "CgroupID ct = CgroupID ct'"
    using assms(3) by (auto simp: dropped_def)
  then show ?thesis using distinct_cgroup [OF assms(1,2)] by simp
qed

lemma wants_distinct:
  assumes "distinct (map (CgroupID \<circ> snd) cs)" and "ct \<in> snd ` set cs" and "wants cs applied (CgroupID ct) p"
  shows "map_of applied (container_Name ct) = Some p"
proof -
  obtain ct' where "ct' \<in> snd ` set cs" "map_of applied (container_Name ct') = Some p" "CgroupID ct = CgroupID ct'"
    using assms(3) unfolding wants_def by metis
  then show ?thesis using distinct_cgroup [OF assms(1,2)] by simp
qed

lemma pod_target:
  assumes inv: "agent_inv s" and M: "\<not> isShuttingDown M" and d: "distinct (map (CgroupID \<circ> snd) cs)"
    and r: "remove_policy_loop M s cs pol removed = (None, pol', s1)"
    and a: "apply_loop M s1 cs applied = (None, s2)" and ct: "ct \<in> snd ` set cs"
  shows "cg_policy s2 (CgroupID ct) = target applied removed (container_Name ct) (cg_policy s (CgroupID ct))"
proof -
  have f: "agent_frame s s1 (dropped_ids cs removed) (CgroupID ` dropped cs removed)"
      "\<forall>d\<in>CgroupID ` dropped cs removed. cg_policy s1 d = None"
    using remove_policy_loop_effect [OF inv, of M cs pol removed] r by simp_all
  have inv1: "agent_inv s1" by (rule agent_frame_inv [OF f(1)])
  show ?thesis
  proof (cases "map_of applied (container_Name ct)")
    case (Some p)
    then show ?thesis using apply_loop_success [OF inv1 M a ct] by (simp add: target_def)
  next
    case None
    have "\<not> wants cs applied (CgroupID ct) p" for p using wants_distinct [OF d ct] None by auto
    then have eq: "cg_policy s2 (CgroupID ct) = cg_policy s1 (CgroupID ct)"
      using apply_loop_effect [OF inv1 a] by (auto simp: gains_def)
    show ?thesis
    proof (cases "map_of removed (container_Name ct) = None")
      case True
      then have "CgroupID ct \<notin> CgroupID ` dropped cs removed"
        using dropped_cgroup [OF d ct, of removed] by blast
      then show ?thesis using agent_frame_cg [OF f(1)] eq None True by (simp add: target_def)
    next
      case False
      then have "ct \<in> dropped cs removed" using ct by (simp add: dropped_def)
      then have "cg_policy s1 (CgroupID ct) = None" using f(2) by blast
      then show ?thesis using eq None False by (auto simp: target_def)
    qed
  qed
qed

lemma pods_loop_frame:
  "agent_inv s \<Longrightarrow> pods_loop M s wp pol applied removed pods = (e, pol', s') \<Longrightarrow>
     agent_frame s s' (dropped_ids (matched wp pods) removed) (CgroupID ` snd ` set (matched wp pods)) \<and>
     (\<forall>n. map_of pol' n = map_of pol n \<or> map_of pol' n = None \<and> map_of removed n \<noteq> None) \<and>
     (distinct (map fst pol) \<longrightarrow> distinct (map fst pol'))"
proof (induction pods arbitrary: s pol)
  case Nil
  then show ?case by (simp add: agent_frame_refl)
next
  case (Cons c pods)
  obtain i pod where c: "c = (i, pod)" by (cases c)
  show ?case
  proof (cases "matchPolicy pod (wp_Name wp) (wp_Namespace wp)")
    case False
    then show ?thesis using Cons c by simp
  next
    case True
    obtain pol1 s1 where r: "remove_policy_loop M s (containers pod) pol removed = (None, pol1, s1)"
      and n: "\<forall>n. map_of pol1 n = (if n \<in> container_Name ` dropped (containers pod) removed then None else map_of pol n)"
      and dist: "distinct (map fst pol) \<longrightarrow> distinct (map fst pol1)"
      using remove_policy_loop_effect [OF Cons.prems(1), of M "containers pod" pol removed] by blast
    obtain e2 s2 where a: "apply_loop M s1 (containers pod) applied = (e2, s2)" by fastforce
    note f = pod_frame(1) [OF Cons.prems(1) r a]
    have n': "map_of pol1 n = map_of pol n \<or> map_of pol1 n = None \<and> map_of removed n \<noteq> None" for n
      using n dropped_removed [of n "containers pod" removed] by simp
    show ?thesis
    proof (cases e2)
      case None
      then have l: "pods_loop M s2 wp pol1 applied removed pods = (e, pol', s')"
        using Cons.prems(2) c True r a by (simp add: removePolicyFromPod_def applyPolicyToPod_def)
      note ih = Cons.IH [OF agent_frame_inv [OF f] l]
      have "agent_frame s s' (dropped_ids (matched wp (c # pods)) removed) (CgroupID ` snd ` set (matched wp (c # pods)))"
        using agent_frame_trans [OF f conjunct1 [OF ih]] c True by (simp add: image_Un)
      moreover have "map_of pol' n = map_of pol n \<or> map_of pol' n = None \<and> map_of removed n \<noteq> None" for n
        using ih [THEN conjunct2, THEN conjunct1, THEN spec, of n] n' [of n] by (elim disjE conjE) simp_all
      ultimately show ?thesis using ih [THEN conjunct2, THEN conjunct2] dist by simp
    next
      case (Some x)
      then have "s' = s2" "pol' = pol1"
        using Cons.prems(2) c True r a by (simp_all add: removePolicyFromPod_def applyPolicyToPod_def)
      moreover have "agent_frame s s2 (dropped_ids (matched wp (c # pods)) removed) (CgroupID ` snd ` set (matched wp (c # pods)))"
        using f by (rule agent_frame_mono) (use c True in auto)
      ultimately show ?thesis using n' dist by simp
    qed
  qed
qed

lemma pods_loop_success:
  "agent_inv s \<Longrightarrow> \<not> isShuttingDown M \<Longrightarrow> distinct (map (CgroupID \<circ> snd) (matched wp pods)) \<Longrightarrow>
     pods_loop M s wp pol applied removed pods = (None, pol', s') \<Longrightarrow>
     (\<forall>ct\<in>snd ` set (matched wp pods).
        cg_policy s' (CgroupID ct) = target applied removed (container_Name ct) (cg_policy s (CgroupID ct))) \<and>
     (\<forall>n. map_of pol' n = (if n \<in> container_Name ` dropped (matched wp pods) removed then None else map_of pol n)) \<and>
     (\<forall>p\<in>dropped_ids (matched wp pods) removed. cleared s' p)"
proof (induction pods arbitrary: s pol)
  case (Cons c pods)
  obtain i pod where c: "c = (i, pod)" by (cases c)
  show ?case
  proof (cases "matchPolicy pod (wp_Name wp) (wp_Namespace wp)")
    case False
    then show ?thesis using Cons c by simp
  next
    case True
    let ?cs = "containers pod" and ?ds = "matched wp pods"
    obtain pol1 s1 where r: "remove_policy_loop M s ?cs pol removed = (None, pol1, s1)"
      and n: "\<forall>n. map_of pol1 n = (if n \<in> container_Name ` dropped ?cs removed then None else map_of pol n)"
      using remove_policy_loop_effect [OF Cons.prems(1), of M ?cs pol removed] by blast
    obtain e2 s2 where a': "apply_loop M s1 ?cs applied = (e2, s2)" by fastforce
    have "e2 = None" and l: "pods_loop M s2 wp pol1 applied removed pods = (None, pol', s')"
      using Cons.prems(4) c True r a' by (cases e2; simp add: removePolicyFromPod_def applyPolicyToPod_def)+
    then have a: "apply_loop M s1 ?cs applied = (None, s2)" using a' by simp
    have d: "distinct (map (CgroupID \<circ> snd) ?cs)" "distinct (map (CgroupID \<circ> snd) ?ds)"
      "CgroupID ` snd ` set ?cs \<inter> CgroupID ` snd ` set ?ds = {}"
      using Cons.prems(3) c True by (simp_all add: image_image comp_def)
    note f = pod_frame [OF Cons.prems(1) r a]
    have inv2: "agent_inv s2" by (rule agent_frame_inv [OF f(1)])
    have g: "agent_frame s2 s' (dropped_ids ?ds removed) (CgroupID ` snd ` set ?ds)"
      using pods_loop_frame [OF inv2 l] by simp
    note ih = Cons.IH [OF inv2 Cons.prems(2) d(2) l]
    have "cg_policy s' (CgroupID ct) = target applied removed (container_Name ct) (cg_policy s (CgroupID ct))"
      if "ct \<in> snd ` set ?cs" for ct
    proof -
      have "CgroupID ct \<notin> CgroupID ` snd ` set ?ds" using that d(3) by blast
      then show ?thesis using agent_frame_cg [OF g] pod_target [OF Cons.prems(1,2) d(1) r a that] by simp
    qed
    moreover have "cg_policy s' (CgroupID ct) = target applied removed (container_Name ct) (cg_policy s (CgroupID ct))"
      if "ct \<in> snd ` set ?ds" for ct
    proof -
      have "CgroupID ct \<notin> CgroupID ` snd ` set ?cs" using that d(3) by blast
      then show ?thesis using agent_frame_cg [OF f(1)] bspec [OF conjunct1 [OF ih] that] by simp
    qed
    moreover have "cleared s' p" if "p \<in> dropped_ids ?cs removed \<union> dropped_ids ?ds removed" for p
    proof (cases "p \<in> dropped_ids ?ds removed")
      case True
      then show ?thesis using ih by blast
    next
      case False
      then show ?thesis using that f(2) g cleared_same [of s2 s' p] unfolding agent_frame_def by blast
    qed
    moreover have "map_of pol' m = (if m \<in> container_Name ` dropped ?cs removed \<union> container_Name ` dropped ?ds removed
        then None else map_of pol m)" for m
      using ih [THEN conjunct2, THEN conjunct1, THEN spec, of m] n by simp
    moreover have "matched wp (c # pods) = ?cs @ ?ds" using c True by simp
    ultimately show ?thesis by (simp only: set_append image_Un ball_Un dropped_simps Un_iff) blast
  qed
qed simp

end
