(* ===== verification/Resolver_Inv.thy ===== *)
theory Resolver_Inv
  imports Resolver_Maps
begin

text \<open>
  The invariant of the resolver and the BPF maps, and what every operation of the resolver does to
  both, on success and on failure: identifiers are never 0, never shared and never reused, and a
  policy that is being reconciled or deleted leaves every other policy alone.
\<close>

section \<open>The invariant\<close>

text \<open>The identifier of a container of a workload policy.\<close>

definition policy_id :: "Resolver \<Rightarrow> string \<Rightarrow> string \<Rightarrow> u64 option" where
  "policy_id r k c = (case map_of (wpState r) k of None \<Rightarrow> None | Some i \<Rightarrow> map_of (polByContainer i) c)"

definition policy_ids :: "Resolver \<Rightarrow> string \<Rightarrow> u64 set" where
  "policy_ids r k = {p. \<exists>c. policy_id r k c = Some p}"

text \<open>No map has anything of the identifiers from \<open>n\<close> on.\<close>

definition unused :: "bpf_state \<Rightarrow> u64 \<Rightarrow> bool" where
  "unused s n \<longleftrightarrow> (\<forall>q. n \<le> q \<longrightarrow> (\<forall>j. outer_entry s j q = None) \<and> map_lookup (policy_settings_map s) q = None)"

definition inj_ids :: "policyByContainer \<Rightarrow> bool" where
  "inj_ids pol \<longleftrightarrow> (\<forall>c d p. map_of pol c = Some p \<and> map_of pol d = Some p \<longrightarrow> c = d)"

definition res_inv :: "Resolver \<Rightarrow> bpf_state \<Rightarrow> bool" where
  "res_inv r s \<longleftrightarrow> agent_inv s \<and> nextPolicyID r \<noteq> 0 \<and> unused s (nextPolicyID r) \<and>
     distinct (map fst (wpState r)) \<and> (\<forall>k i. map_of (wpState r) k = Some i \<longrightarrow> distinct (map fst (polByContainer i))) \<and>
     (\<forall>k c p. policy_id r k c = Some p \<longrightarrow> p \<noteq> 0 \<and> p < nextPolicyID r) \<and>
     (\<forall>k c k' c' p. policy_id r k c = Some p \<and> policy_id r k' c' = Some p \<longrightarrow> k = k' \<and> c = c')"

lemma unused_frame:
  assumes "unused s n" and "agent_frame s s' P C" and "n \<le> n'" and "\<forall>p\<in>P. p < n'"
  shows "unused s' n'"
proof -
  have "q \<notin> P" "n \<le> q" if "n' \<le> q" for q using that assms(3,4) by auto
  then show ?thesis using assms(1,2) by (simp add: unused_def agent_frame_def same_policy_def)
qed

lemma res_inv_frame:
  assumes "res_inv r s" and "agent_frame s s' P C" and "\<forall>p\<in>P. p < nextPolicyID r"
  shows "res_inv r s'"
  using assms unused_frame [OF _ assms(2) order_refl assms(3)] agent_frame_inv [OF assms(2)]
  unfolding res_inv_def by blast

section \<open>The loop over the rules\<close>

lemma alloc_next:
  fixes n :: u64
  assumes "unat n + Suc k < 2 ^ 64"
  shows "unat (n + 1) = Suc (unat n)" and "n < n + 1"
proof -
  have "unat n + 1 < 2 ^ LENGTH(64)" using assms by simp
  then have "unat (n + 1) = unat n + unat (1 :: u64)" by (subst unat_add_lem [symmetric]) simp
  then show 1: "unat (n + 1) = Suc (unat n)" by simp
  then show "n < n + 1" by (simp add: word_less_nat_alt)
qed

definition rule_ids :: "policyByContainer \<Rightarrow> (string \<times> WorkloadPolicyRules option) list \<Rightarrow> u64 set" where
  "rule_ids pol rules = {p. \<exists>c. map_of pol c = Some p \<and> c \<in> fst ` set rules}"

lemma rule_ids_simps [simp]:
  "rule_ids pol [] = {}"
  "rule_ids pol ((c, cr) # rules) = set_option (map_of pol c) \<union> rule_ids pol rules"
  by (auto simp: rule_ids_def)

text \<open>One round of the loop: the identifier, the resolver, the new containers and the operation.\<close>

definition rule_id :: "Resolver \<Rightarrow> policyByContainer \<Rightarrow> string \<Rightarrow> u64" where
  "rule_id r pol c = (case map_of pol c of Some q \<Rightarrow> q | None \<Rightarrow> nextPolicyID r)"

definition rule_next :: "Resolver \<Rightarrow> policyByContainer \<Rightarrow> string \<Rightarrow> u64" where
  "rule_next r pol c = (if map_of pol c = None then nextPolicyID r + 1 else nextPolicyID r)"

definition rule_new :: "Resolver \<Rightarrow> policyByContainer \<Rightarrow> policyByContainer \<Rightarrow> string \<Rightarrow> policyByContainer" where
  "rule_new r pol new c = (if map_of pol c = None then AList.update c (nextPolicyID r) new else new)"

definition rule_op :: "policyByContainer \<Rightarrow> string \<Rightarrow> PolicyValuesOperation" where
  "rule_op pol c = (if map_of pol c = None then AddValuesToPolicy else ReplaceValuesInPolicy)"

lemma sync_loop_step:
  "sync_loop M r s m pol new ((c, cr) # rules) =
     (case cr of
        None \<Rightarrow> (Inl (Panic_nil_rules c), r\<lparr>nextPolicyID := rule_next r pol c\<rparr>, s)
      | Some y \<Rightarrow>
          (case upsertPolicyIDInBPF M s (rule_id r pol c) (Allowed y) m (AllowForeignRootExec y) (rule_op pol c) of
             ([], s') \<Rightarrow> sync_loop M (r\<lparr>nextPolicyID := rule_next r pol c\<rparr>) s' m pol (rule_new r pol new c) rules
           | (err, s') \<Rightarrow> (Inl (Err_bpf err), r\<lparr>nextPolicyID := rule_next r pol c\<rparr>, s')))"
  by (cases "map_of pol c"; cases cr)
    (simp_all add: rule_id_def rule_next_def rule_new_def rule_op_def allocPolicyID_def split: prod.split list.split)

lemma rule_next_bounds:
  assumes "unat (nextPolicyID r) + length (x # rules) < 2 ^ 64"
  shows "nextPolicyID r \<le> rule_next r pol c" and "unat (rule_next r pol c) + length rules < 2 ^ 64"
    and "unat (rule_next r pol c) \<le> Suc (unat (nextPolicyID r))"
    and "rule_id r pol c \<in> set_option (map_of pol c) \<union> {nextPolicyID r..<rule_next r pol c}"
  using alloc_next [of "nextPolicyID r" "length rules"] assms
  by (auto simp: rule_next_def rule_id_def split: option.splits)

lemma sync_loop_frame:
  "agent_inv s \<Longrightarrow> unat (nextPolicyID r) + length rules < 2 ^ 64 \<Longrightarrow>
     sync_loop M r s m pol new rules = (res, r', s') \<Longrightarrow>
     \<exists>n'. r' = r\<lparr>nextPolicyID := n'\<rparr> \<and> nextPolicyID r \<le> n' \<and> unat n' \<le> unat (nextPolicyID r) + length rules \<and>
       pol_frame s s' (rule_ids pol rules \<union> {nextPolicyID r..<n'})"
proof (induction rules arbitrary: r s new)
  case Nil
  then show ?case by (intro exI [of _ "nextPolicyID r"]) (simp add: pol_frame_refl)
next
  case (Cons x rules)
  obtain c cr where x: "x = (c, cr)" by (cases x)
  let ?n1 = "rule_next r pol c"
  let ?r1 = "r\<lparr>nextPolicyID := ?n1\<rparr>"
  note b = rule_next_bounds [OF Cons.prems(2), of pol c]
  note step = Cons.prems(3) [unfolded x sync_loop_step]
  show ?case
  proof (cases cr)
    case None
    then have "s' = s" "r' = ?r1" using step by simp_all
    then show ?thesis using b pol_frame_refl [OF Cons.prems(1)] by (intro exI [of _ ?n1]) simp
  next
    case (Some y)
    obtain e s1 where u: "upsertPolicyIDInBPF M s (rule_id r pol c) (Allowed y) m (AllowForeignRootExec y) (rule_op pol c) = (e, s1)"
      by fastforce
    have f: "pol_frame s s1 (rule_ids pol (x # rules) \<union> {nextPolicyID r..<?n1})"
      using upsert_frame [OF Cons.prems(1) u] by (rule pol_frame_mono) (use b(4) x in auto)
    show ?thesis
    proof (cases e)
      case Nil
      then have l: "sync_loop M ?r1 s1 m pol (rule_new r pol new c) rules = (res, r', s')" using step Some u by simp
      have "unat (nextPolicyID ?r1) + length rules < 2 ^ 64" using b(2) by simp
      from Cons.IH [OF pol_frame_inv [OF f] this l]
      obtain n' where n': "r' = ?r1\<lparr>nextPolicyID := n'\<rparr>" "?n1 \<le> n'"
        "unat n' \<le> unat ?n1 + length rules" "pol_frame s1 s' (rule_ids pol rules \<union> {?n1..<n'})" by auto
      have "pol_frame s s' (rule_ids pol (x # rules) \<union> {nextPolicyID r..<n'})"
        using pol_frame_trans [OF f n'(4)] by (rule pol_frame_mono) (use x b(1) n'(2) in auto)
      then show ?thesis using n' b(1,3) by (intro exI [of _ n']) auto
    next
      case (Cons a as)
      then have "s' = s1" "r' = ?r1" using step Some u by simp_all
      then show ?thesis using f b by (intro exI [of _ ?n1]) simp
    qed
  qed
qed

text \<open>A round of a synchronisation that succeeds.\<close>

lemma sync_loop_round:
  assumes "sync_loop M r s m pol new ((c, cr) # rules) = (Inr new', r', s')"
  shows "\<exists>y s1. cr = Some y \<and>
    upsertPolicyIDInBPF M s (rule_id r pol c) (Allowed y) m (AllowForeignRootExec y) (rule_op pol c) = ([], s1) \<and>
    sync_loop M (r\<lparr>nextPolicyID := rule_next r pol c\<rparr>) s1 m pol (rule_new r pol new c) rules = (Inr new', r', s')"
proof (cases cr)
  case None
  then show ?thesis using assms by (simp add: sync_loop_step del: sync_loop.simps)
next
  case (Some y)
  obtain e s1 where u: "upsertPolicyIDInBPF M s (rule_id r pol c) (Allowed y) m (AllowForeignRootExec y) (rule_op pol c) = (e, s1)"
    by fastforce
  then show ?thesis using assms Some by (cases e) (simp_all add: sync_loop_step del: sync_loop.simps)
qed

lemma rule_new_lookup:
  "map_of (rule_new r pol new c) d = (if d = c \<and> map_of pol c = None then Some (nextPolicyID r) else map_of new d)"
  by (simp add: rule_new_def update_conv')

text \<open>The new containers of a synchronisation that succeeds.\<close>

lemma sync_loop_keeps:
  "sync_loop M r s m pol new rules = (Inr new', r', s') \<Longrightarrow> c \<notin> fst ` set rules \<or> map_of pol c \<noteq> None \<Longrightarrow>
     map_of new' c = map_of new c"
proof (induction rules arbitrary: r s new)
  case (Cons x rules)
  obtain d dr where x: "x = (d, dr)" by (cases x)
  obtain s1 where "sync_loop M (r\<lparr>nextPolicyID := rule_next r pol d\<rparr>) s1 m pol (rule_new r pol new d) rules = (Inr new', r', s')"
    using sync_loop_round [OF Cons.prems(1) [unfolded x]] by blast
  from Cons.IH [OF this] show ?case using Cons.prems(2) x by (auto simp: rule_new_lookup)
qed simp

lemma sync_loop_covers:
  "sync_loop M r s m pol new rules = (Inr new', r', s') \<Longrightarrow> distinct (map fst rules) \<Longrightarrow>
     c \<in> fst ` set rules \<Longrightarrow> map_of pol c = None \<Longrightarrow> map_of new' c \<noteq> None"
proof (induction rules arbitrary: r s new)
  case (Cons x rules)
  obtain d dr where x: "x = (d, dr)" by (cases x)
  obtain s1 where l: "sync_loop M (r\<lparr>nextPolicyID := rule_next r pol d\<rparr>) s1 m pol (rule_new r pol new d) rules = (Inr new', r', s')"
    using sync_loop_round [OF Cons.prems(1) [unfolded x]] by blast
  show ?case
  proof (cases "c = d")
    case True
    then have "c \<notin> fst ` set rules" using Cons.prems(2) x by simp
    then show ?thesis using sync_loop_keeps [OF l, of c] True Cons.prems(4) by (simp add: rule_new_lookup)
  next
    case False
    then show ?thesis using Cons.IH [OF l] Cons.prems x by simp
  qed
qed simp

lemma sync_loop_new:
  "unat (nextPolicyID r) + length rules < 2 ^ 64 \<Longrightarrow> sync_loop M r s m pol new rules = (Inr new', r', s') \<Longrightarrow>
     \<forall>c p. map_of new c = Some p \<longrightarrow> n \<le> p \<and> p < nextPolicyID r \<Longrightarrow> n \<le> nextPolicyID r \<Longrightarrow>
     inj_ids new \<Longrightarrow> distinct (map fst new) \<Longrightarrow>
     (\<forall>c p. map_of new' c = Some p \<longrightarrow> n \<le> p \<and> p < nextPolicyID r') \<and> inj_ids new' \<and> distinct (map fst new')"
proof (induction rules arbitrary: r s new)
  case (Cons x rules)
  obtain c cr where x: "x = (c, cr)" by (cases x)
  let ?n1 = "rule_next r pol c" and ?new1 = "rule_new r pol new c"
  let ?r1 = "r\<lparr>nextPolicyID := ?n1\<rparr>"
  note b = rule_next_bounds [OF Cons.prems(1), of pol c]
  obtain s1 where l: "sync_loop M ?r1 s1 m pol ?new1 rules = (Inr new', r', s')"
    using sync_loop_round [OF Cons.prems(2) [unfolded x]] by blast
  have nx: "nextPolicyID r < nextPolicyID r + 1"
    using alloc_next [of "nextPolicyID r" "length rules"] Cons.prems(1) by simp
  have 1: "n \<le> p \<and> p < nextPolicyID ?r1" if "map_of ?new1 d = Some p" for d p
  proof (cases "d = c \<and> map_of pol c = None")
    case True
    then show ?thesis using that Cons.prems(4) nx by (simp add: rule_new_lookup rule_next_def)
  next
    case False
    then have "n \<le> p" "p < nextPolicyID r" using that Cons.prems(3) by (auto simp: rule_new_lookup)
    then show ?thesis using b(1) by simp
  qed
  have 2: "inj_ids ?new1"
    using Cons.prems(3,5) unfolding inj_ids_def rule_new_lookup by (metis less_irrefl option.inject)
  have 3: "distinct (map fst ?new1)"
    using Cons.prems(6) by (simp add: rule_new_def distinct_update)
  have "unat (nextPolicyID ?r1) + length rules < 2 ^ 64" "n \<le> nextPolicyID ?r1" using b(1,2) Cons.prems(4) by simp_all
  then show ?case using Cons.IH [OF _ l _ _ 2 3] 1 by blast
qed simp

lemma sync_loop_installs:
  "agent_inv s \<Longrightarrow> \<not> isShuttingDown M \<Longrightarrow> unused s (nextPolicyID r) \<Longrightarrow>
     unat (nextPolicyID r) + length rules < 2 ^ 64 \<Longrightarrow> distinct (map fst rules) \<Longrightarrow>
     \<forall>c p. map_of pol c = Some p \<longrightarrow> p < nextPolicyID r \<Longrightarrow> inj_ids pol \<Longrightarrow>
     sync_loop M r s m pol new rules = (Inr new', r', s') \<Longrightarrow> (c, cr) \<in> set rules \<Longrightarrow>
     \<exists>y p. cr = Some y \<and> (map_of pol c = Some p \<or> map_of pol c = None \<and> map_of new' c = Some p) \<and> installed s' p y m"
proof (induction rules arbitrary: r s new)
  case (Cons x rules)
  obtain d dr where x: "x = (d, dr)" by (cases x)
  let ?n1 = "rule_next r pol d" and ?new1 = "rule_new r pol new d" and ?p = "rule_id r pol d"
  let ?r1 = "r\<lparr>nextPolicyID := ?n1\<rparr>"
  note b = rule_next_bounds [OF Cons.prems(4), of pol d]
  obtain y s1 where y: "dr = Some y"
    and u: "upsertPolicyIDInBPF M s ?p (Allowed y) m (AllowForeignRootExec y) (rule_op pol d) = ([], s1)"
    and l: "sync_loop M ?r1 s1 m pol ?new1 rules = (Inr new', r', s')"
    using sync_loop_round [OF Cons.prems(8) [unfolded x]] by blast
  have f: "pol_frame s s1 {?p}" by (rule upsert_frame [OF Cons.prems(1) u])
  have pn: "?p < ?n1"
  proof (cases "map_of pol d")
    case (Some q)
    then show ?thesis using b(1) Cons.prems(6) by (auto simp: rule_id_def intro: less_le_trans)
  qed (use b(4) in auto)
  have b2: "unat (nextPolicyID ?r1) + length rules < 2 ^ 64" using b(2) by simp
  have pol1: "\<forall>c p. map_of pol c = Some p \<longrightarrow> p < nextPolicyID ?r1"
    using Cons.prems(6) b(1) by (auto intro: less_le_trans)
  have un1: "unused s1 (nextPolicyID ?r1)"
    using unused_frame [OF Cons.prems(3) pol_frame_agent [OF f] b(1)] pn by simp
  show ?case
  proof (cases "(c, cr) = x")
    case True
    then have cd: "c = d" "cr = Some y" using x y by simp_all
    have "rule_op pol d \<noteq> RemoveValuesFromPolicy" by (simp add: rule_op_def)
    moreover have "\<forall>j. outer_entry s j ?p = None" if "rule_op pol d = AddValuesToPolicy"
      using that Cons.prems(3) by (auto simp: rule_op_def rule_id_def unused_def split: if_splits)
    ultimately have i1: "installed s1 ?p y m" using upsert_installs [OF Cons.prems(1,2)] u by blast
    obtain n' where n': "?n1 \<le> n'" "pol_frame s1 s' (rule_ids pol rules \<union> {?n1..<n'})"
      using sync_loop_frame [OF pol_frame_inv [OF f] b2 l] by auto
    have "?p \<notin> rule_ids pol rules"
    proof
      assume "?p \<in> rule_ids pol rules"
      then obtain e where e: "map_of pol e = Some ?p" "e \<in> fst ` set rules" by (auto simp: rule_ids_def)
      then have "e \<noteq> d" using Cons.prems(5) x by auto
      moreover have "e = d" if "map_of pol d = Some ?p" using that e(1) Cons.prems(7) by (auto simp: inj_ids_def)
      ultimately show False using e(1) Cons.prems(6) by (auto simp: rule_id_def split: option.splits)
    qed
    then have "?p \<notin> rule_ids pol rules \<union> {?n1..<n'}" using pn by (auto simp: leD)
    then have "installed s' ?p y m" by (rule installed_frame [OF n'(2) _ i1])
    moreover have "map_of new' d = Some ?p" if "map_of pol d = None"
      using sync_loop_keeps [OF l, of d] Cons.prems(5) x that by (simp add: rule_new_lookup rule_id_def)
    ultimately show ?thesis using cd by (auto simp: rule_id_def split: option.splits)
  next
    case False
    then have "(c, cr) \<in> set rules" using Cons.prems(9) by auto
    moreover have "distinct (map fst rules)" using Cons.prems(5) by simp
    ultimately show ?thesis
      using Cons.IH [OF pol_frame_inv [OF f] Cons.prems(2) un1 b2 _ pol1 Cons.prems(7) l] by blast
  qed
qed simp

section \<open>Reconciling a workload policy\<close>

text \<open>Copying the new containers into the map of the workload policy.\<close>

abbreviation copy_ids :: "policyByContainer \<Rightarrow> policyByContainer \<Rightarrow> policyByContainer" where
  "copy_ids new pol \<equiv> fold (\<lambda>(c, i) m. AList.update c i m) new pol"

lemma copy_ids_lookup:
  "distinct (map fst new) \<Longrightarrow>
     map_of (copy_ids new pol) c = (case map_of new c of Some p \<Rightarrow> Some p | None \<Rightarrow> map_of pol c)"
proof (induction new arbitrary: pol)
  case (Cons x new)
  obtain d i where x: "x = (d, i)" by (cases x)
  have "map_of new d = None" using Cons.prems x by (simp add: map_of_eq_None_iff)
  then show ?case using Cons x by (auto simp: update_conv' split: option.splits)
qed simp

lemma copy_ids_distinct: "distinct (map fst pol) \<Longrightarrow> distinct (map fst (copy_ids new pol))"
  by (induction new arbitrary: pol) (auto simp: distinct_update)

text \<open>
  What \<^verbatim>\<open>ReconcileWP\<close> needs of its caller: a container occurs once in the rules, as in a Go map, and the
  identifiers do not run out.
\<close>

definition reconcilable :: "Resolver \<Rightarrow> WorkloadPolicy \<Rightarrow> bool" where
  "reconcilable r wp \<longleftrightarrow> distinct (map fst (RulesByContainer wp)) \<and>
     unat (nextPolicyID r) + length (RulesByContainer wp) < 2 ^ 64"

definition known_ids :: "Resolver \<Rightarrow> string \<Rightarrow> policyByContainer" where
  "known_ids r k = (case map_of (wpState r) k of Some i \<Rightarrow> polByContainer i | None \<Rightarrow> [])"

lemma known_ids_lookup: "map_of (known_ids r k) c = policy_id r k c"
  by (simp add: policy_id_def known_ids_def split: option.splits)

lemma known_ids_inv:
  assumes "res_inv r s"
  shows "distinct (map fst (known_ids r k))" and "inj_ids (known_ids r k)"
    and "map_of (known_ids r k) c = Some p \<Longrightarrow> p \<noteq> 0 \<and> p < nextPolicyID r"
proof -
  show "distinct (map fst (known_ids r k))" using assms by (auto simp: res_inv_def known_ids_def split: option.splits)
  show "inj_ids (known_ids r k)" using assms unfolding inj_ids_def known_ids_lookup res_inv_def by blast
  show "map_of (known_ids r k) c = Some p \<Longrightarrow> p \<noteq> 0 \<and> p < nextPolicyID r"
    using assms unfolding known_ids_lookup res_inv_def by blast
qed

text \<open>The resolver with one workload policy replaced.\<close>

definition res_frame :: "Resolver \<Rightarrow> Resolver \<Rightarrow> string \<Rightarrow> policyByContainer \<Rightarrow> PolicyStatus \<Rightarrow> u64 \<Rightarrow> bool" where
  "res_frame r r' k pol st n \<longleftrightarrow> podCache r' = podCache r \<and> cgroupIDToPodID r' = cgroupIDToPodID r \<and>
     nriSynchronized r' = nriSynchronized r \<and> nextPolicyID r' = n \<and>
     (\<forall>j. map_of (wpState r') j = (if j = k then Some \<lparr>polByContainer = pol, status = st\<rparr> else map_of (wpState r) j)) \<and>
     (distinct (map fst (wpState r)) \<longrightarrow> distinct (map fst (wpState r')))"

lemma res_frame_set_info:
  "res_frame r (set_info (r\<lparr>nextPolicyID := n\<rparr>) k pol st) k pol st n"
  "res_frame r ((set_info r k pol st)\<lparr>nextPolicyID := n\<rparr>) k pol st n"
  "res_frame r (set_info ((set_info r k pol0 st0)\<lparr>nextPolicyID := n\<rparr>) k pol st) k pol st n"
  by (simp_all add: res_frame_def set_info_def update_conv' distinct_update)

lemma res_frame_policy_id:
  "res_frame r r' k pol st n \<Longrightarrow> policy_id r' j c = (if j = k then map_of pol c else policy_id r j c)"
  by (simp add: res_frame_def policy_id_def)

text \<open>The identifiers after a reconciliation: old ones of the same policy, or new ones.\<close>

definition ids_from :: "Resolver \<Rightarrow> string \<Rightarrow> u64 \<Rightarrow> policyByContainer \<Rightarrow> bool" where
  "ids_from r k n' pol \<longleftrightarrow> distinct (map fst pol) \<and> inj_ids pol \<and>
     (\<forall>c p. map_of pol c = Some p \<longrightarrow> policy_id r k c = Some p \<or> nextPolicyID r \<le> p \<and> p < n')"

lemma ids_from_known: "res_inv r s \<Longrightarrow> ids_from r k n' (known_ids r k)"
  using known_ids_inv [of r s k] by (simp add: ids_from_def known_ids_lookup)

lemma ids_from_sub:
  assumes "ids_from r k n' pol" and "\<And>c. map_of pol' c = map_of pol c \<or> map_of pol' c = None" and "distinct (map fst pol')"
  shows "ids_from r k n' pol'"
  using assms unfolding ids_from_def inj_ids_def by (metis option.distinct(1))

lemma ids_from_copy:
  assumes inv: "res_inv r s" and new: "distinct (map fst new)" "inj_ids new"
    "\<And>c p. map_of new c = Some p \<Longrightarrow> nextPolicyID r \<le> p \<and> p < n'"
  shows "ids_from r k n' (copy_ids new (known_ids r k))"
proof -
  note k = known_ids_inv [OF inv, of k]
  have "inj_ids (copy_ids new (known_ids r k))"
    unfolding inj_ids_def copy_ids_lookup [OF new(1)]
  proof (intro allI impI, elim conjE)
    fix c d p
    assume a: "(case map_of new c of None \<Rightarrow> map_of (known_ids r k) c | Some p \<Rightarrow> Some p) = Some p"
      "(case map_of new d of None \<Rightarrow> map_of (known_ids r k) d | Some p \<Rightarrow> Some p) = Some p"
    have lt: "p < nextPolicyID r" if "map_of (known_ids r k) e = Some p" for e using k(3) that by blast
    show "c = d"
    proof (cases "p < nextPolicyID r")
      case True
      then have "map_of new e \<noteq> Some p" for e using new(3) [of e p] by auto
      then have "map_of (known_ids r k) c = Some p" "map_of (known_ids r k) d = Some p"
        using a by (auto split: option.splits)
      then show ?thesis using k(2) unfolding inj_ids_def by blast
    next
      case False
      then have "map_of new c = Some p" "map_of new d = Some p" using a lt by (auto split: option.splits)
      then show ?thesis using new(2) unfolding inj_ids_def by blast
    qed
  qed
  then show ?thesis
    using copy_ids_distinct [OF k(1)] new(3)
    by (auto simp: ids_from_def copy_ids_lookup [OF new(1)] known_ids_lookup split: option.splits)
qed

text \<open>The status that \<^verbatim>\<open>ReconcileWP\<close> records, and the two maps it splits the containers into.\<close>

abbreviation failed_status :: "WorkloadPolicy \<Rightarrow> resolver_error \<Rightarrow> PolicyStatus" where
  "failed_status wp e \<equiv> \<lparr>State = POLICY_STATE_ERROR, StatusMode = ParsePolicyModeToProto (wp_Mode wp), Message = Some e\<rparr>"

abbreviation ready_status :: "WorkloadPolicy \<Rightarrow> PolicyStatus" where
  "ready_status wp \<equiv> \<lparr>State = POLICY_STATE_READY, StatusMode = ParsePolicyModeToProto (wp_Mode wp), Message = None\<rparr>"

definition kept :: "WorkloadPolicy \<Rightarrow> policyByContainer \<Rightarrow> policyByContainer" where
  "kept wp pol = filter (\<lambda>(c, i). map_of (RulesByContainer wp) c \<noteq> None) pol"

definition gone :: "WorkloadPolicy \<Rightarrow> policyByContainer \<Rightarrow> policyByContainer" where
  "gone wp pol = filter (\<lambda>(c, i). map_of (RulesByContainer wp) c = None) pol"

lemma kept_gone_lookup:
  "map_of (kept wp pol) c = (if map_of (RulesByContainer wp) c = None then None else map_of pol c)"
  "map_of (gone wp pol) c = (if map_of (RulesByContainer wp) c = None then map_of pol c else None)"
  by (induction pol) (auto simp: kept_def gone_def)

lemma gone_ids:
  assumes "inj_ids pol" and "map_of pol c = Some q" and "q \<in> dropped_ids cs (gone wp pol)"
  shows "map_of (RulesByContainer wp) c = None"
proof -
  obtain b where b: "map_of (gone wp pol) b = Some q" using assms(3) unfolding dropped_ids_def by blast
  then have "map_of (RulesByContainer wp) b = None" "map_of pol b = Some q"
    unfolding kept_gone_lookup by (simp_all split: if_splits)
  then show ?thesis using assms(1,2) unfolding inj_ids_def by blast
qed

text \<open>The outcomes of \<^verbatim>\<open>ReconcileWP\<close>: a panic or an error while the rules are written, or the loop over the pods.\<close>

lemma ReconcileWP_cases:
  assumes "ReconcileWP M r s wp = (e, r', s')"
  obtains (stopped) st0 err r1 where
      "syncWorkloadPolicy M (set_info r (NamespacedName wp) (known_ids r (NamespacedName wp)) st0) s wp
         (known_ids r (NamespacedName wp)) = (Inl err, r1, s')" and "e = Some err" and
      "r' = (if is_panic err then r1 else set_info r1 (NamespacedName wp) (known_ids r (NamespacedName wp)) (failed_status wp err))"
    | (looped) st0 new r1 s1 pol' where
      "syncWorkloadPolicy M (set_info r (NamespacedName wp) (known_ids r (NamespacedName wp)) st0) s wp
         (known_ids r (NamespacedName wp)) = (Inr new, r1, s1)" and
      "pods_loop M s1 wp (copy_ids new (known_ids r (NamespacedName wp)))
         (kept wp (copy_ids new (known_ids r (NamespacedName wp))))
         (gone wp (copy_ids new (known_ids r (NamespacedName wp)))) (podCache r1) = (e, pol', s')" and
      "r' = set_info r1 (NamespacedName wp) pol' (case e of Some err \<Rightarrow> failed_status wp err | None \<Rightarrow> ready_status wp)"
proof -
  define info where "info = (case map_of (wpState r) (NamespacedName wp) of
      Some i \<Rightarrow> i
    | None \<Rightarrow> \<lparr>polByContainer = [], status =
        \<lparr>State = POLICY_STATE_UNSPECIFIED, StatusMode = PolicyMode_UNSPECIFIED, Message = None\<rparr>\<rparr>)"
  have k: "polByContainer info = known_ids r (NamespacedName wp)"
    by (simp add: info_def known_ids_def split: option.splits)
  note R = assms [unfolded ReconcileWP_def Let_def, folded info_def, unfolded k, folded kept_def gone_def]
  obtain y r1 s1 where y: "syncWorkloadPolicy M (set_info r (NamespacedName wp) (known_ids r (NamespacedName wp)) (status info))
      s wp (known_ids r (NamespacedName wp)) = (y, r1, s1)" by (metis prod_cases3)
  show thesis
  proof (cases y)
    case (Inl err)
    then show thesis using R y stopped [of "status info" err r1] by simp
  next
    case (Inr new)
    obtain z pol' s2 where z: "pods_loop M s1 wp (copy_ids new (known_ids r (NamespacedName wp)))
         (kept wp (copy_ids new (known_ids r (NamespacedName wp))))
         (gone wp (copy_ids new (known_ids r (NamespacedName wp)))) (podCache r1) = (z, pol', s2)" by (metis prod_cases3)
    have "z = e" "s2 = s'"
        "r' = set_info r1 (NamespacedName wp) pol' (case e of Some err \<Rightarrow> failed_status wp err | None \<Rightarrow> ready_status wp)"
      using R y Inr z by (cases z; auto)+
    then show thesis using looped y Inr z by blast
  qed
qed

text \<open>Writing the rules, for a resolver in which the policy has been registered.\<close>

lemma syncWorkloadPolicy_frame:
  assumes inv: "res_inv r s" and rc: "reconcilable r wp"
    and y: "syncWorkloadPolicy M (set_info r k (known_ids r k) st) s wp (known_ids r k) = (res, r1, s1)"
  obtains n' where "r1 = (set_info r k (known_ids r k) st)\<lparr>nextPolicyID := n'\<rparr>" and "nextPolicyID r \<le> n'" and
    "unat n' \<le> unat (nextPolicyID r) + length (RulesByContainer wp)" and
    "agent_frame s s1 (policy_ids r k \<union> {nextPolicyID r..<n'}) {}"
proof (cases "ParseMode (wp_Mode wp)")
  case None
  then have "r1 = (set_info r k (known_ids r k) st)\<lparr>nextPolicyID := nextPolicyID r\<rparr>" "s1 = s"
    using y by (auto simp: syncWorkloadPolicy_def set_info_def)
  then show ?thesis using that [of "nextPolicyID r"] inv by (simp add: agent_frame_refl res_inv_def)
next
  case (Some m)
  let ?r0 = "set_info r k (known_ids r k) st"
  have n: "nextPolicyID ?r0 = nextPolicyID r" by (simp add: set_info_def)
  have l: "sync_loop M ?r0 s m (known_ids r k) [] (RulesByContainer wp) = (res, r1, s1)"
    using y Some by (simp add: syncWorkloadPolicy_def)
  have "agent_inv s" "unat (nextPolicyID ?r0) + length (RulesByContainer wp) < 2 ^ 64"
    using inv rc n by (simp_all add: res_inv_def reconcilable_def)
  from sync_loop_frame [OF this l] obtain n' where n': "r1 = ?r0\<lparr>nextPolicyID := n'\<rparr>" "nextPolicyID r \<le> n'"
    "unat n' \<le> unat (nextPolicyID r) + length (RulesByContainer wp)"
    "pol_frame s s1 (rule_ids (known_ids r k) (RulesByContainer wp) \<union> {nextPolicyID r..<n'})"
    unfolding n by (elim exE conjE)
  have "rule_ids (known_ids r k) (RulesByContainer wp) \<subseteq> policy_ids r k"
    by (auto simp: rule_ids_def policy_ids_def known_ids_lookup)
  then show ?thesis using that [OF n'(1-3)] agent_frame_mono [OF pol_frame_agent [OF n'(4)]] by blast
qed

lemma syncWorkloadPolicy_new:
  assumes inv: "res_inv r s" and rc: "reconcilable r wp"
    and y: "syncWorkloadPolicy M (set_info r k (known_ids r k) st) s wp (known_ids r k) = (Inr new, r1, s1)"
  shows "\<forall>c p. map_of new c = Some p \<longrightarrow> nextPolicyID r \<le> p \<and> p < nextPolicyID r1" and "inj_ids new"
    and "distinct (map fst new)"
    and "\<forall>c. map_of (known_ids r k) c \<noteq> None \<longrightarrow> map_of new c = None"
    and "\<forall>c. map_of (RulesByContainer wp) c = None \<longrightarrow> map_of new c = None"
proof -
  let ?r0 = "set_info r k (known_ids r k) st"
  have n: "nextPolicyID ?r0 = nextPolicyID r" by (simp add: set_info_def)
  obtain m where l: "sync_loop M ?r0 s m (known_ids r k) [] (RulesByContainer wp) = (Inr new, r1, s1)"
    using y by (auto simp: syncWorkloadPolicy_def split: option.splits)
  have "unat (nextPolicyID ?r0) + length (RulesByContainer wp) < 2 ^ 64"
    using rc n by (simp add: reconcilable_def)
  from sync_loop_new [OF this l, of "nextPolicyID r"]
  show "\<forall>c p. map_of new c = Some p \<longrightarrow> nextPolicyID r \<le> p \<and> p < nextPolicyID r1" "inj_ids new" "distinct (map fst new)"
    by (simp_all add: n inj_ids_def)
  show "\<forall>c. map_of (known_ids r k) c \<noteq> None \<longrightarrow> map_of new c = None"
    "\<forall>c. map_of (RulesByContainer wp) c = None \<longrightarrow> map_of new c = None"
    using sync_loop_keeps [OF l] by (simp_all add: map_of_eq_None_iff)
qed

text \<open>Every outcome of \<^verbatim>\<open>ReconcileWP\<close>, as a change of the resolver and of the maps.\<close>

lemma reconcile_frame:
  assumes inv: "res_inv r s" and rc: "reconcilable r wp" and R: "ReconcileWP M r s wp = (e, r', s')"
  obtains pol st n' where "res_frame r r' (NamespacedName wp) pol st n'" and "nextPolicyID r \<le> n'" and
    "ids_from r (NamespacedName wp) n' pol" and
    "agent_frame s s' (policy_ids r (NamespacedName wp) \<union> {nextPolicyID r..<n'})
       (CgroupID ` snd ` set (matched wp (podCache r)))" and "e = None \<Longrightarrow> st = ready_status wp"
  using R
proof (cases rule: ReconcileWP_cases)
  case (stopped st0 err r1)
  let ?k = "NamespacedName wp"
  obtain n' where n': "r1 = (set_info r ?k (known_ids r ?k) st0)\<lparr>nextPolicyID := n'\<rparr>" "nextPolicyID r \<le> n'"
    "agent_frame s s' (policy_ids r ?k \<union> {nextPolicyID r..<n'}) {}"
    using syncWorkloadPolicy_frame [OF inv rc stopped(1)] by blast
  have "agent_frame s s' (policy_ids r ?k \<union> {nextPolicyID r..<n'}) (CgroupID ` snd ` set (matched wp (podCache r)))"
    using n'(3) by (rule agent_frame_mono) auto
  moreover have "\<exists>st. res_frame r r' ?k (known_ids r ?k) st n'"
    unfolding stopped(3) n'(1)
    by (cases "is_panic err") (simp_all only: if_True if_False, (rule exI, rule res_frame_set_info)+)
  ultimately show thesis using that n'(2) ids_from_known [OF inv] stopped(2) by blast
next
  case (looped st0 new r1 s1 pol')
  let ?k = "NamespacedName wp"
  let ?pol = "copy_ids new (known_ids r ?k)"
  obtain n' where n': "r1 = (set_info r ?k (known_ids r ?k) st0)\<lparr>nextPolicyID := n'\<rparr>" "nextPolicyID r \<le> n'"
    and f1: "agent_frame s s1 (policy_ids r ?k \<union> {nextPolicyID r..<n'}) {}"
    using syncWorkloadPolicy_frame [OF inv rc looped(1)] by blast
  note new = syncWorkloadPolicy_new [OF inv rc looped(1)]
  have nr1: "nextPolicyID r1 = n'" and pods: "podCache r1 = podCache r" by (simp_all add: n'(1) set_info_def)
  have ids: "ids_from r ?k n' ?pol" using ids_from_copy [OF inv new(3,2)] new(1) nr1 by simp
  note p = pods_loop_frame [OF agent_frame_inv [OF f1] looped(2), unfolded pods]
  have "ids_from r ?k n' pol'"
  proof (rule ids_from_sub [OF ids])
    show "map_of pol' c = map_of ?pol c \<or> map_of pol' c = None" for c
      using p [THEN conjunct2, THEN conjunct1, THEN spec, of c] by (elim disjE conjE) simp_all
    show "distinct (map fst pol')" using p [THEN conjunct2, THEN conjunct2] ids by (simp only: ids_from_def)
  qed
  moreover have "agent_frame s s' (policy_ids r ?k \<union> {nextPolicyID r..<n'})
      (CgroupID ` snd ` set (matched wp (podCache r)))"
  proof (rule agent_frame_mono)
    show "agent_frame s s' ((policy_ids r ?k \<union> {nextPolicyID r..<n'}) \<union> dropped_ids (matched wp (podCache r)) (gone wp ?pol))
      ({} \<union> CgroupID ` snd ` set (matched wp (podCache r)))"
      by (rule agent_frame_trans [OF f1 conjunct1 [OF p]])
    have "p \<in> policy_ids r ?k \<union> {nextPolicyID r..<n'}" if "map_of (gone wp ?pol) c = Some p" for c p
      using that ids by (auto simp: kept_gone_lookup ids_from_def policy_ids_def split: if_splits)
    then show "(policy_ids r ?k \<union> {nextPolicyID r..<n'}) \<union> dropped_ids (matched wp (podCache r)) (gone wp ?pol)
      \<subseteq> policy_ids r ?k \<union> {nextPolicyID r..<n'}" unfolding dropped_ids_def by blast
  qed simp
  moreover have "res_frame r r' ?k pol' (case e of Some err \<Rightarrow> failed_status wp err | None \<Rightarrow> ready_status wp) n'"
    using looped(3) n'(1) res_frame_set_info(3) by simp
  ultimately show thesis using n'(2) that [of pol' "case e of Some err \<Rightarrow> failed_status wp err | None \<Rightarrow> ready_status wp" n'] by simp
qed

lemma policy_ids_less: "res_inv r s \<Longrightarrow> p \<in> policy_ids r k \<Longrightarrow> p < nextPolicyID r"
  unfolding res_inv_def policy_ids_def by blast

lemma res_inv_replace:
  assumes inv: "res_inv r s" and f: "res_frame r r' k pol st n'" and n: "nextPolicyID r \<le> n'"
    and ids: "ids_from r k n' pol" and g: "agent_frame s s' (policy_ids r k \<union> {nextPolicyID r..<n'}) C"
  shows "res_inv r' s'"
  unfolding res_inv_def
proof (intro conjI allI impI)
  have next': "nextPolicyID r' = n'" using f by (simp add: res_frame_def)
  show "agent_inv s'" by (rule agent_frame_inv [OF g])
  have "0 < nextPolicyID r" using inv by (simp add: res_inv_def word_gt_0)
  then show "nextPolicyID r' \<noteq> 0" using n next' by auto
  have "\<forall>p\<in>policy_ids r k \<union> {nextPolicyID r..<n'}. p < n'"
    using policy_ids_less [OF inv] n by (auto intro: less_le_trans)
  then show "unused s' (nextPolicyID r')" using unused_frame [OF _ g n] inv next' by (simp add: res_inv_def)
  show "distinct (map fst (wpState r'))" using f inv by (simp add: res_frame_def res_inv_def)
  show "distinct (map fst (polByContainer i))" if "map_of (wpState r') j = Some i" for j i
  proof (cases "j = k")
    case True
    then have "i = \<lparr>polByContainer = pol, status = st\<rparr>" using that f by (simp add: res_frame_def)
    then show ?thesis using ids by (simp add: ids_from_def)
  next
    case False
    then have "map_of (wpState r) j = Some i" using that f by (simp add: res_frame_def)
    then show ?thesis using inv unfolding res_inv_def by blast
  qed
  have new: "p \<noteq> 0 \<and> p < n' \<and> (policy_id r j c = Some p \<or> j = k \<and> nextPolicyID r \<le> p)"
    if "policy_id r' j c = Some p" for j c p
  proof (cases "policy_id r j c = Some p")
    case True
    then have "p \<noteq> 0" "p < nextPolicyID r" using inv unfolding res_inv_def by blast+
    then show ?thesis using True n by (auto intro: less_le_trans)
  next
    case False
    then have "j = k" "nextPolicyID r \<le> p" "p < n'"
      using that ids unfolding res_frame_policy_id [OF f] ids_from_def by (auto split: if_splits)
    then show ?thesis using \<open>0 < nextPolicyID r\<close> by auto
  qed
  show "p \<noteq> 0" "p < nextPolicyID r'" if "policy_id r' j c = Some p" for j c p
    using new [OF that] next' by simp_all
  have old: "p < nextPolicyID r" if "policy_id r j c = Some p" for j c p
    using that inv unfolding res_inv_def by blast
  have same: "j = j' \<and> c = c'" if "policy_id r' j c = Some p" "policy_id r' j' c' = Some p" for j c j' c' p
  proof (cases "p < nextPolicyID r")
    case True
    then have "policy_id r j c = Some p" "policy_id r j' c' = Some p" using new [OF that(1)] new [OF that(2)] by auto
    then show ?thesis using inv unfolding res_inv_def by blast
  next
    case False
    then have "j = k" "j' = k" using new [OF that(1)] new [OF that(2)] old by auto
    then show ?thesis using that ids unfolding res_frame_policy_id [OF f] ids_from_def inj_ids_def by auto
  qed
  show "j = j'" "c = c'" if "policy_id r' j c = Some p \<and> policy_id r' j' c' = Some p" for j c j' c' p
    using same that by blast+
qed

lemma reconcile_inv:
  assumes "res_inv r s" and "reconcilable r wp" and "ReconcileWP M r s wp = (e, r', s')"
  shows "res_inv r' s'"
proof -
  obtain pol st n' where "res_frame r r' (NamespacedName wp) pol st n'" "nextPolicyID r \<le> n'"
    "ids_from r (NamespacedName wp) n' pol"
    "agent_frame s s' (policy_ids r (NamespacedName wp) \<union> {nextPolicyID r..<n'})
       (CgroupID ` snd ` set (matched wp (podCache r)))"
    by (rule reconcile_frame [OF assms])
  then show ?thesis by (rule res_inv_replace [OF assms(1)])
qed

text \<open>
  A successful \<^verbatim>\<open>ReconcileWP\<close>. Every container of the rules has an identifier whose values and settings are
  those of its rules; every cached container of the policy has the identifier of its name.
\<close>

definition distinct_cgroups :: "(string \<times> podEntry) list \<Rightarrow> bool" where
  "distinct_cgroups pods \<longleftrightarrow> distinct (map fst pods) \<and> (\<forall>pod\<in>snd ` set pods. distinct (map fst (containers pod))) \<and>
     (\<forall>i pod j ct i' pod' j' ct'. (i, pod) \<in> set pods \<and> (j, ct) \<in> set (containers pod) \<and>
        (i', pod') \<in> set pods \<and> (j', ct') \<in> set (containers pod') \<and> CgroupID ct = CgroupID ct' \<longrightarrow> i = i' \<and> j = j')"

lemma distinct_cgroupsD:
  assumes "distinct_cgroups pods" and "(i, pod) \<in> set pods" and "(j, ct) \<in> set (containers pod)"
    and "(i', pod') \<in> set pods" and "(j', ct') \<in> set (containers pod')" and "CgroupID ct = CgroupID ct'"
  shows "i = i' \<and> pod = pod' \<and> j = j' \<and> ct = ct'"
proof -
  have ij: "i = i'" "j = j'" and d: "distinct (map fst pods)" "distinct (map fst (containers pod))"
    using assms unfolding distinct_cgroups_def by (blast, blast, blast, force)
  then have "pod = pod'" using assms(2,4) eq_key_imp_eq_value by metis
  moreover from this have "ct = ct'" using assms(3,5) ij d(2) eq_key_imp_eq_value by metis
  ultimately show ?thesis using ij by simp
qed

lemma distinct_matched: "distinct_cgroups pods \<Longrightarrow> distinct (map (CgroupID \<circ> snd) (matched wp pods))"
proof (induction pods)
  case (Cons x pods)
  obtain i pod where x: "x = (i, pod)" by (cases x)
  note D = distinct_cgroupsD [OF Cons.prems]
  have "distinct_cgroups pods" using Cons.prems unfolding distinct_cgroups_def by simp blast
  then have ih: "distinct (map (CgroupID \<circ> snd) (matched wp pods))" by (rule Cons.IH)
  have k: "distinct (map fst (containers pod))" "i \<notin> fst ` set pods"
    using Cons.prems x by (simp_all add: distinct_cgroups_def)
  have "inj_on (CgroupID \<circ> snd) (set (containers pod))"
  proof (rule inj_onI)
    fix a b assume "a \<in> set (containers pod)" "b \<in> set (containers pod)" "(CgroupID \<circ> snd) a = (CgroupID \<circ> snd) b"
    then show "a = b" using D [of i pod "fst a" "snd a" i pod "fst b" "snd b"] x by (simp add: prod_eq_iff)
  qed
  then have d: "distinct (map (CgroupID \<circ> snd) (containers pod))"
    using k(1) by (simp add: distinct_map)
  have "(CgroupID \<circ> snd) ` set (containers pod) \<inter> (CgroupID \<circ> snd) ` set (matched wp pods) = {}"
  proof (rule ccontr)
    assume "(CgroupID \<circ> snd) ` set (containers pod) \<inter> (CgroupID \<circ> snd) ` set (matched wp pods) \<noteq> {}"
    then obtain j ct i' pod' j' ct' where "(j, ct) \<in> set (containers pod)" "(i', pod') \<in> set pods"
      "(j', ct') \<in> set (containers pod')" "CgroupID ct = CgroupID ct'"
      unfolding matched_def by fastforce
    then have "i = i'" using D [of i pod j ct i' pod' j' ct'] x by simp
    then show False using k(2) \<open>(i', pod') \<in> set pods\<close> by force
  qed
  then show ?case using ih d x by (simp add: comp_def)
qed simp

lemma reconcile_success:
  assumes inv: "res_inv r s" and rc: "reconcilable r wp" and M: "\<not> isShuttingDown M"
    and d: "distinct_cgroups (podCache r)" and R: "ReconcileWP M r s wp = (None, r', s')"
  obtains m pol where "ParseMode (wp_Mode wp) = Some m" and "\<forall>c. policy_id r' (NamespacedName wp) c =
      (if c \<in> container_Name ` dropped (matched wp (podCache r)) (gone wp pol) then None else map_of pol c)" and
    "\<forall>c. map_of (RulesByContainer wp) c = None \<longrightarrow> map_of pol c = policy_id r (NamespacedName wp) c" and
    "\<forall>c cr. (c, cr) \<in> set (RulesByContainer wp) \<longrightarrow> (\<exists>y p. cr = Some y \<and> map_of pol c = Some p \<and> installed s' p y m)" and
    "\<forall>ct\<in>snd ` set (matched wp (podCache r)). cg_policy s' (CgroupID ct) =
       target (kept wp pol) (gone wp pol) (container_Name ct) (cg_policy s (CgroupID ct))" and
    "\<forall>p\<in>dropped_ids (matched wp (podCache r)) (gone wp pol). cleared s' p" and
    "\<forall>c p. map_of (RulesByContainer wp) c = None \<and> policy_id r (NamespacedName wp) c = Some p \<and>
       p \<notin> dropped_ids (matched wp (podCache r)) (gone wp pol) \<longrightarrow> same_policy s s' p"
  using R
proof (cases rule: ReconcileWP_cases)
  case (looped st0 new r1 s1 pol')
  let ?k = "NamespacedName wp"
  let ?pol = "copy_ids new (known_ids r ?k)" and ?r0 = "set_info r ?k (known_ids r ?k) st0"
  obtain m where m: "ParseMode (wp_Mode wp) = Some m"
    and l: "sync_loop M ?r0 s m (known_ids r ?k) [] (RulesByContainer wp) = (Inr new, r1, s1)"
    using looped(1) by (auto simp: syncWorkloadPolicy_def split: option.splits)
  have n0: "nextPolicyID ?r0 = nextPolicyID r" by (simp add: set_info_def)
  have sinv: "agent_inv s" "unused s (nextPolicyID ?r0)" "unat (nextPolicyID ?r0) + length (RulesByContainer wp) < 2 ^ 64"
    "distinct (map fst (RulesByContainer wp))"
    using inv rc n0 by (simp_all add: res_inv_def reconcilable_def)
  obtain n' where n': "r1 = ?r0\<lparr>nextPolicyID := n'\<rparr>" "nextPolicyID r \<le> n'"
    "pol_frame s s1 (rule_ids (known_ids r ?k) (RulesByContainer wp) \<union> {nextPolicyID r..<n'})"
    using sync_loop_frame [OF sinv(1,3) l] unfolding n0 by blast
  have inv1: "agent_inv s1" by (rule pol_frame_inv [OF n'(3)])
  note new = syncWorkloadPolicy_new [OF inv rc looped(1)]
  have pods: "podCache r1 = podCache r" and nr1: "nextPolicyID r1 = n'" by (simp_all add: n'(1) set_info_def)
  have ids: "ids_from r ?k n' ?pol" using ids_from_copy [OF inv new(3,2)] new(1) nr1 by simp
  note loop = looped(2) [unfolded pods]
  have cg: "cg_to_policy_map s1 = cg_to_policy_map s" using n'(3) by (simp add: pol_frame_def)
  note p = pods_loop_success [OF inv1 M distinct_matched [OF d] loop, unfolded cg]
  note g = conjunct1 [OF pods_loop_frame [OF inv1 loop]]
  have lookup: "map_of ?pol c = (case map_of new c of Some p \<Rightarrow> Some p | None \<Rightarrow> map_of (known_ids r ?k) c)" for c
    by (rule copy_ids_lookup [OF new(3)])
  have norule: "map_of ?pol c = policy_id r ?k c" if "map_of (RulesByContainer wp) c = None" for c
    using new(5) that by (simp add: lookup known_ids_lookup)
  have rule: "\<exists>y q. cr = Some y \<and> map_of ?pol c = Some q \<and> installed s' q y m" if c: "(c, cr) \<in> set (RulesByContainer wp)" for c cr
  proof -
    have "\<forall>c p. map_of (known_ids r ?k) c = Some p \<longrightarrow> p < nextPolicyID ?r0" "inj_ids (known_ids r ?k)"
      using known_ids_inv [OF inv] n0 by simp_all
    from sync_loop_installs [OF sinv(1) M sinv(2-4) this l c]
    obtain y q where y: "cr = Some y" "map_of (known_ids r ?k) c = Some q \<or> map_of (known_ids r ?k) c = None \<and> map_of new c = Some q"
      "installed s1 q y m" by blast
    have q: "map_of ?pol c = Some q" using y(2) new(4) by (auto simp: lookup)
    have "map_of (RulesByContainer wp) c \<noteq> None" using c sinv(4) by simp
    then have "q \<notin> dropped_ids (matched wp (podCache r)) (gone wp ?pol)"
      using gone_ids [OF _ q] ids by (auto simp: ids_from_def)
    then have "same_policy s1 s' q" using g by (simp add: agent_frame_def)
    then show ?thesis using y q installed_same by blast
  qed
  have same: "same_policy s s' q" if c: "map_of (RulesByContainer wp) c = None" "policy_id r ?k c = Some q"
    "q \<notin> dropped_ids (matched wp (podCache r)) (gone wp ?pol)" for c q
  proof -
    have "q < nextPolicyID r" using inv c(2) unfolding res_inv_def by blast
    moreover have "q \<notin> rule_ids (known_ids r ?k) (RulesByContainer wp)"
    proof
      assume "q \<in> rule_ids (known_ids r ?k) (RulesByContainer wp)"
      then obtain b where "policy_id r ?k b = Some q" "b \<in> fst ` set (RulesByContainer wp)"
        by (auto simp: rule_ids_def known_ids_lookup)
      moreover from this have "b = c" using inv c(2) unfolding res_inv_def by blast
      ultimately show False using c(1) by (simp add: map_of_eq_None_iff)
    qed
    ultimately have "same_policy s s1 q" using n'(3) by (auto simp: pol_frame_def same_policy_def)
    moreover have "same_policy s1 s' q" using g c(3) by (simp add: agent_frame_def)
    ultimately show ?thesis by (simp add: same_policy_def)
  qed
  have pid: "\<forall>c. policy_id r' ?k c = (if c \<in> container_Name ` dropped (matched wp (podCache r)) (gone wp ?pol) then None else map_of ?pol c)"
    using looped(3) conjunct1 [OF conjunct2 [OF p]] by (simp add: policy_id_def set_info_def update_conv')
  show thesis
    by (rule that [OF m pid _ _ conjunct1 [OF p] conjunct2 [OF conjunct2 [OF p]]]) (use norule rule same in blast)+
qed simp

section \<open>Deleting a workload policy\<close>

lemma delete_loop_effect:
  "agent_inv s \<Longrightarrow> \<forall>p\<in>snd ` set pol. p \<noteq> 0 \<Longrightarrow>
     \<exists>s'. delete_loop M s pol = (None, s') \<and> agent_frame s s' (snd ` set pol) UNIV \<and>
       (\<forall>d. cg_policy s' d = (if cg_policy s d \<in> Some ` snd ` set pol then None else cg_policy s d)) \<and>
       (\<forall>p\<in>snd ` set pol. cleared s' p)"
proof (induction pol arbitrary: s)
  case Nil
  then show ?case by (simp add: agent_frame_refl)
next
  case (Cons x pol)
  obtain c p where x: "x = (c, p)" by (cases x)
  have "p \<noteq> 0" using Cons.prems(2) x by simp
  then obtain s1 where s1: "cgroupToPolicyMapUpdate M s p [] RemovePolicy = ([], s1)" "cg_frame s s1"
    "\<forall>d. cg_policy s1 d = (if cg_policy s d = Some p then None else cg_policy s d)"
    using cg_remove_policy [OF Cons.prems(1)] by blast
  have f1: "agent_frame s s1 {} UNIV" by (rule cg_frame_agent [OF Cons.prems(1) s1(2)]) simp
  obtain s2 where s2: "clearPolicyIDFromBPF M s1 p = ([], s2)" "pol_frame s1 s2 {p}" "cleared s2 p"
    using clear_effect [OF agent_frame_inv [OF f1]] unfolding cleared_def by blast
  have f2: "agent_frame s s2 {p} UNIV" using agent_frame_trans [OF f1 pol_frame_agent [OF s2(2)]] by simp
  have cg2: "cg_policy s2 = cg_policy s1" using s2(2) by (simp add: pol_frame_def)
  obtain s' where s': "delete_loop M s2 pol = (None, s')" "agent_frame s2 s' (snd ` set pol) UNIV"
    "\<forall>d. cg_policy s' d = (if cg_policy s2 d \<in> Some ` snd ` set pol then None else cg_policy s2 d)"
    "\<forall>p\<in>snd ` set pol. cleared s' p"
    using Cons.IH [OF agent_frame_inv [OF f2]] Cons.prems(2) by auto
  have "cleared s' p"
    using s'(2,4) s2(3) cleared_same [of s2 s' p] by (cases "p \<in> snd ` set pol") (auto simp: agent_frame_def)
  moreover have "delete_loop M s (x # pol) = (None, s')" using x s1(1) s2(1) s'(1) by simp
  moreover have "agent_frame s s' (snd ` set (x # pol)) UNIV" using agent_frame_trans [OF f2 s'(2)] x by simp
  moreover have "cg_policy s' d = (if cg_policy s d \<in> Some ` snd ` set (x # pol) then None else cg_policy s d)" for d
    using s'(3) s1(3) x unfolding cg2 by auto
  ultimately show ?case using s'(4) x by (intro exI [of _ s']) simp
qed

lemma ran_known_ids: "res_inv r s \<Longrightarrow> snd ` set (known_ids r k) = policy_ids r k"
  using known_ids_inv(1) [of r s k] unfolding policy_ids_def known_ids_lookup [symmetric] by force

lemma policy_id_cong: "wpState r' = wpState r \<Longrightarrow> policy_id r' = policy_id r"
  by (simp add: policy_id_def fun_eq_iff)

lemma res_inv_cong: "wpState r' = wpState r \<Longrightarrow> nextPolicyID r' = nextPolicyID r \<Longrightarrow> res_inv r' s = res_inv r s"
  using policy_id_cong [of r' r] by (simp add: res_inv_def)

lemma delete_effect:
  assumes inv: "res_inv r s"
  shows "\<exists>r' s'. HandleWPDelete M r s wp = (None, r', s') \<and> res_inv r' s' \<and>
    podCache r' = podCache r \<and> cgroupIDToPodID r' = cgroupIDToPodID r \<and>
    (\<forall>k c. policy_id r' k c = (if k = NamespacedName wp then None else policy_id r k c)) \<and>
    agent_frame s s' (policy_ids r (NamespacedName wp)) UNIV \<and>
    (\<forall>d. cg_policy s' d = (if cg_policy s d \<in> Some ` policy_ids r (NamespacedName wp) then None else cg_policy s d)) \<and>
    (\<forall>p\<in>policy_ids r (NamespacedName wp). cleared s' p)"
proof (cases "map_of (wpState r) (NamespacedName wp)")
  case None
  then have "policy_ids r (NamespacedName wp) = {}" "\<forall>c. policy_id r (NamespacedName wp) c = None"
    by (simp_all add: policy_ids_def policy_id_def)
  moreover have "HandleWPDelete M r s wp = (None, r, s)" using None by (simp add: HandleWPDelete_def)
  moreover have "agent_inv s" using inv by (simp add: res_inv_def)
  ultimately show ?thesis using inv by (intro exI [of _ r] exI [of _ s]) (simp add: agent_frame_refl)
next
  case (Some info)
  let ?k = "NamespacedName wp"
  let ?r = "r\<lparr>wpState := AList.delete ?k (wpState r)\<rparr>"
  have k: "known_ids r ?k = polByContainer info" using Some by (simp add: known_ids_def)
  have ids: "snd ` set (polByContainer info) = policy_ids r ?k" using ran_known_ids [OF inv] k by metis
  have nz: "\<forall>p\<in>snd ` set (polByContainer info). p \<noteq> 0"
    using inv unfolding ids policy_ids_def res_inv_def by blast
  have ai: "agent_inv s" using inv by (simp add: res_inv_def)
  obtain s' where s': "delete_loop M s (polByContainer info) = (None, s')" "agent_frame s s' (policy_ids r ?k) UNIV"
    "\<forall>d. cg_policy s' d = (if cg_policy s d \<in> Some ` policy_ids r ?k then None else cg_policy s d)"
    "\<forall>p\<in>policy_ids r ?k. cleared s' p"
    using delete_loop_effect [OF ai nz, of M] unfolding ids by blast
  have pid: "policy_id ?r j c = (if j = ?k then None else policy_id r j c)" for j c
    by (simp add: policy_id_def delete_conv')
  have "res_inv r s'" using res_inv_frame [OF inv s'(2)] policy_ids_less [OF inv] by blast
  then have "res_inv ?r s'"
    unfolding res_inv_def pid by (auto simp: distinct_delete delete_conv' split: if_splits)
  then show ?thesis
    using s' pid Some by (intro exI [of _ ?r] exI [of _ s']) (simp add: HandleWPDelete_def)
qed

section \<open>Pods and containers\<close>

text \<open>Only the tracker map has changed.\<close>

definition tracker_frame :: "bpf_state \<Rightarrow> bpf_state \<Rightarrow> bool" where
  "tracker_frame s s' \<longleftrightarrow> (\<exists>t. s' = s\<lparr>cgtracker_map := t\<rparr>)"

lemma tracker_frame_simps:
  assumes "tracker_frame s s'"
  shows "agent_inv s' = agent_inv s" and "cg_policy s' = cg_policy s" and "same_policy s s' p"
    and "unused s' n = unused s n" and "process_evt_storage_map s' = process_evt_storage_map s"
  using assms
  by (auto simp: tracker_frame_def agent_inv_def outer_inv_def string_maps_wf_def same_policy_def outer_entry_def unused_def)

lemma cgTrackerUpdate_frame: "cgTrackerUpdate M nested s c cpath = (e, s') \<Longrightarrow> tracker_frame s s'"
  by (auto simp: cgTrackerUpdate_def tracker_frame_def Let_def split: sum.splits)
    (metis bpf_state.surjective bpf_state.update_convs(1))

lemma containers_loop_frame:
  "containers_loop M nested podID state cgs s cs = (e, state', cgs', s') \<Longrightarrow> tracker_frame s s'"
proof (induction cs arbitrary: state cgs s)
  case Nil
  then show ?case by (auto simp: tracker_frame_def intro: exI [of _ "cgtracker_map s"])
next
  case (Cons x cs)
  obtain i ct where x: "x = (i, ct)" by (cases x)
  obtain e1 s1 where u: "cgTrackerUpdate M nested s (CgroupID (ContainerMeta ct)) (CgroupPath ct) = (e1, s1)" by fastforce
  have t: "tracker_frame s s1" by (rule cgTrackerUpdate_frame [OF u])
  have r: "tracker_frame s s" by (auto simp: tracker_frame_def intro: exI [of _ "cgtracker_map s"])
  show ?case
  proof (cases "map_of (containers state) i")
    case None
    have "tracker_frame s1 s' \<Longrightarrow> tracker_frame s s'" using t by (auto simp: tracker_frame_def)
    then show ?thesis using Cons.prems Cons.IH x u None t by (cases e1) (auto simp: Let_def)
  next
    case (Some info)
    then show ?thesis using Cons.prems Cons.IH x r by (auto simp: Let_def split: if_splits)
  qed
qed

lemma res_inv_tracker: "res_inv r s \<Longrightarrow> tracker_frame s s' \<Longrightarrow> res_inv r s'"
  using tracker_frame_simps [of s s'] by (simp add: res_inv_def)

lemma apply_present_frame:
  assumes "agent_inv s" and "applyPolicyToPodIfPresent M r s pod = (e, s')"
  shows "agent_frame s s' {} (CgroupID ` snd ` set (containers pod))"
proof (cases "policyName pod = [] \<or> map_of (wpState r) (podNamespace pod @ ''/'' @ policyName pod) = None")
  case True
  then have "s' = s" using assms(2) by (auto simp: applyPolicyToPodIfPresent_def Let_def split: if_splits option.splits)
  then show ?thesis using agent_frame_refl [OF assms(1)] by simp
next
  case False
  then obtain i where "map_of (wpState r) (podNamespace pod @ ''/'' @ policyName pod) = Some i" by blast
  then have "apply_loop M s (containers pod) (polByContainer i) = (e, s')"
    using assms(2) False by (simp add: applyPolicyToPodIfPresent_def applyPolicyToPod_def Let_def)
  then show ?thesis by (rule apply_frame [OF assms(1)])
qed

lemma add_inv:
  assumes "res_inv r s" and "AddPodContainerFromNri M nested r s pod = (e, r', s')"
  shows "res_inv r' s' \<and> wpState r' = wpState r \<and> nextPolicyID r' = nextPolicyID r"
proof -
  define state where "state = (case map_of (podCache r) (pod_ID (input_Meta pod)) of
    Some st \<Rightarrow> st | None \<Rightarrow> \<lparr>meta = input_Meta pod, containers = []\<rparr>)"
  obtain e1 st cgs s1 where l: "containers_loop M nested (pod_ID (input_Meta pod)) state (cgroupIDToPodID r) s
      (input_Containers pod) = (e1, st, cgs, s1)" by (metis prod_cases4)
  have inv1: "res_inv r s1" by (rule res_inv_tracker [OF assms(1) containers_loop_frame [OF l]])
  show ?thesis
  proof (cases e1)
    case (Some err)
    then have "s' = s1" "wpState r' = wpState r" "nextPolicyID r' = nextPolicyID r"
      using assms(2) l by (auto simp: AddPodContainerFromNri_def Let_def state_def [symmetric])
    then show ?thesis using inv1 res_inv_cong by blast
  next
    case None
    let ?r = "r\<lparr>cgroupIDToPodID := cgs, podCache := AList.update (pod_ID (input_Meta pod)) st (podCache r)\<rparr>"
    obtain e2 s2 where a: "applyPolicyToPodIfPresent M ?r s1 st = (e2, s2)" by fastforce
    then have r': "s' = s2" "r' = ?r"
      using assms(2) l None by (auto simp: AddPodContainerFromNri_def Let_def state_def [symmetric])
    have "agent_frame s1 s2 {} (CgroupID ` snd ` set (containers st))"
      using apply_present_frame [OF _ a] inv1 by (simp add: res_inv_def)
    then have "res_inv r s2" using res_inv_frame [OF inv1] by blast
    then show ?thesis using r' res_inv_cong [of r' r s2] by simp
  qed
qed

lemma remove_inv:
  assumes "res_inv r s" and "RemovePodContainerFromNri M r s podID containerID = (e, r', s')"
  shows "res_inv r' s' \<and> wpState r' = wpState r \<and> nextPolicyID r' = nextPolicyID r \<and> e = []"
proof -
  have ai: "agent_inv s" using assms(1) by (simp add: res_inv_def)
  consider "e = []" "r' = r" "s' = s" | st ct where "map_of (podCache r) podID = Some st" "map_of (containers st) containerID = Some ct"
    using assms(2) by (auto simp: RemovePodContainerFromNri_def split: option.splits)
  then show ?thesis
  proof cases
    case 1
    then show ?thesis using assms(1) by simp
  next
    case 2
    obtain s1 where s1: "cgroupToPolicyMapUpdate M s PolicyIDNone [CgroupID ct] RemoveCgroups = ([], s1)" "cg_frame s s1"
      "\<forall>d. cg_policy s1 d = (if d = CgroupID ct then None else cg_policy s d)"
      using cg_remove [OF ai] by blast
    have "agent_frame s s1 {} {CgroupID ct}" by (rule cg_frame_agent [OF ai s1(2)]) (simp add: s1(3))
    then have "res_inv r s1" using res_inv_frame [OF assms(1)] by blast
    moreover have "s' = s1" "e = []" "wpState r' = wpState r" "nextPolicyID r' = nextPolicyID r"
      using assms(2) 2 s1(1) by (auto simp: RemovePodContainerFromNri_def Let_def)
    ultimately show ?thesis using res_inv_cong by blast
  qed
qed

end
