(* ===== verification/Cache_Sync.thy ===== *)
theory Cache_Sync
  imports Resolver_Inv
begin

text \<open>
  The agent beside the programs. A run interleaves the operations of the resolver with executions of the
  hook and of the tracker programs on the same maps. The cgroup map is shown to be exactly what the
  cache and the policies say, and the maps of every policy to hold what its last specification lists.
\<close>

section \<open>The policy of a cgroup according to the cache\<close>

abbreviation pod_key :: "podEntry \<Rightarrow> string" where
  "pod_key pod \<equiv> podNamespace pod @ ''/'' @ policyName pod"

definition cached :: "Resolver \<Rightarrow> podEntry \<Rightarrow> ContainerMeta \<Rightarrow> bool" where
  "cached r pod ct \<longleftrightarrow> pod \<in> snd ` set (podCache r) \<and> ct \<in> snd ` set (containers pod)"

lemma cachedI: "(i, pod) \<in> set (podCache r) \<Longrightarrow> (j, ct) \<in> set (containers pod) \<Longrightarrow> cached r pod ct"
  unfolding cached_def by force

lemma cachedE:
  assumes "cached r pod ct"
  obtains i j where "(i, pod) \<in> set (podCache r)" and "(j, ct) \<in> set (containers pod)"
  using assms unfolding cached_def by auto

definition wants_policy :: "Resolver \<Rightarrow> u64 \<Rightarrow> u64 \<Rightarrow> bool" where
  "wants_policy r d p \<longleftrightarrow> (\<exists>pod ct. cached r pod ct \<and> CgroupID ct = d \<and> policyName pod \<noteq> [] \<and>
     policy_id r (pod_key pod) (container_Name ct) = Some p)"

text \<open>The abstract map that the cgroup map implements.\<close>

definition synced :: "Resolver \<Rightarrow> bpf_state \<Rightarrow> bool" where
  "synced r s \<longleftrightarrow> (\<forall>d p. cg_policy s d = Some p \<longleftrightarrow> wants_policy r d p)"

text \<open>
  What the container runtime and the API server guarantee of the cache: a pod has one entry, different
  containers have different cgroups, and a namespace has no slash.
\<close>

definition cache_ok :: "Resolver \<Rightarrow> bool" where
  "cache_ok r \<longleftrightarrow> distinct_cgroups (podCache r) \<and>
     (\<forall>pod ct. cached r pod ct \<longrightarrow> CHR ''/'' \<notin> set (podNamespace pod))"

lemma distinct_cgroupsI:
  assumes "distinct (map fst pods)" and "\<And>pod. pod \<in> snd ` set pods \<Longrightarrow> distinct (map fst (containers pod))"
    and "\<And>i pod j ct i' pod' j' ct'. (i, pod) \<in> set pods \<Longrightarrow> (j, ct) \<in> set (containers pod) \<Longrightarrow>
      (i', pod') \<in> set pods \<Longrightarrow> (j', ct') \<in> set (containers pod') \<Longrightarrow> CgroupID ct = CgroupID ct' \<Longrightarrow> i = i' \<and> j = j'"
  shows "distinct_cgroups pods"
  unfolding distinct_cgroups_def
proof (intro conjI ballI allI impI)
  fix i pod j ct i' pod' j' ct'
  assume "(i, pod) \<in> set pods \<and> (j, ct) \<in> set (containers pod) \<and> (i', pod') \<in> set pods \<and>
    (j', ct') \<in> set (containers pod') \<and> CgroupID ct = CgroupID ct'"
  then show "i = i'" "j = j'" using assms(3) [of i pod j ct i' pod' j' ct'] by simp_all
qed (use assms(1,2) in simp_all)

lemma distinct_cgroups_same:
  assumes "distinct_cgroups (podCache r)" and "cached r pod ct" and "cached r pod' ct'" and "CgroupID ct = CgroupID ct'"
  shows "pod = pod' \<and> ct = ct'"
proof -
  obtain i j i' j' where "(i, pod) \<in> set (podCache r)" "(j, ct) \<in> set (containers pod)"
    "(i', pod') \<in> set (podCache r)" "(j', ct') \<in> set (containers pod')" using assms(2,3) by (elim cachedE)
  from distinct_cgroupsD [OF assms(1) this assms(4)] show ?thesis by simp
qed

lemma wants_iff:
  assumes "cache_ok r" and "cached r pod ct"
  shows "wants_policy r (CgroupID ct) p \<longleftrightarrow> policyName pod \<noteq> [] \<and> policy_id r (pod_key pod) (container_Name ct) = Some p"
proof
  assume "wants_policy r (CgroupID ct) p"
  then obtain pod' ct' where w: "cached r pod' ct'" "CgroupID ct' = CgroupID ct" "policyName pod' \<noteq> []"
    "policy_id r (pod_key pod') (container_Name ct') = Some p" unfolding wants_policy_def by blast
  have "distinct_cgroups (podCache r)" using assms(1) by (simp add: cache_ok_def)
  then have "pod' = pod \<and> ct' = ct" using distinct_cgroups_same w(1,2) assms(2) by blast
  then show "policyName pod \<noteq> [] \<and> policy_id r (pod_key pod) (container_Name ct) = Some p" using w by simp
qed (use assms(2) in \<open>unfold wants_policy_def, blast\<close>)

lemma key_inj: "CHR ''/'' \<notin> set a \<Longrightarrow> CHR ''/'' \<notin> set b \<Longrightarrow> a @ ''/'' @ m = b @ ''/'' @ n \<longleftrightarrow> a = b \<and> m = n"
proof (induction a arbitrary: b)
  case Nil
  then show ?case by (cases b) auto
next
  case (Cons x a)
  then show ?case by (cases b) auto
qed

text \<open>A policy that a pod may name.\<close>

definition named :: "WorkloadPolicy \<Rightarrow> bool" where
  "named wp \<longleftrightarrow> wp_Name wp \<noteq> [] \<and> CHR ''/'' \<notin> set (wp_Namespace wp)"

lemma match_iff:
  assumes "cache_ok r" and "named wp" and "cached r pod ct"
  shows "matchPolicy pod (wp_Name wp) (wp_Namespace wp) \<longleftrightarrow> policyName pod \<noteq> [] \<and> pod_key pod = NamespacedName wp"
proof -
  have "CHR ''/'' \<notin> set (podNamespace pod)" using assms(1,3) unfolding cache_ok_def by blast
  then have "pod_key pod = NamespacedName wp \<longleftrightarrow> podNamespace pod = wp_Namespace wp \<and> policyName pod = wp_Name wp"
    unfolding NamespacedName_def using assms(2) by (intro key_inj) (simp_all add: named_def)
  then show ?thesis using assms(2) by (auto simp: matchPolicy_def named_def)
qed

lemma matched_cached:
  "ct \<in> snd ` set (matched wp (podCache r)) \<longleftrightarrow>
     (\<exists>pod. cached r pod ct \<and> matchPolicy pod (wp_Name wp) (wp_Namespace wp))"
  unfolding matched_def cached_def by force

section \<open>What the maps hold of the policies\<close>

text \<open>The last specification of every policy; the maps hold it.\<close>

type_synonym specs = "string \<Rightarrow> WorkloadPolicy option"

definition spec_installed :: "Resolver \<Rightarrow> bpf_state \<Rightarrow> WorkloadPolicy \<Rightarrow> bool" where
  "spec_installed r s wp \<longleftrightarrow> (\<exists>m. ParseMode (wp_Mode wp) = Some m \<and>
     (\<forall>c cr. (c, cr) \<in> set (RulesByContainer wp) \<longrightarrow>
        (\<exists>y p. cr = Some y \<and> policy_id r (NamespacedName wp) c = Some p \<and> installed s p y m)))"

definition specs_hold :: "Resolver \<Rightarrow> bpf_state \<Rightarrow> specs \<Rightarrow> bool" where
  "specs_hold r s specs \<longleftrightarrow> (\<forall>k wp. specs k = Some wp \<longrightarrow> NamespacedName wp = k \<and> spec_installed r s wp)"

lemma spec_installed_frame:
  assumes "spec_installed r s wp" and "\<And>c. policy_id r' (NamespacedName wp) c = policy_id r (NamespacedName wp) c"
    and "\<And>p. p \<in> policy_ids r (NamespacedName wp) \<Longrightarrow> same_policy s s' p"
  shows "spec_installed r' s' wp"
proof -
  obtain m where m: "ParseMode (wp_Mode wp) = Some m"
    and i: "\<And>c cr. (c, cr) \<in> set (RulesByContainer wp) \<Longrightarrow>
      \<exists>y p. cr = Some y \<and> policy_id r (NamespacedName wp) c = Some p \<and> installed s p y m"
    using assms(1) unfolding spec_installed_def by blast
  have "\<exists>y p. cr = Some y \<and> policy_id r' (NamespacedName wp) c = Some p \<and> installed s' p y m"
    if c: "(c, cr) \<in> set (RulesByContainer wp)" for c cr
  proof -
    obtain y p where y: "cr = Some y" "policy_id r (NamespacedName wp) c = Some p" "installed s p y m"
      using i [OF c] by blast
    then have "p \<in> policy_ids r (NamespacedName wp)" unfolding policy_ids_def by blast
    from installed_same [OF assms(3) [OF this]] show ?thesis using y assms(2) by simp
  qed
  then show ?thesis using m unfolding spec_installed_def by blast
qed

lemma specs_hold_frame:
  assumes "specs_hold r s specs" and "\<And>k c. k \<noteq> j \<Longrightarrow> policy_id r' k c = policy_id r k c"
    and "\<And>k p. k \<noteq> j \<Longrightarrow> p \<in> policy_ids r k \<Longrightarrow> same_policy s s' p"
  shows "specs_hold r' s' (specs(j := None))"
  unfolding specs_hold_def
proof (intro allI impI)
  fix k wp assume "(specs(j := None)) k = Some wp"
  then have k: "k \<noteq> j" "specs k = Some wp" by (simp_all split: if_splits)
  then have n: "NamespacedName wp = k" "spec_installed r s wp" using assms(1) unfolding specs_hold_def by blast+
  show "NamespacedName wp = k \<and> spec_installed r' s' wp"
    using spec_installed_frame [OF n(2), of r' s'] assms(2,3) k(1) n(1) by blast
qed

lemma specs_hold_same:
  assumes "specs_hold r s specs" and "\<And>k c. policy_id r' k c = policy_id r k c" and "\<And>p. same_policy s s' p"
  shows "specs_hold r' s' specs"
  using assms(1) spec_installed_frame [of r s _ r' s'] assms(2,3) unfolding specs_hold_def by blast

lemma specs_hold_update:
  "specs_hold r s (specs(k := None)) \<Longrightarrow> NamespacedName wp = k \<Longrightarrow> spec_installed r s wp \<Longrightarrow>
     specs_hold r s (specs(k \<mapsto> wp))"
  unfolding specs_hold_def by (auto split: if_splits)

section \<open>Every operation keeps the maps in step\<close>

text \<open>The identifiers of another policy are outside what a reconciliation or a deletion changes.\<close>

lemma other_ids:
  assumes "res_inv r s" and "p \<in> policy_ids r k" and "k \<noteq> j"
  shows "p \<notin> policy_ids r j" and "p < nextPolicyID r"
proof -
  show "p < nextPolicyID r" by (rule policy_ids_less [OF assms(1,2)])
  show "p \<notin> policy_ids r j" using assms unfolding res_inv_def policy_ids_def by blast
qed

lemma reconcile_specs:
  assumes inv: "res_inv r s" and rc: "reconcilable r wp" and M: "\<not> isShuttingDown M"
    and d: "distinct_cgroups (podCache r)" and R: "ReconcileWP M r s wp = (None, r', s')" and h: "specs_hold r s specs"
  shows "specs_hold r' s' (specs(NamespacedName wp \<mapsto> wp))"
proof (rule specs_hold_update [OF _ refl])
  let ?k = "NamespacedName wp"
  obtain pol0 st n' where f: "res_frame r r' ?k pol0 st n'" and "nextPolicyID r \<le> n'" and "ids_from r ?k n' pol0"
    and g: "agent_frame s s' (policy_ids r ?k \<union> {nextPolicyID r..<n'}) (CgroupID ` snd ` set (matched wp (podCache r)))"
    by (rule reconcile_frame [OF inv rc R])
  show "specs_hold r' s' (specs(?k := None))"
  proof (rule specs_hold_frame [OF h])
    show "policy_id r' k c = policy_id r k c" if "k \<noteq> ?k" for k c using res_frame_policy_id [OF f] that by simp
    show "same_policy s s' p" if "k \<noteq> ?k" "p \<in> policy_ids r k" for k p
      using other_ids [OF inv that(2,1)] g by (auto simp: agent_frame_def leD)
  qed
  obtain m pol where m: "ParseMode (wp_Mode wp) = Some m"
    and pid: "\<forall>c. policy_id r' ?k c =
      (if c \<in> container_Name ` dropped (matched wp (podCache r)) (gone wp pol) then None else map_of pol c)"
    and nr: "\<forall>c. map_of (RulesByContainer wp) c = None \<longrightarrow> map_of pol c = policy_id r ?k c"
    and i: "\<forall>c cr. (c, cr) \<in> set (RulesByContainer wp) \<longrightarrow> (\<exists>y p. cr = Some y \<and> map_of pol c = Some p \<and> installed s' p y m)"
    and t: "\<forall>ct\<in>snd ` set (matched wp (podCache r)). cg_policy s' (CgroupID ct) =
       target (kept wp pol) (gone wp pol) (container_Name ct) (cg_policy s (CgroupID ct))"
    by (rule reconcile_success [OF inv rc M d R])
  have "policy_id r' ?k c = map_of pol c" if "(c, cr) \<in> set (RulesByContainer wp)" for c cr
  proof -
    have "map_of (RulesByContainer wp) c \<noteq> None" using that by (metis weak_map_of_SomeI option.distinct(1))
    then have "map_of (gone wp pol) c = None" by (auto simp: kept_gone_lookup)
    then show ?thesis using pid dropped_removed by metis
  qed
  then show "spec_installed r' s' wp" using m i unfolding spec_installed_def by metis
qed

lemma synced_cached:
  assumes "cache_ok r" and "synced r s" and "cached r pod ct"
  shows "cg_policy s (CgroupID ct) = (if policyName pod = [] then None else policy_id r (pod_key pod) (container_Name ct))"
proof -
  have "cg_policy s (CgroupID ct) = Some p \<longleftrightarrow> policyName pod \<noteq> [] \<and> policy_id r (pod_key pod) (container_Name ct) = Some p" for p
    using assms(2) wants_iff [OF assms(1,3)] unfolding synced_def by blast
  then show ?thesis by (metis not_Some_eq)
qed

lemma syncedI:
  assumes ok: "cache_ok r" and c: "\<And>pod ct. cached r pod ct \<Longrightarrow>
      cg_policy s (CgroupID ct) = (if policyName pod = [] then None else policy_id r (pod_key pod) (container_Name ct))"
    and n: "\<And>d. (\<forall>pod ct. cached r pod ct \<longrightarrow> CgroupID ct \<noteq> d) \<Longrightarrow> cg_policy s d = None"
  shows "synced r s"
  unfolding synced_def
proof (intro allI)
  fix d p
  show "cg_policy s d = Some p \<longleftrightarrow> wants_policy r d p"
  proof (cases "\<exists>pod ct. cached r pod ct \<and> CgroupID ct = d")
    case True
    then obtain pod ct where ct: "cached r pod ct" "CgroupID ct = d" by blast
    show ?thesis using c [OF ct(1)] wants_iff [OF ok ct(1), of p] ct(2) by auto
  next
    case False
    then have "cg_policy s d = None" using n by blast
    then show ?thesis using False unfolding wants_policy_def by auto
  qed
qed

lemma synced_uncached:
  assumes "synced r s" and "\<forall>pod ct. cached r pod ct \<longrightarrow> CgroupID ct \<noteq> d"
  shows "cg_policy s d = None"
proof (rule ccontr)
  assume "cg_policy s d \<noteq> None"
  then obtain p where "wants_policy r d p" using assms(1) unfolding synced_def by blast
  then show False using assms(2) unfolding wants_policy_def by blast
qed

text \<open>The policy a matching container ends up with is the identifier of its name.\<close>

lemma target_policy_id:
  assumes pid: "\<forall>c. id' c = (if c \<in> container_Name ` dropped cs (gone wp pol) then None else map_of pol c)"
    and nr: "\<forall>c. map_of (RulesByContainer wp) c = None \<longrightarrow> map_of pol c = old c"
    and rl: "\<forall>c. map_of (RulesByContainer wp) c \<noteq> None \<longrightarrow> map_of pol c \<noteq> None" and ct: "ct \<in> snd ` set cs"
  shows "target (kept wp pol) (gone wp pol) (container_Name ct) (old (container_Name ct)) = id' (container_Name ct)"
proof (cases "map_of (RulesByContainer wp) (container_Name ct)")
  case None
  then have g: "map_of (gone wp pol) (container_Name ct) = old (container_Name ct)"
    "map_of (kept wp pol) (container_Name ct) = None" using nr by (simp_all add: kept_gone_lookup)
  show ?thesis
  proof (cases "old (container_Name ct)")
    case None
    then show ?thesis using g pid nr \<open>map_of (RulesByContainer wp) _ = None\<close> by (simp add: target_def)
  next
    case (Some p)
    then have "ct \<in> dropped cs (gone wp pol)" using g ct by (simp add: dropped_def)
    then have "id' (container_Name ct) = None" using pid by auto
    then show ?thesis using g Some by (simp add: target_def)
  qed
next
  case (Some cr)
  then have g: "map_of (gone wp pol) (container_Name ct) = None"
    "map_of (kept wp pol) (container_Name ct) = map_of pol (container_Name ct)" by (simp_all add: kept_gone_lookup)
  then have "id' (container_Name ct) = map_of pol (container_Name ct)" using pid dropped_removed by metis
  moreover obtain p where "map_of pol (container_Name ct) = Some p" using rl Some by fastforce
  ultimately show ?thesis using g by (simp add: target_def)
qed

lemma matched_cgroup:
  assumes "d \<in> CgroupID ` snd ` set (matched wp (podCache r))"
  shows "\<exists>pod ct. cached r pod ct \<and> CgroupID ct = d"
proof -
  obtain ct where ct: "d = CgroupID ct" "ct \<in> snd ` set (matched wp (podCache r))" using assms by (rule imageE)
  then show ?thesis using matched_cached [THEN iffD1, OF ct(2)] by blast
qed

lemma unmatched_cgroup:
  assumes "distinct_cgroups (podCache r)" and "cached r pod ct" and "\<not> matchPolicy pod (wp_Name wp) (wp_Namespace wp)"
  shows "CgroupID ct \<notin> CgroupID ` snd ` set (matched wp (podCache r))"
proof
  assume "CgroupID ct \<in> CgroupID ` snd ` set (matched wp (podCache r))"
  then obtain ct' where ct': "ct' \<in> snd ` set (matched wp (podCache r))" "CgroupID ct = CgroupID ct'" by blast
  then obtain pod' where "cached r pod' ct'" "matchPolicy pod' (wp_Name wp) (wp_Namespace wp)"
    using matched_cached by blast
  moreover from this have "pod = pod'" using distinct_cgroups_same [OF assms(1)] assms(2) ct'(2) by blast
  ultimately show False using assms(3) by simp
qed

lemma reconcile_synced:
  assumes inv: "res_inv r s" and rc: "reconcilable r wp" and M: "\<not> isShuttingDown M" and ok: "cache_ok r" and nm: "named wp"
    and R: "ReconcileWP M r s wp = (None, r', s')" and sy: "synced r s"
  shows "synced r' s' \<and> cache_ok r'"
proof -
  let ?k = "NamespacedName wp"
  have d: "distinct_cgroups (podCache r)" using ok by (simp add: cache_ok_def)
  obtain pol0 st n' where f: "res_frame r r' ?k pol0 st n'" and "nextPolicyID r \<le> n'" and "ids_from r ?k n' pol0"
    and g: "agent_frame s s' (policy_ids r ?k \<union> {nextPolicyID r..<n'}) (CgroupID ` snd ` set (matched wp (podCache r)))"
    by (rule reconcile_frame [OF inv rc R])
  obtain m pol where m: "ParseMode (wp_Mode wp) = Some m"
    and pid: "\<forall>c. policy_id r' ?k c =
      (if c \<in> container_Name ` dropped (matched wp (podCache r)) (gone wp pol) then None else map_of pol c)"
    and nr: "\<forall>c. map_of (RulesByContainer wp) c = None \<longrightarrow> map_of pol c = policy_id r ?k c"
    and i: "\<forall>c cr. (c, cr) \<in> set (RulesByContainer wp) \<longrightarrow> (\<exists>y p. cr = Some y \<and> map_of pol c = Some p \<and> installed s' p y m)"
    and t: "\<forall>ct\<in>snd ` set (matched wp (podCache r)). cg_policy s' (CgroupID ct) =
       target (kept wp pol) (gone wp pol) (container_Name ct) (cg_policy s (CgroupID ct))"
    by (rule reconcile_success [OF inv rc M d R])
  have rl: "\<forall>c. map_of (RulesByContainer wp) c \<noteq> None \<longrightarrow> map_of pol c \<noteq> None"
    using i map_of_SomeD by (metis option.distinct(1) option.exhaust)
  have pods: "podCache r' = podCache r" using f by (simp add: res_frame_def)
  then have ok': "cache_ok r'" and c': "\<And>pod ct. cached r' pod ct = cached r pod ct" using ok by (simp_all add: cache_ok_def cached_def)
  have "synced r' s'"
  proof (rule syncedI [OF ok'])
    fix pod ct assume "cached r' pod ct"
    then have c: "cached r pod ct" using c' by simp
    note match = match_iff [OF ok nm c]
    show "cg_policy s' (CgroupID ct) = (if policyName pod = [] then None else policy_id r' (pod_key pod) (container_Name ct))"
    proof (cases "matchPolicy pod (wp_Name wp) (wp_Namespace wp)")
      case True
      then have k: "policyName pod \<noteq> []" "pod_key pod = ?k" using match by blast+
      have ct: "ct \<in> snd ` set (matched wp (podCache r))" using c True matched_cached by blast
      have "cg_policy s (CgroupID ct) = policy_id r ?k (container_Name ct)" using synced_cached [OF ok sy c] k by simp
      then have "cg_policy s' (CgroupID ct) = target (kept wp pol) (gone wp pol) (container_Name ct) (policy_id r ?k (container_Name ct))"
        using t ct by metis
      also have "\<dots> = policy_id r' ?k (container_Name ct)"
        by (rule target_policy_id [OF pid nr rl ct])
      finally show ?thesis using k by simp
    next
      case False
      have "CgroupID ct \<notin> CgroupID ` snd ` set (matched wp (podCache r))"
        using unmatched_cgroup [OF d c False] .
      then have "cg_policy s' (CgroupID ct) = cg_policy s (CgroupID ct)" by (rule agent_frame_cg [OF g])
      moreover have "policyName pod \<noteq> [] \<longrightarrow> pod_key pod \<noteq> ?k" using False match by blast
      ultimately show ?thesis using synced_cached [OF ok sy c] res_frame_policy_id [OF f] by simp
    qed
  next
    fix x assume "\<forall>pod ct. cached r' pod ct \<longrightarrow> CgroupID ct \<noteq> x"
    then have n: "\<forall>pod ct. cached r pod ct \<longrightarrow> CgroupID ct \<noteq> x" using c' by simp
    then have "x \<notin> CgroupID ` snd ` set (matched wp (podCache r))" using matched_cgroup by blast
    then show "cg_policy s' x = None" using agent_frame_cg [OF g] synced_uncached [OF sy n] by simp
  qed
  then show ?thesis using ok' by simp
qed

lemma delete_synced:
  assumes inv: "res_inv r s" and ok: "cache_ok r" and sy: "synced r s" and h: "specs_hold r s specs"
    and R: "HandleWPDelete M r s wp = (e, r', s')"
  shows "e = None \<and> res_inv r' s' \<and> synced r' s' \<and> cache_ok r' \<and> specs_hold r' s' (specs(NamespacedName wp := None)) \<and>
    process_evt_storage_map s' = process_evt_storage_map s"
proof -
  let ?k = "NamespacedName wp"
  have e: "e = None" "res_inv r' s'" and pods: "podCache r' = podCache r"
    and pid: "\<forall>k c. policy_id r' k c = (if k = ?k then None else policy_id r k c)"
    and f: "agent_frame s s' (policy_ids r ?k) UNIV"
    and cg: "\<forall>d. cg_policy s' d = (if cg_policy s d \<in> Some ` policy_ids r ?k then None else cg_policy s d)"
    using delete_effect [OF inv, of M wp] R by auto
  have ok': "cache_ok r'" and c': "\<And>pod ct. cached r' pod ct = cached r pod ct" using ok pods by (simp_all add: cache_ok_def cached_def)
  have "synced r' s'"
  proof (rule syncedI [OF ok'])
    fix pod ct assume "cached r' pod ct"
    then have c: "cached r pod ct" using c' by simp
    note old = synced_cached [OF ok sy c]
    show "cg_policy s' (CgroupID ct) = (if policyName pod = [] then None else policy_id r' (pod_key pod) (container_Name ct))"
    proof (cases "policyName pod \<noteq> [] \<and> pod_key pod = ?k")
      case True
      then have "cg_policy s (CgroupID ct) = None \<or> cg_policy s (CgroupID ct) \<in> Some ` policy_ids r ?k"
        using old unfolding policy_ids_def by (cases "policy_id r ?k (container_Name ct)") auto
      then show ?thesis using cg pid True by auto
    next
      case False
      have "cg_policy s (CgroupID ct) \<notin> Some ` policy_ids r ?k"
      proof
        assume "cg_policy s (CgroupID ct) \<in> Some ` policy_ids r ?k"
        then obtain p where p: "cg_policy s (CgroupID ct) = Some p" "p \<in> policy_ids r ?k" by blast
        then have "policyName pod \<noteq> []" "policy_id r (pod_key pod) (container_Name ct) = Some p"
          using old by (auto split: if_splits)
        then have "p \<in> policy_ids r (pod_key pod)" "pod_key pod \<noteq> ?k" using False unfolding policy_ids_def by blast+
        then show False using other_ids(1) [OF inv] p(2) by blast
      qed
      then show ?thesis using old cg pid False by auto
    qed
  next
    fix x assume "\<forall>pod ct. cached r' pod ct \<longrightarrow> CgroupID ct \<noteq> x"
    then have "cg_policy s x = None" using synced_uncached [OF sy] c' by simp
    then show "cg_policy s' x = None" using cg by simp
  qed
  moreover have "specs_hold r' s' (specs(?k := None))"
  proof (rule specs_hold_frame [OF h])
    show "policy_id r' k c = policy_id r k c" if "k \<noteq> ?k" for k c using pid that by simp
    show "same_policy s s' p" if "k \<noteq> ?k" "p \<in> policy_ids r k" for k p
      using other_ids(1) [OF inv that(2,1)] f unfolding agent_frame_def by blast
  qed
  ultimately show ?thesis using e ok' f by (simp add: agent_frame_def programs_view_def)
qed

text \<open>Replacing and deleting entries of a cache with one entry per pod.\<close>

lemma update_set: "distinct (map fst xs) \<Longrightarrow> set (AList.update k v xs) = insert (k, v) {x \<in> set xs. fst x \<noteq> k}"
  by (induction xs) (auto simp: image_iff)

text \<open>
  A cache in which one pod has changed: its containers are some of those it had, or new ones, and the
  other pods are as they were.
\<close>

definition cache_step :: "Resolver \<Rightarrow> Resolver \<Rightarrow> string \<Rightarrow> podEntry \<Rightarrow> bool" where
  "cache_step r r' i pod \<longleftrightarrow> wpState r' = wpState r \<and>
     (\<forall>j q ct. (j, q) \<in> set (podCache r') \<and> ct \<in> snd ` set (containers q) \<longleftrightarrow>
        (j \<noteq> i \<and> (j, q) \<in> set (podCache r) \<or> j = i \<and> q = pod) \<and> ct \<in> snd ` set (containers q))"

lemma remove_cache:
  assumes "distinct_cgroups (podCache r)" and "map_of (podCache r) i = Some st" and "map_of (containers st) c = Some ct"
    and R: "RemovePodContainerFromNri M r s i c = (e, r', s')"
  shows "cache_step r r' i (st\<lparr>containers := AList.delete c (containers st)\<rparr>) \<and> distinct_cgroups (podCache r')"
proof -
  let ?st = "st\<lparr>containers := AList.delete c (containers st)\<rparr>"
  have d: "distinct (map fst (podCache r))" using assms(1) unfolding distinct_cgroups_def by blast
  have st: "(i, st) \<in> set (podCache r)" by (rule map_of_SomeD [OF assms(2)])
  have dc: "distinct (map fst (containers st))" using assms(1) st unfolding distinct_cgroups_def by force
  have r': "wpState r' = wpState r" "podCache r' =
      (if length (containers st) = 1 then AList.delete i (podCache r) else AList.update i ?st (podCache r))"
    using R assms(2,3) by (auto simp: RemovePodContainerFromNri_def Let_def split: prod.splits)
  have sub: "set (containers ?st) \<subseteq> set (containers st)" "distinct (map fst (containers ?st))"
    using dc by (auto simp: AList.delete_eq distinct_map_filter)
  have one: "containers ?st = []" if "length (containers st) = 1"
    using that assms(3) by (cases "containers st") (auto simp: AList.delete_eq split: if_splits)
  have set': "set (podCache r') = (if length (containers st) = 1 then {} else {(i, ?st)}) \<union> {x \<in> set (podCache r). fst x \<noteq> i}"
    using r'(2) update_set [OF d, of i ?st] by (simp add: AList.delete_eq) auto
  have step: "cache_step r r' i ?st"
    unfolding cache_step_def
  proof (intro conjI allI)
    fix j q t
    show "(j, q) \<in> set (podCache r') \<and> t \<in> snd ` set (containers q) \<longleftrightarrow>
        (j \<noteq> i \<and> (j, q) \<in> set (podCache r) \<or> j = i \<and> q = ?st) \<and> t \<in> snd ` set (containers q)"
    proof (cases "j = i")
      case True
      then have "(j, q) \<in> set (podCache r') \<longleftrightarrow> length (containers st) \<noteq> 1 \<and> q = ?st" by (simp add: set')
      then show ?thesis using True one by (cases "length (containers st) = 1") auto
    qed (simp add: set')
  qed (rule r'(1))
  have mem: "\<exists>q'. (j, q') \<in> set (podCache r) \<and> set (containers q) \<subseteq> set (containers q') \<and> distinct (map fst (containers q))"
    if "(j, q) \<in> set (podCache r')" for j q
  proof -
    have "(j, q) = (i, ?st) \<or> (j, q) \<in> set (podCache r)"
      using that unfolding set' by (simp split: if_splits) auto
    then show ?thesis using st sub assms(1) unfolding distinct_cgroups_def by force
  qed
  have "distinct (map fst (podCache r'))"
    using d r'(2) distinct_update [OF d] by (simp add: AList.delete_eq distinct_map_filter)
  moreover have "distinct (map fst (containers q))" if "q \<in> snd ` set (podCache r')" for q
    using that mem by (metis imageE prod.collapse)
  moreover have "j = j' \<and> b = b'" if "(j, q) \<in> set (podCache r')" "(b, t) \<in> set (containers q)"
    "(j', q') \<in> set (podCache r')" "(b', t') \<in> set (containers q')" "CgroupID t = CgroupID t'" for j q b t j' q' b' t'
    using distinct_cgroupsD [OF assms(1)] mem [OF that(1)] mem [OF that(3)] that(2,4,5) by blast
  ultimately have "distinct_cgroups (podCache r')" by (rule distinct_cgroupsI)
  then show ?thesis using step by simp
qed

end
