(* ===== verification/Agent_Run.thy ===== *)
theory Agent_Run
  imports Cache_Sync
begin

text \<open>
  Runs of the agent: the operations of the resolver interleaved with executions of the hook and of the
  tracker programs on the same maps, and what holds in every state of a run.
\<close>

section \<open>Removing a container\<close>

lemma cached_step:
  assumes "cache_step r r' i pod"
  shows "cached r' q t \<longleftrightarrow> (\<exists>j. j \<noteq> i \<and> (j, q) \<in> set (podCache r) \<and> t \<in> snd ` set (containers q)) \<or>
    q = pod \<and> t \<in> snd ` set (containers q)"
proof -
  have "cached r' q t \<longleftrightarrow> (\<exists>j. (j, q) \<in> set (podCache r') \<and> t \<in> snd ` set (containers q))"
    unfolding cached_def by force
  also have "\<dots> \<longleftrightarrow> (\<exists>j. (j \<noteq> i \<and> (j, q) \<in> set (podCache r) \<or> j = i \<and> q = pod) \<and> t \<in> snd ` set (containers q))"
    using assms unfolding cache_step_def by simp
  finally show ?thesis by auto
qed

lemma remove_synced:
  assumes inv: "res_inv r s" and ok: "cache_ok r" and sy: "synced r s" and h: "specs_hold r s specs"
    and R: "RemovePodContainerFromNri M r s i c = (e, r', s')"
  shows "synced r' s' \<and> cache_ok r' \<and> specs_hold r' s' specs \<and> process_evt_storage_map s' = process_evt_storage_map s"
proof (cases "\<exists>st ct. map_of (podCache r) i = Some st \<and> map_of (containers st) c = Some ct")
  case False
  then have "r' = r" "s' = s" using R by (auto simp: RemovePodContainerFromNri_def split: option.splits)
  then show ?thesis using ok sy h by simp
next
  case True
  then obtain st ct where st: "map_of (podCache r) i = Some st" and ct: "map_of (containers st) c = Some ct" by blast
  let ?st = "st\<lparr>containers := AList.delete c (containers st)\<rparr>"
  have d: "distinct_cgroups (podCache r)" using ok by (simp add: cache_ok_def)
  have ist: "(i, st) \<in> set (podCache r)" and cct: "(c, ct) \<in> set (containers st)"
    using map_of_SomeD [OF st] map_of_SomeD [OF ct] by simp_all
  have ai: "agent_inv s" using inv by (simp add: res_inv_def)
  obtain s1 where s1: "cgroupToPolicyMapUpdate M s PolicyIDNone [CgroupID ct] RemoveCgroups = ([], s1)" "cg_frame s s1"
    "\<forall>d. cg_policy s1 d = (if d = CgroupID ct then None else cg_policy s d)" using cg_remove [OF ai] by blast
  have f: "agent_frame s s1 {} {CgroupID ct}" by (rule cg_frame_agent [OF ai s1(2)]) (simp add: s1(3))
  have s': "s' = s1" using R st ct s1(1) by (auto simp: RemovePodContainerFromNri_def Let_def)
  have step: "cache_step r r' i ?st" and d': "distinct_cgroups (podCache r')"
    using remove_cache [OF d st ct R] by simp_all
  note c' = cached_step [OF step]
  have "wpState r' = wpState r" using step unfolding cache_step_def by (rule conjunct1)
  then have pid: "policy_id r' = policy_id r" by (rule policy_id_cong)
  have old: "\<exists>q'. cached r q' t \<and> policyName q = policyName q' \<and> pod_key q = pod_key q' \<and> CgroupID t \<noteq> CgroupID ct"
    if qt: "cached r' q t" for q t
    using qt unfolding c'
  proof (elim disjE exE conjE)
    fix j assume j: "j \<noteq> i" "(j, q) \<in> set (podCache r)" "t \<in> snd ` set (containers q)"
    then obtain b where b: "(b, t) \<in> set (containers q)" by auto
    have "CgroupID t \<noteq> CgroupID ct" using distinct_cgroupsD [OF d j(2) b ist cct] j(1) by blast
    then show ?thesis using cachedI [OF j(2) b] by blast
  next
    assume q: "q = ?st" and "t \<in> snd ` set (containers q)"
    then obtain b where b: "(b, t) \<in> set (containers st)" "b \<noteq> c" by (auto simp: AList.delete_eq)
    then have "CgroupID t \<noteq> CgroupID ct" using distinct_cgroupsD [OF d ist b(1) ist cct] by blast
    then show ?thesis using cachedI [OF ist b(1)] q by (auto simp: policyName_def podNamespace_def)
  qed
  have ok': "cache_ok r'"
    unfolding cache_ok_def
  proof (intro conjI allI impI)
    fix q t assume "cached r' q t"
    then obtain q' where "cached r q' t" "pod_key q = pod_key q'" "policyName q = policyName q'" using old by blast
    then show "CHR ''/'' \<notin> set (podNamespace q)" using ok unfolding cache_ok_def by auto
  qed (rule d')
  have "synced r' s'"
  proof (rule syncedI [OF ok'])
    fix q t assume "cached r' q t"
    then obtain q' where q': "cached r q' t" "policyName q = policyName q'" "pod_key q = pod_key q'" "CgroupID t \<noteq> CgroupID ct"
      using old by blast
    then show "cg_policy s' (CgroupID t) = (if policyName q = [] then None else policy_id r' (pod_key q) (container_Name t))"
      using synced_cached [OF ok sy q'(1)] s1(3) by (simp only: s' pid if_False)
  next
    fix x assume n: "\<forall>q t. cached r' q t \<longrightarrow> CgroupID t \<noteq> x"
    show "cg_policy s' x = None"
    proof (cases "x = CgroupID ct")
      case False
      have "CgroupID t \<noteq> x" if qt: "cached r q t" for q t
      proof
        assume x: "CgroupID t = x"
        obtain j b where j: "(j, q) \<in> set (podCache r)" "(b, t) \<in> set (containers q)" using qt by (rule cachedE)
        show False
        proof (cases "j = i")
          case True
          then have q: "q = st" using j(1) st d unfolding distinct_cgroups_def by simp
          have "b \<noteq> c" using j(2) q ct x False d ist unfolding distinct_cgroups_def by force
          then have "t \<in> snd ` set (containers ?st)" using j(2) q by (force simp: AList.delete_eq)
          then show False using n x c' by blast
        next
          case j': False
          then have "cached r' q t" using j(1) image_eqI [OF _ j(2), of t snd] unfolding c' by auto
          then show False using n x by blast
        qed
      qed
      then show ?thesis using synced_uncached [OF sy, of x] s1(3) False by (simp add: s')
    qed (simp add: s' s1(3))
  qed
  moreover have "specs_hold r' s' specs"
    by (rule specs_hold_same [OF h]) (use pid f s' in \<open>simp_all add: agent_frame_def\<close>)
  ultimately show ?thesis using ok' f s' by (simp add: agent_frame_def programs_view_def)
qed

section \<open>Adding a container\<close>

lemma update_new: "map_of xs k = None \<Longrightarrow> AList.update k v xs = xs @ [(k, v)]"
  by (induction xs) (auto split: if_splits)

text \<open>The entry of the pod that \<^verbatim>\<open>AddPodContainerFromNri\<close> starts from.\<close>

definition pod_state :: "Resolver \<Rightarrow> PodInput \<Rightarrow> podEntry" where
  "pod_state r pod = (case map_of (podCache r) (pod_ID (input_Meta pod)) of
     Some st \<Rightarrow> st | None \<Rightarrow> \<lparr>meta = input_Meta pod, containers = []\<rparr>)"

lemma containers_loop_success:
  "containers_loop M nested i st cgs s cs = (None, st', cgs', s') \<Longrightarrow>
     meta st' = meta st \<and> set (containers st) \<subseteq> set (containers st')"
proof (induction cs arbitrary: st cgs s)
  case (Cons x cs)
  obtain c ct where x: "x = (c, ct)" by (cases x)
  show ?case
  proof (cases "map_of (containers st) c")
    case None
    obtain e1 s1 where u: "cgTrackerUpdate M nested s (CgroupID (ContainerMeta ct)) (CgroupPath ct) = (e1, s1)" by fastforce
    have "e1 = []" using Cons.prems x None u by (cases e1) (simp_all add: Let_def)
    then have "containers_loop M nested i (st\<lparr>containers := AList.update c (ContainerMeta ct) (containers st)\<rparr>)
        (AList.update (CgroupID (ContainerMeta ct)) i cgs) s1 cs = (None, st', cgs', s')"
      using Cons.prems x None u by (simp add: Let_def)
    from Cons.IH [OF this] show ?thesis using update_new [OF None] by auto
  next
    case (Some info)
    then have "containers_loop M nested i st cgs s cs = (None, st', cgs', s')"
      using Cons.prems x by (simp add: Let_def split: if_splits)
    then show ?thesis by (rule Cons.IH)
  qed
qed simp

lemma containers_loop_error:
  "containers_loop M nested i st cgs s cs = (Some e, st', cgs', s') \<Longrightarrow> e \<noteq> Err_policy_not_found a b"
proof (induction cs arbitrary: st cgs s)
  case (Cons x cs)
  obtain c ct where x: "x = (c, ct)" by (cases x)
  obtain e1 s1 where u: "cgTrackerUpdate M nested s (CgroupID (ContainerMeta ct)) (CgroupPath ct) = (e1, s1)" by fastforce
  show ?case
  proof (cases "map_of (containers st) c")
    case None
    then show ?thesis using Cons.prems Cons.IH x u by (cases e1) (auto simp: Let_def)
  next
    case (Some info)
    then show ?thesis using Cons.prems Cons.IH x by (auto simp: Let_def split: if_splits)
  qed
qed simp

text \<open>The outcomes that leave the cache and the maps in step: no error, or a pod whose policy is not known yet.\<close>

definition add_fine :: "resolver_error option \<Rightarrow> bool" where
  "add_fine e \<longleftrightarrow> (case e of None \<Rightarrow> True | Some (Err_policy_not_found _ _) \<Rightarrow> True | _ \<Rightarrow> False)"

lemma add_cases:
  assumes "AddPodContainerFromNri M nested r s pod = (e, r', s')" and "add_fine e"
  obtains st cgs s1 where
    "containers_loop M nested (pod_ID (input_Meta pod)) (pod_state r pod) (cgroupIDToPodID r) s (input_Containers pod) = (None, st, cgs, s1)"
    and "r' = r\<lparr>cgroupIDToPodID := cgs, podCache := AList.update (pod_ID (input_Meta pod)) st (podCache r)\<rparr>"
    and "applyPolicyToPodIfPresent M r' s1 st = (e, s')"
proof -
  obtain e1 st cgs s1 where l: "containers_loop M nested (pod_ID (input_Meta pod)) (pod_state r pod) (cgroupIDToPodID r) s
      (input_Containers pod) = (e1, st, cgs, s1)" by (metis prod_cases4)
  note R = assms(1) [unfolded AddPodContainerFromNri_def Let_def, folded pod_state_def]
  show thesis
  proof (cases e1)
    case None
    let ?r = "r\<lparr>cgroupIDToPodID := cgs, podCache := AList.update (pod_ID (input_Meta pod)) st (podCache r)\<rparr>"
    obtain e2 s2 where "applyPolicyToPodIfPresent M ?r s1 st = (e2, s2)" by fastforce
    then show thesis using that [of st cgs s1] l None R by simp
  next
    case (Some err)
    then have "e = Some err" using R l by simp
    moreover have "err \<noteq> Err_policy_not_found a b" for a b using containers_loop_error [OF l [unfolded Some]] .
    ultimately show thesis using assms(2) by (auto simp: add_fine_def split: resolver_error.splits)
  qed
qed

lemma apply_loop_error: "apply_loop M s cs applied = (Some x, s') \<Longrightarrow> x \<noteq> Err_policy_not_found a b"
  by (induction cs arbitrary: s) (auto split: option.splits list.splits prod.splits)

lemma apply_present_success:
  assumes inv: "agent_inv s" and M: "\<not> isShuttingDown M" and e: "add_fine e"
    and A: "applyPolicyToPodIfPresent M r s pod = (e, s')"
    and ct: "ct \<in> snd ` set (containers pod)" and p: "policyName pod \<noteq> []" "policy_id r (pod_key pod) (container_Name ct) = Some p"
  shows "cg_policy s' (CgroupID ct) = Some p"
proof -
  obtain info where i: "map_of (wpState r) (pod_key pod) = Some info" "map_of (polByContainer info) (container_Name ct) = Some p"
    using p(2) by (auto simp: policy_id_def split: option.splits)
  have l: "apply_loop M s (containers pod) (polByContainer info) = (e, s')"
    using A p(1) i(1) by (simp add: applyPolicyToPodIfPresent_def applyPolicyToPod_def Let_def)
  have "e = None"
    using l e apply_loop_error [of M s "containers pod" "polByContainer info"]
    by (auto simp: add_fine_def split: option.splits resolver_error.splits)
  then show ?thesis using apply_loop_success [OF inv M _ ct i(2)] l by simp
qed

lemma apply_present_gains:
  assumes inv: "agent_inv s" and A: "applyPolicyToPodIfPresent M r s pod = (e, s')"
  shows "gains (\<lambda>d p. \<exists>ct\<in>snd ` set (containers pod). CgroupID ct = d \<and> policyName pod \<noteq> [] \<and>
    policy_id r (pod_key pod) (container_Name ct) = Some p) s s'"
proof (cases "policyName pod = [] \<or> map_of (wpState r) (pod_key pod) = None")
  case True
  then have "s' = s" using A by (auto simp: applyPolicyToPodIfPresent_def Let_def split: if_splits option.splits)
  then show ?thesis by (simp add: gains_def)
next
  case False
  then obtain i where i: "map_of (wpState r) (pod_key pod) = Some i" by blast
  then have "apply_loop M s (containers pod) (polByContainer i) = (e, s')"
    using A False by (simp add: applyPolicyToPodIfPresent_def applyPolicyToPod_def Let_def)
  from conjunct2 [OF apply_loop_effect [OF inv this]] show ?thesis
    by (rule gains_mono) (use i False in \<open>auto simp: wants_def policy_id_def\<close>)
qed

lemma add_synced:
  assumes inv: "res_inv r s" and ok: "cache_ok r" and sy: "synced r s" and h: "specs_hold r s specs" and M: "\<not> isShuttingDown M"
    and R: "AddPodContainerFromNri M nested r s pod = (e, r', s')" and e: "add_fine e" and ok': "cache_ok r'"
  shows "synced r' s' \<and> specs_hold r' s' specs \<and> process_evt_storage_map s' = process_evt_storage_map s"
proof -
  obtain st cgs s1 where
    l: "containers_loop M nested (pod_ID (input_Meta pod)) (pod_state r pod) (cgroupIDToPodID r) s (input_Containers pod) = (None, st, cgs, s1)"
    and r': "r' = r\<lparr>cgroupIDToPodID := cgs, podCache := AList.update (pod_ID (input_Meta pod)) st (podCache r)\<rparr>"
    and A: "applyPolicyToPodIfPresent M r' s1 st = (e, s')"
    using add_cases [OF R e] .
  let ?i = "pod_ID (input_Meta pod)"
  note t = tracker_frame_simps [OF containers_loop_frame [OF l]]
  have inv1: "agent_inv s1" using inv t(1) by (simp add: res_inv_def)
  note f = apply_present_frame [OF inv1 A]
  have pid: "policy_id r' = policy_id r" by (rule policy_id_cong) (simp add: r')
  have d: "distinct (map fst (podCache r))" using ok unfolding cache_ok_def distinct_cgroups_def by blast
  have set': "set (podCache r') = insert (?i, st) {x \<in> set (podCache r). fst x \<noteq> ?i}"
    using update_set [OF d] by (simp add: r')
  have old: "\<exists>q'. cached r' q' t \<and> policyName q' = policyName q \<and> pod_key q' = pod_key q" if qt: "cached r q t" for q t
  proof -
    obtain j b where j: "(j, q) \<in> set (podCache r)" "(b, t) \<in> set (containers q)" using qt by (rule cachedE)
    show ?thesis
    proof (cases "j = ?i")
      case True
      then have "pod_state r pod = q" using j(1) d by (simp add: pod_state_def)
      then have "meta st = meta q" "(b, t) \<in> set (containers st)" using containers_loop_success [OF l] j(2) by auto
      moreover have "(?i, st) \<in> set (podCache r')" by (simp add: set')
      ultimately have "cached r' st t" "policyName st = policyName q" "podNamespace st = podNamespace q"
        using cachedI [of ?i st r' b t] by (simp_all add: policyName_def podNamespace_def)
      then show ?thesis by auto
    next
      case False
      then have "(j, q) \<in> set (podCache r')" using j(1) by (simp add: set')
      then show ?thesis using cachedI j(2) by blast
    qed
  qed
  have mono: "wants_policy r' x p" if w: "wants_policy r x p" for x p
  proof -
    obtain q t where "cached r q t" "CgroupID t = x" "policyName q \<noteq> []" "policy_id r (pod_key q) (container_Name t) = Some p"
      using w unfolding wants_policy_def by blast
    then show ?thesis using old [of q t] unfolding wants_policy_def pid by metis
  qed
  have "cg_policy s' x = Some p \<longleftrightarrow> wants_policy r' x p" for x p
  proof
    assume "cg_policy s' x = Some p"
    then consider "cg_policy s x = Some p" | t where "t \<in> snd ` set (containers st)" "CgroupID t = x" "policyName st \<noteq> []"
        "policy_id r' (pod_key st) (container_Name t) = Some p"
      using apply_present_gains [OF inv1 A] t(2) unfolding gains_def by (metis option.inject)
    then show "wants_policy r' x p"
    proof cases
      case 1
      then show ?thesis using sy mono unfolding synced_def by blast
    next
      case 2
      then have "cached r' st t" unfolding cached_def set' by (simp add: image_Un)
      then show ?thesis using 2 unfolding wants_policy_def by blast
    qed
  next
    assume "wants_policy r' x p"
    then obtain q t where q: "cached r' q t" "CgroupID t = x" "policyName q \<noteq> []" "policy_id r' (pod_key q) (container_Name t) = Some p"
      unfolding wants_policy_def by blast
    obtain j b where j: "(j, q) \<in> set (podCache r')" "(b, t) \<in> set (containers q)" using q(1) by (rule cachedE)
    show "cg_policy s' x = Some p"
    proof (cases "q = st")
      case True
      then have "t \<in> snd ` set (containers st)" using j(2) by force
      then show ?thesis using apply_present_success [OF inv1 M e A _] q True by blast
    next
      case False
      then have "(j, q) \<in> set (podCache r)" using j(1) by (simp add: set')
      then have "wants_policy r x p" using cachedI [OF _ j(2)] q pid unfolding wants_policy_def by metis
      then have "cg_policy s1 x = Some p" using sy t(2) unfolding synced_def by simp
      then show ?thesis by (rule gains_keeps [OF apply_present_gains [OF inv1 A]])
    qed
  qed
  moreover have "specs_hold r' s' specs"
  proof (rule specs_hold_same [OF h])
    show "same_policy s s' p" for p
      using t(3) [of p] f unfolding agent_frame_def same_policy_def by simp
  qed (simp add: pid)
  ultimately show ?thesis using f t(5) by (simp add: synced_def agent_frame_def programs_view_def)
qed

section \<open>Attributing a cgroup to a container\<close>

text \<open>The index from cgroups to pods knows every cached container.\<close>

definition views_ok :: "Resolver \<Rightarrow> bool" where
  "views_ok r \<longleftrightarrow> (\<forall>i pod j ct. (i, pod) \<in> set (podCache r) \<and> (j, ct) \<in> set (containers pod) \<longrightarrow>
     map_of (cgroupIDToPodID r) (CgroupID ct) = Some i)"

lemma containers_loop_cgs:
  "containers_loop M nested i st cgs s cs = (None, st', cgs', s') \<Longrightarrow>
     (\<forall>d. map_of cgs d = Some i \<longrightarrow> map_of cgs' d = Some i) \<and>
     (\<forall>d. map_of cgs' d = map_of cgs d \<or> (\<exists>j ct. (j, ct) \<in> set (containers st') \<and> CgroupID ct = d)) \<and>
     (\<forall>j ct. (j, ct) \<in> set (containers st') \<longrightarrow> (j, ct) \<in> set (containers st) \<or> map_of cgs' (CgroupID ct) = Some i)"
proof (induction cs arbitrary: st cgs s)
  case (Cons x cs)
  obtain c ct where x: "x = (c, ct)" by (cases x)
  let ?cm = "ContainerMeta ct"
  show ?case
  proof (cases "map_of (containers st) c")
    case None
    obtain e1 s1 where u: "cgTrackerUpdate M nested s (CgroupID ?cm) (CgroupPath ct) = (e1, s1)" by fastforce
    have "e1 = []" using Cons.prems x None u by (cases e1) (simp_all add: Let_def)
    then have l: "containers_loop M nested i (st\<lparr>containers := AList.update c ?cm (containers st)\<rparr>)
        (AList.update (CgroupID ?cm) i cgs) s1 cs = (None, st', cgs', s')"
      using Cons.prems x None u by (simp add: Let_def)
    have new: "set (AList.update c ?cm (containers st)) = insert (c, ?cm) (set (containers st))"
      using update_new [OF None] by auto
    have mem: "(c, ?cm) \<in> set (containers st')" using containers_loop_success [OF l] new by auto
    note ih = Cons.IH [OF l, unfolded update_conv']
    have "map_of cgs' d = Some i" if "map_of cgs d = Some i" for d
      using ih [THEN conjunct1, THEN spec, of d] that by (simp split: if_splits)
    moreover have cm: "map_of cgs' (CgroupID ?cm) = Some i"
      using ih [THEN conjunct1, THEN spec, of "CgroupID ?cm"] by simp
    moreover have "map_of cgs' d = map_of cgs d \<or> (\<exists>j ct. (j, ct) \<in> set (containers st') \<and> CgroupID ct = d)" for d
      using ih [THEN conjunct2, THEN conjunct1, THEN spec, of d] mem by (cases "d = CgroupID ?cm") auto
    moreover have "(j, t) \<in> set (containers st) \<or> map_of cgs' (CgroupID t) = Some i" if "(j, t) \<in> set (containers st')" for j t
      using ih [THEN conjunct2, THEN conjunct2, THEN spec, THEN spec, of j t] that new cm by auto
    ultimately show ?thesis by blast
  next
    case (Some info)
    then have "containers_loop M nested i st cgs s cs = (None, st', cgs', s')"
      using Cons.prems x by (simp add: Let_def split: if_splits)
    then show ?thesis by (rule Cons.IH)
  qed
qed simp

lemma add_views:
  assumes ok: "cache_ok r" and v: "views_ok r" and R: "AddPodContainerFromNri M nested r s pod = (e, r', s')" and e: "add_fine e"
    and ok': "cache_ok r'"
  shows "views_ok r'"
  unfolding views_ok_def
proof (intro allI impI, elim conjE)
  fix j q b t assume q: "(j, q) \<in> set (podCache r')" and t: "(b, t) \<in> set (containers q)"
  obtain st cgs s1 where
    l: "containers_loop M nested (pod_ID (input_Meta pod)) (pod_state r pod) (cgroupIDToPodID r) s (input_Containers pod) = (None, st, cgs, s1)"
    and r': "r' = r\<lparr>cgroupIDToPodID := cgs, podCache := AList.update (pod_ID (input_Meta pod)) st (podCache r)\<rparr>"
    using add_cases [OF R e] by blast
  let ?i = "pod_ID (input_Meta pod)"
  note cgs = containers_loop_cgs [OF l]
  have d: "distinct (map fst (podCache r))" using ok unfolding cache_ok_def distinct_cgroups_def by blast
  have set': "set (podCache r') = insert (?i, st) {x \<in> set (podCache r). fst x \<noteq> ?i}"
    using update_set [OF d] by (simp add: r')
  have d': "distinct_cgroups (podCache r')" using ok' by (simp add: cache_ok_def)
  show "map_of (cgroupIDToPodID r') (CgroupID t) = Some j"
  proof (cases "(j, q) = (?i, st)")
    case True
    have "map_of cgs (CgroupID t) = Some ?i" if "(b, t) \<in> set (containers (pod_state r pod))"
    proof -
      have "(?i, pod_state r pod) \<in> set (podCache r)"
        using that map_of_SomeD [of "podCache r" ?i] by (auto simp: pod_state_def split: option.splits)
      then have "map_of (cgroupIDToPodID r) (CgroupID t) = Some ?i" using v that unfolding views_ok_def by blast
      then show ?thesis using cgs by blast
    qed
    then show ?thesis using cgs [THEN conjunct2, THEN conjunct2, THEN spec, THEN spec, of b t] t True by (auto simp: r')
  next
    case False
    then have j: "(j, q) \<in> set (podCache r)" "j \<noteq> ?i" using q by (auto simp: set')
    then have "map_of (cgroupIDToPodID r) (CgroupID t) = Some j" using v t unfolding views_ok_def by blast
    moreover have "\<not> (\<exists>a u. (a, u) \<in> set (containers st) \<and> CgroupID u = CgroupID t)"
      using distinct_cgroupsD [OF d' _ _ q t, of ?i st] j(2) by (auto simp: set')
    ultimately show ?thesis using cgs [THEN conjunct2, THEN conjunct1, THEN spec, of "CgroupID t"] by (auto simp: r')
  qed
qed

lemma remove_views:
  assumes ok: "cache_ok r" and v: "views_ok r" and R: "RemovePodContainerFromNri M r s i c = (e, r', s')"
  shows "views_ok r'"
proof (cases "\<exists>st ct. map_of (podCache r) i = Some st \<and> map_of (containers st) c = Some ct")
  case False
  then have "r' = r" using R by (auto simp: RemovePodContainerFromNri_def split: option.splits)
  then show ?thesis using v by simp
next
  case True
  then obtain st ct where st: "map_of (podCache r) i = Some st" and ct: "map_of (containers st) c = Some ct" by blast
  let ?st = "st\<lparr>containers := AList.delete c (containers st)\<rparr>"
  have d: "distinct_cgroups (podCache r)" using ok by (simp add: cache_ok_def)
  have ist: "(i, st) \<in> set (podCache r)" and cct: "(c, ct) \<in> set (containers st)"
    using map_of_SomeD [OF st] map_of_SomeD [OF ct] by simp_all
  have cgs: "cgroupIDToPodID r' = AList.delete (CgroupID ct) (cgroupIDToPodID r)"
    using R st ct by (auto simp: RemovePodContainerFromNri_def Let_def split: prod.splits)
  have step: "cache_step r r' i ?st" using remove_cache [OF d st ct R] by simp
  show ?thesis
    unfolding views_ok_def
  proof (intro allI impI, elim conjE)
    fix j q b t assume q: "(j, q) \<in> set (podCache r')" and t: "(b, t) \<in> set (containers q)"
    have "t \<in> snd ` set (containers q)" using t by force
    then have "j \<noteq> i \<and> (j, q) \<in> set (podCache r) \<or> j = i \<and> q = ?st" using step q unfolding cache_step_def by blast
    then obtain q' where q': "(j, q') \<in> set (podCache r)" "(b, t) \<in> set (containers q')" "j \<noteq> i \<or> b \<noteq> c"
      using t ist by (auto simp: AList.delete_eq)
    then have "CgroupID t \<noteq> CgroupID ct" using distinct_cgroupsD [OF d q'(1,2) ist cct] by blast
    then show "map_of (cgroupIDToPodID r') (CgroupID t) = Some j"
      using v q' unfolding views_ok_def cgs delete_conv' by auto
  qed
qed

lemma view_of_container:
  assumes ok: "cache_ok r" and v: "views_ok r" and q: "(i, pod) \<in> set (podCache r)" and t: "(j, ct) \<in> set (containers pod)"
  shows "GetContainerView r (CgroupID ct) = Inr \<lparr>view_Meta = \<lparr>container_ID = j, container_Name = container_Name ct,
    CgroupID = CgroupID ct\<rparr>, view_PodMeta = meta pod\<rparr>"
proof -
  have d: "distinct_cgroups (podCache r)" using ok by (simp add: cache_ok_def)
  have 1: "map_of (cgroupIDToPodID r) (CgroupID ct) = Some i" using v q t unfolding views_ok_def by blast
  have 2: "map_of (podCache r) i = Some pod" using d q unfolding distinct_cgroups_def by simp
  have all: "x = (j, ct)" if "x \<in> set (containers pod)" "CgroupID ct = CgroupID (snd x)" for x
    using distinct_cgroupsD [OF d q t q, of "fst x" "snd x"] that by (simp add: prod_eq_iff)
  then have "\<forall>x \<in> set (filter (\<lambda>(i, m). CgroupID ct = CgroupID m) (containers pod)). x = (j, ct)"
    by (auto simp: case_prod_beta)
  moreover have "(j, ct) \<in> set (filter (\<lambda>(i, m). CgroupID ct = CgroupID m) (containers pod))" using t by simp
  ultimately obtain rest where "filter (\<lambda>(i, m). CgroupID ct = CgroupID m) (containers pod) = (j, ct) # rest"
    by (cases "filter (\<lambda>(i, m). CgroupID ct = CgroupID m) (containers pod)") auto
  then show ?thesis by (simp add: GetContainerView_def 1 2)
qed

section \<open>Runs\<close>

text \<open>
  One step of the agent and the programs. Every operation of the resolver may fail in any way it can; the
  hook and the tracker programs run at any time, on any kernel state.
\<close>

type_synonym agent_state = "Resolver \<times> bpf_state"

inductive agent_step :: "Manager \<Rightarrow> (string \<Rightarrow> u64 list) \<Rightarrow> agent_state \<Rightarrow> agent_state \<Rightarrow> bool" for M nested where
  reconcile: "reconcilable r wp \<Longrightarrow> ReconcileWP M r s wp = (e, r', s') \<Longrightarrow> agent_step M nested (r, s) (r', s')"
| delete: "HandleWPDelete M r s wp = (e, r', s') \<Longrightarrow> agent_step M nested (r, s) (r', s')"
| add: "AddPodContainerFromNri M nested r s pod = (e, r', s') \<Longrightarrow> agent_step M nested (r, s) (r', s')"
| remove: "RemovePodContainerFromNri M r s i c = (e', r', s') \<Longrightarrow> agent_step M nested (r, s) (r', s')"
| exec: "enforce_cgroup_policy K s bprm = (v, s') \<Longrightarrow> agent_step M nested (r, s) (r, s')"
| mkdir: "tg_cgtracker_cgroup_mkdir K s cgrp = (v, s') \<Longrightarrow> agent_step M nested (r, s) (r, s')"
| release: "tg_cgtracker_cgroup_release K s cgrp = (v, s') \<Longrightarrow> agent_step M nested (r, s) (r, s')"

inductive agent_steps :: "Manager \<Rightarrow> (string \<Rightarrow> u64 list) \<Rightarrow> agent_state \<Rightarrow> agent_state \<Rightarrow> bool" for M nested where
  agent_start: "agent_steps M nested S S"
| agent_next: "agent_steps M nested S T \<Longrightarrow> agent_step M nested T U \<Longrightarrow> agent_steps M nested S U"

text \<open>The programs leave the maps of the policies alone.\<close>

definition policy_maps where
  "policy_maps s = (cg_to_policy_map s, policy_settings_map s, pol_str_maps s)"

lemma policy_maps_cong:
  assumes "policy_maps s' = policy_maps s"
  shows "agent_inv s' = agent_inv s" and "cg_policy s' = cg_policy s" and "same_policy s s' p" and "unused s' n = unused s n"
  using assms
  by (auto simp: policy_maps_def agent_inv_def outer_inv_def string_maps_wf_def same_policy_def outer_entry_def unused_def)

lemma policy_maps_programs:
  "policy_maps (snd (enforce_cgroup_policy K s bprm)) = policy_maps s"
  "policy_maps (snd (tg_cgtracker_cgroup_mkdir K s cgrp)) = policy_maps s"
  "policy_maps (snd (tg_cgtracker_cgroup_release K s cgrp)) = policy_maps s"
proof -
  show "policy_maps (snd (enforce_cgroup_policy K s bprm)) = policy_maps s"
    using enforce_cgroup_policy_maps [of K s bprm] by (simp add: maps_of_def policy_maps_def)
  have log: "policy_maps (emit_log_event K s c) = policy_maps s" for c
    using maps_of_simps(1) [of K s c 0 0] by (simp add: emit_defs maps_of_def policy_maps_def)
  show "policy_maps (snd (tg_cgtracker_cgroup_mkdir K s cgrp)) = policy_maps s"
    using log by (simp add: tg_cgtracker_cgroup_mkdir_def Let_def split: option.split) (simp add: policy_maps_def)
  show "policy_maps (snd (tg_cgtracker_cgroup_release K s cgrp)) = policy_maps s"
    using log by (simp add: tg_cgtracker_cgroup_release_def Let_def) (simp add: policy_maps_def)
qed

lemma res_inv_maps: "res_inv r s \<Longrightarrow> policy_maps s' = policy_maps s \<Longrightarrow> res_inv r s'"
  using policy_maps_cong [of s' s] by (simp add: res_inv_def)

lemma agent_step_inv: "agent_step M nested S T \<Longrightarrow> res_inv (fst S) (snd S) \<Longrightarrow> res_inv (fst T) (snd T)"
proof (induction rule: agent_step.induct)
  case (reconcile r wp s e r' s')
  then show ?case using reconcile_inv by simp
next
  case (delete r s wp e r' s')
  then show ?case using delete_effect [of r s M wp] by auto
next
  case (add r s pod e r' s')
  then show ?case using add_inv by simp
next
  case (remove r s i c e' r' s')
  then show ?case using remove_inv by simp
next
  case (exec K s bprm v s' r)
  then show ?case using res_inv_maps policy_maps_programs(1) [of K s bprm] by simp
next
  case (mkdir K s cgrp v s' r)
  then show ?case using res_inv_maps policy_maps_programs(2) [of K s cgrp] by simp
next
  case (release K s cgrp v s' r)
  then show ?case using res_inv_maps policy_maps_programs(3) [of K s cgrp] by simp
qed

lemma agent_steps_inv: "agent_steps M nested S T \<Longrightarrow> res_inv (fst S) (snd S) \<Longrightarrow> res_inv (fst T) (snd T)"
  by (induction rule: agent_steps.induct) (auto dest: agent_step_inv)

lemma new_resolver_inv:
  assumes "agent_inv s" and "unused s 1"
  shows "res_inv NewResolver s"
  using assms by (simp add: res_inv_def NewResolver_def policy_id_def)

section \<open>Runs without failures\<close>

text \<open>
  A run in which no reconciliation fails. A container may be added before its policy is known; the cache
  stays one the runtime can produce; executed paths fit the buffer. The last argument is the
  specification of every policy, as last reconciled.
\<close>

inductive good_run :: "Manager \<Rightarrow> (string \<Rightarrow> u64 list) \<Rightarrow> bpf_state \<Rightarrow> Resolver \<Rightarrow> bpf_state \<Rightarrow> specs \<Rightarrow> bool"
  for M nested s0 where
  run_start: "good_run M nested s0 NewResolver s0 (\<lambda>_. None)"
| run_reconcile: "good_run M nested s0 r s sp \<Longrightarrow> reconcilable r wp \<Longrightarrow> named wp \<Longrightarrow>
    ReconcileWP M r s wp = (None, r', s') \<Longrightarrow> good_run M nested s0 r' s' (sp(NamespacedName wp \<mapsto> wp))"
| run_delete: "good_run M nested s0 r s sp \<Longrightarrow> HandleWPDelete M r s wp = (e, r', s') \<Longrightarrow>
    good_run M nested s0 r' s' (sp(NamespacedName wp := None))"
| run_add: "good_run M nested s0 r s sp \<Longrightarrow> AddPodContainerFromNri M nested r s pod = (e, r', s') \<Longrightarrow> add_fine e \<Longrightarrow>
    cache_ok r' \<Longrightarrow> good_run M nested s0 r' s' sp"
| run_remove: "good_run M nested s0 r s sp \<Longrightarrow> RemovePodContainerFromNri M r s i c = (e', r', s') \<Longrightarrow>
    good_run M nested s0 r' s' sp"
| run_exec: "good_run M nested s0 r s sp \<Longrightarrow> exec_ready K bprm str \<Longrightarrow> enforce_cgroup_policy K s bprm = (v, s') \<Longrightarrow>
    good_run M nested s0 r s' sp"
| run_mkdir: "good_run M nested s0 r s sp \<Longrightarrow> tg_cgtracker_cgroup_mkdir K s cgrp = (v, s') \<Longrightarrow> good_run M nested s0 r s' sp"
| run_release: "good_run M nested s0 r s sp \<Longrightarrow> tg_cgtracker_cgroup_release K s cgrp = (v, s') \<Longrightarrow> good_run M nested s0 r s' sp"

definition run_inv :: "Resolver \<Rightarrow> bpf_state \<Rightarrow> specs \<Rightarrow> bool" where
  "run_inv r s sp \<longleftrightarrow> res_inv r s \<and> cache_ok r \<and> synced r s \<and> specs_hold r s sp \<and> buffer_ready s \<and> views_ok r"

text \<open>Maps before the first policy.\<close>

definition fresh_maps :: "bpf_state \<Rightarrow> bool" where
  "fresh_maps s \<longleftrightarrow> agent_inv s \<and> unused s 1 \<and> (\<forall>d. cg_policy s d = None) \<and> buffer_ready s"

lemma run_inv_maps:
  assumes "run_inv r s sp" and "policy_maps s' = policy_maps s" and "buffer_ready s'"
  shows "run_inv r s' sp"
proof -
  note c = policy_maps_cong [OF assms(2)]
  have "specs_hold r s' sp" using assms(1) c(3) specs_hold_same [of r s sp r s'] unfolding run_inv_def by blast
  then show ?thesis using assms res_inv_maps [OF _ assms(2)] c(2) unfolding run_inv_def synced_def by simp
qed

lemma run_inv_buffer: "process_evt_storage_map s' = process_evt_storage_map s \<Longrightarrow> buffer_ready s' = buffer_ready s"
  by (simp add: buffer_ready_def)

lemma tracker_programs_buffer:
  "process_evt_storage_map (snd (tg_cgtracker_cgroup_mkdir K s cgrp)) = process_evt_storage_map s"
  "process_evt_storage_map (snd (tg_cgtracker_cgroup_release K s cgrp)) = process_evt_storage_map s"
proof -
  have log: "process_evt_storage_map (emit_log_event K s c) = process_evt_storage_map s" for c
    by (simp add: emit_defs hook_frame)
  show "process_evt_storage_map (snd (tg_cgtracker_cgroup_mkdir K s cgrp)) = process_evt_storage_map s"
    "process_evt_storage_map (snd (tg_cgtracker_cgroup_release K s cgrp)) = process_evt_storage_map s"
    using log by (simp_all add: tg_cgtracker_cgroup_mkdir_def tg_cgtracker_cgroup_release_def Let_def split: option.split)
qed

lemma reconcile_buffer:
  assumes "res_inv r s" and "reconcilable r wp" and "ReconcileWP M r s wp = (e, r', s')"
  shows "process_evt_storage_map s' = process_evt_storage_map s"
proof -
  obtain pol st n' where "res_frame r r' (NamespacedName wp) pol st n'" "nextPolicyID r \<le> n'"
    "ids_from r (NamespacedName wp) n' pol"
    "agent_frame s s' (policy_ids r (NamespacedName wp) \<union> {nextPolicyID r..<n'})
       (CgroupID ` snd ` set (matched wp (podCache r)))"
    by (rule reconcile_frame [OF assms])
  then show ?thesis by (simp add: agent_frame_def programs_view_def)
qed

lemma reconcile_cache:
  assumes "res_inv r s" and "reconcilable r wp" and "ReconcileWP M r s wp = (e, r', s')"
  shows "podCache r' = podCache r \<and> cgroupIDToPodID r' = cgroupIDToPodID r"
proof -
  obtain pol st n' where "res_frame r r' (NamespacedName wp) pol st n'" "nextPolicyID r \<le> n'"
    "ids_from r (NamespacedName wp) n' pol"
    "agent_frame s s' (policy_ids r (NamespacedName wp) \<union> {nextPolicyID r..<n'})
       (CgroupID ` snd ` set (matched wp (podCache r)))"
    by (rule reconcile_frame [OF assms])
  then show ?thesis by (simp add: res_frame_def)
qed

lemma delete_cache:
  "res_inv r s \<Longrightarrow> HandleWPDelete M r s wp = (e, r', s') \<Longrightarrow> podCache r' = podCache r \<and> cgroupIDToPodID r' = cgroupIDToPodID r"
  using delete_effect [of r s M wp] by auto

lemma views_cong: "podCache r' = podCache r \<Longrightarrow> cgroupIDToPodID r' = cgroupIDToPodID r \<Longrightarrow> views_ok r' = views_ok r"
  by (simp add: views_ok_def)

lemma good_run_inv:
  assumes "good_run M nested s0 r s sp" and M: "\<not> isShuttingDown M" and s0: "fresh_maps s0"
  shows "run_inv r s sp"
  using assms(1)
proof (induction rule: good_run.induct)
  case run_start
  have "cache_ok NewResolver" "synced NewResolver s0" "specs_hold NewResolver s0 (\<lambda>_. None)" "views_ok NewResolver"
    using s0 by (simp_all add: views_ok_def cache_ok_def distinct_cgroups_def cached_def NewResolver_def synced_def wants_policy_def
        specs_hold_def fresh_maps_def)
  then show ?case using s0 new_resolver_inv by (simp add: run_inv_def fresh_maps_def)
next
  case (run_reconcile r s sp wp r' s')
  then have i: "res_inv r s" "cache_ok r" "synced r s" "specs_hold r s sp" "buffer_ready s" "views_ok r"
    by (simp_all add: run_inv_def)
  have d: "distinct_cgroups (podCache r)" using i(2) by (simp add: cache_ok_def)
  have "process_evt_storage_map s' = process_evt_storage_map s"
    using reconcile_buffer [OF i(1) run_reconcile(2,4)] .
  then show ?case
    using reconcile_inv [OF i(1) run_reconcile(2,4)] reconcile_synced [OF i(1) run_reconcile(2) M i(2) run_reconcile(3,4) i(3)]
      reconcile_specs [OF i(1) run_reconcile(2) M d run_reconcile(4) i(4)] i(5,6) run_inv_buffer [of s' s]
      reconcile_cache [OF i(1) run_reconcile(2,4)] views_cong [of r' r]
    by (simp add: run_inv_def fun_upd_def)
next
  case (run_delete r s sp wp e r' s')
  then have i: "res_inv r s" "cache_ok r" "synced r s" "specs_hold r s sp" "buffer_ready s" "views_ok r"
    by (simp_all add: run_inv_def)
  then show ?case using delete_synced [OF i(1-4) run_delete(2)] delete_cache [OF i(1) run_delete(2)] views_cong [of r' r] run_inv_buffer [of s' s] by (simp add: run_inv_def fun_upd_def)
next
  case (run_add r s sp pod e r' s')
  then have i: "res_inv r s" "cache_ok r" "synced r s" "specs_hold r s sp" "buffer_ready s" "views_ok r"
    by (simp_all add: run_inv_def)
  then show ?case
    using add_synced [OF i(1-4) M run_add(2-4)] add_inv [OF i(1) run_add(2)] run_add(4) add_views [OF i(2,6) run_add(2-4)] run_inv_buffer [of s' s] by (simp add: run_inv_def)
next
  case (run_remove r s sp i c e' r' s')
  then have i: "res_inv r s" "cache_ok r" "synced r s" "specs_hold r s sp" "buffer_ready s" "views_ok r"
    by (simp_all add: run_inv_def)
  then show ?case
    using remove_synced [OF i(1-4) run_remove(2)] remove_inv [OF i(1) run_remove(2)] remove_views [OF i(2,6) run_remove(2)] run_inv_buffer [of s' s] by (simp add: run_inv_def)
next
  case (run_exec r s sp K bprm str v s')
  have "string_maps_wf s" using run_exec(4) by (simp add: run_inv_def res_inv_def agent_inv_def)
  moreover have "buffer_ready s" using run_exec(4) by (simp add: run_inv_def)
  ultimately have "buffer_ready s'" using hook_buffer_ready [OF _ run_exec(2), of s] run_exec(3) by simp
  then show ?case using run_inv_maps [OF run_exec(4)] policy_maps_programs(1) [of K s bprm] run_exec(3) by simp
next
  case (run_mkdir r s sp K cgrp v s')
  then have "buffer_ready s'" using tracker_programs_buffer(1) [of K s cgrp] run_inv_buffer [of s' s] by (simp add: run_inv_def)
  then show ?case using run_inv_maps [OF run_mkdir(3)] policy_maps_programs(2) [of K s cgrp] run_mkdir(2) by simp
next
  case (run_release r s sp K cgrp v s')
  then have "buffer_ready s'" using tracker_programs_buffer(2) [of K s cgrp] run_inv_buffer [of s' s] by (simp add: run_inv_def)
  then show ?case using run_inv_maps [OF run_release(3)] policy_maps_programs(3) [of K s cgrp] run_release(2) by simp
qed

section \<open>What the hook does in such a state\<close>

text \<open>The rules of a container, read as a decision on one execution.\<close>

definition refuses :: "kenv \<Rightarrow> WorkloadPolicyRules \<Rightarrow> u64 \<Rightarrow> bytes \<Rightarrow> bool" where
  "refuses K cr bprm str \<longleftrightarrow>
     (if exec_is_foreign_root K bprm then \<not> AllowForeignRootExec cr
      else \<not> (str \<in> set (Allowed cr) \<and> length str \<notin> misplaced))"

lemma installed_hook:
  assumes inv: "agent_inv s" and b: "buffer_ready s" and i: "installed s p cr m" and nul: "\<forall>v\<in>set (Allowed cr). 0 \<notin> set v"
    and e: "exec_ready K bprm str" and k: "\<not> linux_kernel_version K < KERNEL_VERSION 5 11 0" and len: "length str \<le> 4096"
    and c: "get_tracker_id_from_curr_task K s = cg" "cg \<noteq> 0" "\<not> exec_is_runtime_bootstrap K s cg" "cg_policy s cg = Some p"
  shows "fst (enforce_cgroup_policy K s bprm) = (if refuses K cr bprm str \<and> m \<noteq> POLICY_MODE_MONITOR then - EPERM else 0)"
proof -
  have wf: "string_maps_wf s" using inv by (simp add: agent_inv_def)
  have h: "fst (enforce_cgroup_policy K s bprm) = verdict K s bprm str" by (rule hook_verdict [OF wf e b])
  have h2: "policy_holds s p (set (Allowed cr))" "\<forall>v\<in>set (Allowed cr). table_length (length v)"
    "map_lookup (policy_settings_map s) p = Some \<lparr>settings_mode = m, allow_foreign_root = (if AllowForeignRootExec cr then 1 else 0)\<rparr>"
    using i by (simp_all add: installed_def)
  have "0 \<notin> set str" using e resolvable_no_nul by (auto simp: exec_ready_def)
  moreover have "table_length (length str)" using exec_ready_len [OF e] len by auto
  ultimately have a: "allow_listed s p str \<longleftrightarrow> str \<in> set (Allowed cr) \<and> length str \<notin> misplaced"
    using allow_listed_iff [OF h2(1)] h2(2) nul by simp
  show ?thesis
    using c k h2(3) a by (simp add: h verdict_def violation_def refuses_def Let_def)
qed

lemma unpoliced_hook:
  assumes inv: "agent_inv s" and b: "buffer_ready s" and e: "exec_ready K bprm str"
    and c: "cg_policy s (get_tracker_id_from_curr_task K s) = None"
  shows "fst (enforce_cgroup_policy K s bprm) = 0"
proof -
  have "string_maps_wf s" using inv by (simp add: agent_inv_def)
  from hook_verdict [OF this e b] show ?thesis using c by (simp add: verdict_def violation_def Let_def)
qed

lemma reconcile_ready:
  assumes "ReconcileWP M r s wp = (None, r', s')"
  shows "map_of (GetPolicyStatuses r') (NamespacedName wp) = Some (ready_status wp)"
  using assms
proof (cases rule: ReconcileWP_cases)
  case (looped st0 new r1 s1 pol')
  then show ?thesis by (simp add: GetPolicyStatuses_def map_of_map set_info_def update_conv')
qed simp

lemma reconcile_cgroups:
  assumes inv: "res_inv r s" and rc: "reconcilable r wp" and M: "\<not> isShuttingDown M" and d: "distinct_cgroups (podCache r)"
    and R: "ReconcileWP M r s wp = (None, r', s')" and ct: "ct \<in> snd ` set (matched wp (podCache r))"
    and n: "policy_id r (NamespacedName wp) (container_Name ct) \<noteq> None \<or> policy_id r' (NamespacedName wp) (container_Name ct) \<noteq> None"
  shows "cg_policy s' (CgroupID ct) = policy_id r' (NamespacedName wp) (container_Name ct)"
proof -
  let ?k = "NamespacedName wp" and ?n = "container_Name ct"
  obtain m pol where "ParseMode (wp_Mode wp) = Some m"
    and pid: "\<forall>c. policy_id r' ?k c =
      (if c \<in> container_Name ` dropped (matched wp (podCache r)) (gone wp pol) then None else map_of pol c)"
    and nr: "\<forall>c. map_of (RulesByContainer wp) c = None \<longrightarrow> map_of pol c = policy_id r ?k c"
    and i: "\<forall>c cr. (c, cr) \<in> set (RulesByContainer wp) \<longrightarrow> (\<exists>y p. cr = Some y \<and> map_of pol c = Some p \<and> installed s' p y m)"
    and t: "\<forall>ct\<in>snd ` set (matched wp (podCache r)). cg_policy s' (CgroupID ct) =
       target (kept wp pol) (gone wp pol) (container_Name ct) (cg_policy s (CgroupID ct))"
    by (rule reconcile_success [OF inv rc M d R])
  have rl: "\<forall>c. map_of (RulesByContainer wp) c \<noteq> None \<longrightarrow> map_of pol c \<noteq> None"
    using i map_of_SomeD by (metis option.distinct(1) option.exhaust)
  have "map_of (kept wp pol) ?n \<noteq> None \<or> map_of (gone wp pol) ?n \<noteq> None"
    using n pid nr rl by (auto simp: kept_gone_lookup split: if_splits)
  then have "target (kept wp pol) (gone wp pol) ?n (cg_policy s (CgroupID ct)) = target (kept wp pol) (gone wp pol) ?n (policy_id r ?k ?n)"
    by (auto simp: target_def split: option.splits)
  then show ?thesis using t ct target_policy_id [OF pid nr rl ct] by metis
qed

section \<open>Properties\<close>

text \<open>
  \<^bold>\<open>C4\<close>. The agent enforces what it has been told. After any run of the agent and the programs in which no
  reconciliation failed, take a container in the cache, in a pod labelled with a policy that has been
  reconciled and not deleted since. An execution in it is refused exactly when the rules of the
  container in the last specification refuse it and the mode is not monitor; the paths of 121 to 144
  bytes, which are stored in one map and looked up in another, count as not listed.
\<close>

theorem agent_enforces:
  assumes "good_run M nested s0 r s sp" and "\<not> isShuttingDown M" and "fresh_maps s0"
    and "sp (NamespacedName wp) = Some wp" and "ParseMode (wp_Mode wp) = Some m"
    and "(container_Name ct, Some cr) \<in> set (RulesByContainer wp)" and "\<forall>v\<in>set (Allowed cr). 0 \<notin> set v"
    and "cached r pod ct" and "policyName pod \<noteq> []" and "pod_key pod = NamespacedName wp"
    and "exec_ready K bprm str" and "\<not> linux_kernel_version K < KERNEL_VERSION 5 11 0" and "length str \<le> 4096"
    and "get_tracker_id_from_curr_task K s = CgroupID ct" and "CgroupID ct \<noteq> 0"
    and "\<not> exec_is_runtime_bootstrap K s (CgroupID ct)"
  shows "fst (enforce_cgroup_policy K s bprm) = (if refuses K cr bprm str \<and> m \<noteq> POLICY_MODE_MONITOR then - EPERM else 0)"
proof -
  have i: "res_inv r s" "cache_ok r" "synced r s" "specs_hold r s sp" "buffer_ready s"
    using good_run_inv [OF assms(1-3)] by (simp_all add: run_inv_def)
  have "spec_installed r s wp" using i(4) assms(4) unfolding specs_hold_def by blast
  then obtain p where p: "policy_id r (NamespacedName wp) (container_Name ct) = Some p" "installed s p cr m"
    using assms(5,6) unfolding spec_installed_def by fastforce
  have "cg_policy s (CgroupID ct) = Some p" using synced_cached [OF i(2,3) assms(8)] assms(9,10) p(1) by simp
  moreover have "agent_inv s" using i(1) by (simp add: res_inv_def)
  ultimately show ?thesis using installed_hook [OF _ i(5) p(2) assms(7,11-16)] by blast
qed

text \<open>
  \<^bold>\<open>C5\<close>. The cgroup map implements the cache. In every state of such a run, a cgroup has a policy in the
  map that the hook reads exactly when it is the cgroup of a cached container whose pod is labelled with
  a policy, and the identifier is the one the policy has for the name of the container. In particular
  a container without a label, and a cgroup that no container has, is never restricted.
\<close>

theorem cgroup_map_implements_cache:
  assumes "good_run M nested s0 r s sp" and "\<not> isShuttingDown M" and "fresh_maps s0"
  shows "(\<forall>d p. cg_policy s d = Some p \<longleftrightarrow> wants_policy r d p) \<and>
    (\<forall>K bprm str. exec_ready K bprm str \<and> (\<forall>q. \<not> wants_policy r (get_tracker_id_from_curr_task K s) q) \<longrightarrow>
       fst (enforce_cgroup_policy K s bprm) = 0)"
proof -
  have i: "res_inv r s" "synced r s" "buffer_ready s"
    using good_run_inv [OF assms] by (simp_all add: run_inv_def)
  have "cg_policy s d = None" if "\<forall>q. \<not> wants_policy r d q" for d
    using that i(2) unfolding synced_def by (metis option.exhaust)
  moreover have "agent_inv s" using i(1) by (simp add: res_inv_def)
  ultimately show ?thesis using unpoliced_hook [OF _ i(3)] i(2) unfolding synced_def by blast
qed

text \<open>
  \<^bold>\<open>C21\<close>. Every cached container can be named from its cgroup. In every state of such a run,
  \<^verbatim>\<open>GetContainerView\<close> on the cgroup of a cached container returns the container and the pod it was added
  with, so an event that carries this cgroup is attributed to the right workload.
\<close>

theorem container_view_exact:
  assumes "good_run M nested s0 r s sp" and "\<not> isShuttingDown M" and "fresh_maps s0"
    and "(i, pod) \<in> set (podCache r)" and "(j, ct) \<in> set (containers pod)"
  shows "GetContainerView r (CgroupID ct) = Inr \<lparr>view_Meta = \<lparr>container_ID = j, container_Name = container_Name ct,
    CgroupID = CgroupID ct\<rparr>, view_PodMeta = meta pod\<rparr>"
proof -
  have "cache_ok r" "views_ok r" using good_run_inv [OF assms(1-3)] by (simp_all add: run_inv_def)
  then show ?thesis using assms(4,5) by (rule view_of_container)
qed


text \<open>
  \<^bold>\<open>C14\<close>. A reconciliation leaves the other policies alone. Whatever \<^verbatim>\<open>ReconcileWP\<close> returns, also an error
  half way, every other workload policy keeps its identifiers, and the values and settings of each of
  them are as before; the only cgroups whose policy may have changed are those of the cached pods that
  name the reconciled policy.
\<close>

theorem reconcile_isolated:
  assumes "res_inv r s" and "reconcilable r wp" and "ReconcileWP M r s wp = (e, r', s')"
  shows "(\<forall>k c. k \<noteq> NamespacedName wp \<longrightarrow> policy_id r' k c = policy_id r k c) \<and>
    (\<forall>k c p. k \<noteq> NamespacedName wp \<and> policy_id r k c = Some p \<longrightarrow> same_policy s s' p) \<and>
    (\<forall>d. cg_policy s' d \<noteq> cg_policy s d \<longrightarrow>
       (\<exists>pod ct. cached r pod ct \<and> CgroupID ct = d \<and> matchPolicy pod (wp_Name wp) (wp_Namespace wp)))"
proof -
  let ?k = "NamespacedName wp"
  obtain pol st n' where f: "res_frame r r' ?k pol st n'" "nextPolicyID r \<le> n'" "ids_from r ?k n' pol"
    and g: "agent_frame s s' (policy_ids r ?k \<union> {nextPolicyID r..<n'}) (CgroupID ` snd ` set (matched wp (podCache r)))"
    by (rule reconcile_frame [OF assms])
  have "same_policy s s' p" if "k \<noteq> ?k" "policy_id r k c = Some p" for k c p
  proof -
    have "p \<in> policy_ids r k" using that(2) unfolding policy_ids_def by blast
    from other_ids [OF assms(1) this that(1)] show ?thesis using g by (auto simp: agent_frame_def leD)
  qed
  moreover have "\<exists>pod ct. cached r pod ct \<and> CgroupID ct = d \<and> matchPolicy pod (wp_Name wp) (wp_Namespace wp)"
    if "cg_policy s' d \<noteq> cg_policy s d" for d
  proof -
    have "d \<in> CgroupID ` snd ` set (matched wp (podCache r))" using that agent_frame_cg [OF g] by blast
    then obtain ct where "ct \<in> snd ` set (matched wp (podCache r))" "d = CgroupID ct" by (rule imageE)
    then show ?thesis using matched_cached by blast
  qed
  moreover have "policy_id r' k c = policy_id r k c" if "k \<noteq> ?k" for k c using res_frame_policy_id [OF f(1)] that by simp
  ultimately show ?thesis by blast
qed

text \<open>
  \<^bold>\<open>C15\<close>. A successful reconciliation installs the specification. Afterwards the policy is reported ready,
  every container of the rules has an identifier under which the maps hold exactly its allowed
  binaries and its settings, and every cached container of the policy has the identifier of its name
  in the cgroup map, or none if the rules do not name it and the policy had named it.
\<close>

theorem reconcile_installs:
  assumes "res_inv r s" and "reconcilable r wp" and "\<not> isShuttingDown M" and "distinct_cgroups (podCache r)"
    and "ReconcileWP M r s wp = (None, r', s')"
  shows "\<exists>m. ParseMode (wp_Mode wp) = Some m \<and>
    map_of (GetPolicyStatuses r') (NamespacedName wp) = Some (ready_status wp) \<and>
    (\<forall>c cr. (c, cr) \<in> set (RulesByContainer wp) \<longrightarrow>
       (\<exists>y p. cr = Some y \<and> policy_id r' (NamespacedName wp) c = Some p \<and> installed s' p y m)) \<and>
    (\<forall>ct\<in>snd ` set (matched wp (podCache r)). policy_id r (NamespacedName wp) (container_Name ct) \<noteq> None \<or>
         policy_id r' (NamespacedName wp) (container_Name ct) \<noteq> None \<longrightarrow>
       cg_policy s' (CgroupID ct) = policy_id r' (NamespacedName wp) (container_Name ct))"
proof -
  let ?k = "NamespacedName wp"
  have inv': "res_inv r' s'" by (rule reconcile_inv [OF assms(1,2,5)])
  have status: "map_of (GetPolicyStatuses r') ?k = Some (ready_status wp)" by (rule reconcile_ready [OF assms(5)])
  have h: "specs_hold r' s' ((\<lambda>_. None)(?k \<mapsto> wp))"
    by (rule reconcile_specs [OF assms(1-5)]) (simp add: specs_hold_def)
  have "spec_installed r' s' wp" using h [unfolded specs_hold_def, THEN spec, THEN spec, of ?k wp] by simp
  then obtain m where m: "ParseMode (wp_Mode wp) = Some m" and
    i: "\<forall>c cr. (c, cr) \<in> set (RulesByContainer wp) \<longrightarrow> (\<exists>y p. cr = Some y \<and> policy_id r' ?k c = Some p \<and> installed s' p y m)"
    unfolding spec_installed_def by (elim exE conjE)
  moreover have "cg_policy s' (CgroupID ct) = policy_id r' ?k (container_Name ct)"
    if "ct \<in> snd ` set (matched wp (podCache r))" "policy_id r ?k (container_Name ct) \<noteq> None \<or> policy_id r' ?k (container_Name ct) \<noteq> None" for ct
    using reconcile_cgroups [OF assms that] .
  ultimately show ?thesis using status by blast
qed

end
