(* ===== verification/Violation_Buffer.thy ===== *)
theory Violation_Buffer
  imports Agent_Run Event_Stream "HOL-Library.Signed_Division"
begin

text \<open>
  From the decoded events to the records a scrape returns: the ring buffer of
  \<^verbatim>\<open>src/internal/violationbuf/buffer.go\<close>, the event scraper of \<^verbatim>\<open>src/internal/eventscraper/eventscraper.go\<close> that
  names the pod of an event, and \<^verbatim>\<open>ScrapeViolations\<close> of \<^verbatim>\<open>src/internal/grpcexporter/agent_observer.go\<close>.
  Times are integers (nanoseconds).
\<close>

section \<open>The ring buffer\<close>

text \<open>Go's \<^verbatim>\<open>int64\<close> wraps, and its remainder has the sign of the dividend.\<close>

definition int64 :: "int \<Rightarrow> int" where
  "int64 x = (x + 2 ^ 63) mod 2 ^ 64 - 2 ^ 63"

lemma int64_id: "- (2 ^ 63) \<le> x \<Longrightarrow> x < 2 ^ 63 \<Longrightarrow> int64 x = x"
  by (simp add: int64_def)

record BufferRecord =
  Timestamp :: int
  rec_PolicyName :: string
  rec_Namespace :: string
  rec_PodName :: string
  rec_ContainerName :: string
  rec_ExePath :: bytes
  rec_ForeignRoot :: bool
  rec_NodeName :: string
  rec_Action :: string
  rec_WorkloadName :: string
  rec_WorkloadKind :: string

definition zero_record :: BufferRecord where
  "zero_record = \<lparr>Timestamp = 0, rec_PolicyName = [], rec_Namespace = [], rec_PodName = [], rec_ContainerName = [],
     rec_ExePath = [], rec_ForeignRoot = False, rec_NodeName = [], rec_Action = [], rec_WorkloadName = [], rec_WorkloadKind = []\<rparr>"

definition MaxBufferEntries :: nat where
  "MaxBufferEntries = 10000"

record Buffer =
  buf :: "BufferRecord list"
  pos :: int

definition NewBuffer :: Buffer where
  "NewBuffer = \<lparr>buf = replicate MaxBufferEntries zero_record, pos = 0\<rparr>"

text \<open>An index out of range panics, which is \<open>None\<close>.\<close>

definition Record :: "Buffer \<Rightarrow> BufferRecord \<Rightarrow> (bool \<times> Buffer) option" where
  "Record b rec =
     (let dropped = (int MaxBufferEntries \<le> pos b);
          i = pos b smod int MaxBufferEntries
      in if i < 0 \<or> int (length (buf b)) \<le> i then None
         else Some (dropped, b\<lparr>buf := (buf b)[nat i := rec], pos := int64 (pos b + 1)\<rparr>))"

definition drain_index :: "Buffer \<Rightarrow> int \<Rightarrow> int" where
  "drain_index b i = (pos b - 1 - i) smod int MaxBufferEntries"

definition Drain :: "Buffer \<Rightarrow> (BufferRecord list \<times> Buffer) option" where
  "Drain b =
     (let n = min (pos b) (int MaxBufferEntries)
      in if n = 0 then Some ([], b)
         else if n < 0 \<or> (\<exists>i\<in>set (map int [0..<nat n]). drain_index b i < 0 \<or> int (length (buf b)) \<le> drain_index b i) then None
         else Some (map (\<lambda>i. buf b ! nat (drain_index b (int i))) [0..<nat n], b\<lparr>pos := 0\<rparr>))"

text \<open>Records that arrive one after the other.\<close>

fun log_all :: "('b \<Rightarrow> 'r \<Rightarrow> (bool \<times> 'b) option) \<Rightarrow> 'b \<Rightarrow> 'r list \<Rightarrow> 'b option" where
  "log_all add b [] = Some b"
| "log_all add b (x # xs) = (case add b x of None \<Rightarrow> None | Some (_, b') \<Rightarrow> log_all add b' xs)"

text \<open>The contract of a log of bounded size: what was recorded since the last drain, newest first.\<close>

locale bounded_log =
  fixes rep :: "'b \<Rightarrow> 'r list \<Rightarrow> bool"
    and add :: "'b \<Rightarrow> 'r \<Rightarrow> (bool \<times> 'b) option"
    and drain :: "'b \<Rightarrow> ('r list \<times> 'b) option"
    and cap :: nat and lim :: nat
  assumes add_law: "rep b h \<Longrightarrow> length h < lim \<Longrightarrow> \<exists>b'. add b x = Some (cap \<le> length h, b') \<and> rep b' (x # h)"
    and drain_law: "rep b h \<Longrightarrow> \<exists>b'. drain b = Some (take cap h, b') \<and> rep b' []"
begin

lemma log_all_rep:
  "rep b h \<Longrightarrow> length h + length xs \<le> lim \<Longrightarrow> \<exists>b'. log_all add b xs = Some b' \<and> rep b' (rev xs @ h)"
proof (induction xs arbitrary: b h)
  case (Cons x xs)
  obtain b1 where b1: "add b x = Some (cap \<le> length h, b1)" "rep b1 (x # h)" using add_law [of b h x] Cons.prems by auto
  then show ?case using Cons.IH [of b1 "x # h"] Cons.prems by simp
qed simp

lemma drain_newest:
  assumes "rep b h" and "length h + length xs \<le> lim"
  obtains b1 b2 where "log_all add b xs = Some b1" and "drain b1 = Some (take cap (rev xs @ h), b2)" and "rep b2 []"
  using log_all_rep [OF assms] drain_law by blast

end

section \<open>The buffer is a bounded log\<close>

definition buffer_rep :: "Buffer \<Rightarrow> BufferRecord list \<Rightarrow> bool" where
  "buffer_rep b h \<longleftrightarrow> pos b = int (length h) \<and> length h < 2 ^ 63 \<and> length (buf b) = MaxBufferEntries \<and>
     (\<forall>i < min (length h) MaxBufferEntries. buf b ! ((length h - 1 - i) mod MaxBufferEntries) = h ! i)"

lemma smod_nat: "int a smod int MaxBufferEntries = int (a mod MaxBufferEntries)"
  by (cases a) (simp_all add: signed_modulo_int_def signed_divide_int_def MaxBufferEntries_def zmod_int minus_div_mult_eq_mod)

lemma mod_other:
  fixes n :: nat
  assumes "n < m + N" and "m < n"
  shows "m mod N \<noteq> n mod N"
proof
  assume "m mod N = n mod N"
  then have "N dvd n - m" using assms(2) by (metis less_imp_le mod_eq_dvd_iff_nat)
  then have "N \<le> n - m" using assms(2) by (simp add: dvd_imp_le)
  then show False using assms(1,2) by simp
qed

lemma Record_law:
  assumes "buffer_rep b h" and "length h < 2 ^ 63 - 1"
  shows "\<exists>b'. Record b x = Some (MaxBufferEntries \<le> length h, b') \<and> buffer_rep b' (x # h)"
proof -
  let ?N = MaxBufferEntries and ?l = "length h"
  have N: "0 < ?N" by (simp add: MaxBufferEntries_def)
  have r: "pos b = int ?l" "length (buf b) = ?N"
    and e: "\<And>i. i < ?l \<Longrightarrow> i < ?N \<Longrightarrow> buf b ! ((?l - 1 - i) mod ?N) = h ! i"
    using assms(1) by (simp_all add: buffer_rep_def)
  let ?b = "b\<lparr>buf := (buf b)[?l mod ?N := x], pos := int64 (int ?l + 1)\<rparr>"
  have s: "int ?l + 1 = int (Suc ?l)" by simp
  have p: "int64 (int ?l + 1) = int (Suc ?l)" using assms(2) unfolding s by (intro int64_id) simp_all
  have "Record b x = Some (?N \<le> ?l, ?b)"
    using N r by (simp add: Record_def smod_nat Let_def not_le)
  moreover have "(buf b)[?l mod ?N := x] ! ((?l - i) mod ?N) = (x # h) ! i" if i: "i < Suc ?l" "i < ?N" for i
  proof (cases i)
    case 0
    then show ?thesis using N r(2) by simp
  next
    case (Suc j)
    have "(?l - i) mod ?N \<noteq> ?l mod ?N" using i Suc by (intro mod_other) auto
    then show ?thesis using e [of j] i Suc by simp
  qed
  then have "buffer_rep ?b (x # h)" using assms(2) r(2) p by (simp add: buffer_rep_def)
  ultimately show ?thesis by blast
qed

lemma Drain_law:
  assumes "buffer_rep b h"
  shows "\<exists>b'. Drain b = Some (take MaxBufferEntries h, b') \<and> buffer_rep b' []"
proof -
  let ?N = MaxBufferEntries and ?l = "length h"
  have N: "0 < ?N" by (simp add: MaxBufferEntries_def)
  have r: "pos b = int ?l" "length (buf b) = ?N"
    and e: "\<And>i. i < ?l \<Longrightarrow> i < ?N \<Longrightarrow> buf b ! ((?l - 1 - i) mod ?N) = h ! i"
    using assms by (simp_all add: buffer_rep_def)
  have n: "min (pos b) (int ?N) = int (min ?l ?N)" using r(1) by simp
  have idx: "drain_index b (int i) = int ((?l - 1 - i) mod ?N)" if "i < ?l" for i
  proof -
    have "int ?l - 1 - int i = int (?l - 1 - i)" using that by simp
    then show ?thesis by (simp only: drain_index_def r(1) smod_nat)
  qed
  show ?thesis
  proof (cases "?l = 0")
    case True
    then show ?thesis using assms r N by (auto simp: Drain_def Let_def)
  next
    case False
    have "\<not> (\<exists>i\<in>set (map int [0..<min ?l ?N]). drain_index b i < 0 \<or> int (length (buf b)) \<le> drain_index b i)"
      using idx r(2) N by (auto simp: not_le)
    moreover have "map (\<lambda>i. buf b ! nat (drain_index b (int i))) [0..<min ?l ?N] = take ?N h"
      using idx e by (intro nth_equalityI) simp_all
    moreover have "0 < min ?l ?N" using False N by simp
    ultimately have "Drain b = Some (take ?N h, b\<lparr>pos := 0\<rparr>)"
      unfolding Drain_def Let_def n nat_int by simp
    then show ?thesis using r(2) by (simp add: buffer_rep_def)
  qed
qed

interpretation vbuf: bounded_log buffer_rep Record Drain MaxBufferEntries "2 ^ 63 - 1"
  by unfold_locales (use Record_law Drain_law in blast)+

lemma NewBuffer_rep: "buffer_rep NewBuffer []"
  by (simp add: buffer_rep_def NewBuffer_def)

section \<open>The event scraper\<close>

record KubeProcessInfo =
  info_Namespace :: string
  info_Workload :: string
  info_WorkloadKind :: string
  info_ContainerName :: string
  info_ExecutablePath :: bytes
  info_PodName :: string
  info_ContainerID :: string
  info_PolicyName :: string
  info_ForeignRoot :: bool

definition getKubeProcessInfo :: "Resolver \<Rightarrow> ProcessEvent \<Rightarrow> KubeProcessInfo option" where
  "getKubeProcessInfo r event =
     (case GetContainerView r (CgTrackerID event) of
        Inl err \<Rightarrow> None
      | Inr containerView \<Rightarrow>
          (let podMeta = view_PodMeta containerView;
               containerMeta = view_Meta containerView
           in Some \<lparr>info_Namespace = pod_Namespace podMeta, info_Workload = WorkloadName podMeta,
                info_WorkloadKind = WorkloadType podMeta, info_ContainerName = container_Name containerMeta,
                info_ExecutablePath = ExePath event, info_PodName = pod_Name podMeta,
                info_ContainerID = container_ID containerMeta,
                info_PolicyName = (case map_of (Labels podMeta) PolicyLabelKey of Some v \<Rightarrow> v | None \<Rightarrow> []),
                info_ForeignRoot = ForeignRoot event\<rparr>))"

definition reportViolation :: "string \<Rightarrow> int \<Rightarrow> KubeProcessInfo \<Rightarrow> string \<Rightarrow> Buffer \<Rightarrow> (bool \<times> Buffer) option" where
  "reportViolation nodeName now info action b =
     Record b \<lparr>Timestamp = now, rec_PolicyName = info_PolicyName info, rec_Namespace = info_Namespace info,
       rec_PodName = info_PodName info, rec_ContainerName = info_ContainerName info,
       rec_ExePath = info_ExecutablePath info, rec_ForeignRoot = info_ForeignRoot info, rec_NodeName = nodeName,
       rec_Action = action, rec_WorkloadName = info_Workload info, rec_WorkloadKind = info_WorkloadKind info\<rparr>"

text \<open>
  The loop of \<^verbatim>\<open>Start\<close>: the events of both channels in the order in which they are selected, each with the
  resolver and the time it meets. The state is what was handed to the learning queue, and the buffer.
\<close>

datatype scraped_event = Learning_event ProcessEvent | Monitoring_event ProcessEvent

fun scraper_loop ::
  "string \<Rightarrow> KubeProcessInfo list \<times> Buffer \<Rightarrow> (Resolver \<times> int \<times> scraped_event) list \<Rightarrow> (KubeProcessInfo list \<times> Buffer) option" where
  "scraper_loop nodeName st [] = Some st"
| "scraper_loop nodeName (q, b) ((r, now, Learning_event event) # es) =
     (case getKubeProcessInfo r event of
        None \<Rightarrow> scraper_loop nodeName (q, b) es
      | Some kubeInfo \<Rightarrow> scraper_loop nodeName (q @ [kubeInfo], b) es)"
| "scraper_loop nodeName (q, b) ((r, now, Monitoring_event event) # es) =
     (case getKubeProcessInfo r event of
        None \<Rightarrow> scraper_loop nodeName (q, b) es
      | Some kubeInfo \<Rightarrow>
          (case reportViolation nodeName now kubeInfo (Mode event) b of
             None \<Rightarrow> None
           | Some (_, b') \<Rightarrow> scraper_loop nodeName (q, b') es))"

text \<open>The record of a scrape, \<^verbatim>\<open>pb.ViolationRecord\<close>.\<close>

record ScrapedViolation =
  pb_Timestamp :: int
  pb_PodName :: string
  pb_ContainerName :: string
  pb_ExecutablePath :: bytes
  pb_ForeignRoot :: bool
  pb_NodeName :: string
  pb_Action :: string
  pb_PolicyName :: string
  pb_WorkloadName :: string
  pb_WorkloadKind :: string

definition violation_proto :: "BufferRecord \<Rightarrow> ScrapedViolation" where
  "violation_proto rec = \<lparr>pb_Timestamp = Timestamp rec, pb_PodName = rec_PodName rec, pb_ContainerName = rec_ContainerName rec,
     pb_ExecutablePath = rec_ExePath rec, pb_ForeignRoot = rec_ForeignRoot rec, pb_NodeName = rec_NodeName rec,
     pb_Action = rec_Action rec, pb_PolicyName = rec_Namespace rec @ ''/'' @ rec_PolicyName rec,
     pb_WorkloadName = rec_WorkloadName rec, pb_WorkloadKind = rec_WorkloadKind rec\<rparr>"

definition ScrapeViolations :: "Buffer \<Rightarrow> (ScrapedViolation list \<times> Buffer) option" where
  "ScrapeViolations b =
     (case Drain b of None \<Rightarrow> None | Some (records, b') \<Rightarrow> Some (map violation_proto records, b'))"

section \<open>A violation is attributed to the container it happened in\<close>

text \<open>A violation in a cached container, as it reaches the scraper.\<close>

record arrival =
  at_resolver :: Resolver
  at_time :: int
  at_pod :: podEntry
  at_container :: ContainerMeta
  at_event :: ProcessEvent

abbreviation monitored :: "arrival \<Rightarrow> Resolver \<times> int \<times> scraped_event" where
  "monitored a \<equiv> (at_resolver a, at_time a, Monitoring_event (at_event a))"

definition arrival_record :: "string \<Rightarrow> arrival \<Rightarrow> BufferRecord" where
  "arrival_record node a = \<lparr>Timestamp = at_time a, rec_PolicyName = policyName (at_pod a), rec_Namespace = podNamespace (at_pod a),
     rec_PodName = pod_Name (meta (at_pod a)), rec_ContainerName = container_Name (at_container a),
     rec_ExePath = ExePath (at_event a), rec_ForeignRoot = ForeignRoot (at_event a), rec_NodeName = node,
     rec_Action = Mode (at_event a), rec_WorkloadName = WorkloadName (meta (at_pod a)),
     rec_WorkloadKind = WorkloadType (meta (at_pod a))\<rparr>"

definition arrival_ok :: "arrival \<Rightarrow> bool" where
  "arrival_ok a \<longleftrightarrow> cache_ok (at_resolver a) \<and> views_ok (at_resolver a) \<and> cached (at_resolver a) (at_pod a) (at_container a) \<and>
     CgTrackerID (at_event a) = CgroupID (at_container a)"

lemma arrival_reported:
  assumes "arrival_ok a"
  shows "\<exists>info. getKubeProcessInfo (at_resolver a) (at_event a) = Some info \<and>
    reportViolation node (at_time a) info (Mode (at_event a)) b = Record b (arrival_record node a)"
proof -
  have ok: "cache_ok (at_resolver a)" "views_ok (at_resolver a)" and c: "cached (at_resolver a) (at_pod a) (at_container a)"
    and cg: "CgTrackerID (at_event a) = CgroupID (at_container a)" using assms unfolding arrival_ok_def by blast+
  obtain i j where ij: "(i, at_pod a) \<in> set (podCache (at_resolver a))" "(j, at_container a) \<in> set (containers (at_pod a))"
    using c by (rule cachedE)
  show ?thesis
    using view_of_container [OF ok ij] cg
    by (simp add: getKubeProcessInfo_def Let_def reportViolation_def arrival_record_def policyName_def podNamespace_def)
qed

lemma scraper_loop_log:
  "\<forall>a\<in>set as. arrival_ok a \<Longrightarrow>
     scraper_loop node (q, b) (map monitored as) = map_option (Pair q) (log_all Record b (map (arrival_record node) as))"
proof (induction as arbitrary: b)
  case (Cons a as)
  obtain info where i: "getKubeProcessInfo (at_resolver a) (at_event a) = Some info"
    "reportViolation node (at_time a) info (Mode (at_event a)) b = Record b (arrival_record node a)"
    using arrival_reported [of a node b] Cons.prems by auto
  show ?case
  proof (cases "Record b (arrival_record node a)")
    case None
    then show ?thesis using i by simp
  next
    case (Some x)
    then show ?thesis using i Cons by (cases x) simp
  qed
qed simp

section \<open>Properties\<close>

text \<open>
  \<^bold>\<open>C19\<close>. A scrape returns the latest violations, each under the workload it happened in. Start from a
  drained buffer and let any number of violations arrive, each in a state of a run of the agent and in a
  cached container. Nothing panics, and the next scrape returns the last 10000 of them, newest first,
  each with the time, the path, the mode and the flag of its event, and with the pod, the workload, the policy
  and the container name of the container the event came from; afterwards the buffer is drained again.
\<close>

theorem scrape_attributed:
  assumes "buffer_rep b []" and "length as < 2 ^ 63" and "\<not> isShuttingDown M" and "fresh_maps s0"
    and "\<And>a. a \<in> set as \<Longrightarrow> (\<exists>s sp. good_run M nested s0 (at_resolver a) s sp) \<and>
      cached (at_resolver a) (at_pod a) (at_container a) \<and> CgTrackerID (at_event a) = CgroupID (at_container a)"
  shows "\<exists>b1 b2. scraper_loop node (q, b) (map monitored as) = Some (q, b1) \<and>
    ScrapeViolations b1 = Some (map (\<lambda>a. \<lparr>pb_Timestamp = at_time a, pb_PodName = pod_Name (meta (at_pod a)),
        pb_ContainerName = container_Name (at_container a), pb_ExecutablePath = ExePath (at_event a),
        pb_ForeignRoot = ForeignRoot (at_event a), pb_NodeName = node, pb_Action = Mode (at_event a),
        pb_PolicyName = podNamespace (at_pod a) @ ''/'' @ policyName (at_pod a),
        pb_WorkloadName = WorkloadName (meta (at_pod a)), pb_WorkloadKind = WorkloadType (meta (at_pod a))\<rparr>)
      (take 10000 (rev as)), b2) \<and> buffer_rep b2 []"
proof -
  have ok: "\<forall>a\<in>set as. arrival_ok a"
  proof
    fix a
    assume a: "a \<in> set as"
    obtain s sp where "good_run M nested s0 (at_resolver a) s sp" using assms(5) [OF a] by blast
    from good_run_inv [OF this assms(3,4)] have "cache_ok (at_resolver a)" "views_ok (at_resolver a)" by (simp_all add: run_inv_def)
    then show "arrival_ok a" using assms(5) [OF a] by (simp add: arrival_ok_def)
  qed
  have len: "length ([] :: BufferRecord list) + length (map (arrival_record node) as) \<le> 2 ^ 63 - 1" using assms(2) by simp
  obtain b1 b2 where b: "log_all Record b (map (arrival_record node) as) = Some b1"
    "Drain b1 = Some (take MaxBufferEntries (rev (map (arrival_record node) as) @ []), b2)" "buffer_rep b2 []"
    by (rule vbuf.drain_newest [OF assms(1) len])
  have "ScrapeViolations b1 = Some (map (violation_proto \<circ> arrival_record node) (take 10000 (rev as)), b2)"
    using b(2) by (simp add: ScrapeViolations_def rev_map take_map MaxBufferEntries_def)
  then show ?thesis
    using scraper_loop_log [OF ok, of node q b] b(1,3)
    by (intro exI [of _ b1] exI [of _ b2]) (simp add: violation_proto_def arrival_record_def comp_def)
qed

end
