(* ===== verification/Policy_Lifecycle.thy ===== *)
theory Policy_Lifecycle
  imports Agent_Run
begin

text \<open>
  The end of a policy: what a deletion leaves behind, and what a reconciliation leaves behind of a container
  that its rules no longer name.
\<close>

section \<open>A container that the rules no longer name\<close>

text \<open>Without a cached pod that has the container, its identifier stays, with all the maps hold of it.\<close>

lemma unnamed_container_stays:
  assumes inv: "res_inv r s" and rc: "reconcilable r wp" and M: "\<not> isShuttingDown M" and d: "distinct_cgroups (podCache r)"
    and R: "ReconcileWP M r s wp = (None, r', s')" and c: "map_of (RulesByContainer wp) c = None"
    and p: "policy_id r (NamespacedName wp) c = Some p" and no: "\<forall>ct\<in>snd ` set (matched wp (podCache r)). container_Name ct \<noteq> c"
  shows "policy_id r' (NamespacedName wp) c = Some p" and "same_policy s s' p"
proof -
  let ?k = "NamespacedName wp"
  obtain m pol where "ParseMode (wp_Mode wp) = Some m"
    and pid: "\<forall>c. policy_id r' ?k c =
      (if c \<in> container_Name ` dropped (matched wp (podCache r)) (gone wp pol) then None else map_of pol c)"
    and nr: "\<forall>c. map_of (RulesByContainer wp) c = None \<longrightarrow> map_of pol c = policy_id r ?k c"
    and "\<forall>c cr. (c, cr) \<in> set (RulesByContainer wp) \<longrightarrow> (\<exists>y p. cr = Some y \<and> map_of pol c = Some p \<and> installed s' p y m)"
    and "\<forall>ct\<in>snd ` set (matched wp (podCache r)). cg_policy s' (CgroupID ct) =
       target (kept wp pol) (gone wp pol) (container_Name ct) (cg_policy s (CgroupID ct))"
    and "\<forall>p\<in>dropped_ids (matched wp (podCache r)) (gone wp pol). cleared s' p"
    and same: "\<forall>c p. map_of (RulesByContainer wp) c = None \<and> policy_id r ?k c = Some p \<and>
       p \<notin> dropped_ids (matched wp (podCache r)) (gone wp pol) \<longrightarrow> same_policy s s' p"
    by (rule reconcile_success [OF inv rc M d R])
  have "c \<notin> container_Name ` dropped (matched wp (podCache r)) (gone wp pol)" using no unfolding dropped_def by blast
  then show "policy_id r' ?k c = Some p" using pid nr c p by simp
  have "p \<notin> dropped_ids (matched wp (podCache r)) (gone wp pol)"
  proof
    assume "p \<in> dropped_ids (matched wp (podCache r)) (gone wp pol)"
    then obtain ct where ct: "ct \<in> snd ` set (matched wp (podCache r))" "map_of (gone wp pol) (container_Name ct) = Some p"
      unfolding dropped_ids_def by blast
    then have "policy_id r ?k (container_Name ct) = Some p" using nr by (auto simp: kept_gone_lookup split: if_splits)
    then have "container_Name ct = c" using inv p unfolding res_inv_def by blast
    then show False using no ct(1) by blast
  qed
  then show "same_policy s s' p" using same c p by blast
qed

text \<open>The entry and the policy of a container that starts in a pod that is not in the cache.\<close>

lemma new_pod_policy:
  assumes inv: "agent_inv s" and M: "\<not> isShuttingDown M" and R: "AddPodContainerFromNri M nested r s pod = (None, r', s')"
    and new: "map_of (podCache r) (pod_ID (input_Meta pod)) = None" and ci: "input_Containers pod = [(i, ci)]"
    and l: "map_of (Labels (input_Meta pod)) PolicyLabelKey = Some n" "n \<noteq> []"
    and p: "policy_id r (pod_Namespace (input_Meta pod) @ ''/'' @ n) (container_Name (ContainerMeta ci)) = Some p"
  shows "cg_policy s' (CgroupID (ContainerMeta ci)) = Some p" and "same_policy s s' q"
proof -
  have fine: "add_fine None" by (simp add: add_fine_def)
  obtain st cgs s1 where
    loop: "containers_loop M nested (pod_ID (input_Meta pod)) (pod_state r pod) (cgroupIDToPodID r) s (input_Containers pod) = (None, st, cgs, s1)"
    and r': "r' = r\<lparr>cgroupIDToPodID := cgs, podCache := AList.update (pod_ID (input_Meta pod)) st (podCache r)\<rparr>"
    and A: "applyPolicyToPodIfPresent M r' s1 st = (None, s')"
    using add_cases [OF R fine] .
  note t = tracker_frame_simps [OF containers_loop_frame [OF loop]]
  have st0: "pod_state r pod = \<lparr>meta = input_Meta pod, containers = []\<rparr>" using new by (simp add: pod_state_def)
  obtain e1 s2 where u: "cgTrackerUpdate M nested s (CgroupID (ContainerMeta ci)) (CgroupPath ci) = (e1, s2)" by fastforce
  have st: "st = \<lparr>meta = input_Meta pod, containers = [(i, ContainerMeta ci)]\<rparr>"
    using loop u by (cases e1) (simp_all add: ci st0 Let_def)
  have n: "policyName st = n" "podNamespace st = pod_Namespace (input_Meta pod)"
    using l(1) by (simp_all add: st policyName_def podNamespace_def)
  have "policy_id r' = policy_id r" by (rule policy_id_cong) (simp add: r')
  then have "policy_id r' (pod_key st) (container_Name (ContainerMeta ci)) = Some p" using p n by simp
  moreover have "agent_inv s1" using inv t(1) by simp
  ultimately show "cg_policy s' (CgroupID (ContainerMeta ci)) = Some p"
    using apply_present_success [OF _ M fine A, of "ContainerMeta ci" p] n l(2) by (simp add: st)
  show "same_policy s s' q"
    using t(3) [of q] apply_present_frame [OF \<open>agent_inv s1\<close> A] unfolding agent_frame_def same_policy_def by simp
qed

section \<open>Properties\<close>


text \<open>
  \<^bold>\<open>C22\<close>. A container dropped from a policy can still get its old rules. When a reconciliation succeeds with
  rules that no longer name a container, and no cached pod of the policy has that container at that
  time, the identifier and the old rules stay in the resolver and in the maps; a pod with that
  container that starts later gets them, although the specification does not restrict it.
\<close>

theorem stale_container_policy:
  assumes "res_inv r s" and "reconcilable r wp" and "\<not> isShuttingDown M" and "distinct_cgroups (podCache r)"
    and "ReconcileWP M r s wp = (None, r1, s1)" and "map_of (RulesByContainer wp) c = None"
    and "policy_id r (NamespacedName wp) c = Some p" and "installed s p old m"
    and "\<forall>ct\<in>snd ` set (matched wp (podCache r)). container_Name ct \<noteq> c"
    and "AddPodContainerFromNri M nested r1 s1 pod = (None, r2, s2)"
    and "map_of (podCache r1) (pod_ID (input_Meta pod)) = None" and "input_Containers pod = [(i, ci)]"
    and "container_Name (ContainerMeta ci) = c" and "wp_Name wp \<noteq> []"
    and "map_of (Labels (input_Meta pod)) PolicyLabelKey = Some (wp_Name wp)" and "pod_Namespace (input_Meta pod) = wp_Namespace wp"
  shows "cg_policy s2 (CgroupID (ContainerMeta ci)) = Some p \<and> installed s2 p old m"
proof -
  note st = unnamed_container_stays [OF assms(1-7,9)]
  have inv1: "agent_inv s1" using reconcile_inv [OF assms(1,2,5)] by (simp add: res_inv_def)
  have "policy_id r1 (pod_Namespace (input_Meta pod) @ ''/'' @ wp_Name wp) (container_Name (ContainerMeta ci)) = Some p"
    using st(1) assms(13,16) by (simp add: NamespacedName_def)
  note n = new_pod_policy [OF inv1 assms(3,10-12,15,14) this]
  show ?thesis using n(1) installed_same [OF n(2)] installed_same [OF st(2)] assms(8) by simp
qed

end
