(* ===== verification/Policy_Handler.thy ===== *)
theory Policy_Handler
  imports Policy_Lifecycle
begin

text \<open>
  The controller of the agent, \<^verbatim>\<open>src/internal/workloadpolicyhandler/workloadpolicy_handler.go\<close>: it brings every
  workload policy of the API server into the resolver and tells the startup probe when all are there.
  What the API server answers is an argument of the functions.
\<close>

section \<open>The handler\<close>

text \<open>The answer of \<^verbatim>\<open>client.Get\<close>: the object, an error for which \<^verbatim>\<open>IsNotFound\<close> holds, or another error.\<close>

datatype get_answer = Found WorkloadPolicy | NotFound | GetFailed string

datatype handler_error =
    Handler_get string
  | Handler_delete resolver_error
  | Handler_update resolver_error
  | Handler_list string
  | Handler_no_status string
  | Handler_not_ready string

definition Reconcile ::
  "get_answer \<Rightarrow> Manager \<Rightarrow> Resolver \<Rightarrow> bpf_state \<Rightarrow> string \<Rightarrow> string \<Rightarrow> handler_error option \<times> Resolver \<times> bpf_state" where
  "Reconcile answer M r s namespace name =
     (case answer of
        GetFailed err \<Rightarrow> (Some (Handler_get err), r, s)
      | NotFound \<Rightarrow>
          (case HandleWPDelete M r s
                  \<lparr>wp_Namespace = namespace, wp_Name = name, wp_Mode = [], RulesByContainer = []\<rparr> of
             (Some err, r', s') \<Rightarrow> (Some (Handler_delete err), r', s')
           | (None, r', s') \<Rightarrow> (None, r', s'))
      | Found wp \<Rightarrow>
          (case ReconcileWP M r s wp of
             (Some err, r', s') \<Rightarrow> (Some (Handler_update err), r', s')
           | (None, r', s') \<Rightarrow> (None, r', s')))"

record WorkloadPolicyHandler =
  hasSynced :: bool

fun synced_loop :: "(string \<times> PolicyStatus) list \<Rightarrow> WorkloadPolicy list \<Rightarrow> handler_error option" where
  "synced_loop statuses [] = None"
| "synced_loop statuses (wp # wps) =
     (case map_of statuses (NamespacedName wp) of
        None \<Rightarrow> Some (Handler_no_status (NamespacedName wp))
      | Some st \<Rightarrow>
          if State st \<noteq> POLICY_STATE_READY then Some (Handler_not_ready (NamespacedName wp))
          else if StatusMode st \<noteq> ParsePolicyModeToProto (wp_Mode wp) then Some (Handler_not_ready (NamespacedName wp))
          else synced_loop statuses wps)"

definition HasSynced ::
  "WorkloadPolicyHandler \<Rightarrow> (string + WorkloadPolicy list) \<Rightarrow> Resolver \<Rightarrow> handler_error option \<times> WorkloadPolicyHandler" where
  "HasSynced h listed r =
     (if hasSynced h then (None, h)
      else
        (case listed of
           Inl err \<Rightarrow> (Some (Handler_list err), h)
         | Inr wps \<Rightarrow>
             (case synced_loop (GetPolicyStatuses r) wps of
                Some err \<Rightarrow> (Some err, h)
              | None \<Rightarrow> (None, h\<lparr>hasSynced := True\<rparr>))))"

definition IsSynchronized :: "WorkloadPolicyHandler \<Rightarrow> bool" where
  "IsSynchronized h = hasSynced h"

section \<open>What the resolver reports is what has been reconciled\<close>

lemma synced_loop_None:
  "synced_loop statuses wps = None \<longleftrightarrow>
     (\<forall>wp\<in>set wps. \<exists>st. map_of statuses (NamespacedName wp) = Some st \<and> State st = POLICY_STATE_READY \<and>
        StatusMode st = ParsePolicyModeToProto (wp_Mode wp))"
  by (induction wps) (auto split: option.splits)

lemma statuses_lookup: "map_of (GetPolicyStatuses r) k = map_option status (map_of (wpState r) k)"
  by (simp add: GetPolicyStatuses_def map_of_map)

text \<open>In a run without failed reconciliations the states of the policies are the last specifications.\<close>

definition reported :: "Resolver \<Rightarrow> specs \<Rightarrow> bool" where
  "reported r sp \<longleftrightarrow> (\<forall>k. map_of (GetPolicyStatuses r) k = map_option ready_status (sp k))"

lemma reported_cong: "wpState r' = wpState r \<Longrightarrow> reported r' sp = reported r sp"
  by (simp add: reported_def statuses_lookup)

lemma delete_reported:
  assumes "reported r sp" and "HandleWPDelete M r s wp = (e, r', s')"
  shows "reported r' (sp(NamespacedName wp := None))"
proof (cases "map_of (wpState r) (NamespacedName wp)")
  case None
  then have "r' = r" using assms(2) by (simp add: HandleWPDelete_def)
  moreover have "sp (NamespacedName wp) = None"
    using assms(1) [unfolded reported_def statuses_lookup, THEN spec, of "NamespacedName wp"] None by simp
  ultimately show ?thesis using assms(1) by (simp add: fun_upd_idem)
next
  case (Some info)
  then have "r' = r\<lparr>wpState := AList.delete (NamespacedName wp) (wpState r)\<rparr>"
    using assms(2) by (auto simp: HandleWPDelete_def Let_def split: prod.splits)
  then show ?thesis using assms(1) by (auto simp: reported_def statuses_lookup delete_conv')
qed

lemma reconcile_reported:
  assumes "reported r sp" and inv: "res_inv r s" and rc: "reconcilable r wp" and R: "ReconcileWP M r s wp = (None, r', s')"
  shows "reported r' (sp(NamespacedName wp \<mapsto> wp))"
proof -
  obtain pol n' where f: "res_frame r r' (NamespacedName wp) pol (ready_status wp) n'"
  proof (rule reconcile_frame [OF inv rc R])
    fix pol st n'
    assume "res_frame r r' (NamespacedName wp) pol st n'" and "None = (None :: resolver_error option) \<Longrightarrow> st = ready_status wp"
    then show thesis using that by simp
  qed
  show ?thesis
    using f assms(1) by (auto simp: reported_def statuses_lookup res_frame_def)
qed

lemma add_wpState: "AddPodContainerFromNri M nested r s pod = (e, r', s') \<Longrightarrow> wpState r' = wpState r"
  by (auto simp: AddPodContainerFromNri_def Let_def split: prod.splits option.splits)

lemma remove_wpState: "RemovePodContainerFromNri M r s i c = (e, r', s') \<Longrightarrow> wpState r' = wpState r"
  by (auto simp: RemovePodContainerFromNri_def Let_def split: prod.splits option.splits)

lemma good_run_reported:
  assumes "good_run M nested s0 r s sp" and M: "\<not> isShuttingDown M" and s0: "fresh_maps s0"
  shows "reported r sp"
  using assms(1)
proof (induction rule: good_run.induct)
  case run_start
  then show ?case by (simp add: reported_def statuses_lookup NewResolver_def)
next
  case (run_reconcile r s sp wp r' s')
  have "res_inv r s" using good_run_inv [OF run_reconcile.hyps(1) M s0] by (simp add: run_inv_def)
  then show ?case using reconcile_reported [OF run_reconcile.IH _ run_reconcile.hyps(2,4)] by (simp add: fun_upd_def)
next
  case (run_delete r s sp wp e r' s')
  show ?case by (rule delete_reported [OF run_delete.IH run_delete.hyps(2)])
next
  case (run_add r s sp pod e r' s')
  then show ?case using reported_cong [OF add_wpState [OF run_add.hyps(2)]] by simp
next
  case (run_remove r s sp i c e' r' s')
  then show ?case using reported_cong [OF remove_wpState [OF run_remove.hyps(2)]] by simp
qed

section \<open>Properties\<close>

text \<open>
  \<^bold>\<open>C17\<close>. The agent follows the API server and is ready only when it has caught up. A call of
  \<^verbatim>\<open>Reconcile\<close> without an error continues the run, and the specification under the name is then what the API
  server answered, or none if it has no such object. When \<^verbatim>\<open>HasSynced\<close> reports success on a list of
  policies, the maps hold a complete specification for each of them, in the mode of the list; and
  once it has succeeded it stays so.
\<close>

theorem handler_follows:
  assumes "good_run M nested s0 r s sp" and "\<not> isShuttingDown M" and "fresh_maps s0"
    and "\<forall>wp. answer = Found wp \<longrightarrow> reconcilable r wp \<and> named wp \<and> wp_Namespace wp = namespace \<and> wp_Name wp = name"
    and "Reconcile answer M r s namespace name = (None, r', s')"
    and "HasSynced \<lparr>hasSynced = False\<rparr> (Inr wps) r' = (None, h)"
  shows "good_run M nested s0 r' s' (sp(namespace @ ''/'' @ name := (case answer of Found wp \<Rightarrow> Some wp | _ \<Rightarrow> None))) \<and>
    (\<forall>wp\<in>set wps. \<exists>wp'. (sp(namespace @ ''/'' @ name := (case answer of Found wp \<Rightarrow> Some wp | _ \<Rightarrow> None))) (NamespacedName wp) = Some wp' \<and>
       spec_installed r' s' wp' \<and> ParsePolicyModeToProto (wp_Mode wp') = ParsePolicyModeToProto (wp_Mode wp)) \<and>
    IsSynchronized h \<and> (\<forall>l r2. HasSynced h l r2 = (None, h))"
proof -
  let ?sp = "sp(namespace @ ''/'' @ name := (case answer of Found wp \<Rightarrow> Some wp | _ \<Rightarrow> None))"
  have run: "good_run M nested s0 r' s' ?sp"
  proof (cases answer)
    case (Found wp)
    then have R: "ReconcileWP M r s wp = (None, r', s')"
      using assms(5) by (auto simp: Reconcile_def split: prod.splits option.splits)
    have "NamespacedName wp = namespace @ ''/'' @ name" using assms(4) Found by (auto simp: NamespacedName_def)
    then show ?thesis using run_reconcile [OF assms(1) _ _ R] assms(4) Found by simp
  next
    case NotFound
    let ?wp = "\<lparr>wp_Namespace = namespace, wp_Name = name, wp_Mode = [], RulesByContainer = []\<rparr>"
    have D: "HandleWPDelete M r s ?wp = (None, r', s')"
      using assms(5) NotFound by (auto simp: Reconcile_def split: prod.splits option.splits)
    show ?thesis using run_delete [OF assms(1) D] NotFound by (simp add: NamespacedName_def)
  next
    case (GetFailed e)
    then show ?thesis using assms(5) by (simp add: Reconcile_def)
  qed
  have rep: "reported r' ?sp" by (rule good_run_reported [OF run assms(2,3)])
  have h: "synced_loop (GetPolicyStatuses r') wps = None" "h = \<lparr>hasSynced = True\<rparr>"
    using assms(6) by (simp_all add: HasSynced_def split: option.splits)
  have sh: "specs_hold r' s' ?sp" using good_run_inv [OF run assms(2,3)] by (simp add: run_inv_def)
  have "\<exists>wp'. ?sp (NamespacedName wp) = Some wp' \<and> spec_installed r' s' wp' \<and>
      ParsePolicyModeToProto (wp_Mode wp') = ParsePolicyModeToProto (wp_Mode wp)" if wp: "wp \<in> set wps" for wp
  proof -
    obtain st where st: "map_of (GetPolicyStatuses r') (NamespacedName wp) = Some st" "StatusMode st = ParsePolicyModeToProto (wp_Mode wp)"
      using h(1) wp unfolding synced_loop_None by blast
    have m: "Some st = map_option ready_status (?sp (NamespacedName wp))"
      unfolding st(1) [symmetric] by (rule rep [unfolded reported_def, THEN spec])
    obtain wp' where wp': "?sp (NamespacedName wp) = Some wp'" "st = ready_status wp'"
      using m [symmetric, unfolded map_option_eq_Some] by (elim exE conjE) simp
    moreover have "spec_installed r' s' wp'"
      by (rule sh [unfolded specs_hold_def, THEN spec, THEN spec, THEN mp, OF wp'(1), THEN conjunct2])
    ultimately show ?thesis using st(2) by (intro exI [of _ wp']) simp
  qed
  moreover have "IsSynchronized h" "HasSynced h l r2 = (None, h)" for l r2
    using h(2) by (simp_all add: IsSynchronized_def HasSynced_def)
  ultimately show ?thesis using run by blast
qed

end
