(* ===== verification/Policy_Status.thy ===== *)
theory Policy_Status
  imports Violation_Buffer Policy_Handler Go_Strings "HOL-Library.List_Lexorder" "HOL-Library.Char_ord"
begin

text \<open>
  The status of a workload policy, which the controller recomputes from what the agents of all nodes
  report: \<^verbatim>\<open>src/api/v1alpha1/policy_node_status.go\<close>, \<^verbatim>\<open>violation_record.go\<close> and \<^verbatim>\<open>RecomputeStatus\<close> of
  \<^verbatim>\<open>workloadpolicy_types.go\<close>, and the conversion of the answers of the agents in
  \<^verbatim>\<open>src/internal/controller/workloadpolicystatus_helpers.go\<close> and \<^verbatim>\<open>workloadpolicystatus_sync.go\<close>. Times are
  integers; the zero time is 0.
\<close>

section \<open>Types\<close>

datatype PolicyCode = PolicyUnknown | PolicyReady | PolicyMissing | PolicyFailed | PolicyTransitioning

record NodePolicyStatus =
  Code :: PolicyCode
  node_Message :: string
  Since :: int

record PolicyNodeStatus =
  node_status :: NodePolicyStatus
  NodeName :: string

datatype Phase = Phase_none | Ready | Failed | Transitioning

record ViolationRecord =
  ID :: int
  LastObservedTimestamp :: int
  Occurrences :: int
  FirstObservedTimestamp :: int
  PodName :: string
  ContainerName :: string
  ExecutablePath :: bytes
  viol_ForeignRoot :: bool
  viol_NodeName :: string
  Action :: string
  viol_WorkloadName :: string
  viol_WorkloadKind :: string

record AcknowledgedViolationRecord =
  Violation :: ViolationRecord
  Reason :: string
  AcknowledgedAt :: int

record WorkloadPolicyStatus =
  ObservedGeneration :: int
  NodesWithIssues :: "(string \<times> NodePolicyStatus) list"
  TotalNodes :: nat
  SuccessfulNodes :: nat
  FailedNodes :: nat
  TransitioningNodes :: nat
  NodesTransitioning :: "PolicyNodeStatus list"
  status_Phase :: Phase
  ViolationCount :: int
  ActiveViolationCount :: nat
  Violations :: "ViolationRecord list"
  AcknowledgedViolations :: "AcknowledgedViolationRecord list"

section \<open>Nodes\<close>

definition maxNodesWithIssues :: nat where "maxNodesWithIssues = 20"
definition maxTransitioningNodes :: nat where "maxTransitioningNodes = 20"
definition truncationString :: string where "truncationString = ''...''"
definition truncationMessage :: string where "truncationMessage = ''Maximum number of nodes with issues reached''"

lemmas status_consts = maxNodesWithIssues_def maxTransitioningNodes_def

definition transitionTime :: "NodePolicyStatus \<Rightarrow> NodePolicyStatus \<Rightarrow> int \<Rightarrow> int" where
  "transitionTime previous current now =
     (if Code previous = Code current \<and> Since previous \<noteq> 0 then Since previous else now)"

definition addTransitioningNode ::
  "WorkloadPolicyStatus \<Rightarrow> PolicyNodeStatus \<Rightarrow> NodePolicyStatus \<Rightarrow> int \<Rightarrow> WorkloadPolicyStatus" where
  "addTransitioningNode s st previous now =
     (let s = s\<lparr>TransitioningNodes := TransitioningNodes s + 1\<rparr>;
          n = length (NodesTransitioning s)
      in if n < maxTransitioningNodes - 1
         then s\<lparr>NodesTransitioning := NodesTransitioning s @
           [st\<lparr>node_status := (node_status st)\<lparr>Since := transitionTime previous (node_status st) now\<rparr>\<rparr>]\<rparr>
         else if n = maxTransitioningNodes - 1
         then s\<lparr>NodesTransitioning := NodesTransitioning s @
           [\<lparr>node_status = \<lparr>Code = PolicyUnknown, node_Message = [], Since = 0\<rparr>, NodeName = truncationString\<rparr>]\<rparr>
         else s)"

definition addNodeIssue ::
  "WorkloadPolicyStatus \<Rightarrow> string \<Rightarrow> NodePolicyStatus \<Rightarrow> NodePolicyStatus \<Rightarrow> int \<Rightarrow> WorkloadPolicyStatus" where
  "addNodeIssue s nodeName st previous now =
     (let s = s\<lparr>FailedNodes := FailedNodes s + 1\<rparr>;
          n = length (NodesWithIssues s)
      in if n < maxNodesWithIssues - 1
         then s\<lparr>NodesWithIssues := AList.update nodeName (st\<lparr>Since := transitionTime previous st now\<rparr>) (NodesWithIssues s)\<rparr>
         else if n = maxNodesWithIssues - 1
         then s\<lparr>NodesWithIssues := AList.update truncationString
           \<lparr>Code = PolicyFailed, node_Message = truncationMessage, Since = 0\<rparr> (NodesWithIssues s)\<rparr>
         else s)"

definition resetPolicyNodeStatus :: "WorkloadPolicyStatus \<Rightarrow> nat \<Rightarrow> WorkloadPolicyStatus" where
  "resetPolicyNodeStatus s totalNodes = s\<lparr>NodesWithIssues := [], NodesTransitioning := [], TotalNodes := totalNodes,
     SuccessfulNodes := 0, FailedNodes := 0, TransitioningNodes := 0\<rparr>"

definition nodeStatus :: "WorkloadPolicyStatus \<Rightarrow> string \<Rightarrow> NodePolicyStatus" where
  "nodeStatus s nodeName =
     (case map_of (NodesWithIssues s) nodeName of
        Some ps \<Rightarrow> ps
      | None \<Rightarrow>
          (case filter (\<lambda>ns. NodeName ns = nodeName) (NodesTransitioning s) of
             ns # _ \<Rightarrow> node_status ns
           | [] \<Rightarrow> \<lparr>Code = PolicyUnknown, node_Message = [], Since = 0\<rparr>))"

datatype status_error = Err_unknown_node_state string | Err_inconsistent_nodes

fun nodes_loop ::
  "WorkloadPolicyStatus \<Rightarrow> int \<Rightarrow> WorkloadPolicyStatus \<Rightarrow> PolicyNodeStatus list \<Rightarrow> status_error option \<times> WorkloadPolicyStatus" where
  "nodes_loop previous now s [] = (None, s)"
| "nodes_loop previous now s (st # nodes) =
     (case Code (node_status st) of
        PolicyReady \<Rightarrow> nodes_loop previous now (s\<lparr>SuccessfulNodes := SuccessfulNodes s + 1\<rparr>) nodes
      | PolicyTransitioning \<Rightarrow>
          nodes_loop previous now (addTransitioningNode s st (nodeStatus previous (NodeName st)) now) nodes
      | PolicyFailed \<Rightarrow>
          nodes_loop previous now (addNodeIssue s (NodeName st)
            \<lparr>Code = PolicyFailed, node_Message = node_Message (node_status st), Since = 0\<rparr>
            (nodeStatus previous (NodeName st)) now) nodes
      | PolicyMissing \<Rightarrow>
          nodes_loop previous now (addNodeIssue s (NodeName st)
            \<lparr>Code = PolicyMissing, node_Message = node_Message (node_status st), Since = 0\<rparr>
            (nodeStatus previous (NodeName st)) now) nodes
      | PolicyUnknown \<Rightarrow> (Some (Err_unknown_node_state (NodeName st)), s))"

text \<open>The sort is by name; nodes have different names, so the result does not depend on the algorithm.\<close>

definition processPolicyNodeStatus ::
  "WorkloadPolicyStatus \<Rightarrow> WorkloadPolicyStatus \<Rightarrow> PolicyNodeStatus list \<Rightarrow> int \<Rightarrow> status_error option \<times> WorkloadPolicyStatus" where
  "processPolicyNodeStatus s previous nodes now =
     (case nodes_loop previous now (resetPolicyNodeStatus s (length nodes)) nodes of
        (Some err, s) \<Rightarrow> (Some err, s)
      | (None, s) \<Rightarrow>
          (let s = s\<lparr>NodesTransitioning := sort_key NodeName (NodesTransitioning s)\<rparr>
           in if TotalNodes s \<noteq> FailedNodes s + TransitioningNodes s + SuccessfulNodes s then (Some Err_inconsistent_nodes, s)
              else (None, s\<lparr>status_Phase :=
                (if SuccessfulNodes s = TotalNodes s then Ready
                 else if 0 < FailedNodes s then Failed
                 else if 0 < TransitioningNodes s then Transitioning
                 else status_Phase s)\<rparr>)))"

section \<open>Violations\<close>

definition maxViolationRecords :: nat where "maxViolationRecords = 100"

type_synonym violationRecordKey = "string \<times> string \<times> bytes \<times> bool \<times> string"

definition viol_key :: "ViolationRecord \<Rightarrow> violationRecordKey" where
  "viol_key r = (PodName r, ContainerName r, ExecutablePath r, viol_ForeignRoot r, Action r)"

fun index_keys :: "nat \<Rightarrow> ViolationRecord list \<Rightarrow> (violationRecordKey \<times> nat) list \<Rightarrow> (violationRecordKey \<times> nat) list" where
  "index_keys i [] m = m"
| "index_keys i (r # rs) m = index_keys (Suc i) rs (AList.update (viol_key r) i m)"

fun merge_loop ::
  "ViolationRecord list \<Rightarrow> int \<Rightarrow> (violationRecordKey \<times> nat) list \<Rightarrow> ViolationRecord list \<Rightarrow> ViolationRecord list \<times> int" where
  "merge_loop vs n m [] = (vs, n)"
| "merge_loop vs n m (v # scraped) =
     (case map_of m (viol_key v) of
        Some idx \<Rightarrow>
          (let r = vs ! idx;
               r = (if LastObservedTimestamp r < LastObservedTimestamp v
                    then r\<lparr>LastObservedTimestamp := LastObservedTimestamp v\<rparr> else r)
           in merge_loop (vs[idx := r\<lparr>Occurrences := int64 (Occurrences r + 1)\<rparr>]) (int64 (n + 1)) m scraped)
      | None \<Rightarrow>
          merge_loop (vs @ [v\<lparr>ID := n, Occurrences := 1, FirstObservedTimestamp := LastObservedTimestamp v\<rparr>])
            (int64 (n + 1)) (AList.update (viol_key v) (length vs) m) scraped)"

definition mergeScrapedViolations :: "WorkloadPolicyStatus \<Rightarrow> ViolationRecord list \<Rightarrow> WorkloadPolicyStatus" where
  "mergeScrapedViolations s scraped =
     (let (vs, n) = merge_loop (Violations s) (ViolationCount s) (index_keys 0 (Violations s) []) scraped;
          vs = sort_key (\<lambda>r. - LastObservedTimestamp r) vs
      in s\<lparr>Violations := take maxViolationRecords vs, ViolationCount := n\<rparr>)"

text \<open>The rules of the specification that resolve a violation.\<close>

definition violation_allowed :: "WorkloadPolicy \<Rightarrow> ViolationRecord \<Rightarrow> bool" where
  "violation_allowed wp v =
     (case map_of (RulesByContainer wp) (ContainerName v) of
        Some (Some rules) \<Rightarrow>
          if viol_ForeignRoot v then AllowForeignRootExec rules else ExecutablePath v \<in> set (Allowed rules)
      | _ \<Rightarrow> False)"

definition clearAllowedViolations :: "WorkloadPolicy \<Rightarrow> WorkloadPolicyStatus \<Rightarrow> WorkloadPolicyStatus" where
  "clearAllowedViolations wp s = s\<lparr>Violations := filter (\<lambda>v. \<not> violation_allowed wp v) (Violations s)\<rparr>"

definition ViolationAcknowledgePrefix :: string where
  "ViolationAcknowledgePrefix = ''runtimeenforcer.kubewarden.io/acknowledge-''"

text \<open>The annotations that acknowledge a violation: the last one visited for an identifier counts.\<close>

fun acknowledges :: "(string \<times> string) list \<Rightarrow> (int \<times> string \<times> string) list \<Rightarrow> (int \<times> string \<times> string) list" where
  "acknowledges [] m = m"
| "acknowledges ((k, reason) # as) m =
     (case cut_prefix k ViolationAcknowledgePrefix of
        None \<Rightarrow> acknowledges as m
      | Some idStr \<Rightarrow>
          (case ParseInt 64 idStr of
             None \<Rightarrow> acknowledges as m
           | Some i \<Rightarrow> acknowledges as (AList.update i (k, reason) m)))"

definition ack_record :: "(int \<times> string \<times> string) list \<Rightarrow> int \<Rightarrow> ViolationRecord \<Rightarrow> AcknowledgedViolationRecord" where
  "ack_record m now v = \<lparr>Violation = v, Reason = snd (the (map_of m (ID v))), AcknowledgedAt = now\<rparr>"

definition acknowledgeViolationsFromAnnotations ::
  "(string \<times> string) list \<Rightarrow> WorkloadPolicyStatus \<Rightarrow> int \<Rightarrow>
   AcknowledgedViolationRecord list \<times> (string \<times> string) list \<times> WorkloadPolicyStatus" where
  "acknowledgeViolationsFromAnnotations annotations s now =
     (let m = acknowledges annotations []
      in if m = [] then ([], annotations, s)
         else
           (let hit = filter (\<lambda>v. map_of m (ID v) \<noteq> None) (Violations s);
                acks = map (ack_record m now) hit;
                removed = map (\<lambda>v. fst (the (map_of m (ID v)))) hit
            in (acks, filter (\<lambda>(k, _). k \<notin> set removed) annotations,
                s\<lparr>Violations := filter (\<lambda>v. map_of m (ID v) = None) (Violations s),
                  AcknowledgedViolations :=
                    take maxViolationRecords (sort_key (\<lambda>a. - AcknowledgedAt a) (AcknowledgedViolations s @ acks))\<rparr>)))"

definition RecomputeStatus ::
  "WorkloadPolicy \<Rightarrow> int \<Rightarrow> (string \<times> string) list \<Rightarrow> WorkloadPolicyStatus \<Rightarrow> PolicyNodeStatus list \<Rightarrow> ViolationRecord list \<Rightarrow> int \<Rightarrow>
   (status_error + AcknowledgedViolationRecord list) \<times> (string \<times> string) list \<times> WorkloadPolicyStatus" where
  "RecomputeStatus wp generation annotations s nodes scraped now =
     (case processPolicyNodeStatus s s nodes now of
        (Some err, s1) \<Rightarrow> (Inl err, annotations, s1)
      | (None, s1) \<Rightarrow>
          (let s2 = mergeScrapedViolations s1 scraped;
               s3 = clearAllowedViolations wp s2;
               (acknowledged, annotations', s4) = acknowledgeViolationsFromAnnotations annotations s3 now
           in (Inr acknowledged, annotations',
               s4\<lparr>ActiveViolationCount := length (Violations s4), ObservedGeneration := generation\<rparr>)))"

section \<open>What the agents report\<close>

definition violation_of_scrape :: "ScrapedViolation \<Rightarrow> ViolationRecord" where
  "violation_of_scrape v = \<lparr>ID = 0, LastObservedTimestamp = pb_Timestamp v, Occurrences = 0, FirstObservedTimestamp = 0,
     PodName = pb_PodName v, ContainerName = pb_ContainerName v, ExecutablePath = pb_ExecutablePath v,
     viol_ForeignRoot = pb_ForeignRoot v, viol_NodeName = pb_NodeName v, Action = pb_Action v,
     viol_WorkloadName = pb_WorkloadName v, viol_WorkloadKind = pb_WorkloadKind v\<rparr>"

text \<open>
  The violations of all nodes, by policy. A client that is missing or whose scrape failed is \<open>None\<close>. The
  entry of a policy is the list of its violations in the order of the nodes.
\<close>

definition getViolationsByPolicy :: "(string \<times> ScrapedViolation list option) list \<Rightarrow> string \<Rightarrow> ViolationRecord list" where
  "getViolationsByPolicy clients policy =
     map violation_of_scrape (filter (\<lambda>v. pb_PolicyName v = policy)
       (concat (map (\<lambda>(_, answer). case answer of None \<Rightarrow> [] | Some vs \<Rightarrow> vs) clients)))"

text \<open>
  What a node says of a policy. The answer of an agent is missing, failed, or the list of the states of its
  policies; \<open>err_text\<close> is the text of an error.
\<close>

datatype node_answer = No_client | List_failed | Listed "(string \<times> PolicyStatus) list"

definition policyModeMatchesExpected :: "PolicyMode \<Rightarrow> string \<Rightarrow> bool" where
  "policyModeMatchesExpected m expectedMode =
     (if expectedMode = ProtectString then m = PolicyMode_PROTECT
      else if expectedMode = MonitorString then m = PolicyMode_MONITOR
      else False)"

definition policyNodeStatus ::
  "(resolver_error \<Rightarrow> string) \<Rightarrow> string \<Rightarrow> PolicyStatus option \<Rightarrow> string + PolicyCode \<times> string" where
  "policyNodeStatus err_text expectedMode policyStatus =
     (case policyStatus of
        None \<Rightarrow> Inr (PolicyMissing, ''policy not found on the node'')
      | Some st \<Rightarrow>
          (case State st of
             POLICY_STATE_READY \<Rightarrow>
               if policyModeMatchesExpected (StatusMode st) expectedMode then Inr (PolicyReady, [])
               else Inr (PolicyTransitioning, [])
           | POLICY_STATE_ERROR \<Rightarrow>
               (let msg = (case Message st of None \<Rightarrow> [] | Some e \<Rightarrow> err_text e)
                in Inr (PolicyFailed, if msg = [] then ''policy is in error state'' else msg))
           | POLICY_STATE_UNSPECIFIED \<Rightarrow>
               Inl (''unknown policy state '' @ [CHR 0x22] @ ''POLICY_STATE_UNSPECIFIED'' @ [CHR 0x22])))"

definition node_answer_status ::
  "(resolver_error \<Rightarrow> string) \<Rightarrow> WorkloadPolicy \<Rightarrow> string \<times> node_answer \<Rightarrow> PolicyNodeStatus" where
  "node_answer_status err_text wp client =
     (let (code, msg) =
        (case snd client of
           No_client \<Rightarrow> (PolicyMissing, ''No agent client available'')
         | List_failed \<Rightarrow> (PolicyMissing, ''failed to get policies status'')
         | Listed nodePolicies \<Rightarrow>
             if nodePolicies = [] then (PolicyMissing, ''no policies found on the node'')
             else (case policyNodeStatus err_text (wp_Mode wp) (map_of nodePolicies (NamespacedName wp)) of
                     Inr cm \<Rightarrow> cm
                   | Inl err \<Rightarrow> (PolicyFailed, err)))
      in \<lparr>node_status = \<lparr>Code = code, node_Message = msg, Since = 0\<rparr>, NodeName = fst client\<rparr>)"

definition getNodeStatusByPolicy ::
  "(resolver_error \<Rightarrow> string) \<Rightarrow> (string \<times> node_answer) list \<Rightarrow> WorkloadPolicy \<Rightarrow> PolicyNodeStatus list" where
  "getNodeStatusByPolicy err_text clients wp = map (node_answer_status err_text wp) clients"

section \<open>Merging keeps the records apart\<close>

definition viol_inv :: "ViolationRecord list \<Rightarrow> int \<Rightarrow> bool" where
  "viol_inv vs n \<longleftrightarrow> distinct (map viol_key vs) \<and> distinct (map ID vs) \<and>
     (\<forall>v\<in>set vs. 0 \<le> ID v \<and> ID v < n \<and> 1 \<le> Occurrences v \<and> Occurrences v \<le> n)"

definition index_ok :: "(violationRecordKey \<times> nat) list \<Rightarrow> ViolationRecord list \<Rightarrow> bool" where
  "index_ok m vs \<longleftrightarrow> (\<forall>k i. map_of m k = Some i \<longleftrightarrow> i < length vs \<and> viol_key (vs ! i) = k)"

lemma index_ok_cong:
  assumes "map viol_key us = map viol_key vs"
  shows "index_ok m us = index_ok m vs"
proof -
  have e: "index_ok m xs \<longleftrightarrow> (\<forall>k i. map_of m k = Some i \<longleftrightarrow> i < length (map viol_key xs) \<and> map viol_key xs ! i = k)" for xs
    unfolding index_ok_def by (simp cong: conj_cong)
  show ?thesis unfolding e assms by (rule refl)
qed

lemma index_keys_ok:
  "index_ok m us \<Longrightarrow> distinct (map viol_key (us @ vs)) \<Longrightarrow> index_ok (index_keys (length us) vs m) (us @ vs)"
proof (induction vs arbitrary: us m)
  case (Cons v vs)
  have v: "viol_key v \<notin> viol_key ` set us" using Cons.prems(2) by auto
  have "viol_key (us ! j) \<noteq> viol_key v" if "j < length us" for j
    using v nth_mem [OF that] by (metis imageI)
  then have "index_ok (AList.update (viol_key v) (length us) m) (us @ [v])"
    using Cons.prems(1) by (auto simp: index_ok_def update_conv' nth_append less_Suc_eq split: if_splits)
  from Cons.IH [OF this] show ?case using Cons.prems(2) by simp
qed simp

text \<open>What one scraped record does to the list.\<close>

definition bump :: "ViolationRecord \<Rightarrow> ViolationRecord \<Rightarrow> ViolationRecord" where
  "bump r v = (let r = (if LastObservedTimestamp r < LastObservedTimestamp v
     then r\<lparr>LastObservedTimestamp := LastObservedTimestamp v\<rparr> else r) in r\<lparr>Occurrences := int64 (Occurrences r + 1)\<rparr>)"

definition fresh_record :: "int \<Rightarrow> ViolationRecord \<Rightarrow> ViolationRecord" where
  "fresh_record n v = v\<lparr>ID := n, Occurrences := 1, FirstObservedTimestamp := LastObservedTimestamp v\<rparr>"

lemma bump_simps [simp]: "viol_key (bump r v) = viol_key r" "ID (bump r v) = ID r" "FirstObservedTimestamp (bump r v) = FirstObservedTimestamp r"
  "LastObservedTimestamp (bump r v) = max (LastObservedTimestamp r) (LastObservedTimestamp v)"
  "Occurrences (bump r v) = int64 (Occurrences r + 1)"
  by (simp_all add: bump_def viol_key_def Let_def)

lemma bump_nth [simp]:
  "i < length vs \<Longrightarrow> viol_key (vs[j := bump (vs ! j) v] ! i) = viol_key (vs ! i)"
  "i < length vs \<Longrightarrow> FirstObservedTimestamp (vs[j := bump (vs ! j) v] ! i) = FirstObservedTimestamp (vs ! i)"
  by (cases "i = j", simp_all)+

lemma fresh_record_simps [simp]: "viol_key (fresh_record n v) = viol_key v" "ID (fresh_record n v) = n" "Occurrences (fresh_record n v) = 1"
  "LastObservedTimestamp (fresh_record n v) = LastObservedTimestamp v" "FirstObservedTimestamp (fresh_record n v) = LastObservedTimestamp v"
  by (simp_all add: fresh_record_def viol_key_def)

lemma merge_loop_Cons:
  "merge_loop vs n m (v # scraped) =
     (case map_of m (viol_key v) of
        Some i \<Rightarrow> merge_loop (vs[i := bump (vs ! i) v]) (int64 (n + 1)) m scraped
      | None \<Rightarrow> merge_loop (vs @ [fresh_record n v]) (int64 (n + 1)) (AList.update (viol_key v) (length vs) m) scraped)"
  by (simp add: bump_def fresh_record_def Let_def split: option.split)

declare merge_loop.simps(2) [simp del]

lemma bump_inv:
  assumes "viol_inv vs n" and "i < length vs" and "n + 1 < 2 ^ 63" and "index_ok m vs"
  shows "viol_inv (vs[i := bump (vs ! i) v]) (n + 1)" and "index_ok m (vs[i := bump (vs ! i) v])"
    and "map viol_key (vs[i := bump (vs ! i) v]) = map viol_key vs"
proof -
  let ?vs = "vs[i := bump (vs ! i) v]"
  have same: "map f ?vs = map f vs" if "f (bump (vs ! i) v) = f (vs ! i)" for f :: "ViolationRecord \<Rightarrow> 'x"
    using that assms(2) by (simp add: map_update list_update_same_conv)
  show k: "map viol_key ?vs = map viol_key vs" by (rule same) simp
  have d: "map ID ?vs = map ID vs" by (rule same) simp
  have old: "0 \<le> ID r \<and> ID r < n \<and> 1 \<le> Occurrences r \<and> Occurrences r \<le> n" if "r \<in> set vs" for r
    using assms(1) that unfolding viol_inv_def by blast
  have "0 \<le> ID r \<and> ID r < n + 1 \<and> 1 \<le> Occurrences r \<and> Occurrences r \<le> n + 1" if "r \<in> set ?vs" for r
  proof -
    have "r \<in> insert (bump (vs ! i) v) (set vs)" using that set_update_subset_insert by fastforce
    moreover have "vs ! i \<in> set vs" using assms(2) by simp
    then have "int64 (Occurrences (vs ! i) + 1) = Occurrences (vs ! i) + 1" using old [of "vs ! i"] assms(3) by (intro int64_id) auto
    ultimately show ?thesis using old [of r] old [OF \<open>vs ! i \<in> set vs\<close>] by auto
  qed
  then show "viol_inv ?vs (n + 1)" using assms(1) unfolding viol_inv_def k d by blast
  show "index_ok m ?vs" using assms(4) index_ok_cong [OF k] by simp
qed

lemma fresh_inv:
  assumes "viol_inv vs n" and "0 \<le> n" and "index_ok m vs" and "map_of m (viol_key v) = None"
  shows "viol_inv (vs @ [fresh_record n v]) (n + 1)" and "index_ok (AList.update (viol_key v) (length vs) m) (vs @ [fresh_record n v])"
proof -
  have new: "viol_key (vs ! j) \<noteq> viol_key v" if "j < length vs" for j
    using assms(3) [unfolded index_ok_def, THEN spec, THEN spec, of "viol_key v" j] assms(4) that by auto
  then have "viol_key v \<notin> viol_key ` set vs" by (metis imageE in_set_conv_nth)
  then show "viol_inv (vs @ [fresh_record n v]) (n + 1)" using assms(1,2) by (fastforce simp: viol_inv_def)
  show "index_ok (AList.update (viol_key v) (length vs) m) (vs @ [fresh_record n v])"
    using assms(3) new by (auto simp: index_ok_def update_conv' nth_append less_Suc_eq split: if_splits)
qed

lemma sum_list_bump: "i < length xs \<Longrightarrow> sum_list (xs[i := xs ! i + d]) = sum_list xs + (d :: int)"
  by (induction xs arbitrary: i) (auto split: nat.split)

lemma merge_loop_effect:
  assumes "viol_inv vs n" and "0 \<le> n" and "n + int (length scraped) < 2 ^ 63" and "index_ok m vs"
    and "merge_loop vs n m scraped = (vs', n')"
  shows "n' = n + int (length scraped) \<and> viol_inv vs' n' \<and> length vs' \<le> length vs + length scraped \<and>
    sum_list (map Occurrences vs') = sum_list (map Occurrences vs) + int (length scraped) \<and>
    (\<forall>v\<in>set scraped \<union> set vs. \<exists>r\<in>set vs'. viol_key r = viol_key v \<and> LastObservedTimestamp v \<le> LastObservedTimestamp r)"
  using assms
proof (induction scraped arbitrary: vs n m)
  case (Cons v scraped)
  have n: "int64 (n + 1) = n + 1" using Cons.prems(2,3) by (intro int64_id) auto
  have b: "n + 1 + int (length scraped) < 2 ^ 63" "0 \<le> n + 1" "n + 1 < 2 ^ 63" using Cons.prems(2,3) by auto
  show ?case
  proof (cases "map_of m (viol_key v)")
    case None
    let ?vs = "vs @ [fresh_record n v]"
    have l: "merge_loop ?vs (n + 1) (AList.update (viol_key v) (length vs) m) scraped = (vs', n')"
      using Cons.prems(5) None n by (simp add: merge_loop_Cons)
    note ih = Cons.IH [OF fresh_inv(1) [OF Cons.prems(1,2,4) None] b(2,1) fresh_inv(2) [OF Cons.prems(1,2,4) None] l]
    have "\<exists>r\<in>set vs'. viol_key r = viol_key v \<and> LastObservedTimestamp v \<le> LastObservedTimestamp r"
      using ih fresh_record_simps(1,4) [of n v] by (metis UnCI in_set_conv_decomp)
    then show ?thesis using ih by auto
  next
    case (Some i)
    then have i: "i < length vs" "viol_key (vs ! i) = viol_key v" using Cons.prems(4) unfolding index_ok_def by blast+
    let ?vs = "vs[i := bump (vs ! i) v]"
    note bi = bump_inv [OF Cons.prems(1) i(1) b(3) Cons.prems(4), of v]
    have l: "merge_loop ?vs (n + 1) m scraped = (vs', n')" using Cons.prems(5) Some n by (simp add: merge_loop_Cons)
    note ih = Cons.IH [OF bi(1) b(2,1) bi(2) l]
    have mem: "bump (vs ! i) v \<in> set ?vs" using i(1) by (rule set_update_memI)
    have o: "int64 (Occurrences (vs ! i) + 1) = Occurrences (vs ! i) + 1"
      using Cons.prems(1) b(3) nth_mem [OF i(1)] unfolding viol_inv_def by (intro int64_id) fastforce+
    have "sum_list (map Occurrences ?vs) = sum_list (map Occurrences vs) + 1"
      using sum_list_bump [of i "map Occurrences vs" 1] i(1) o by (simp add: map_update)
    moreover have ex: "\<exists>r\<in>set vs'. viol_key r = viol_key u \<and> LastObservedTimestamp u \<le> LastObservedTimestamp r"
      if u: "u \<in> set ?vs \<or> u = v \<or> u = vs ! i" for u
    proof (cases "u \<in> set ?vs")
      case False
      then have "viol_key u = viol_key (bump (vs ! i) v)" "LastObservedTimestamp u \<le> LastObservedTimestamp (bump (vs ! i) v)"
        using u i(2) by auto
      then show ?thesis using ih mem by (metis UnI2 order_trans)
    qed (use ih in blast)
    moreover have "u \<in> set ?vs \<or> u = vs ! i" if "u \<in> set vs" for u
      using that by (metis in_set_conv_nth length_list_update nth_list_update_neq nth_mem)
    ultimately show ?thesis using ih by auto
  qed
qed auto

section \<open>Counting the nodes\<close>

definition with_code :: "PolicyCode set \<Rightarrow> PolicyNodeStatus list \<Rightarrow> nat" where
  "with_code C nodes = length (filter (\<lambda>st. Code (node_status st) \<in> C) nodes)"

lemma with_code_simps [simp]: "with_code C [] = 0"
  "with_code C (st # nodes) = (if Code (node_status st) \<in> C then 1 else 0) + with_code C nodes"
  by (simp_all add: with_code_def)

lemma with_code_le: "with_code C nodes \<le> length nodes"
  by (simp add: with_code_def)

lemma with_code_all: "with_code C nodes = length nodes \<longleftrightarrow> (\<forall>st\<in>set nodes. Code (node_status st) \<in> C)"
proof (induction nodes)
  case (Cons st nodes)
  then show ?case using with_code_le [of C nodes] by auto
qed simp

lemma with_code_zero: "with_code C nodes = 0 \<longleftrightarrow> (\<forall>st\<in>set nodes. Code (node_status st) \<notin> C)"
  by (simp add: with_code_def filter_empty_conv)

text \<open>The lists of nodes are bounded, and the violations are not touched.\<close>

definition nodes_bounded :: "WorkloadPolicyStatus \<Rightarrow> bool" where
  "nodes_bounded s \<longleftrightarrow> length (NodesWithIssues s) \<le> maxNodesWithIssues \<and> length (NodesTransitioning s) \<le> maxTransitioningNodes"

definition viol_part where
  "viol_part s = (ViolationCount s, Violations s, AcknowledgedViolations s)"

lemma update_length: "length (AList.update k v xs) \<le> Suc (length xs)"
  by (induction xs) auto

lemma addNodeIssue_effect:
  "TotalNodes (addNodeIssue s k st pr now) = TotalNodes s" "SuccessfulNodes (addNodeIssue s k st pr now) = SuccessfulNodes s"
  "FailedNodes (addNodeIssue s k st pr now) = FailedNodes s + 1" "TransitioningNodes (addNodeIssue s k st pr now) = TransitioningNodes s"
  "viol_part (addNodeIssue s k st pr now) = viol_part s" "nodes_bounded s \<Longrightarrow> nodes_bounded (addNodeIssue s k st pr now)"
  using update_length [of _ _ "NodesWithIssues s"]
  by (auto simp: addNodeIssue_def Let_def viol_part_def nodes_bounded_def status_consts intro: le_trans [OF update_length])

lemma addTransitioningNode_effect:
  "TotalNodes (addTransitioningNode s st pr now) = TotalNodes s" "SuccessfulNodes (addTransitioningNode s st pr now) = SuccessfulNodes s"
  "FailedNodes (addTransitioningNode s st pr now) = FailedNodes s"
  "TransitioningNodes (addTransitioningNode s st pr now) = TransitioningNodes s + 1"
  "viol_part (addTransitioningNode s st pr now) = viol_part s" "nodes_bounded s \<Longrightarrow> nodes_bounded (addTransitioningNode s st pr now)"
  by (auto simp: addTransitioningNode_def Let_def viol_part_def nodes_bounded_def status_consts)

lemma nodes_loop_effect:
  "nodes_loop pr now s nodes = (None, s') \<Longrightarrow>
     TotalNodes s' = TotalNodes s \<and> SuccessfulNodes s' = SuccessfulNodes s + with_code {PolicyReady} nodes \<and>
     FailedNodes s' = FailedNodes s + with_code {PolicyFailed, PolicyMissing} nodes \<and>
     TransitioningNodes s' = TransitioningNodes s + with_code {PolicyTransitioning} nodes \<and> viol_part s' = viol_part s \<and>
     (nodes_bounded s \<longrightarrow> nodes_bounded s')"
proof (induction nodes arbitrary: s)
  case (Cons st nodes)
  show ?case
  proof (cases "Code (node_status st)")
    case PolicyReady
    then show ?thesis using Cons.IH [of "s\<lparr>SuccessfulNodes := SuccessfulNodes s + 1\<rparr>"] Cons.prems
      by (simp add: viol_part_def nodes_bounded_def)
  qed (use Cons in \<open>auto dest!: Cons.IH simp: addNodeIssue_effect addTransitioningNode_effect\<close>)
qed simp

lemma process_nodes:
  assumes "processPolicyNodeStatus s pr nodes now = (None, s')"
  shows "viol_part s' = viol_part s" and "nodes_bounded s'" and "TotalNodes s' = length nodes"
    and "SuccessfulNodes s' = with_code {PolicyReady} nodes" and "FailedNodes s' = with_code {PolicyFailed, PolicyMissing} nodes"
    and "TransitioningNodes s' = with_code {PolicyTransitioning} nodes"
    and "length nodes = FailedNodes s' + TransitioningNodes s' + SuccessfulNodes s'"
    and "status_Phase s' = (if \<forall>st\<in>set nodes. Code (node_status st) = PolicyReady then Ready
      else if \<exists>st\<in>set nodes. Code (node_status st) \<in> {PolicyFailed, PolicyMissing} then Failed else Transitioning)"
proof -
  obtain s1 where l: "nodes_loop pr now (resetPolicyNodeStatus s (length nodes)) nodes = (None, s1)"
    and t: "TotalNodes s1 = FailedNodes s1 + TransitioningNodes s1 + SuccessfulNodes s1"
    and s': "s' = s1\<lparr>NodesTransitioning := sort_key NodeName (NodesTransitioning s1), status_Phase :=
       (if SuccessfulNodes s1 = TotalNodes s1 then Ready else if 0 < FailedNodes s1 then Failed
        else if 0 < TransitioningNodes s1 then Transitioning else status_Phase s1)\<rparr>"
    using assms by (auto simp: processPolicyNodeStatus_def Let_def split: prod.splits option.splits if_splits)
  have e: "TotalNodes s1 = length nodes" "SuccessfulNodes s1 = with_code {PolicyReady} nodes"
    "FailedNodes s1 = with_code {PolicyFailed, PolicyMissing} nodes" "TransitioningNodes s1 = with_code {PolicyTransitioning} nodes"
    "viol_part s1 = viol_part s" "nodes_bounded s1"
    using nodes_loop_effect [OF l] by (simp_all add: resetPolicyNodeStatus_def viol_part_def nodes_bounded_def)
  show "viol_part s' = viol_part s" "nodes_bounded s'" "TotalNodes s' = length nodes"
    "SuccessfulNodes s' = with_code {PolicyReady} nodes" "FailedNodes s' = with_code {PolicyFailed, PolicyMissing} nodes"
    "TransitioningNodes s' = with_code {PolicyTransitioning} nodes" "length nodes = FailedNodes s' + TransitioningNodes s' + SuccessfulNodes s'"
    using e t by (simp_all add: s' viol_part_def nodes_bounded_def)
  have a: "SuccessfulNodes s1 = TotalNodes s1 \<longleftrightarrow> (\<forall>st\<in>set nodes. Code (node_status st) = PolicyReady)"
    using e with_code_all [of "{PolicyReady}" nodes] by simp
  have b: "0 < FailedNodes s1 \<longleftrightarrow> (\<exists>st\<in>set nodes. Code (node_status st) \<in> {PolicyFailed, PolicyMissing})"
    using e with_code_zero [of "{PolicyFailed, PolicyMissing}" nodes] by (metis neq0_conv)
  have c: "0 < TransitioningNodes s1" if "SuccessfulNodes s1 \<noteq> TotalNodes s1" "FailedNodes s1 = 0" using that t by simp
  show "status_Phase s' = (if \<forall>st\<in>set nodes. Code (node_status st) = PolicyReady then Ready
      else if \<exists>st\<in>set nodes. Code (node_status st) \<in> {PolicyFailed, PolicyMissing} then Failed else Transitioning)"
    unfolding s' a [symmetric] b [symmetric] using c by auto
qed

section \<open>The violations of a status\<close>

lemma viol_inv_sort [simp]: "viol_inv (sort_key f vs) n = viol_inv vs n"
  by (simp add: viol_inv_def distinct_map)

lemma viol_inv_sub:
  "viol_inv vs n \<Longrightarrow> viol_inv (take k vs) n" "viol_inv vs n \<Longrightarrow> viol_inv (filter P vs) n"
  by (auto simp: viol_inv_def distinct_map_filter take_map [symmetric] dest: in_set_takeD)

abbreviation newest_first :: "ViolationRecord list \<Rightarrow> bool" where
  "newest_first vs \<equiv> sorted (map (\<lambda>v. - LastObservedTimestamp v) vs)"

lemma newest_first_sub:
  "newest_first vs \<Longrightarrow> newest_first (take k vs)" "newest_first vs \<Longrightarrow> newest_first (filter P vs)"
  by (simp_all add: take_map [symmetric] sorted_wrt_take sorted_filter)

lemma merge_status:
  assumes "viol_inv (Violations s) (ViolationCount s)" and "0 \<le> ViolationCount s" and "ViolationCount s + int (length scraped) < 2 ^ 63"
  defines "s' \<equiv> mergeScrapedViolations s scraped"
  shows "ViolationCount s' = ViolationCount s + int (length scraped)" and "viol_inv (Violations s') (ViolationCount s')"
    and "length (Violations s') \<le> maxViolationRecords" and "newest_first (Violations s')"
    and "AcknowledgedViolations s' = AcknowledgedViolations s"
    and "length (Violations s) + length scraped \<le> maxViolationRecords \<Longrightarrow> v \<in> set scraped \<Longrightarrow>
      \<exists>r\<in>set (Violations s'). viol_key r = viol_key v \<and> LastObservedTimestamp v \<le> LastObservedTimestamp r"
proof -
  obtain vs n where l: "merge_loop (Violations s) (ViolationCount s) (index_keys 0 (Violations s) []) scraped = (vs, n)"
    by (cases "merge_loop (Violations s) (ViolationCount s) (index_keys 0 (Violations s) []) scraped")
  have i: "index_ok (index_keys 0 (Violations s) []) (Violations s)"
    using index_keys_ok [of "[]" "[]" "Violations s"] assms(1) by (simp add: index_ok_def viol_inv_def)
  note e = merge_loop_effect [OF assms(1-3) i l]
  have s': "s' = s\<lparr>Violations := take maxViolationRecords (sort_key (\<lambda>r. - LastObservedTimestamp r) vs), ViolationCount := n\<rparr>"
    by (simp add: s'_def mergeScrapedViolations_def l)
  show "ViolationCount s' = ViolationCount s + int (length scraped)" using e by (simp add: s')
  have "viol_inv (sort_key (\<lambda>r. - LastObservedTimestamp r) vs) n" unfolding viol_inv_sort using e [THEN conjunct2, THEN conjunct1] .
  from viol_inv_sub(1) [OF this] show "viol_inv (Violations s') (ViolationCount s')" by (simp add: s')
  show "length (Violations s') \<le> maxViolationRecords" by (simp add: s')
  show "newest_first (Violations s')" unfolding s' by (simp add: newest_first_sub(1))
  show "AcknowledgedViolations s' = AcknowledgedViolations s" by (simp add: s')
  show "\<exists>r\<in>set (Violations s'). viol_key r = viol_key v \<and> LastObservedTimestamp v \<le> LastObservedTimestamp r"
    if "length (Violations s) + length scraped \<le> maxViolationRecords" "v \<in> set scraped"
  proof -
    have "set (Violations s') = set vs" using e that(1) by (simp add: s')
    then show ?thesis using e that(2) by blast
  qed
qed

lemma allowed_key: "viol_key u = viol_key v \<Longrightarrow> violation_allowed wp u = violation_allowed wp v"
  by (auto simp: viol_key_def violation_allowed_def split: option.split)

lemma acknowledge_effect:
  assumes "acknowledgeViolationsFromAnnotations annotations s now = (acks, annotations', s')"
  shows "Violations s' = filter (\<lambda>v. map_of (acknowledges annotations []) (ID v) = None) (Violations s)"
    and "ViolationCount s' = ViolationCount s"
    and "v \<in> set (Violations s) \<Longrightarrow> v \<in> set (Violations s') \<or> v \<in> Violation ` set acks"
    and "length (AcknowledgedViolations s) \<le> maxViolationRecords \<Longrightarrow> length (AcknowledgedViolations s') \<le> maxViolationRecords"
proof -
  let ?m = "acknowledges annotations []"
  have e: "(Violations s' = filter (\<lambda>v. map_of ?m (ID v) = None) (Violations s)) \<and> ViolationCount s' = ViolationCount s \<and>
    (length (AcknowledgedViolations s) \<le> maxViolationRecords \<longrightarrow> length (AcknowledgedViolations s') \<le> maxViolationRecords) \<and>
    (?m \<noteq> [] \<longrightarrow> acks = map (ack_record ?m now) (filter (\<lambda>v. map_of ?m (ID v) \<noteq> None) (Violations s)))"
  proof (cases "?m = []")
    case True
    then show ?thesis using assms by (simp add: acknowledgeViolationsFromAnnotations_def)
  next
    case False
    then show ?thesis using assms by (auto simp: acknowledgeViolationsFromAnnotations_def Let_def)
  qed
  show "Violations s' = filter (\<lambda>v. map_of ?m (ID v) = None) (Violations s)" "ViolationCount s' = ViolationCount s"
    "length (AcknowledgedViolations s) \<le> maxViolationRecords \<Longrightarrow> length (AcknowledgedViolations s') \<le> maxViolationRecords"
    using e by blast+
  show "v \<in> set (Violations s') \<or> v \<in> Violation ` set acks" if v: "v \<in> set (Violations s)"
  proof (cases "map_of ?m (ID v) = None")
    case False
    then have "?m \<noteq> []" by auto
    then have "ack_record ?m now v \<in> set acks" using e v False by simp
    then show ?thesis by (force simp: ack_record_def)
  qed (use e v in simp)
qed

lemma recompute_cases:
  assumes "RecomputeStatus wp generation annotations s nodes scraped now = (Inr acks, annotations', s')"
  obtains s1 s4 where "processPolicyNodeStatus s s nodes now = (None, s1)"
    and "acknowledgeViolationsFromAnnotations annotations (clearAllowedViolations wp (mergeScrapedViolations s1 scraped)) now = (acks, annotations', s4)"
    and "s' = s4\<lparr>ActiveViolationCount := length (Violations s4), ObservedGeneration := generation\<rparr>"
  using assms by (auto simp: RecomputeStatus_def Let_def split: prod.splits option.splits)

lemma recompute_phase:
  assumes "RecomputeStatus wp generation annotations s nodes scraped now = (Inr acks, annotations', s')"
    and "processPolicyNodeStatus s s nodes now = (None, s1)"
  shows "status_Phase s' = status_Phase s1"
  using assms
  by (auto simp: RecomputeStatus_def mergeScrapedViolations_def clearAllowedViolations_def acknowledgeViolationsFromAnnotations_def
      Let_def split: prod.splits option.splits if_splits)

section \<open>The first sighting of a violation\<close>

lemma merge_loop_first:
  "merge_loop vs n m scraped = (vs', n') \<Longrightarrow>
     length vs \<le> length vs' \<and> (\<forall>i<length vs. viol_key (vs' ! i) = viol_key (vs ! i) \<and>
       FirstObservedTimestamp (vs' ! i) = FirstObservedTimestamp (vs ! i))"
proof (induction scraped arbitrary: vs n m)
  case (Cons v scraped)
  show ?case
  proof (cases "map_of m (viol_key v)")
    case None
    then have "merge_loop (vs @ [fresh_record n v]) (int64 (n + 1)) (AList.update (viol_key v) (length vs) m) scraped = (vs', n')"
      using Cons.prems by (simp add: merge_loop_Cons)
    from Cons.IH [OF this] show ?thesis by (auto simp: nth_append)
  next
    case (Some j)
    then have "merge_loop (vs[j := bump (vs ! j) v]) (int64 (n + 1)) m scraped = (vs', n')"
      using Cons.prems by (simp add: merge_loop_Cons)
    from Cons.IH [OF this] show ?thesis by auto
  qed
qed simp

lemma merge_loop_keys:
  "merge_loop vs n m scraped = (vs', n') \<Longrightarrow> viol_key ` set vs' \<subseteq> viol_key ` set vs \<union> viol_key ` set scraped"
proof (induction scraped arbitrary: vs n m)
  case (Cons v scraped)
  show ?case
  proof (cases "map_of m (viol_key v)")
    case None
    then have "merge_loop (vs @ [fresh_record n v]) (int64 (n + 1)) (AList.update (viol_key v) (length vs) m) scraped = (vs', n')"
      using Cons.prems by (simp add: merge_loop_Cons)
    from Cons.IH [OF this] show ?thesis by auto
  next
    case (Some j)
    then have "merge_loop (vs[j := bump (vs ! j) v]) (int64 (n + 1)) m scraped = (vs', n')"
      using Cons.prems by (simp add: merge_loop_Cons)
    note ih = Cons.IH [OF this]
    have "map viol_key (vs[j := bump (vs ! j) v]) = map viol_key vs"
      by (cases "j < length vs") (simp_all add: map_update list_update_same_conv list_update_beyond)
    then have "viol_key ` set (vs[j := bump (vs ! j) v]) = viol_key ` set vs" by (metis set_map)
    then show ?thesis using ih by auto
  qed
qed simp

lemma merge_first:
  assumes "viol_inv (Violations s) (ViolationCount s)" and "0 \<le> ViolationCount s" and "ViolationCount s + int (length (v # rest)) < 2 ^ 63"
    and "\<forall>u\<in>set rest. viol_key u = viol_key v" and "\<forall>u\<in>set (Violations s). viol_key u \<noteq> viol_key v"
    and "length (Violations s) < maxViolationRecords"
  shows "\<exists>r\<in>set (Violations (mergeScrapedViolations s (v # rest))). viol_key r = viol_key v \<and>
    FirstObservedTimestamp r = LastObservedTimestamp v"
proof -
  let ?m = "index_keys 0 (Violations s) []"
  obtain vs n where l: "merge_loop (Violations s) (ViolationCount s) ?m (v # rest) = (vs, n)"
    by (cases "merge_loop (Violations s) (ViolationCount s) ?m (v # rest)")
  have i: "index_ok ?m (Violations s)"
    using index_keys_ok [of "[]" "[]" "Violations s"] assms(1) by (simp add: index_ok_def viol_inv_def)
  have none: "map_of ?m (viol_key v) = None"
    using i assms(5) nth_mem unfolding index_ok_def by (metis not_Some_eq)
  let ?vs = "Violations s @ [fresh_record (ViolationCount s) v]" and ?k = "length (Violations s)"
  have "merge_loop ?vs (int64 (ViolationCount s + 1)) (AList.update (viol_key v) ?k ?m) rest = (vs, n)"
    using l none by (simp add: merge_loop_Cons)
  from merge_loop_first [OF this] have f: "?k < length vs" "viol_key (vs ! ?k) = viol_key v"
    "FirstObservedTimestamp (vs ! ?k) = LastObservedTimestamp v" by (auto dest!: spec [of _ ?k])
  have "viol_key ` set vs \<subseteq> viol_key ` set (Violations s) \<union> {viol_key v}"
    using merge_loop_keys [OF l] assms(4) by auto
  moreover have "distinct (map viol_key vs)" using merge_loop_effect [OF assms(1-3) i l] by (simp add: viol_inv_def)
  then have "length vs = card (viol_key ` set vs)" by (metis distinct_card length_map set_map)
  ultimately have "length vs \<le> card (viol_key ` set (Violations s) \<union> {viol_key v})" by (simp add: card_mono)
  also have "\<dots> \<le> card (viol_key ` set (Violations s)) + 1" by (rule order_trans [OF card_Un_le]) simp
  also have "\<dots> \<le> length (Violations s) + 1" by (simp add: order_trans [OF card_image_le card_length])
  finally have "length vs \<le> maxViolationRecords" using assms(6) by simp
  then have "set (Violations (mergeScrapedViolations s (v # rest))) = set vs" by (simp add: mergeScrapedViolations_def l)
  then show ?thesis using f nth_mem by blast
qed

section \<open>Properties\<close>

text \<open>
  \<^bold>\<open>C20\<close>. The violations of a policy stay identified, bounded and accounted for. If the records of the status
  have different keys and different identifiers below the counter, then after \<^verbatim>\<open>RecomputeStatus\<close> they
  still have; the counter has grown by the number of scraped events; at most 100 records are kept,
  newest first, and counted as active; none of them is allowed by the rules or acknowledged by an annotation. When there is
  room for all, every scraped violation that the rules do not allow is among the active or
  the newly acknowledged ones, with a time not older than its own.
\<close>

theorem status_violations:
  assumes "viol_inv (Violations s) (ViolationCount s)" and "0 \<le> ViolationCount s" and "ViolationCount s + int (length scraped) < 2 ^ 63"
    and "length (AcknowledgedViolations s) \<le> maxViolationRecords"
    and "RecomputeStatus wp generation annotations s nodes scraped now = (Inr acks, annotations', s')"
  shows "viol_inv (Violations s') (ViolationCount s') \<and> ViolationCount s' = ViolationCount s + int (length scraped) \<and>
    length (Violations s') \<le> maxViolationRecords \<and> length (AcknowledgedViolations s') \<le> maxViolationRecords \<and>
    newest_first (Violations s') \<and> ActiveViolationCount s' = length (Violations s') \<and>
    (\<forall>v\<in>set (Violations s'). \<not> violation_allowed wp v \<and> map_of (acknowledges annotations []) (ID v) = None) \<and>
    (length (Violations s) + length scraped \<le> maxViolationRecords \<longrightarrow>
      (\<forall>v\<in>set scraped. \<not> violation_allowed wp v \<longrightarrow>
        (\<exists>r\<in>set (Violations s') \<union> Violation ` set acks. viol_key r = viol_key v \<and> LastObservedTimestamp v \<le> LastObservedTimestamp r)))"
proof -
  obtain s1 s4 where P: "processPolicyNodeStatus s s nodes now = (None, s1)"
    and A: "acknowledgeViolationsFromAnnotations annotations (clearAllowedViolations wp (mergeScrapedViolations s1 scraped)) now = (acks, annotations', s4)"
    and s': "s' = s4\<lparr>ActiveViolationCount := length (Violations s4), ObservedGeneration := generation\<rparr>"
    by (rule recompute_cases [OF assms(5)])
  let ?s2 = "mergeScrapedViolations s1 scraped" and ?m = "acknowledges annotations []"
  have v1: "Violations s1 = Violations s" "ViolationCount s1 = ViolationCount s" "AcknowledgedViolations s1 = AcknowledgedViolations s"
    using process_nodes(1) [OF P] by (simp_all add: viol_part_def)
  note ms = merge_status [of s1 scraped, unfolded v1, OF assms(1-3)]
  have c: "Violations (clearAllowedViolations wp ?s2) = filter (\<lambda>v. \<not> violation_allowed wp v) (Violations ?s2)"
    "ViolationCount (clearAllowedViolations wp ?s2) = ViolationCount ?s2"
    "AcknowledgedViolations (clearAllowedViolations wp ?s2) = AcknowledgedViolations ?s2" by (simp_all add: clearAllowedViolations_def)
  note ae = acknowledge_effect [OF A, unfolded c]
  let ?vs = "filter (\<lambda>v. map_of ?m (ID v) = None) (filter (\<lambda>v. \<not> violation_allowed wp v) (Violations ?s2))"
  have vs: "Violations s' = ?vs" "ViolationCount s' = ViolationCount ?s2" "ActiveViolationCount s' = length (Violations s')"
    "AcknowledgedViolations s' = AcknowledgedViolations s4" using ae(1,2) by (simp_all add: s')
  have "viol_inv (Violations s') (ViolationCount s')" unfolding vs(1,2) by (intro viol_inv_sub(2) ms(2))
  moreover have "newest_first (Violations s')" unfolding vs(1) by (intro newest_first_sub(2) ms(4))
  moreover have "length (Violations s') \<le> maxViolationRecords"
    unfolding vs(1) by (intro order_trans [OF length_filter_le] order_trans [OF length_filter_le ms(3)])
  moreover have "length (AcknowledgedViolations s') \<le> maxViolationRecords" using ae(4) ms(5) assms(4) vs(4) by simp
  moreover have "\<exists>r\<in>set (Violations s') \<union> Violation ` set acks. viol_key r = viol_key v \<and> LastObservedTimestamp v \<le> LastObservedTimestamp r"
    if room: "length (Violations s) + length scraped \<le> maxViolationRecords" and v: "v \<in> set scraped" "\<not> violation_allowed wp v" for v
  proof -
    obtain r where r: "r \<in> set (Violations ?s2)" "viol_key r = viol_key v" "LastObservedTimestamp v \<le> LastObservedTimestamp r"
      using ms(6) [OF room v(1)] by blast
    then have "r \<in> set (filter (\<lambda>v. \<not> violation_allowed wp v) (Violations ?s2))" using v(2) allowed_key [OF r(2)] by simp
    from ae(3) [OF this] have "r \<in> set (Violations s') \<union> Violation ` set acks" using s' by auto
    then show ?thesis using r by blast
  qed
  ultimately show ?thesis using vs(2,3) ms(1) by (auto simp: vs(1))
qed

text \<open>
  \<^bold>\<open>C7\<close>. A policy is shown as ready only where it is enforced. Let the controller collect the answers of the
  agents of all nodes, each agent in a state of a run without failed reconciliations. If the recomputed phase is ready, then
  every node has answered, and on every node a specification of the policy in the mode the controller
  expects is completely installed in the maps. The counters of the nodes always add up to their number, and
  the two lists of nodes hold at most 20 entries.
\<close>

theorem ready_phase_installed:
  assumes "RecomputeStatus wp generation annotations s (getNodeStatusByPolicy err_text clients wp) scraped now = (Inr acks, annotations', s')"
    and "\<And>n l. (n, Listed l) \<in> set clients \<Longrightarrow> l = GetPolicyStatuses (R n) \<and>
      (\<exists>M nested s0. \<not> isShuttingDown M \<and> fresh_maps s0 \<and> good_run M nested s0 (R n) (S n) (SP n))"
  shows "(status_Phase s' = Ready \<longrightarrow> (\<forall>(n, a)\<in>set clients. \<exists>wp'. SP n (NamespacedName wp) = Some wp' \<and>
      wp_Mode wp' = wp_Mode wp \<and> spec_installed (R n) (S n) wp')) \<and>
    length clients = FailedNodes s' + TransitioningNodes s' + SuccessfulNodes s' \<and>
    length (NodesWithIssues s') \<le> maxNodesWithIssues \<and> length (NodesTransitioning s') \<le> maxTransitioningNodes"
proof -
  let ?nodes = "getNodeStatusByPolicy err_text clients wp"
  obtain s1 s4 where P: "processPolicyNodeStatus s s ?nodes now = (None, s1)"
    and A: "acknowledgeViolationsFromAnnotations annotations (clearAllowedViolations wp (mergeScrapedViolations s1 scraped)) now = (acks, annotations', s4)"
    and s': "s' = s4\<lparr>ActiveViolationCount := length (Violations s4), ObservedGeneration := generation\<rparr>"
    by (rule recompute_cases [OF assms(1)])
  note pn = process_nodes [OF P]
  have same: "FailedNodes s' = FailedNodes s1" "TransitioningNodes s' = TransitioningNodes s1" "SuccessfulNodes s' = SuccessfulNodes s1"
    "nodes_bounded s' = nodes_bounded s1"
    using A by (auto simp: s' nodes_bounded_def mergeScrapedViolations_def clearAllowedViolations_def acknowledgeViolationsFromAnnotations_def
        Let_def split: prod.splits if_splits)
  have len: "length ?nodes = length clients" by (simp add: getNodeStatusByPolicy_def)
  have "\<exists>wp'. SP n (NamespacedName wp) = Some wp' \<and> wp_Mode wp' = wp_Mode wp \<and> spec_installed (R n) (S n) wp'"
    if ready: "status_Phase s' = Ready" and na: "(n, a) \<in> set clients" for n a
  proof -
    have "\<forall>st\<in>set ?nodes. Code (node_status st) = PolicyReady"
      using pn(8) ready recompute_phase [OF assms(1) P] by (auto split: if_splits)
    then have "Code (node_status (node_answer_status err_text wp (n, a))) = PolicyReady"
      using na by (simp add: getNodeStatusByPolicy_def)
    then obtain l st where l: "a = Listed l" "map_of l (NamespacedName wp) = Some st" "State st = POLICY_STATE_READY"
      "policyModeMatchesExpected (StatusMode st) (wp_Mode wp)"
      by (cases a) (auto simp: node_answer_status_def policyNodeStatus_def Let_def split: if_splits option.splits PolicyState.splits sum.splits)
    have lR: "l = GetPolicyStatuses (R n)" using assms(2) na l(1) by blast
    obtain M nested s0 where run: "\<not> isShuttingDown M" "fresh_maps s0" "good_run M nested s0 (R n) (S n) (SP n)"
      using assms(2) na l(1) by blast
    have "map_option ready_status (SP n (NamespacedName wp)) = Some st"
      using good_run_reported [OF run(3,1,2), unfolded reported_def, THEN spec, of "NamespacedName wp"] l(2) lR by simp
    then obtain wp' where wp': "SP n (NamespacedName wp) = Some wp'" "st = ready_status wp'" by (cases "SP n (NamespacedName wp)") auto
    have "specs_hold (R n) (S n) (SP n)" using good_run_inv [OF run(3,1,2)] by (simp add: run_inv_def)
    then have "spec_installed (R n) (S n) wp'" using wp'(1) unfolding specs_hold_def by blast
    moreover have "wp_Mode wp' = wp_Mode wp"
      using l(4) wp'(2) by (auto simp: policyModeMatchesExpected_def ParsePolicyModeToProto_def split: if_splits)
    ultimately show ?thesis using wp'(1) by blast
  qed
  then show ?thesis using pn(2,7) same len by (auto simp: nodes_bounded_def)
qed

text \<open>
  \<^bold>\<open>C23\<close>. The first sighting of a violation is the time of its last event. Let an agent record the events of
  one new violation, one after the other, and let the controller scrape the agent and merge the answer. The record that
  appears in the status is stamped as first observed with the time of the last of these events, since the scrape returns them
  newest first, although the first of them is the earliest that is known.
\<close>

theorem first_observed_newest:
  assumes "buffer_rep b []" and "log_all Record b recs = Some b1" and "ScrapeViolations b1 = Some (scraped, b2)"
    and "recs \<noteq> []" and "length recs \<le> 10000"
    and "\<forall>r\<in>set recs. pb_PolicyName (violation_proto r) = policy \<and> viol_key (violation_of_scrape (violation_proto r)) = key"
    and "viol_inv (Violations s) (ViolationCount s)" and "0 \<le> ViolationCount s" and "ViolationCount s + 10000 < 2 ^ 63"
    and "\<forall>u\<in>set (Violations s). viol_key u \<noteq> key" and "length (Violations s) < maxViolationRecords"
  shows "\<exists>v\<in>set (Violations (mergeScrapedViolations s (getViolationsByPolicy [(node, Some scraped)] policy))).
    viol_key v = key \<and> FirstObservedTimestamp v = Timestamp (last recs)"
proof -
  have len: "length ([] :: BufferRecord list) + length recs \<le> 2 ^ 63 - 1" using assms(5) by simp
  obtain c1 c2 where c: "log_all Record b recs = Some c1" "Drain c1 = Some (take MaxBufferEntries (rev recs @ []), c2)" "buffer_rep c2 []"
    by (rule vbuf.drain_newest [OF assms(1) len])
  have sc: "scraped = map violation_proto (rev recs)"
    using c(1,2) assms(2,3,5) by (auto simp: ScrapeViolations_def MaxBufferEntries_def)
  have "getViolationsByPolicy [(node, Some scraped)] policy = map (violation_of_scrape \<circ> violation_proto) (rev recs)"
    using assms(6) by (simp add: getViolationsByPolicy_def sc filter_id_conv [THEN iffD2] rev_filter [symmetric] filter_map comp_def)
  moreover have "rev recs = last recs # rev (butlast recs)" using assms(4) by (metis append_butlast_last_id rev.simps(2) rev_rev_ident rev_swap)
  ultimately have g: "getViolationsByPolicy [(node, Some scraped)] policy =
      violation_of_scrape (violation_proto (last recs)) # map (violation_of_scrape \<circ> violation_proto) (rev (butlast recs))" by simp
  have k: "viol_key (violation_of_scrape (violation_proto r)) = key" if "r \<in> set recs" for r using assms(6) that by blast
  have l: "last recs \<in> set recs" using assms(4) by simp
  have "\<exists>r\<in>set (Violations (mergeScrapedViolations s (getViolationsByPolicy [(node, Some scraped)] policy))).
      viol_key r = viol_key (violation_of_scrape (violation_proto (last recs))) \<and>
      FirstObservedTimestamp r = LastObservedTimestamp (violation_of_scrape (violation_proto (last recs)))"
    unfolding g using assms(5,9-11) k k [OF l] by (intro merge_first [OF assms(7,8)]) (auto dest: in_set_butlastD)
  then show ?thesis using k [OF l] by (simp add: violation_of_scrape_def violation_proto_def)
qed

end
