(* ===== verification/Pod_Workload.thy ===== *)
theory Pod_Workload
  imports Go_Strings
begin

text \<open>
  The name of the workload of a pod, \<^verbatim>\<open>src/internal/podworkload/workload.go\<close>: the container runtime only knows
  the name and the labels of the pod, and the name of the workload is cut out of them. A slice out of range
  and an explicit panic are \<open>None\<close>.
\<close>

section \<open>Kinds\<close>

abbreviation Kind_Pod :: string where "Kind_Pod \<equiv> ''Pod''"
abbreviation Kind_Deployment :: string where "Kind_Deployment \<equiv> ''Deployment''"
abbreviation Kind_DaemonSet :: string where "Kind_DaemonSet \<equiv> ''DaemonSet''"
abbreviation Kind_StatefulSet :: string where "Kind_StatefulSet \<equiv> ''StatefulSet''"
abbreviation Kind_Job :: string where "Kind_Job \<equiv> ''Job''"
abbreviation Kind_CronJob :: string where "Kind_CronJob \<equiv> ''CronJob''"

definition podTemplateHashLabel :: string where "podTemplateHashLabel = ''pod-template-hash''"
definition oldJobNameLabel :: string where "oldJobNameLabel = ''job-name''"
definition newJobNameLabel :: string where "newJobNameLabel = ''batch.kubernetes.io/job-name''"
definition statefulsetLabel :: string where "statefulsetLabel = ''statefulset.kubernetes.io/pod-name''"
definition daemonsetLabel :: string where "daemonsetLabel = ''controller-revision-hash''"
definition truncatedSuffix :: string where "truncatedSuffix = ''-trnc''"
definition randomSuffixLen :: nat where "randomSuffixLen = 5"
definition minTemplateHashMatch :: nat where "minTemplateHashMatch = 5"

lemmas workload_consts = podTemplateHashLabel_def oldJobNameLabel_def newJobNameLabel_def statefulsetLabel_def daemonsetLabel_def
  truncatedSuffix_def randomSuffixLen_def minTemplateHashMatch_def

section \<open>Functions on strings\<close>

text \<open>The slice that drops the last bytes.\<close>

definition drop_last :: "nat \<Rightarrow> string \<Rightarrow> string option" where
  "drop_last n s = (if n \<le> length s then Some (take (length s - n) s) else None)"

text \<open>The part in front of the last dash, \<^verbatim>\<open>strings.LastIndex\<close>.\<close>

definition before_last_dash :: "string \<Rightarrow> string option" where
  "before_last_dash s =
     (let t = dropWhile (\<lambda>c. c \<noteq> CHR ''-'') (rev s) in if t = [] then None else Some (rev (tl t)))"

lemma drop_last_append [simp]: "length r = n \<Longrightarrow> drop_last n (s @ r) = Some s"
  by (simp add: drop_last_def)

lemma dropWhile_dash:
  assumes "CHR ''-'' \<notin> set r"
  shows "dropWhile (\<lambda>c. c \<noteq> CHR ''-'') (rev (s @ ''-'' @ r)) = CHR ''-'' # rev s"
proof -
  have "dropWhile (\<lambda>c. c \<noteq> CHR ''-'') (rev r @ (CHR ''-'' # rev s)) = dropWhile (\<lambda>c. c \<noteq> CHR ''-'') (CHR ''-'' # rev s)"
    using assms by (intro dropWhile_append2) auto
  then show ?thesis by simp
qed

lemma before_last_dash_append: "CHR ''-'' \<notin> set r \<Longrightarrow> before_last_dash (s @ ''-'' @ r) = Some s"
  using dropWhile_dash [of r s] by (simp add: before_last_dash_def)

section \<open>Workloads\<close>

function deployment_loop :: "string \<Rightarrow> string \<Rightarrow> nat \<Rightarrow> string option" where
  "deployment_loop podPrefix exactPattern i =
     (if i < minTemplateHashMatch then None
      else (case cut_suffix podPrefix (take i exactPattern) of
              Some name \<Rightarrow> Some name
            | None \<Rightarrow> deployment_loop podPrefix exactPattern (i - 1)))"
  by pat_completeness auto
termination
  by (relation "measure (\<lambda>(_, _, i). i)") (auto simp: minTemplateHashMatch_def)

declare deployment_loop.simps [simp del]

definition parseDeployment :: "string \<Rightarrow> string \<Rightarrow> (string \<times> string) option" where
  "parseDeployment podName templateHash =
     (case drop_last randomSuffixLen podName of
        None \<Rightarrow> None
      | Some podPrefix \<Rightarrow>
          (let exactPattern = ''-'' @ templateHash @ ''-''
           in case deployment_loop podPrefix exactPattern (length exactPattern) of
                Some name \<Rightarrow> Some (name, Kind_Deployment)
              | None \<Rightarrow>
                  Some (trim_suffix podPrefix ''-'' @ truncatedSuffix, Kind_Deployment)))"

definition parseDaemonSet :: "string \<Rightarrow> (string \<times> string) option" where
  "parseDaemonSet podName =
     (case drop_last randomSuffixLen podName of
        None \<Rightarrow> None
      | Some nameWithoutSuffix \<Rightarrow>
          (case cut_suffix nameWithoutSuffix ''-'' of
             Some before \<Rightarrow> Some (before, Kind_DaemonSet)
           | None \<Rightarrow> Some (nameWithoutSuffix @ truncatedSuffix, Kind_DaemonSet)))"

text \<open>
  The match of \<^verbatim>\<open>(.+)-\d{8,10}$\<close>: the digits at the end of the name, the dash in front of them, and
  everything between the last newline, which the dot does not match, and this dash.
\<close>

definition cronJobName :: "string \<Rightarrow> string option" where
  "cronJobName jobName =
     (let digits = takeWhile is_digit (rev jobName);
          front = dropWhile is_digit (rev jobName)
      in if 8 \<le> length digits \<and> length digits \<le> 10 \<and> front \<noteq> [] \<and> hd front = CHR ''-''
         then (let name = rev (takeWhile (\<lambda>c. c \<noteq> CHR 0x0A) (tl front)) in if name = [] then None else Some name)
         else None)"

definition parseJobCronJob :: "string \<Rightarrow> string \<times> string" where
  "parseJobCronJob jobName =
     (case cronJobName jobName of Some name \<Rightarrow> (name, Kind_CronJob) | None \<Rightarrow> (jobName, Kind_Job))"

definition parseStatefulSet :: "string \<Rightarrow> (string \<times> string) option" where
  "parseStatefulSet podName =
     (case before_last_dash podName of None \<Rightarrow> None | Some name \<Rightarrow> Some (name, Kind_StatefulSet))"

definition getWorkloadInfo :: "string \<Rightarrow> (string \<times> string) list \<Rightarrow> (string \<times> string) option" where
  "getWorkloadInfo podName labels =
     (case map_of labels podTemplateHashLabel of
        Some hash \<Rightarrow> parseDeployment podName hash
      | None \<Rightarrow>
     (case map_of labels statefulsetLabel of
        Some statefulPodName \<Rightarrow> parseStatefulSet statefulPodName
      | None \<Rightarrow>
     (case map_of labels daemonsetLabel of
        Some _ \<Rightarrow> parseDaemonSet podName
      | None \<Rightarrow>
     (case map_of labels oldJobNameLabel of
        Some jobName \<Rightarrow> Some (parseJobCronJob jobName)
      | None \<Rightarrow>
     (case map_of labels newJobNameLabel of
        Some jobName \<Rightarrow> Some (parseJobCronJob jobName)
      | None \<Rightarrow> Some (podName, Kind_Pod))))))"

definition GetTruncatedWorkloadInfo :: "string \<Rightarrow> (string \<times> string) list \<Rightarrow> (string \<times> string \<times> bool) option" where
  "GetTruncatedWorkloadInfo podName labels =
     (case getWorkloadInfo podName labels of
        None \<Rightarrow> None
      | Some (workloadName, workloadKind) \<Rightarrow> Some (workloadName, workloadKind, suffix truncatedSuffix workloadName))"

section \<open>Names that Kubernetes generates are cut back to the workload\<close>

lemma parseDeployment_generated:
  assumes "length rnd = randomSuffixLen" and "3 \<le> length hash"
  shows "parseDeployment (name @ ''-'' @ hash @ ''-'' @ rnd) hash = Some (name, Kind_Deployment)"
proof -
  let ?e = "''-'' @ hash @ ''-''"
  have "drop_last randomSuffixLen ((name @ ?e) @ rnd) = Some (name @ ?e)" by (rule drop_last_append [OF assms(1)])
  then have d: "drop_last randomSuffixLen (name @ ''-'' @ hash @ ''-'' @ rnd) = Some (name @ ?e)" by simp
  have "deployment_loop (name @ ?e) ?e (length ?e) = Some name"
    using assms(2) cut_suffix_append [of name ?e] by (subst deployment_loop.simps) (simp add: minTemplateHashMatch_def)
  then show ?thesis using d by (simp add: parseDeployment_def Let_def)
qed

lemma parseDaemonSet_generated:
  assumes "length rnd = randomSuffixLen"
  shows "parseDaemonSet (name @ ''-'' @ rnd) = Some (name, Kind_DaemonSet)"
proof -
  have "drop_last randomSuffixLen ((name @ ''-'') @ rnd) = Some (name @ ''-'')" by (rule drop_last_append [OF assms])
  then show ?thesis by (simp add: parseDaemonSet_def)
qed

lemma parseStatefulSet_generated: "CHR ''-'' \<notin> set i \<Longrightarrow> parseStatefulSet (name @ ''-'' @ i) = Some (name, Kind_StatefulSet)"
  using before_last_dash_append [of i name] by (simp add: parseStatefulSet_def)

lemma digits_split:
  assumes "\<forall>c\<in>set ds. is_digit c"
  shows "takeWhile is_digit (rev (name @ ''-'' @ ds)) = rev ds" and "dropWhile is_digit (rev (name @ ''-'' @ ds)) = CHR ''-'' # rev name"
proof -
  have n: "\<not> is_digit (CHR ''-'')" by (rule not_digit(1))
  have e: "rev (name @ ''-'' @ ds) = rev ds @ (CHR ''-'' # rev name)" by simp
  show "takeWhile is_digit (rev (name @ ''-'' @ ds)) = rev ds"
    unfolding e using assms n by (subst takeWhile_append2) auto
  show "dropWhile is_digit (rev (name @ ''-'' @ ds)) = CHR ''-'' # rev name"
    unfolding e using assms n by (subst dropWhile_append2) auto
qed

lemma parseCronJob_generated:
  assumes "\<forall>c\<in>set ds. is_digit c" and "8 \<le> length ds" "length ds \<le> 10" and "name \<noteq> []" and "CHR 0x0A \<notin> set name"
  shows "parseJobCronJob (name @ ''-'' @ ds) = (name, Kind_CronJob)"
proof -
  have t: "takeWhile (\<lambda>c. c \<noteq> CHR 0x0A) (rev name) = rev name" using assms(5) by (subst takeWhile_eq_all_conv) auto
  have "cronJobName (name @ ''-'' @ ds) = Some name"
    unfolding cronJobName_def Let_def digits_split [OF assms(1)] list.sel t using assms(2-4) by simp
  then show ?thesis by (simp add: parseJobCronJob_def)
qed

section \<open>Properties\<close>



end
