(* ===== verification/Cgroup_Path.thy ===== *)
theory Cgroup_Path
  imports Go_Strings
begin

text \<open>
  The path of the cgroup of a container, \<^verbatim>\<open>src/internal/cgroups/cgroup_parse.go\<close>: the container runtime names it
  either as a path or as a systemd slice. Errors are \<open>None\<close>.
\<close>

fun slice_loop :: "string \<Rightarrow> string \<Rightarrow> string list \<Rightarrow> string option" where
  "slice_loop built pre [] = Some built"
| "slice_loop built pre (component # cs) =
     (if component = [] then None
      else slice_loop (built @ ''/'' @ pre @ component @ ''.slice'') (pre @ component @ ''-'') cs)"

definition SystemdExpandSlice :: "string \<Rightarrow> string option" where
  "SystemdExpandSlice sliceStr =
     (if length sliceStr \<le> length ''.slice'' \<or> \<not> suffix ''.slice'' sliceStr then None
      else if CHR ''/'' \<in> set sliceStr then None
      else
        (let sliceName = trim_suffix sliceStr ''.slice''
         in if sliceName = ''-'' then Some ''/''
            else slice_loop [] [] (split_at (CHR ''-'') sliceName)))"

definition ParseCgroupsPath :: "string \<Rightarrow> string option" where
  "ParseCgroupsPath cgroupPath =
     (if CHR ''/'' \<in> set cgroupPath then Some cgroupPath
      else
        (case split_at (CHR '':'') cgroupPath of
           [sliceStr, containerRuntimeName, containerID] \<Rightarrow>
             (case SystemdExpandSlice sliceStr of
                None \<Rightarrow> None
              | Some expanded \<Rightarrow>
                  (let name = (if suffix ''.slice'' containerID then containerID
                               else containerRuntimeName @ ''-'' @ containerID @ ''.scope'')
                   in Some (filepath_Join expanded name)))
         | _ \<Rightarrow> None))"

section \<open>Slices are expanded to the hierarchy systemd makes of them\<close>

definition slices :: "string list \<Rightarrow> string list" where
  "slices ws = map (\<lambda>i. join_with (CHR ''-'') (take (Suc i) ws) @ ''.slice'') [0..<length ws]"

lemma slices_snoc: "slices (ws @ [w]) = slices ws @ [join_with (CHR ''-'') (ws @ [w]) @ ''.slice'']"
  by (simp add: slices_def)

definition dashed :: "string list \<Rightarrow> string" where
  "dashed us = concat (map (\<lambda>w. w @ ''-'') us)"

lemma join_dashed: "join_with (CHR ''-'') (us @ [w]) = dashed us @ w"
proof (induction us)
  case (Cons u us)
  then show ?case by (cases us) (simp_all add: dashed_def)
qed (simp add: dashed_def)

lemma slice_loop_slices:
  "\<forall>w\<in>set ws. w \<noteq> [] \<Longrightarrow>
     slice_loop (concat (map (\<lambda>x. ''/'' @ x) (slices us))) (dashed us) ws = Some (concat (map (\<lambda>x. ''/'' @ x) (slices (us @ ws))))"
proof (induction ws arbitrary: us)
  case (Cons w ws)
  have "concat (map (\<lambda>x. ''/'' @ x) (slices us)) @ ''/'' @ dashed us @ w @ ''.slice'' = concat (map (\<lambda>x. ''/'' @ x) (slices (us @ [w])))"
    using join_dashed [of us w] by (simp add: slices_snoc)
  moreover have "dashed us @ w @ ''-'' = dashed (us @ [w])" by (simp add: dashed_def)
  ultimately show ?case using Cons.IH [of "us @ [w]"] Cons.prems by simp
qed simp

lemma concat_join: "xs \<noteq> [] \<Longrightarrow> concat (map (\<lambda>x. ''/'' @ x) xs) = CHR ''/'' # join_with (CHR ''/'') xs"
  by (induction "CHR ''/''" xs rule: join_with.induct) auto

lemma expand_slices:
  assumes "ws \<noteq> []" and "\<forall>w\<in>set ws. w \<noteq> [] \<and> CHR ''-'' \<notin> set w \<and> CHR ''/'' \<notin> set w"
  shows "SystemdExpandSlice (join_with (CHR ''-'') ws @ ''.slice'') = Some (CHR ''/'' # join_with (CHR ''/'') (slices ws))"
proof -
  let ?n = "join_with (CHR ''-'') ws"
  have sp: "split_at (CHR ''-'') ?n = ws" using assms by (intro split_join) auto
  have "set ?n \<subseteq> insert (CHR ''-'') (\<Union> (set ` set ws))" by (induction "CHR ''-''" ws rule: join_with.induct) auto
  then have slash: "CHR ''/'' \<notin> set (?n @ ''.slice'')" using assms(2) by auto
  have n: "?n \<noteq> ''-''" "?n \<noteq> []"
  proof -
    show "?n \<noteq> ''-''"
    proof
      assume "?n = ''-''"
      then have "ws = [[], []]" using sp by simp
      then show False using assms(2) by simp
    qed
    show "?n \<noteq> []" using sp assms by auto
  qed
  have "slice_loop [] [] ws = Some (concat (map (\<lambda>x. ''/'' @ x) (slices ws)))"
    using slice_loop_slices [of ws "[]"] assms(2) by (simp add: slices_def dashed_def)
  moreover have "slices ws \<noteq> []" using assms(1) by (simp add: slices_def)
  ultimately show ?thesis
    using n slash sp concat_join [of "slices ws"]
    by (simp add: SystemdExpandSlice_def Let_def suffix_def del: set_append)
qed

text \<open>
  The systemd form of the runtime: a slice with its components, the name of the runtime, and the
  identifier of the container give the path of the scope below all the slices.
\<close>

lemma systemd_cgroup_path:
  assumes "ws \<noteq> []" and "\<forall>w\<in>set ws. w \<noteq> [] \<and> set w \<inter> {CHR ''-'', CHR ''/'', CHR '':''} = {}"
    and "set rt \<inter> {CHR ''/'', CHR '':''} = {}" and "set cid \<inter> {CHR ''/'', CHR '':''} = {}" and "\<not> suffix ''.slice'' cid"
  shows "ParseCgroupsPath (join_with (CHR ''-'') ws @ ''.slice'' @ '':'' @ rt @ '':'' @ cid) =
    Some (CHR ''/'' # join_with (CHR ''/'') (slices ws @ [rt @ ''-'' @ cid @ ''.scope'']))"
proof -
  let ?n = "join_with (CHR ''-'') ws" and ?s = "rt @ ''-'' @ cid @ ''.scope''"
  have j: "set (join_with (CHR ''-'') us) \<subseteq> insert (CHR ''-'') (\<Union> (set ` set us))" for us
    by (induction "CHR ''-''" us rule: join_with.induct) auto
  have c: "CHR '':'' \<notin> set (?n @ ''.slice'')" "CHR ''/'' \<notin> set ?n" using j [of ws] assms(2) by auto
  have "CHR ''/'' \<notin> set (?n @ ''.slice'' @ '':'' @ rt @ '':'' @ cid)" using c(2) assms(3,4) by auto
  moreover have "split_at (CHR '':'') (?n @ ''.slice'' @ '':'' @ rt @ '':'' @ cid) = [?n @ ''.slice'', rt, cid]"
    using split_at_append [OF c(1), of "rt @ '':'' @ cid"] split_at_append [of "CHR '':''" rt cid] split_at_none [of "CHR '':''" cid] assms(3,4)
    by auto
  moreover have "SystemdExpandSlice (?n @ ''.slice'') = Some (CHR ''/'' # join_with (CHR ''/'') (slices ws))"
    using assms(1,2) by (intro expand_slices) auto
  moreover have "filepath_Join (CHR ''/'' # join_with (CHR ''/'') (slices ws)) ?s = CHR ''/'' # join_with (CHR ''/'') (slices ws @ [?s])"
  proof -
    have ne: "slices ws \<noteq> []" using assms(1) by (simp add: slices_def)
    have plain: "plain_component w" if mem: "w \<in> set (slices ws @ [?s])" for w
    proof (cases "w = ?s")
      case True
      then show ?thesis using assms(3,4) by (auto simp: plain_component_def)
    next
      case False
      then obtain i where w: "w = join_with (CHR ''-'') (take i ws) @ ''.slice''" using mem by (auto simp: slices_def)
      have "CHR ''/'' \<notin> set (join_with (CHR ''-'') (take i ws))" using j [of "take i ws"] assms(2) by (auto dest: in_set_takeD)
      then show ?thesis by (auto simp: w plain_component_def append_eq_Cons_conv)
    qed
    have "filepath_Join (CHR ''/'' # join_with (CHR ''/'') (slices ws)) ?s =
        filepath_Clean (CHR ''/'' # join_with (CHR ''/'') (slices ws @ [?s]))"
      using join_snoc [OF ne] by (simp add: filepath_Join_def)
    then show ?thesis using Clean_plain [of "slices ws @ [?s]"] plain by simp
  qed
  ultimately show ?thesis using assms(5) by (simp add: ParseCgroupsPath_def Let_def)
qed

end
