(* ===== verification/Nri_Plugin.thy ===== *)
theory Nri_Plugin
  imports Policy_Handler Pod_Workload Cgroup_Path
begin

text \<open>
  The plugin that the container runtime calls, \<^verbatim>\<open>src/internal/nri/plugin.go\<close>: it fills the cache of the
  resolver from the containers that run when the agent starts, adds every container before its first
  process runs, and can refuse the start.
\<close>

section \<open>The plugin\<close>

text \<open>
  What the runtime sends. The getters of the generated types accept nil, so a container may be missing; its
  Linux part, of which the cgroup path is read, may be missing too. The resolution of the cgroup is a
  field of the plugin, as in the source.
\<close>

record PodSandbox =
  sandbox_Id :: string
  sandbox_Uid :: string
  sandbox_Name :: string
  sandbox_Namespace :: string
  sandbox_Labels :: "(string \<times> string) list"

record api_Container =
  api_Id :: string
  api_PodSandboxId :: string
  api_Name :: string
  api_Linux :: "string option"

definition GetId :: "api_Container option \<Rightarrow> string" where
  "GetId c = (case c of Some x \<Rightarrow> api_Id x | None \<Rightarrow> [])"

definition GetPodSandboxId :: "api_Container option \<Rightarrow> string" where
  "GetPodSandboxId c = (case c of Some x \<Rightarrow> api_PodSandboxId x | None \<Rightarrow> [])"

definition GetName :: "api_Container option \<Rightarrow> string" where
  "GetName c = (case c of Some x \<Rightarrow> api_Name x | None \<Rightarrow> [])"

datatype nri_error =
    Nri_unrecoverable string
  | Nri_retry resolver_error
  | Nri_prevented string string
  | Nri_panic

record plugin =
  plugin_resolver :: Resolver
  lastErr :: "nri_error option"
  failOpen :: bool
  resolveCgroupID :: "api_Container option \<Rightarrow> string + u64 \<times> string"

text \<open>
  The resolution the agent uses, \<^verbatim>\<open>cgroupFromContainer\<close> of \<^verbatim>\<open>src/internal/nri/extract.go\<close> with
  \<^verbatim>\<open>GetCgroupIDFromPath\<close>. The mount point of the cgroups and the system call \<^verbatim>\<open>name_to_handle_at\<close>, which returns the bytes of a
  file handle, are arguments; the texts of errors are shortened.
\<close>

definition GetCgroupIDFromPath :: "(string \<Rightarrow> string + bytes) \<Rightarrow> string \<Rightarrow> string + u64" where
  "GetCgroupIDFromPath name_to_handle cgroupPath =
     (case name_to_handle cgroupPath of
        Inl err \<Rightarrow> Inl (''nameToHandle on '' @ cgroupPath @ '' failed: '' @ err)
      | Inr handle \<Rightarrow>
          if length handle < 8 then Inl ''decoding NameToHandleAt data failed''
          else Inr (word_of_nat (le_decode (take 8 handle))))"

definition cgroupFromContainer ::
  "string \<Rightarrow> (string \<Rightarrow> string + bytes) \<Rightarrow> api_Container option \<Rightarrow> string + u64 \<times> string" where
  "cgroupFromContainer cgRoot name_to_handle c =
     (case c of
        None \<Rightarrow> Inl ''received empty container''
      | Some x \<Rightarrow>
          (case api_Linux x of
             None \<Rightarrow> Inl (''received container without Linux info: '' @ api_Name x)
           | Some cgroupsPath \<Rightarrow>
               (case ParseCgroupsPath cgroupsPath of
                  None \<Rightarrow> Inl (''failed to parse cgroup path '' @ cgroupsPath)
                | Some parsedPath \<Rightarrow>
                    (let p = filepath_Join cgRoot parsedPath
                     in case GetCgroupIDFromPath name_to_handle p of
                          Inl err \<Rightarrow> Inl (''failed to get cgroup ID: '' @ err)
                        | Inr cgroupID \<Rightarrow> Inr (cgroupID, p)))))"

definition podSandboxToPodMeta :: "PodSandbox \<Rightarrow> string \<Rightarrow> string \<Rightarrow> PodMeta" where
  "podSandboxToPodMeta pod workloadName workloadKind =
     \<lparr>pod_ID = sandbox_Uid pod, pod_Namespace = sandbox_Namespace pod, pod_Name = sandbox_Name pod,
      WorkloadName = workloadName, WorkloadType = workloadKind, Labels = sandbox_Labels pod\<rparr>"

text \<open>The metadata of a pod, with its workload; \<open>None\<close> is a panic in the parsing of the name.\<close>

definition sandbox_meta :: "PodSandbox \<Rightarrow> PodMeta option" where
  "sandbox_meta pod =
     (case GetTruncatedWorkloadInfo (sandbox_Name pod) (sandbox_Labels pod) of
        None \<Rightarrow> None
      | Some (workloadName, workloadKind, _) \<Rightarrow> Some (podSandboxToPodMeta pod workloadName workloadKind))"

definition container_input :: "api_Container option \<Rightarrow> u64 \<Rightarrow> string \<Rightarrow> ContainerInput" where
  "container_input c cgroupID cgroupPath =
     \<lparr>ContainerMeta = \<lparr>container_ID = GetId c, container_Name = GetName c, CgroupID = cgroupID\<rparr>, CgroupPath = cgroupPath\<rparr>"

type_synonym sandboxes = "(string \<times> (string \<times> ContainerInput) list) list"

fun sandboxes_loop :: "plugin \<Rightarrow> sandboxes \<Rightarrow> api_Container option list \<Rightarrow> string + sandboxes" where
  "sandboxes_loop p tmp [] = Inr tmp"
| "sandboxes_loop p tmp (c # cs) =
     (case resolveCgroupID p c of
        Inl err \<Rightarrow> Inl err
      | Inr (cgroupID, cgroupPath) \<Rightarrow>
          (let known = (case map_of tmp (GetPodSandboxId c) of Some m \<Rightarrow> m | None \<Rightarrow> [])
           in sandboxes_loop p
                (AList.update (GetPodSandboxId c) (AList.update (GetId c) (container_input c cgroupID cgroupPath) known) tmp) cs))"

text \<open>The iteration order of the map of containers, which Go does not fix, is the argument \<open>order\<close>.\<close>

fun sandbox_pods_loop ::
  "Manager \<Rightarrow> (string \<Rightarrow> u64 list) \<Rightarrow> ((string \<times> ContainerInput) list \<Rightarrow> (string \<times> ContainerInput) list) \<Rightarrow>
   sandboxes \<Rightarrow> Resolver \<Rightarrow> bpf_state \<Rightarrow> PodSandbox option list \<Rightarrow> nri_error option \<times> Resolver \<times> bpf_state" where
  "sandbox_pods_loop M nested order tmp r s [] = (None, r, s)"
| "sandbox_pods_loop M nested order tmp r s (None # pods) = sandbox_pods_loop M nested order tmp r s pods"
| "sandbox_pods_loop M nested order tmp r s (Some pod # pods) =
     (case map_of tmp (sandbox_Id pod) of
        None \<Rightarrow> sandbox_pods_loop M nested order tmp r s pods
      | Some cs \<Rightarrow>
          (case sandbox_meta pod of
             None \<Rightarrow> (Some Nri_panic, r, s)
           | Some m \<Rightarrow>
               (case AddPodContainerFromNri M nested r s \<lparr>input_Meta = m, input_Containers = order cs\<rparr> of
                  (Some err, r', s') \<Rightarrow> (Some (Nri_retry err), r', s')
                | (None, r', s') \<Rightarrow> sandbox_pods_loop M nested order tmp r' s' pods)))"

definition Synchronize ::
  "Manager \<Rightarrow> (string \<Rightarrow> u64 list) \<Rightarrow> ((string \<times> ContainerInput) list \<Rightarrow> (string \<times> ContainerInput) list) \<Rightarrow>
   plugin \<Rightarrow> bpf_state \<Rightarrow> PodSandbox option list \<Rightarrow> api_Container option list \<Rightarrow> nri_error option \<times> plugin \<times> bpf_state" where
  "Synchronize M nested order p s pods cs =
     (case sandboxes_loop p [] cs of
        Inl err \<Rightarrow> (Some (Nri_unrecoverable err), p\<lparr>lastErr := Some (Nri_unrecoverable err)\<rparr>, s)
      | Inr tmp \<Rightarrow>
          (case sandbox_pods_loop M nested order tmp (plugin_resolver p) s pods of
             (Some err, r', s') \<Rightarrow> (Some err, p\<lparr>plugin_resolver := r'\<rparr>, s')
           | (None, r', s') \<Rightarrow> (None, p\<lparr>plugin_resolver := NRISynchronized r'\<rparr>, s')))"

text \<open>The local function \<^verbatim>\<open>handleError\<close> of \<^verbatim>\<open>StartContainer\<close>.\<close>

definition handleError :: "plugin \<Rightarrow> PodSandbox \<Rightarrow> api_Container option \<Rightarrow> nri_error option" where
  "handleError p pod c = (if failOpen p then None else Some (Nri_prevented (sandbox_Name pod) (GetName c)))"

definition StartContainer ::
  "Manager \<Rightarrow> (string \<Rightarrow> u64 list) \<Rightarrow> plugin \<Rightarrow> bpf_state \<Rightarrow> PodSandbox \<Rightarrow> api_Container option \<Rightarrow>
   nri_error option \<times> plugin \<times> bpf_state" where
  "StartContainer M nested p s pod c =
     (case resolveCgroupID p c of
        Inl err \<Rightarrow> (handleError p pod c, p, s)
      | Inr (cgroupID, _) \<Rightarrow>
          (case sandbox_meta pod of
             None \<Rightarrow> (Some Nri_panic, p, s)
           | Some m \<Rightarrow>
               (case AddPodContainerFromNri M nested (plugin_resolver p) s
                       \<lparr>input_Meta = m, input_Containers = [(GetId c, container_input c cgroupID [])]\<rparr> of
                  (Some err, r', s') \<Rightarrow> (handleError p pod c, p\<lparr>plugin_resolver := r'\<rparr>, s')
                | (None, r', s') \<Rightarrow> (None, p\<lparr>plugin_resolver := r'\<rparr>, s'))))"

definition RemoveContainer ::
  "Manager \<Rightarrow> plugin \<Rightarrow> bpf_state \<Rightarrow> PodSandbox \<Rightarrow> api_Container option \<Rightarrow> nri_error option \<times> plugin \<times> bpf_state" where
  "RemoveContainer M p s pod c =
     (case RemovePodContainerFromNri M (plugin_resolver p) s (sandbox_Uid pod) (GetId c) of
        (_, r', s') \<Rightarrow> (None, p\<lparr>plugin_resolver := r'\<rparr>, s'))"

section \<open>Containers in the cache\<close>

definition in_cache :: "Resolver \<Rightarrow> string \<Rightarrow> string \<Rightarrow> ContainerMeta \<Rightarrow> bool" where
  "in_cache r uid i cm \<longleftrightarrow> (\<exists>st v. map_of (podCache r) uid = Some st \<and> map_of (containers st) i = Some v \<and>
     container_Name v = container_Name cm \<and> CgroupID v = CgroupID cm)"

lemma containers_loop_map:
  "containers_loop M nested i st cgs s cs = (None, st', cgs', s') \<Longrightarrow>
     (\<forall>c v. map_of (containers st) c = Some v \<longrightarrow> map_of (containers st') c = Some v) \<and>
     (\<forall>c ci. (c, ci) \<in> set cs \<longrightarrow> (\<exists>v. map_of (containers st') c = Some v \<and>
        container_Name v = container_Name (ContainerMeta ci) \<and> CgroupID v = CgroupID (ContainerMeta ci)))"
proof (induction cs arbitrary: st cgs s)
  case (Cons x cs)
  obtain c ct where x: "x = (c, ct)" by (cases x)
  show ?case
  proof (cases "map_of (containers st) c")
    case None
    obtain e1 s1 where u: "cgTrackerUpdate M nested s (CgroupID (ContainerMeta ct)) (CgroupPath ct) = (e1, s1)" by fastforce
    have "e1 = []" using Cons.prems x None u by (cases e1) (simp_all add: Let_def)
    then have l: "containers_loop M nested i (st\<lparr>containers := AList.update c (ContainerMeta ct) (containers st)\<rparr>)
        (AList.update (CgroupID (ContainerMeta ct)) i cgs) s1 cs = (None, st', cgs', s')"
      using Cons.prems x None u by (simp add: Let_def)
    note ih = Cons.IH [OF l]
    have "map_of (containers st') b = Some v" if "map_of (containers st) b = Some v" for b v
      using ih [THEN conjunct1, THEN spec, THEN spec, of b v] that None by (cases "b = c") (simp_all add: update_conv')
    moreover have "map_of (containers st') c = Some (ContainerMeta ct)"
      using ih [THEN conjunct1, THEN spec, THEN spec, of c "ContainerMeta ct"] by (simp add: update_conv')
    ultimately show ?thesis using ih [THEN conjunct2] x by auto
  next
    case (Some info)
    then have l: "containers_loop M nested i st cgs s cs = (None, st', cgs', s')"
      and info: "container_Name info = container_Name (ContainerMeta ct)" "CgroupID info = CgroupID (ContainerMeta ct)"
      using Cons.prems x by (auto simp: Let_def split: if_splits)
    note ih = Cons.IH [OF l]
    then have "map_of (containers st') c = Some info" using Some by blast
    then show ?thesis using ih x info by auto
  qed
qed simp

lemma add_in_cache:
  assumes "AddPodContainerFromNri M nested r s pod = (None, r', s')"
  shows "(c, ci) \<in> set (input_Containers pod) \<Longrightarrow> in_cache r' (pod_ID (input_Meta pod)) c (ContainerMeta ci)"
    and "in_cache r uid i cm \<Longrightarrow> in_cache r' uid i cm"
proof -
  obtain st cgs s1 where
    l: "containers_loop M nested (pod_ID (input_Meta pod)) (pod_state r pod) (cgroupIDToPodID r) s (input_Containers pod) = (None, st, cgs, s1)"
    and r': "r' = r\<lparr>cgroupIDToPodID := cgs, podCache := AList.update (pod_ID (input_Meta pod)) st (podCache r)\<rparr>"
    and "applyPolicyToPodIfPresent M r' s1 st = (None, s')"
    by (rule add_cases [OF assms]) (simp_all add: add_fine_def)
  have m: "map_of (podCache r') j = (if j = pod_ID (input_Meta pod) then Some st else map_of (podCache r) j)" for j
    by (simp add: r' update_conv')
  note lm = containers_loop_map [OF l]
  show "in_cache r' (pod_ID (input_Meta pod)) c (ContainerMeta ci)" if "(c, ci) \<in> set (input_Containers pod)"
    using lm that unfolding in_cache_def m by auto
  show "in_cache r' uid i cm" if old: "in_cache r uid i cm"
  proof (cases "uid = pod_ID (input_Meta pod)")
    case True
    obtain st0 v where v: "map_of (podCache r) uid = Some st0" "map_of (containers st0) i = Some v"
      "container_Name v = container_Name cm" "CgroupID v = CgroupID cm" using old unfolding in_cache_def by blast
    have "pod_state r pod = st0" using v(1) True by (simp add: pod_state_def)
    then have "map_of (containers st) i = Some v" using lm v(2) by blast
    then show ?thesis using v True unfolding in_cache_def m by auto
  next
    case False
    then show ?thesis using old unfolding in_cache_def m by simp
  qed
qed

section \<open>The sandboxes hold every container\<close>

definition in_sandbox :: "sandboxes \<Rightarrow> string \<Rightarrow> string \<Rightarrow> ContainerInput \<Rightarrow> bool" where
  "in_sandbox tmp sb i x \<longleftrightarrow> (\<exists>m. map_of tmp sb = Some m \<and> map_of m i = Some x)"

lemma in_sandbox_update:
  "in_sandbox (AList.update sb (AList.update i x (case map_of tmp sb of Some m \<Rightarrow> m | None \<Rightarrow> [])) tmp) sb' j y \<longleftrightarrow>
     (if sb' = sb \<and> j = i then y = x else in_sandbox tmp sb' j y)"
  by (auto simp: in_sandbox_def update_conv' split: option.splits)

lemma sandboxes_loop_complete:
  "sandboxes_loop p tmp cs = Inr tmp' \<Longrightarrow> distinct (map GetId cs) \<Longrightarrow>
     (\<forall>c\<in>set cs. \<exists>cg w. resolveCgroupID p c = Inr (cg, w) \<and> in_sandbox tmp' (GetPodSandboxId c) (GetId c) (container_input c cg w)) \<and>
     (\<forall>sb i x. i \<notin> GetId ` set cs \<and> in_sandbox tmp sb i x \<longrightarrow> in_sandbox tmp' sb i x)"
proof (induction cs arbitrary: tmp)
  case (Cons c cs)
  obtain cg w where c: "resolveCgroupID p c = Inr (cg, w)"
    using Cons.prems(1) by (cases "resolveCgroupID p c") auto
  let ?t = "AList.update (GetPodSandboxId c) (AList.update (GetId c) (container_input c cg w)
    (case map_of tmp (GetPodSandboxId c) of Some m \<Rightarrow> m | None \<Rightarrow> [])) tmp"
  have l: "sandboxes_loop p ?t cs = Inr tmp'" using Cons.prems(1) c by (simp add: Let_def)
  have d: "distinct (map GetId cs)" "GetId c \<notin> GetId ` set cs" using Cons.prems(2) by simp_all
  note ih = Cons.IH [OF l d(1)]
  have "in_sandbox tmp' (GetPodSandboxId c) (GetId c) (container_input c cg w)"
    using ih [THEN conjunct2] d(2) in_sandbox_update by simp
  moreover have "in_sandbox tmp' sb i x" if "i \<notin> GetId ` set (c # cs)" "in_sandbox tmp sb i x" for sb i x
    using ih [THEN conjunct2] that in_sandbox_update by simp
  ultimately show ?case using ih [THEN conjunct1] c by auto
qed simp

lemma add_mark: "AddPodContainerFromNri M nested r s pod = (e, r', s') \<Longrightarrow> nriSynchronized r' = nriSynchronized r"
  by (auto simp: AddPodContainerFromNri_def Let_def split: prod.splits option.splits)

lemma sandbox_pods_loop_mark:
  "sandbox_pods_loop M nested order tmp r s pods = (e, r', s') \<Longrightarrow> nriSynchronized r' = nriSynchronized r"
  by (induction M nested order tmp r s pods rule: sandbox_pods_loop.induct)
    (auto dest: add_mark split: option.splits prod.splits)

lemma sandbox_pods_loop_complete:
  "sandbox_pods_loop M nested order tmp r s pods = (None, r', s') \<Longrightarrow> (\<And>m. set (order m) = set m) \<Longrightarrow>
     (\<forall>pod i x. Some pod \<in> set pods \<and> in_sandbox tmp (sandbox_Id pod) i x \<longrightarrow> in_cache r' (sandbox_Uid pod) i (ContainerMeta x)) \<and>
     (\<forall>uid i cm. in_cache r uid i cm \<longrightarrow> in_cache r' uid i cm)"
proof (induction M nested order tmp r s pods rule: sandbox_pods_loop.induct)
  case (3 M nested order tmp r s pod pods)
  show ?case
  proof (cases "map_of tmp (sandbox_Id pod)")
    case None
    then show ?thesis using 3 by (auto simp: in_sandbox_def)
  next
    case (Some cs)
    then obtain m where m: "sandbox_meta pod = Some m" using "3.prems"(1) by (cases "sandbox_meta pod") auto
    let ?in = "\<lparr>input_Meta = m, input_Containers = order cs\<rparr>"
    obtain r1 s1 where A: "AddPodContainerFromNri M nested r s ?in = (None, r1, s1)"
      and l: "sandbox_pods_loop M nested order tmp r1 s1 pods = (None, r', s')"
      using "3.prems"(1) Some m by (auto split: prod.splits option.splits)
    have ih: "(\<forall>pod i x. Some pod \<in> set pods \<and> in_sandbox tmp (sandbox_Id pod) i x \<longrightarrow> in_cache r' (sandbox_Uid pod) i (ContainerMeta x)) \<and>
     (\<forall>uid i cm. in_cache r1 uid i cm \<longrightarrow> in_cache r' uid i cm)"
      using "3.IH"(2) [OF Some m A [symmetric] _ _ l "3.prems"(2)] by simp
    have uid: "pod_ID m = sandbox_Uid pod"
      using m by (auto simp: sandbox_meta_def podSandboxToPodMeta_def split: option.splits)
    have "in_cache r' (sandbox_Uid pod) i (ContainerMeta x)" if x: "in_sandbox tmp (sandbox_Id pod) i x" for i x
    proof -
      have "(i, x) \<in> set (order cs)" using x Some "3.prems"(2) by (simp add: in_sandbox_def map_of_SomeD)
      then have "in_cache r1 (sandbox_Uid pod) i (ContainerMeta x)" using add_in_cache(1) [OF A, of i x] uid by simp
      then show ?thesis using ih by blast
    qed
    moreover have "in_cache r' uid i cm" if "in_cache r uid i cm" for uid i cm
      using add_in_cache(2) [OF A that] ih by blast
    ultimately show ?thesis using ih by auto
  qed
qed auto

section \<open>Starting a container\<close>

text \<open>A start that is not refused, by a plugin that fails closed, went through every step.\<close>

lemma start_accepted:
  assumes "StartContainer M nested p s pod c = (None, p', s')" and "\<not> failOpen p"
  obtains cg w m where "resolveCgroupID p c = Inr (cg, w)" and "sandbox_meta pod = Some m"
    and "AddPodContainerFromNri M nested (plugin_resolver p) s
      \<lparr>input_Meta = m, input_Containers = [(GetId c, container_input c cg [])]\<rparr> = (None, plugin_resolver p', s')"
proof -
  obtain cg w where r: "resolveCgroupID p c = Inr (cg, w)"
    using assms by (cases "resolveCgroupID p c") (auto simp: StartContainer_def handleError_def)
  obtain m where m: "sandbox_meta pod = Some m"
    using assms r by (cases "sandbox_meta pod") (auto simp: StartContainer_def)
  show thesis
    using assms r m that [OF r m] by (auto simp: StartContainer_def handleError_def split: prod.splits option.splits)
qed

lemma add_policy_known:
  assumes "AddPodContainerFromNri M nested r s pod = (None, r', s')" and "map_of (podCache r') (pod_ID (input_Meta pod)) = Some st"
    and "policyName st \<noteq> []"
  shows "map_of (wpState r') (pod_key st) \<noteq> None"
proof -
  obtain st' cgs s1 where
    "containers_loop M nested (pod_ID (input_Meta pod)) (pod_state r pod) (cgroupIDToPodID r) s (input_Containers pod) = (None, st', cgs, s1)"
    and r': "r' = r\<lparr>cgroupIDToPodID := cgs, podCache := AList.update (pod_ID (input_Meta pod)) st' (podCache r)\<rparr>"
    and A: "applyPolicyToPodIfPresent M r' s1 st' = (None, s')"
    by (rule add_cases [OF assms(1)]) (simp_all add: add_fine_def)
  have "st' = st" using assms(2) by (simp add: r' update_conv')
  then show ?thesis using A assms(3) by (auto simp: applyPolicyToPodIfPresent_def Let_def split: option.splits)
qed

text \<open>The metadata of a pod that is in the cache already stays as it is.\<close>

lemma add_meta:
  assumes "AddPodContainerFromNri M nested r s pod = (None, r', s')" and "map_of (podCache r') (pod_ID (input_Meta pod)) = Some st"
  shows "meta st = meta (pod_state r pod)"
proof -
  obtain st' cgs s1 where
    l: "containers_loop M nested (pod_ID (input_Meta pod)) (pod_state r pod) (cgroupIDToPodID r) s (input_Containers pod) = (None, st', cgs, s1)"
    and r': "r' = r\<lparr>cgroupIDToPodID := cgs, podCache := AList.update (pod_ID (input_Meta pod)) st' (podCache r)\<rparr>"
    and "applyPolicyToPodIfPresent M r' s1 st' = (None, s')"
    by (rule add_cases [OF assms(1)]) (simp_all add: add_fine_def)
  then show ?thesis using assms(2) containers_loop_success [OF l] by (simp add: update_conv')
qed

lemma sandbox_meta_fields:
  assumes "sandbox_meta pod = Some m"
  shows "pod_ID m = sandbox_Uid pod" and "Labels m = sandbox_Labels pod" and "pod_Namespace m = sandbox_Namespace pod"
  using assms by (auto simp: sandbox_meta_def podSandboxToPodMeta_def split: option.splits)

text \<open>The labels and the namespace under which a pod is cached are those that the runtime sends.\<close>

definition same_labels :: "Resolver \<Rightarrow> PodSandbox \<Rightarrow> bool" where
  "same_labels r pod \<longleftrightarrow> (case map_of (podCache r) (sandbox_Uid pod) of None \<Rightarrow> True
     | Some st \<Rightarrow> Labels (meta st) = sandbox_Labels pod \<and> pod_Namespace (meta st) = sandbox_Namespace pod)"

lemma started_entry:
  assumes "StartContainer M nested p s pod c = (None, p', s')" and "\<not> failOpen p" and "same_labels (plugin_resolver p) pod"
    and l: "map_of (sandbox_Labels pod) PolicyLabelKey = Some n" "n \<noteq> []"
  obtains cg w st v in_pod where "resolveCgroupID p c = Inr (cg, w)"
    and "AddPodContainerFromNri M nested (plugin_resolver p) s in_pod = (None, plugin_resolver p', s')"
    and "cached (plugin_resolver p') st v" and "container_Name v = GetName c" and "CgroupID v = cg"
    and "policyName st = n" and "pod_key st = sandbox_Namespace pod @ ''/'' @ n" and "map_of (wpState (plugin_resolver p')) (pod_key st) \<noteq> None"
proof -
  obtain cg w m where r: "resolveCgroupID p c = Inr (cg, w)" and m: "sandbox_meta pod = Some m"
    and A: "AddPodContainerFromNri M nested (plugin_resolver p) s
      \<lparr>input_Meta = m, input_Containers = [(GetId c, container_input c cg [])]\<rparr> = (None, plugin_resolver p', s')"
    by (rule start_accepted [OF assms(1,2)])
  note f = sandbox_meta_fields [OF m]
  obtain st v where v: "map_of (podCache (plugin_resolver p')) (sandbox_Uid pod) = Some st" "map_of (containers st) (GetId c) = Some v"
    "container_Name v = GetName c" "CgroupID v = cg"
    using add_in_cache(1) [OF A, of "GetId c" "container_input c cg []"] f(1) by (auto simp: in_cache_def container_input_def)
  have "Labels (meta st) = sandbox_Labels pod \<and> pod_Namespace (meta st) = sandbox_Namespace pod"
    using add_meta [OF A] v(1) f assms(3) by (auto simp: pod_state_def same_labels_def split: option.splits)
  then have k: "policyName st = n" "pod_key st = sandbox_Namespace pod @ ''/'' @ n"
    using l(1) by (simp_all add: policyName_def podNamespace_def)
  have "map_of (wpState (plugin_resolver p')) (pod_key st) \<noteq> None"
    using add_policy_known [OF A] v(1) f(1) k(1) l(2) by simp
  then show thesis
    using that [OF r A cachedI [OF map_of_SomeD [OF v(1)] map_of_SomeD [OF v(2)]] v(3,4) k] by simp
qed

section \<open>Properties\<close>


text \<open>
  \<^bold>\<open>C18\<close>. The synchronisation is reported only when it is complete. \<^verbatim>\<open>Synchronize\<close> without an error marks the
  resolver as synchronised, and then every container that the runtime listed for a listed pod is in the cache,
  under the uid of the pod, with its name and its cgroup, in whatever order the containers of a pod were
  visited; with an error the mark is not set.
\<close>

theorem synchronize_complete:
  assumes "Synchronize M nested order p s pods cs = (e, p', s')" and "\<And>m. set (order m) = set m" and "distinct (map GetId cs)"
  shows "if e = None
    then IsNRISynchronized (plugin_resolver p') \<and>
      (\<forall>pod c. Some pod \<in> set pods \<and> c \<in> set cs \<and> GetPodSandboxId c = sandbox_Id pod \<longrightarrow>
        (\<exists>cg w. resolveCgroupID p c = Inr (cg, w) \<and>
          in_cache (plugin_resolver p') (sandbox_Uid pod) (GetId c) \<lparr>container_ID = GetId c, container_Name = GetName c, CgroupID = cg\<rparr>))
    else IsNRISynchronized (plugin_resolver p') = IsNRISynchronized (plugin_resolver p)"
proof (cases e)
  case (Some x)
  then show ?thesis
    using assms(1) sandbox_pods_loop_mark
    by (auto simp: Synchronize_def IsNRISynchronized_def split: sum.splits prod.splits option.splits)
next
  case None
  obtain tmp r' where t: "sandboxes_loop p [] cs = Inr tmp"
    and l: "sandbox_pods_loop M nested order tmp (plugin_resolver p) s pods = (None, r', s')"
    and p': "p' = p\<lparr>plugin_resolver := NRISynchronized r'\<rparr>"
    using assms(1) None by (auto simp: Synchronize_def split: sum.splits prod.splits option.splits)
  have c: "in_cache (plugin_resolver p') uid i cm = in_cache r' uid i cm" for uid i cm
    by (simp add: p' in_cache_def NRISynchronized_def)
  have "\<exists>cg w. resolveCgroupID p c = Inr (cg, w) \<and>
      in_cache r' (sandbox_Uid pod) (GetId c) \<lparr>container_ID = GetId c, container_Name = GetName c, CgroupID = cg\<rparr>"
    if x: "Some pod \<in> set pods" "c \<in> set cs" "GetPodSandboxId c = sandbox_Id pod" for pod c
  proof -
    obtain cg w where r: "resolveCgroupID p c = Inr (cg, w)"
      and i: "in_sandbox tmp (GetPodSandboxId c) (GetId c) (container_input c cg w)"
      using sandboxes_loop_complete [OF t assms(3)] x(2) by blast
    have "in_cache r' (sandbox_Uid pod) (GetId c) (ContainerMeta (container_input c cg w))"
      using sandbox_pods_loop_complete [OF l assms(2)] x(1) i x(3) by simp
    then show ?thesis using r by (auto simp: container_input_def)
  qed
  then show ?thesis using None by (simp add: c) (simp add: p' IsNRISynchronized_def NRISynchronized_def)
qed

end
