(* ===== verification/Sample_Agent.thy ===== *)
theory Sample_Agent
  imports Policy_Lifecycle Sample_Kernel
begin

text \<open>
  A concrete run of the agent, for the witnesses: one workload policy that allows \<^verbatim>\<open>/bin/sh\<close> in the container
  \<^verbatim>\<open>app\<close>, reconciled on an empty node, and a pod with such a container, added afterwards.
\<close>

section \<open>Adding the values of a new policy succeeds\<close>

lemma generate_step_succeeds:
  assumes "outer_inv s" and "\<not> hash_full (pol_str_maps s i)" and "outer_entry s i p = None" and "\<not> nomem A" "\<not> new_map_fails A i"
    and "pre \<longrightarrow> length sub \<le> fixedMaxEntriesPre5_9" and "sub \<noteq> []"
  shows "\<exists>s1. generateInnerBPFMaps A s p i pre sub = (None, s1) \<and> writes_entry s s1 i p"
proof -
  obtain inner where b: "build_inner A i pre sub = Inr inner"
    using build_inner_succeeds [OF assms(4,5,6)] by blast
  have "map_update False (pol_str_maps s i) p inner BPF_NOEXIST =
      Inr ((pol_str_maps s i)\<lparr>elems := AList.update p inner (elems (pol_str_maps s i))\<rparr>)"
    using assms(2,3) by (simp add: map_update_def outer_entry_def hash_full_def)
  then obtain s1 where "generateInnerBPFMaps A s p i pre sub = (None, s1)"
    using b assms(4) by (auto simp: generateInnerBPFMaps_def set_outer_def Let_def)
  then show ?thesis using generateInnerBPFMaps_effect [OF assms(1,7)] by auto
qed

lemma generate_loop_succeeds:
  "outer_inv s \<Longrightarrow> \<forall>j\<ge>i. \<not> hash_full (pol_str_maps s j) \<and> outer_entry s j p = None \<Longrightarrow> \<not> nomem A \<Longrightarrow> \<forall>j. \<not> new_map_fails A j \<Longrightarrow>
    \<forall>sub\<in>set subs. pre \<longrightarrow> length sub \<le> fixedMaxEntriesPre5_9 \<Longrightarrow>
    \<exists>s'. generate_loop A pre p s i subs = (None, s')"
proof (induction subs arbitrary: s i)
  case (Cons sub subs)
  show ?case
  proof (cases "sub = []")
    case True
    then show ?thesis using Cons.IH [of s "Suc i"] Cons.prems by simp
  next
    case False
    then obtain s1 where s1: "generateInnerBPFMaps A s p i pre sub = (None, s1)" and w: "writes_entry s s1 i p"
      using generate_step_succeeds [of s i p A pre sub] Cons.prems by auto
    have "\<forall>j\<ge>Suc i. \<not> hash_full (pol_str_maps s1 j) \<and> outer_entry s1 j p = None"
      using w Cons.prems(2) by (auto simp: writes_entry_def outer_entry_def)
    then show ?thesis
      using Cons.IH [OF writes_entry_inv [OF w]] s1 Cons.prems False by simp
  qed
qed simp

lemma generateBPFMaps_succeeds:
  assumes "outer_inv s" and "\<forall>j. \<not> hash_full (pol_str_maps s j) \<and> outer_entry s j p = None" and "\<not> nomem A"
    and "\<forall>i. \<not> new_map_fails A i" and ok: "\<forall>v\<in>set vs. value_ok (curr_kernel_version A) v"
    and "curr_kernel_version A < KERNEL_VERSION 5 9 0 \<longrightarrow> length vs \<le> fixedMaxEntriesPre5_9"
  shows "\<exists>s'. generateBPFMaps A s p vs = (None, s')"
proof -
  obtain subs where c: "convertValuesToBPFStringMaps (curr_kernel_version A) vs = Inr subs"
    and t: "tables_hold subs (set vs)"
    using convert_ok [OF ok] by blast
  have "\<forall>sub\<in>set subs. curr_kernel_version A < KERNEL_VERSION 5 9 0 \<longrightarrow> length sub \<le> fixedMaxEntriesPre5_9"
    using tables_hold_length [OF t] assms(6) by (auto intro: order_trans)
  then show ?thesis
    using generate_loop_succeeds [OF assms(1) _ assms(3,4), of 0 p subs] assms(2) c
    by (simp add: generateBPFMaps_def)
qed

section \<open>The run\<close>

definition sample_manager :: Manager where
  "sample_manager = \<lparr>agent = sample_agent, isShuttingDown = False\<rparr>"

definition sample_rules :: WorkloadPolicyRules where
  "sample_rules = \<lparr>Allowed = [sh_path], Options = []\<rparr>"

definition sample_wp :: WorkloadPolicy where
  "sample_wp = \<lparr>wp_Namespace = ''ns'', wp_Name = ''p'', wp_Mode = ''protect'', RulesByContainer = [(''app'', Some sample_rules)]\<rparr>"

definition sample_meta :: PodMeta where
  "sample_meta = \<lparr>pod_ID = ''u1'', pod_Namespace = ''ns'', pod_Name = ''web'', WorkloadName = ''web'',
     WorkloadType = ''Deployment'', Labels = [(PolicyLabelKey, ''p'')]\<rparr>"

definition sample_container :: ContainerMeta where
  "sample_container = \<lparr>container_ID = ''c1'', container_Name = ''app'', CgroupID = 42\<rparr>"

definition sample_pod :: PodInput where
  "sample_pod = \<lparr>input_Meta = sample_meta,
     input_Containers = [(''c1'', \<lparr>ContainerMeta = sample_container, CgroupPath = []\<rparr>)]\<rparr>"

definition sample_entry :: podEntry where
  "sample_entry = \<lparr>meta = sample_meta, containers = [(''c1'', sample_container)]\<rparr>"

definition sample_resolver :: Resolver where
  "sample_resolver = \<lparr>nriSynchronized = False, podCache = [], cgroupIDToPodID = [], nextPolicyID = 2,
     wpState = [(''ns/p'', \<lparr>polByContainer = [(''app'', 1)], status = ready_status sample_wp\<rparr>)]\<rparr>"

lemma init_fresh: "fresh_maps init_state" "agent_inv init_state" "unused init_state 1"
  by (simp_all add: fresh_maps_def agent_inv_def outer_inv_def string_maps_wf_def unused_def outer_entry_def init_state_def
      map_lookup_def buffer_ready_def)

lemma sample_upsert:
  "\<exists>s'. upsertPolicyIDInBPF sample_manager init_state 1 (Allowed sample_rules) POLICY_MODE_PROTECT
     (AllowForeignRootExec sample_rules) AddValuesToPolicy = ([], s')"
proof -
  have "\<exists>s1. generateBPFMaps sample_agent init_state 1 [sh_path] = (None, s1)"
    using init_fresh(2)
    by (intro generateBPFMaps_succeeds)
      (auto simp: sample_agent_def sh_path_def agent_inv_def value_ok_def max_value_len_def KERNEL_VERSION_def hash_full_def
        init_state_def outer_entry_def map_lookup_def POLICY_STR_OUTER_MAX_ENTRIES_def)
  then obtain s1 where s1: "generateBPFMaps sample_agent init_state 1 [sh_path] = (None, s1)" ..
  have "policyUpdateBinaries sample_manager init_state 1 [sh_path] AddValuesToPolicy = ([], s1)"
    using s1 by (simp add: policyUpdateBinaries_def sample_manager_def handleErrOnShutdown_def)
  moreover have "touches init_state s1 1"
    using values_touches(2) [of init_state sample_agent 1 "[sh_path]"] s1 init_fresh(2) by (auto simp: agent_inv_def)
  then obtain f where "s1 = init_state\<lparr>pol_str_maps := f\<rparr>" by (auto simp: touches_def)
  then have "\<exists>s'. policySettingsUpdate sample_manager s1 1 POLICY_MODE_PROTECT b UpdateSettings = ([], s')" for b
    by (auto simp: policySettingsUpdate_def sample_manager_def sample_agent_def updatePolicySettings_def map_update_def
        map_lookup_def init_state_def POLICY_MAP_MAX_ENTRIES_def handleErrOnShutdown_def)
  ultimately show ?thesis by (simp add: upsertPolicyIDInBPF_def sample_rules_def)
qed

text \<open>The two steps of the run: the reconciliation, and the container that starts afterwards.\<close>

lemma sample_reconcile:
  "\<exists>s. ReconcileWP sample_manager NewResolver init_state sample_wp = (None, sample_resolver, s) \<and>
     cgtracker_map s = cgtracker_map init_state \<and> cg_to_policy_map s = cg_to_policy_map init_state"
proof -
  obtain s where u: "upsertPolicyIDInBPF sample_manager init_state 1 (Allowed sample_rules) POLICY_MODE_PROTECT
     (AllowForeignRootExec sample_rules) AddValuesToPolicy = ([], s)" using sample_upsert ..
  have "pol_frame init_state s {1}" by (rule upsert_frame [OF init_fresh(2) u])
  then have "cgtracker_map s = cgtracker_map init_state" "cg_to_policy_map s = cg_to_policy_map init_state"
    by (simp_all add: pol_frame_def programs_view_def)
  moreover have "ReconcileWP sample_manager NewResolver init_state sample_wp = (None, sample_resolver, s)"
    using u by (simp add: ReconcileWP_def syncWorkloadPolicy_def sample_wp_def ParseMode_def MonitorString_def ProtectString_def
        NewResolver_def NamespacedName_def set_info_def allocPolicyID_def sample_resolver_def Let_def)
  ultimately show ?thesis by blast
qed

definition sample_resolver2 :: Resolver where
  "sample_resolver2 = sample_resolver\<lparr>cgroupIDToPodID := [(42, ''u1'')], podCache := [(''u1'', sample_entry)]\<rparr>"

lemma sample_add:
  assumes "cgtracker_map s = cgtracker_map init_state" and "cg_to_policy_map s = cg_to_policy_map init_state"
  shows "\<exists>s'. AddPodContainerFromNri sample_manager (\<lambda>_. []) sample_resolver s sample_pod = (None, sample_resolver2, s') \<and>
    map_lookup (cgtracker_map s') 42 = Some 42"
  using assms
  by (simp add: AddPodContainerFromNri_def sample_pod_def sample_meta_def sample_resolver_def sample_container_def
      cgTrackerUpdate_def sample_manager_def sample_agent_def init_state_def map_update_def map_lookup_def
      TRACKER_MAP_MAX_ENTRIES_def CGROUP_TO_POLICY_MAX_ENTRIES_def handleErrOnShutdown_def applyPolicyToPodIfPresent_def
      policyName_def podNamespace_def applyPolicyToPod_def cgroupToPolicyMapUpdate_def UpdateCgroupPolicy_def
      addPolicyToCgroups_def sample_resolver2_def sample_entry_def Let_def)

lemma sample_cache: "cache_ok sample_resolver2"
  by (simp add: cache_ok_def distinct_cgroups_def cached_def sample_resolver2_def sample_resolver_def sample_entry_def
      sample_meta_def podNamespace_def)

abbreviation sample_specs :: specs where
  "sample_specs \<equiv> (\<lambda>_. None)(NamespacedName sample_wp \<mapsto> sample_wp)"

lemma sample_run:
  obtains s where "good_run sample_manager (\<lambda>_. []) init_state sample_resolver2 s sample_specs"
    and "map_lookup (cgtracker_map s) 42 = Some 42"
proof -
  obtain s1 where s1: "ReconcileWP sample_manager NewResolver init_state sample_wp = (None, sample_resolver, s1)"
    "cgtracker_map s1 = cgtracker_map init_state" "cg_to_policy_map s1 = cg_to_policy_map init_state"
    using sample_reconcile by blast
  obtain s2 where s2: "AddPodContainerFromNri sample_manager (\<lambda>_. []) sample_resolver s1 sample_pod = (None, sample_resolver2, s2)"
    "map_lookup (cgtracker_map s2) 42 = Some 42" using sample_add [OF s1(2,3)] by blast
  have "reconcilable NewResolver sample_wp" "named sample_wp"
    by (simp_all add: reconcilable_def named_def sample_wp_def NewResolver_def)
  from run_reconcile [OF run_start this s1(1)]
  have "good_run sample_manager (\<lambda>_. []) init_state sample_resolver s1 sample_specs" .
  from run_add [OF this s2(1) _ sample_cache] have "good_run sample_manager (\<lambda>_. []) init_state sample_resolver2 s2 sample_specs"
    by (simp add: add_fine_def)
  then show thesis using s2(2) by (rule that)
qed

lemma sample_cached: "cached sample_resolver2 sample_entry sample_container"
  by (simp add: cached_def sample_resolver2_def sample_entry_def)

lemma sample_not_shutdown: "\<not> isShuttingDown sample_manager"
  by (simp add: sample_manager_def)

section \<open>Witnesses\<close>

text \<open>In the sample run \<^verbatim>\<open>/bin/sh\<close> is allowed in the container and \<^verbatim>\<open>/x\<close> is refused.\<close>

theorem agent_enforces_witness:
  "\<exists>r s. good_run sample_manager (\<lambda>_. []) init_state r s sample_specs \<and>
     fst (enforce_cgroup_policy (chain_kernel sh_names 0x5100 False) s sample_bprm) = 0 \<and>
     fst (enforce_cgroup_policy (chain_kernel [[0x78]] 0x5100 False) s sample_bprm) = -1"
proof -
  obtain s where s: "good_run sample_manager (\<lambda>_. []) init_state sample_resolver2 s sample_specs"
    "map_lookup (cgtracker_map s) 42 = Some 42" by (rule sample_run)
  have t: "get_tracker_id_from_curr_task (chain_kernel names f l) s = CgroupID sample_container" for names f l
    using s(2) by (simp add: chain_tracker sample_container_def)
  have x: "exec_ready (chain_kernel [[0x78]] 0x5100 False) sample_bprm [0x2F, 0x78]"
    using chain_exec_ready [of "[[0x78]]" "0x5100" False] by (simp add: chain_ok_def chain_path_def)
  have m: "ParseMode (wp_Mode sample_wp) = Some POLICY_MODE_PROTECT"
    by (simp add: sample_wp_def ParseMode_def MonitorString_def ProtectString_def)
  have rule: "(container_Name sample_container, Some sample_rules) \<in> set (RulesByContainer sample_wp)"
    by (simp add: sample_container_def sample_wp_def)
  have nul: "\<forall>v\<in>set (Allowed sample_rules). 0 \<notin> set v" by (simp add: sample_rules_def sh_path_def)
  have pod: "policyName sample_entry \<noteq> []" "pod_key sample_entry = NamespacedName sample_wp"
    by (simp_all add: sample_entry_def policyName_def podNamespace_def sample_meta_def NamespacedName_def sample_wp_def)
  have spec: "sample_specs (NamespacedName sample_wp) = Some sample_wp" by simp
  note run = s(1) sample_not_shutdown init_fresh(1) spec m rule nul sample_cached pod
  have "fst (enforce_cgroup_policy (chain_kernel sh_names 0x5100 False) s sample_bprm) =
      (if refuses (chain_kernel sh_names 0x5100 False) sample_rules sample_bprm sh_path \<and> POLICY_MODE_PROTECT \<noteq> POLICY_MODE_MONITOR
       then - EPERM else 0)"
    by (rule agent_enforces [OF run sh_ready chain_kernel_version _ t _ chain_not_bootstrap])
      (simp_all add: sh_path_def sample_container_def)
  moreover have "fst (enforce_cgroup_policy (chain_kernel [[0x78]] 0x5100 False) s sample_bprm) =
      (if refuses (chain_kernel [[0x78]] 0x5100 False) sample_rules sample_bprm [0x2F, 0x78] \<and> POLICY_MODE_PROTECT \<noteq> POLICY_MODE_MONITOR
       then - EPERM else 0)"
    by (rule agent_enforces [OF run x chain_kernel_version _ t _ chain_not_bootstrap])
      (simp_all add: sample_container_def)
  ultimately show ?thesis
    using s(1) by (auto simp: refuses_def chain_foreign sample_rules_def sh_path_def misplaced_def)
qed

text \<open>The sample run has the identifier 1 for the container, and cgroup 42 has it.\<close>

lemma sample_policy_id: "policy_id sample_resolver2 ''ns/p'' ''app'' = Some 1" "policy_id sample_resolver ''ns/p'' ''app'' = Some 1"
  by (simp_all add: policy_id_def sample_resolver2_def sample_resolver_def)

lemma sample_wants: "wants_policy sample_resolver2 42 1"
proof -
  have "pod_key sample_entry = ''ns/p''" "policyName sample_entry \<noteq> []"
    by (simp_all add: sample_entry_def policyName_def podNamespace_def sample_meta_def)
  then show ?thesis
    unfolding wants_policy_def using sample_cached sample_policy_id(1)
    by (intro exI [of _ sample_entry] exI [of _ sample_container]) (simp add: sample_container_def)
qed

theorem cgroup_map_implements_cache_witness:
  "\<exists>s. good_run sample_manager (\<lambda>_. []) init_state sample_resolver2 s sample_specs \<and> cg_policy s 42 = Some 1"
proof -
  obtain s where s: "good_run sample_manager (\<lambda>_. []) init_state sample_resolver2 s sample_specs"
    "map_lookup (cgtracker_map s) 42 = Some 42" by (rule sample_run)
  show ?thesis
    using cgroup_map_implements_cache [OF s(1) sample_not_shutdown init_fresh(1)] s(1) sample_wants by blast
qed

theorem container_view_exact_witness:
  "GetContainerView sample_resolver2 42 = Inr \<lparr>view_Meta = sample_container, view_PodMeta = sample_meta\<rparr>"
proof -
  obtain s where s: "good_run sample_manager (\<lambda>_. []) init_state sample_resolver2 s sample_specs"
    "map_lookup (cgtracker_map s) 42 = Some 42" by (rule sample_run)
  have "(''u1'', sample_entry) \<in> set (podCache sample_resolver2)" "(''c1'', sample_container) \<in> set (containers sample_entry)"
    by (simp_all add: sample_resolver2_def sample_entry_def)
  from container_view_exact [OF s(1) sample_not_shutdown init_fresh(1) this]
  show ?thesis by (simp add: sample_container_def sample_entry_def)
qed

section \<open>Single operations on the sample state\<close>

lemma new_inv: "res_inv NewResolver init_state"
  by (rule new_resolver_inv [OF init_fresh(2,3)])

lemma new_reconcilable: "reconcilable NewResolver sample_wp"
  by (simp add: reconcilable_def sample_wp_def NewResolver_def)

lemma new_distinct: "distinct_cgroups (podCache NewResolver)"
  by (simp add: distinct_cgroups_def cached_def NewResolver_def)

lemma sample_key: "NamespacedName sample_wp = ''ns/p''"
  by (simp add: NamespacedName_def sample_wp_def)

theorem reconcile_installs_witness:
  "\<exists>s. ReconcileWP sample_manager NewResolver init_state sample_wp = (None, sample_resolver, s) \<and>
     installed s 1 sample_rules POLICY_MODE_PROTECT"
proof -
  obtain s where s: "ReconcileWP sample_manager NewResolver init_state sample_wp = (None, sample_resolver, s)"
    using sample_reconcile by blast
  obtain m where m: "ParseMode (wp_Mode sample_wp) = Some m" and
    i: "\<forall>c cr. (c, cr) \<in> set (RulesByContainer sample_wp) \<longrightarrow>
       (\<exists>y p. cr = Some y \<and> policy_id sample_resolver (NamespacedName sample_wp) c = Some p \<and> installed s p y m)"
    using reconcile_installs [OF new_inv new_reconcilable sample_not_shutdown new_distinct s] by (elim exE conjE)
  have "(''app'', Some sample_rules) \<in> set (RulesByContainer sample_wp)" by (simp add: sample_wp_def)
  then have "installed s 1 sample_rules m" using i sample_policy_id(2) sample_key by fastforce
  moreover have "m = POLICY_MODE_PROTECT"
    using m by (simp add: sample_wp_def ParseMode_def MonitorString_def ProtectString_def)
  ultimately show ?thesis using s by blast
qed

lemma sample_inv:
  assumes "ReconcileWP sample_manager NewResolver init_state sample_wp = (None, sample_resolver, s)"
  shows "res_inv sample_resolver s" and "installed s 1 sample_rules POLICY_MODE_PROTECT"
proof -
  show "res_inv sample_resolver s" by (rule reconcile_inv [OF new_inv new_reconcilable assms])
  have h: "specs_hold sample_resolver s sample_specs"
    by (rule reconcile_specs [OF new_inv new_reconcilable sample_not_shutdown new_distinct assms]) (simp add: specs_hold_def)
  have "spec_installed sample_resolver s sample_wp"
    using h [unfolded specs_hold_def, THEN spec, THEN spec, of "NamespacedName sample_wp" sample_wp] by simp
  then obtain m where m: "ParseMode (wp_Mode sample_wp) = Some m" and
    i: "\<forall>c cr. (c, cr) \<in> set (RulesByContainer sample_wp) \<longrightarrow>
       (\<exists>y p. cr = Some y \<and> policy_id sample_resolver (NamespacedName sample_wp) c = Some p \<and> installed s p y m)"
    unfolding spec_installed_def by (elim exE conjE)
  have "(''app'', Some sample_rules) \<in> set (RulesByContainer sample_wp)" by (simp add: sample_wp_def)
  then have "installed s 1 sample_rules m" using i sample_policy_id(2) sample_key by fastforce
  moreover have "m = POLICY_MODE_PROTECT"
    using m by (simp add: sample_wp_def ParseMode_def MonitorString_def ProtectString_def)
  ultimately show "installed s 1 sample_rules POLICY_MODE_PROTECT" by simp
qed


text \<open>A second policy, and the first one without rules.\<close>

definition other_wp :: WorkloadPolicy where
  "other_wp = sample_wp\<lparr>wp_Name := ''q''\<rparr>"

definition empty_wp :: WorkloadPolicy where
  "empty_wp = sample_wp\<lparr>RulesByContainer := []\<rparr>"

theorem reconcile_isolated_witness:
  "\<exists>s e r' s'. ReconcileWP sample_manager sample_resolver s other_wp = (e, r', s') \<and>
     policy_id r' ''ns/p'' ''app'' = Some 1 \<and> same_policy s s' 1"
proof -
  obtain s where s: "ReconcileWP sample_manager NewResolver init_state sample_wp = (None, sample_resolver, s)"
    using sample_reconcile by blast
  obtain e r' s' where R: "ReconcileWP sample_manager sample_resolver s other_wp = (e, r', s')" by (metis prod_cases3)
  have rc: "reconcilable sample_resolver other_wp"
    by (simp add: reconcilable_def other_wp_def sample_wp_def sample_resolver_def)
  have n: "''ns/p'' \<noteq> NamespacedName other_wp" by (simp add: NamespacedName_def other_wp_def sample_wp_def)
  note i = reconcile_isolated [OF sample_inv(1) [OF s] rc R]
  have "policy_id r' ''ns/p'' ''app'' = Some 1" using i [THEN conjunct1] n sample_policy_id(2) by simp
  moreover have "same_policy s s' 1" using i [THEN conjunct2, THEN conjunct1] n sample_policy_id(2) by blast
  ultimately show ?thesis using R by (intro exI [of _ s] exI [of _ e] exI [of _ r'] exI [of _ s']) simp
qed


lemma empty_reconcile:
  "ReconcileWP sample_manager sample_resolver s empty_wp = (None, sample_resolver\<lparr>wpState :=
     [(''ns/p'', \<lparr>polByContainer = [(''app'', 1)], status = ready_status empty_wp\<rparr>)]\<rparr>, s)"
  by (simp add: ReconcileWP_def syncWorkloadPolicy_def empty_wp_def sample_wp_def ParseMode_def MonitorString_def ProtectString_def
      NamespacedName_def set_info_def sample_resolver_def Let_def)

lemma empty_add:
  assumes "cgtracker_map s = cgtracker_map init_state" and "cg_to_policy_map s = cg_to_policy_map init_state"
  shows "\<exists>r2 s2. AddPodContainerFromNri sample_manager (\<lambda>_. []) (sample_resolver\<lparr>wpState :=
     [(''ns/p'', \<lparr>polByContainer = [(''app'', 1)], status = ready_status empty_wp\<rparr>)]\<rparr>) s sample_pod = (None, r2, s2)"
  using assms
  by (simp add: AddPodContainerFromNri_def sample_pod_def sample_meta_def sample_resolver_def sample_container_def
      cgTrackerUpdate_def sample_manager_def sample_agent_def init_state_def map_update_def map_lookup_def
      TRACKER_MAP_MAX_ENTRIES_def CGROUP_TO_POLICY_MAX_ENTRIES_def handleErrOnShutdown_def applyPolicyToPodIfPresent_def
      policyName_def podNamespace_def applyPolicyToPod_def cgroupToPolicyMapUpdate_def UpdateCgroupPolicy_def
      addPolicyToCgroups_def Let_def)

text \<open>The policy has no rules, and the container that starts afterwards still gets the old ones.\<close>

theorem stale_container_policy_witness:
  "\<exists>s r2 s2. RulesByContainer empty_wp = [] \<and>
     AddPodContainerFromNri sample_manager (\<lambda>_. []) (fst (snd (ReconcileWP sample_manager sample_resolver s empty_wp))) s sample_pod =
       (None, r2, s2) \<and> cg_policy s2 42 = Some 1 \<and> installed s2 1 sample_rules POLICY_MODE_PROTECT"
proof -
  obtain s where s: "ReconcileWP sample_manager NewResolver init_state sample_wp = (None, sample_resolver, s)"
    "cgtracker_map s = cgtracker_map init_state" "cg_to_policy_map s = cg_to_policy_map init_state"
    using sample_reconcile by blast
  obtain r2 s2 where A: "AddPodContainerFromNri sample_manager (\<lambda>_. []) (sample_resolver\<lparr>wpState :=
     [(''ns/p'', \<lparr>polByContainer = [(''app'', 1)], status = ready_status empty_wp\<rparr>)]\<rparr>) s sample_pod = (None, r2, s2)"
    using empty_add [OF s(2,3)] by blast
  have rc: "reconcilable sample_resolver empty_wp"
    by (simp add: reconcilable_def empty_wp_def sample_wp_def sample_resolver_def)
  have d: "distinct_cgroups (podCache sample_resolver)"
    by (simp add: distinct_cgroups_def cached_def sample_resolver_def)
  have "policy_id sample_resolver (NamespacedName empty_wp) ''app'' = Some 1"
    using sample_policy_id(2) by (simp add: NamespacedName_def empty_wp_def sample_wp_def)
  from stale_container_policy [OF sample_inv(1) [OF s(1)] rc sample_not_shutdown d empty_reconcile _ this sample_inv(2) [OF s(1)]
      _ A, of "''c1''" "\<lparr>ContainerMeta = sample_container, CgroupPath = []\<rparr>"]
  have "cg_policy s2 42 = Some 1 \<and> installed s2 1 sample_rules POLICY_MODE_PROTECT"
    by (simp add: empty_wp_def sample_wp_def sample_resolver_def matched_def sample_pod_def sample_meta_def sample_container_def)
  moreover have "RulesByContainer empty_wp = []" by (simp add: empty_wp_def)
  ultimately show ?thesis using A by (intro exI [of _ s] exI [of _ r2] exI [of _ s2]) (simp add: empty_reconcile)
qed

end
