(* ===== verification/Sample_Nri.thy ===== *)
theory Sample_Nri
  imports Nri_Plugin Sample_Agent
begin

text \<open>
  The plugin and the handler on the sample policy: the runtime announces one pod with one container.
\<close>

definition sample_sandbox :: PodSandbox where
  "sample_sandbox = \<lparr>sandbox_Id = ''s1'', sandbox_Uid = ''u1'', sandbox_Name = ''web'', sandbox_Namespace = ''ns'',
     sandbox_Labels = [(PolicyLabelKey, ''p'')]\<rparr>"

definition sample_api_container :: "api_Container option" where
  "sample_api_container = Some \<lparr>api_Id = ''c1'', api_PodSandboxId = ''s1'', api_Name = ''app'', api_Linux = Some ''/kubepods/pod1/c1''\<rparr>"

definition sample_plugin :: plugin where
  "sample_plugin = \<lparr>plugin_resolver = sample_resolver, lastErr = None, failOpen = False, resolveCgroupID = cgroupFromContainer ''/sys/fs/cgroup'' (\<lambda>_. Inr [42, 0, 0, 0, 0, 0, 0, 0])\<rparr>"

definition sample_cgroup_path :: string where
  "sample_cgroup_path = ''/sys/fs/cgroup/kubepods/pod1/c1''"

definition sandbox_podMeta :: PodMeta where
  "sandbox_podMeta = \<lparr>pod_ID = ''u1'', pod_Namespace = ''ns'', pod_Name = ''web'', WorkloadName = ''web'', WorkloadType = ''Pod'',
     Labels = [(PolicyLabelKey, ''p'')]\<rparr>"

definition sample_nri_resolver :: Resolver where
  "sample_nri_resolver = sample_resolver\<lparr>cgroupIDToPodID := [(42, ''u1'')],
     podCache := [(''u1'', \<lparr>meta = sandbox_podMeta, containers = [(''c1'', sample_container)]\<rparr>)]\<rparr>"

lemma sample_getters [simp]: "GetId sample_api_container = ''c1''" "GetName sample_api_container = ''app''"
  "GetPodSandboxId sample_api_container = ''s1''"
  by (simp_all add: GetId_def GetName_def GetPodSandboxId_def sample_api_container_def)

lemma sample_resolve: "resolveCgroupID sample_plugin sample_api_container = Inr (42, sample_cgroup_path)"
proof -
  have "ParseCgroupsPath ''/kubepods/pod1/c1'' = Some ''/kubepods/pod1/c1''" by (simp add: ParseCgroupsPath_def)
  moreover have "filepath_Join ''/sys/fs/cgroup'' ''/kubepods/pod1/c1'' = sample_cgroup_path"
    by (simp add: filepath_Join_def filepath_Clean_def sample_cgroup_path_def)
  ultimately show ?thesis
    by (simp add: sample_plugin_def sample_api_container_def cgroupFromContainer_def GetCgroupIDFromPath_def Let_def)
qed

lemma sample_plugin_fields: "plugin_resolver sample_plugin = sample_resolver" "\<not> failOpen sample_plugin"
  by (simp_all add: sample_plugin_def)

lemma sample_sandbox_meta: "sandbox_meta sample_sandbox = Some sandbox_podMeta"
  by (simp add: sandbox_meta_def GetTruncatedWorkloadInfo_def getWorkloadInfo_def sample_sandbox_def PolicyLabelKey_def
      workload_consts podSandboxToPodMeta_def sandbox_podMeta_def)

lemma sample_nri_add:
  assumes "cgtracker_map s = cgtracker_map init_state" and "cg_to_policy_map s = cg_to_policy_map init_state"
  shows "\<exists>s'. AddPodContainerFromNri sample_manager (\<lambda>_. []) sample_resolver s
      \<lparr>input_Meta = sandbox_podMeta, input_Containers = [(''c1'', container_input sample_api_container 42 w)]\<rparr> =
      (None, sample_nri_resolver, s')"
  using assms
  by (simp add: AddPodContainerFromNri_def sandbox_podMeta_def sample_resolver_def sample_container_def container_input_def
      cgTrackerUpdate_def sample_manager_def sample_agent_def init_state_def map_update_def map_lookup_def
      TRACKER_MAP_MAX_ENTRIES_def CGROUP_TO_POLICY_MAX_ENTRIES_def handleErrOnShutdown_def applyPolicyToPodIfPresent_def
      policyName_def podNamespace_def applyPolicyToPod_def cgroupToPolicyMapUpdate_def UpdateCgroupPolicy_def
      addPolicyToCgroups_def sample_nri_resolver_def Let_def)

lemma sample_named: "named sample_wp"
  by (simp add: named_def sample_wp_def)

lemma sample_first_run:
  obtains s where "good_run sample_manager (\<lambda>_. []) init_state sample_resolver s sample_specs"
    and "ReconcileWP sample_manager NewResolver init_state sample_wp = (None, sample_resolver, s)"
    and "cgtracker_map s = cgtracker_map init_state" and "cg_to_policy_map s = cg_to_policy_map init_state"
proof -
  obtain s where s: "ReconcileWP sample_manager NewResolver init_state sample_wp = (None, sample_resolver, s)"
    "cgtracker_map s = cgtracker_map init_state" "cg_to_policy_map s = cg_to_policy_map init_state"
    using sample_reconcile by blast
  from run_reconcile [OF run_start new_reconcilable sample_named s(1)]
  have "good_run sample_manager (\<lambda>_. []) init_state sample_resolver s sample_specs" .
  then show thesis using s by (rule that)
qed

section \<open>Witnesses\<close>


theorem synchronize_complete_witness:
  "\<exists>s p' s'. Synchronize sample_manager (\<lambda>_. []) (\<lambda>m. m) sample_plugin s [None, Some sample_sandbox] [sample_api_container] = (None, p', s') \<and>
     IsNRISynchronized (plugin_resolver p') \<and> in_cache (plugin_resolver p') ''u1'' ''c1'' sample_container"
proof -
  define s where "s = init_state"
  have s: "cgtracker_map s = cgtracker_map init_state" "cg_to_policy_map s = cg_to_policy_map init_state" by (simp_all add: s_def)
  obtain s' where A: "AddPodContainerFromNri sample_manager (\<lambda>_. []) sample_resolver s
      \<lparr>input_Meta = sandbox_podMeta, input_Containers = [(''c1'', container_input sample_api_container 42 sample_cgroup_path)]\<rparr> =
      (None, sample_nri_resolver, s')" using sample_nri_add [OF s] by blast
  have i: "sandbox_Id sample_sandbox = ''s1''" "sandbox_Uid sample_sandbox = ''u1''" by (simp_all add: sample_sandbox_def)
  have t: "sandboxes_loop sample_plugin [] [sample_api_container] =
      Inr [(''s1'', [(''c1'', container_input sample_api_container 42 sample_cgroup_path)])]"
    by (simp add: sample_resolve Let_def)
  have S: "Synchronize sample_manager (\<lambda>_. []) (\<lambda>m. m) sample_plugin s [None, Some sample_sandbox] [sample_api_container] =
      (None, sample_plugin\<lparr>plugin_resolver := NRISynchronized sample_nri_resolver\<rparr>, s')"
    using A i unfolding Synchronize_def t by (simp add: sample_plugin_fields sample_sandbox_meta)
  have c: "distinct (map GetId [sample_api_container])" by simp
  note k = synchronize_complete [OF S _ c, simplified]
  have "in_cache (NRISynchronized sample_nri_resolver) ''u1'' ''c1'' sample_container"
    using k i by (auto simp: sample_container_def sample_resolve)
  moreover have "IsNRISynchronized (NRISynchronized sample_nri_resolver)" using k by simp
  ultimately show ?thesis
    using S by (intro exI [of _ s] exI [of _ s'] exI [of _ "sample_plugin\<lparr>plugin_resolver := NRISynchronized sample_nri_resolver\<rparr>"]) simp
qed

theorem handler_follows_witness:
  "\<exists>s h. Reconcile (Found sample_wp) sample_manager NewResolver init_state ''ns'' ''p'' = (None, sample_resolver, s) \<and>
     HasSynced \<lparr>hasSynced = False\<rparr> (Inr [sample_wp]) sample_resolver = (None, h) \<and> spec_installed sample_resolver s sample_wp"
proof -
  obtain s where s: "good_run sample_manager (\<lambda>_. []) init_state sample_resolver s sample_specs"
    "ReconcileWP sample_manager NewResolver init_state sample_wp = (None, sample_resolver, s)"
    "cgtracker_map s = cgtracker_map init_state" "cg_to_policy_map s = cg_to_policy_map init_state"
    by (rule sample_first_run)
  have R: "Reconcile (Found sample_wp) sample_manager NewResolver init_state ''ns'' ''p'' = (None, sample_resolver, s)"
    using s(2) by (simp add: Reconcile_def)
  have H: "HasSynced \<lparr>hasSynced = False\<rparr> (Inr [sample_wp]) sample_resolver = (None, \<lparr>hasSynced = True\<rparr>)"
    by (simp add: HasSynced_def GetPolicyStatuses_def sample_resolver_def sample_key)
  have a: "\<forall>wp. Found sample_wp = Found wp \<longrightarrow> reconcilable NewResolver wp \<and> named wp \<and> wp_Namespace wp = ''ns'' \<and> wp_Name wp = ''p''"
    using new_reconcilable sample_named by (simp add: sample_wp_def)
  have "\<exists>wp'. ((\<lambda>_. None)(''ns'' @ ''/'' @ ''p'' := (case Found sample_wp of Found wp \<Rightarrow> Some wp | _ \<Rightarrow> None))) (NamespacedName sample_wp) = Some wp' \<and>
       spec_installed sample_resolver s wp' \<and> ParsePolicyModeToProto (wp_Mode wp') = ParsePolicyModeToProto (wp_Mode sample_wp)"
    using handler_follows [OF run_start sample_not_shutdown init_fresh(1) a R H, of "\<lambda>_. []"] by simp
  then have "spec_installed sample_resolver s sample_wp" by (simp add: sample_key)
  then show ?thesis using R H by blast
qed

end
