(* ===== verification/Sample_Status.thy ===== *)
theory Sample_Status
  imports Policy_Status Sample_Nri
begin

text \<open>
  The sample run as the controller sees it: one node, one violation of the sample policy.
\<close>

definition sample_event :: ProcessEvent where
  "sample_event = \<lparr>CgTrackerID = 42, ExePath = [0x2F, 0x78], Mode = ''protect'', ForeignRoot = False\<rparr>"

definition sample_arrival :: arrival where
  "sample_arrival = \<lparr>at_resolver = sample_resolver2, at_time = 7, at_pod = sample_entry, at_container = sample_container,
     at_event = sample_event\<rparr>"

theorem scrape_attributed_witness:
  "\<exists>b1 b2. scraper_loop ''n1'' ([], NewBuffer) [monitored sample_arrival, monitored sample_arrival] = Some ([], b1) \<and>
     map_option (map pb_PolicyName \<circ> fst) (ScrapeViolations b1) = Some [''ns/p'', ''ns/p''] \<and>
     buffer_rep b2 []"
proof -
  obtain s where s: "good_run sample_manager (\<lambda>_. []) init_state sample_resolver2 s sample_specs"
    "map_lookup (cgtracker_map s) 42 = Some 42" by (rule sample_run)
  have a: "(\<exists>s sp. good_run sample_manager (\<lambda>_. []) init_state (at_resolver a) s sp) \<and>
      cached (at_resolver a) (at_pod a) (at_container a) \<and> CgTrackerID (at_event a) = CgroupID (at_container a)"
    if "a \<in> set [sample_arrival, sample_arrival]" for a
    using that s(1) sample_cached by (auto simp: sample_arrival_def sample_event_def sample_container_def)
  have n: "podNamespace sample_entry = ''ns''" "policyName sample_entry = ''p''"
    by (simp_all add: podNamespace_def policyName_def sample_entry_def sample_meta_def)
  obtain b1 b2 where b: "scraper_loop ''n1'' ([], NewBuffer) (map monitored [sample_arrival, sample_arrival]) = Some ([], b1)"
    "ScrapeViolations b1 = Some (map (\<lambda>a. \<lparr>pb_Timestamp = at_time a, pb_PodName = pod_Name (meta (at_pod a)),
        pb_ContainerName = container_Name (at_container a), pb_ExecutablePath = ExePath (at_event a),
        pb_ForeignRoot = ForeignRoot (at_event a), pb_NodeName = ''n1'', pb_Action = Mode (at_event a),
        pb_PolicyName = podNamespace (at_pod a) @ ''/'' @ policyName (at_pod a),
        pb_WorkloadName = WorkloadName (meta (at_pod a)), pb_WorkloadKind = WorkloadType (meta (at_pod a))\<rparr>)
      (take 10000 (rev [sample_arrival, sample_arrival])), b2)" "buffer_rep b2 []"
    using scrape_attributed [where as = "[sample_arrival, sample_arrival]" and node = "''n1''" and q = "[]",
        OF NewBuffer_rep _ sample_not_shutdown init_fresh(1) a] by auto
  have "map_option (map pb_PolicyName \<circ> fst) (ScrapeViolations b1) = Some [''ns/p'', ''ns/p'']"
    using b(2) n by (simp add: sample_arrival_def)
  then show ?thesis using b(1,3) by (intro exI [of _ b1] exI [of _ b2]) simp
qed

definition sample_violation :: ViolationRecord where
  "sample_violation = violation_of_scrape (violation_proto (arrival_record ''n1'' sample_arrival))"

definition sample_status :: WorkloadPolicyStatus where
  "sample_status = \<lparr>ObservedGeneration = 0, NodesWithIssues = [], TotalNodes = 0, SuccessfulNodes = 0, FailedNodes = 0,
     TransitioningNodes = 0, NodesTransitioning = [], status_Phase = Phase_none, ViolationCount = 0, ActiveViolationCount = 0,
     Violations = [], AcknowledgedViolations = []\<rparr>"

definition sample_clients :: "(string \<times> node_answer) list" where
  "sample_clients = [(''n1'', Listed (GetPolicyStatuses sample_resolver2))]"

lemma sample_nodes: "getNodeStatusByPolicy (\<lambda>_. []) sample_clients sample_wp =
    [\<lparr>node_status = \<lparr>Code = PolicyReady, node_Message = [], Since = 0\<rparr>, NodeName = ''n1''\<rparr>]"
  by (simp add: getNodeStatusByPolicy_def sample_clients_def node_answer_status_def GetPolicyStatuses_def sample_resolver2_def
      sample_resolver_def NamespacedName_def policyNodeStatus_def policyModeMatchesExpected_def ParsePolicyModeToProto_def sample_wp_def
      ProtectString_def MonitorString_def)

lemma sample_not_allowed: "\<not> violation_allowed sample_wp sample_violation"
  by (simp add: violation_allowed_def sample_wp_def sample_violation_def violation_of_scrape_def violation_proto_def arrival_record_def
      sample_arrival_def sample_container_def sample_event_def sample_rules_def sh_path_def)

lemma sample_recompute:
  "\<exists>s'. RecomputeStatus sample_wp 1 [] sample_status (getNodeStatusByPolicy (\<lambda>_. []) sample_clients sample_wp) [sample_violation] 9 =
     (Inr [], [], s') \<and> status_Phase s' = Ready"
  by (simp add: RecomputeStatus_def sample_nodes processPolicyNodeStatus_def sample_status_def resetPolicyNodeStatus_def Let_def
      mergeScrapedViolations_def clearAllowedViolations_def acknowledgeViolationsFromAnnotations_def split: prod.split)

lemma sample_status_inv: "viol_inv (Violations sample_status) (ViolationCount sample_status)" "ViolationCount sample_status = 0"
  "length (Violations sample_status) = 0" "AcknowledgedViolations sample_status = []"
  by (simp_all add: viol_inv_def sample_status_def)

theorem status_violations_witness:
  "\<exists>s' r. RecomputeStatus sample_wp 1 [] sample_status (getNodeStatusByPolicy (\<lambda>_. []) sample_clients sample_wp) [sample_violation] 9 =
     (Inr [], [], s') \<and> ViolationCount s' = 1 \<and> r \<in> set (Violations s') \<and> viol_key r = viol_key sample_violation"
proof -
  obtain s' where s': "RecomputeStatus sample_wp 1 [] sample_status (getNodeStatusByPolicy (\<lambda>_. []) sample_clients sample_wp)
      [sample_violation] 9 = (Inr [], [], s')" using sample_recompute by blast
  have b: "0 \<le> ViolationCount sample_status" "ViolationCount sample_status + int (length [sample_violation]) < 2 ^ 63"
    "length (AcknowledgedViolations sample_status) \<le> maxViolationRecords" by (simp_all add: sample_status_inv)
  note t = status_violations [OF sample_status_inv(1) b s']
  have "\<exists>r\<in>set (Violations s') \<union> Violation ` set []. viol_key r = viol_key sample_violation \<and>
      LastObservedTimestamp sample_violation \<le> LastObservedTimestamp r"
    using t sample_not_allowed by (simp add: sample_status_inv maxViolationRecords_def)
  moreover have "ViolationCount s' = 1" using t by (simp add: sample_status_inv)
  ultimately show ?thesis using s' by auto
qed

theorem ready_phase_installed_witness:
  "\<exists>s. good_run sample_manager (\<lambda>_. []) init_state sample_resolver2 s sample_specs \<and> spec_installed sample_resolver2 s sample_wp"
proof -
  obtain s where s: "good_run sample_manager (\<lambda>_. []) init_state sample_resolver2 s sample_specs"
    "map_lookup (cgtracker_map s) 42 = Some 42" by (rule sample_run)
  obtain s' where s': "RecomputeStatus sample_wp 1 [] sample_status (getNodeStatusByPolicy (\<lambda>_. []) sample_clients sample_wp)
      [sample_violation] 9 = (Inr [], [], s')" "status_Phase s' = Ready" using sample_recompute by blast
  have c: "l = GetPolicyStatuses sample_resolver2 \<and>
      (\<exists>M nested s0. \<not> isShuttingDown M \<and> fresh_maps s0 \<and> good_run M nested s0 sample_resolver2 s sample_specs)"
    if "(n, Listed l) \<in> set sample_clients" for n :: string and l
    using that s(1) sample_not_shutdown init_fresh(1) by (auto simp: sample_clients_def)
  have "\<exists>wp'. sample_specs (NamespacedName sample_wp) = Some wp' \<and> wp_Mode wp' = wp_Mode sample_wp \<and> spec_installed sample_resolver2 s wp'"
    using ready_phase_installed [OF s'(1), of "\<lambda>_. sample_resolver2" "\<lambda>_. s" "\<lambda>_. sample_specs", OF c] s'(2)
    by (simp add: sample_clients_def)
  then show ?thesis using s(1) by auto
qed

theorem first_observed_newest_witness:
  "\<exists>b1 scraped b2 v. log_all Record NewBuffer [zero_record\<lparr>Timestamp := 1\<rparr>, zero_record\<lparr>Timestamp := 2\<rparr>] = Some b1 \<and>
     ScrapeViolations b1 = Some (scraped, b2) \<and>
     v \<in> set (Violations (mergeScrapedViolations sample_status (getViolationsByPolicy [(''n1'', Some scraped)] ''/''))) \<and>
     FirstObservedTimestamp v = 2"
proof -
  let ?recs = "[zero_record\<lparr>Timestamp := 1\<rparr>, zero_record\<lparr>Timestamp := 2\<rparr>]"
  have len: "length ([] :: BufferRecord list) + length ?recs \<le> 2 ^ 63 - 1" by simp
  obtain b1 b2 where b: "log_all Record NewBuffer ?recs = Some b1" "Drain b1 = Some (take MaxBufferEntries (rev ?recs @ []), b2)" "buffer_rep b2 []"
    by (rule vbuf.drain_newest [OF NewBuffer_rep len])
  obtain scraped where sc: "ScrapeViolations b1 = Some (scraped, b2)" using b(2) by (simp add: ScrapeViolations_def)
  have k: "\<forall>r\<in>set ?recs. pb_PolicyName (violation_proto r) = ''/'' \<and>
      viol_key (violation_of_scrape (violation_proto r)) = ([], [], [], False, [])"
    by (simp add: violation_proto_def zero_record_def violation_of_scrape_def viol_key_def)
  have "\<exists>v\<in>set (Violations (mergeScrapedViolations sample_status (getViolationsByPolicy [(''n1'', Some scraped)] ''/''))).
      viol_key v = ([], [], [], False, []) \<and> FirstObservedTimestamp v = Timestamp (last ?recs)"
    by (rule first_observed_newest [OF NewBuffer_rep b(1) sc _ _ k sample_status_inv(1)])
      (simp_all add: sample_status_inv maxViolationRecords_def, simp add: sample_status_def)
  then show ?thesis using b(1) sc by fastforce
qed

end
