(* ===== verification/Spec2Isabelle.thy ===== *)
theory Spec2Isabelle
  imports Long_Paths Kernel_Layout Kernel_Version Sample_Status
begin

text \<open>
  \<^bold>\<open>runtime-enforcer\<close>: a node agent that restricts which binaries the containers of a Kubernetes node may
  execute. A BPF program on the exec path (\<^verbatim>\<open>src/bpf/\<close>) finds the container of the current task,
  resolves the path of the binary and looks it up in the allow-list of the container's policy; a Go
  agent (\<^verbatim>\<open>src/internal/\<close>) fills the BPF maps and reads the events; a controller collects what the agents of
  all nodes report. This development models the BPF programs completely, the agent from the calls of the
  container runtime and of the API server down to the maps and from the rings up to the scraped
  violations, the status the controller computes, and the kernel structures the programs read, and
  proves that the parts fit together.

  \<^bold>\<open>Parts and theories.\<close>
  \<^item> \<open>RE_Prelude\<close>: machine words, little-endian bytes, buffers; shared lemmas and simp collections.
  \<^item> \<open>C_Layout\<close>, \<open>Kernel_Fields\<close>: the layout of C types (size, alignment, bit fields, member offsets) and the
    members that the programs access with \<^verbatim>\<open>BPF_CORE_READ\<close>.
  \<^item> \<open>Vmlinux_X86\<close>, \<open>Vmlinux_Arm64\<close>: the structures of \<^verbatim>\<open>vmlinux_generated_x86.h\<close> and
    \<^verbatim>\<open>vmlinux_generated_arm64.h\<close> that those accesses touch, member by member, with the computed offsets.
  \<^item> \<open>Bpf_Runtime\<close>: what the programs take from their environment (record \<open>kenv\<close>: memory reads, helper
    results, room in the rings) and BPF hash maps with their errors; locale \<open>hash_map\<close> is the contract of
    a map, interpreted as \<open>bpf\<close> on the model.
  \<^item> \<open>Bpf_State\<close>: the maps, rings and records of the BPF object (\<^verbatim>\<open>main.c\<close>, \<^verbatim>\<open>string_maps.h\<close>, \<^verbatim>\<open>debug.h\<close>,
    \<^verbatim>\<open>load_conf.h\<close>) as the record \<open>bpf_state\<close>, which every program and the agent share.
  \<^item> \<open>Cgroup_Helpers\<close>: the helpers of \<^verbatim>\<open>main.c\<close> that find the tracked cgroup of a task, recognise the
    bootstrap of the container runtime and foreign roots, and write log records.
  \<^item> \<open>D_Path\<close>: \<^verbatim>\<open>d_path_resolution.h\<close>. The loop runs on fuel equal to the bound of the source (2048
    iterations, or 512 on old kernels), so no run is cut short that the source would continue. The
    specification is the inductive walk \<open>vfs_walk\<close> over parents and mount points.
  \<^item> \<open>String_Maps\<close>: the length classes of \<^verbatim>\<open>main.c\<close> and the choice of the map in \<^verbatim>\<open>string_maps.h\<close>.
  \<^item> \<open>Exec_Hook\<close>: \<^verbatim>\<open>enforce_cgroup_policy\<close>, one definition per part of the function. Its specification is
    \<open>verdict\<close>, a function of the maps alone.
  \<^item> \<open>Policy_Values\<close>: \<^verbatim>\<open>policy_values.go\<close> and \<^verbatim>\<open>policy_settings_operation.go\<close>. Locale \<open>string_table\<close> is the
    contract between the writer and the reader of the string maps, interpreted as \<open>code_tables\<close>.
  \<^item> \<open>Cgroup_Policy\<close>: \<^verbatim>\<open>cgroup_policy.go\<close>, the map from cgroups to policies.
  \<^item> \<open>Cgroup_Tracker\<close>: the two tracepoint programs of \<^verbatim>\<open>main.c\<close> and \<^verbatim>\<open>UpdateCgTrackerMap\<close> of \<^verbatim>\<open>cgtracker.go\<close>,
    interleaved in the step relation \<open>cg_step\<close>.
  \<^item> \<open>Event_Stream\<close>: the consumer of the rings in \<^verbatim>\<open>events_common.go\<close>.
  \<^item> \<open>Workload_Policy\<close>: the policy a user writes (\<^verbatim>\<open>workloadpolicy_types.go\<close>, \<^verbatim>\<open>workloadpolicy_options.go\<close>,
    \<^verbatim>\<open>policy_mode.go\<close>).
  \<^item> \<open>Resolver\<close>: \<^verbatim>\<open>src/internal/resolver/\<close>, the cache of pods and policies; one definition per operation, with the
    lock held from its first to its last line. \<open>Resolver_Maps\<close> holds what each loop changes in the maps,
    \<open>Resolver_Inv\<close> the invariant \<open>res_inv\<close> and the effect of a reconciliation and of a deletion, \<open>Cache_Sync\<close> the
    refinement \<open>synced\<close> between cache and cgroup map, \<open>Agent_Run\<close> the runs: \<open>agent_steps\<close> with any
    operation and any error, \<open>good_run\<close> with the specifications that have been reconciled.
    \<open>Policy_Lifecycle\<close> is about what remains of a policy.
  \<^item> \<open>Policy_Handler\<close>: \<^verbatim>\<open>workloadpolicy_handler.go\<close>, driven by the answers of the API server.
  \<^item> \<open>Go_Strings\<close>: what the Go code uses of \<^verbatim>\<open>strings\<close>, \<^verbatim>\<open>strconv\<close> and \<^verbatim>\<open>path/filepath\<close>. \<open>Kernel_Version\<close> and \<open>Cgroup_Path\<close>:
    \<^verbatim>\<open>kernels.go\<close> and \<^verbatim>\<open>cgroup_parse.go\<close>, with lemmas that a release gives the number the programs compare with and that a slice is
    expanded to its hierarchy.
  \<^item> \<open>Pod_Workload\<close>, \<open>Nri_Plugin\<close>: \<^verbatim>\<open>podworkload/workload.go\<close>, \<^verbatim>\<open>nri/plugin.go\<close> and \<^verbatim>\<open>nri/extract.go\<close>, driven by the container
    runtime.
  \<^item> \<open>Violation_Buffer\<close>: \<^verbatim>\<open>violationbuf/buffer.go\<close>, \<^verbatim>\<open>eventscraper.go\<close> and \<^verbatim>\<open>agent_observer.go\<close>; locale \<open>bounded_log\<close>
    is the contract of the buffer, interpreted as \<open>vbuf\<close>.
  \<^item> \<open>Policy_Status\<close>: the status of a policy (\<^verbatim>\<open>violation_record.go\<close>, \<^verbatim>\<open>policy_node_status.go\<close>, \<^verbatim>\<open>RecomputeStatus\<close>)
    and what the controller makes of the answers of the agents.
  \<^item> \<open>Long_Paths\<close>: what happens to paths beyond the sizes the program is built for.
  \<^item> \<open>Kernel_Layout\<close>: the reads of the programs against the members of both headers; locale
    \<open>kernel_types\<close>, interpreted as \<open>x86_kernel\<close> and \<open>arm64_kernel\<close>.
  \<^item> \<open>Sample_Kernel\<close>: a family of concrete kernels (a task, a mount, a chain of dentries at the x86
    offsets) on which the theorems with hypotheses are applied. \<open>Sample_Agent\<close>, \<open>Sample_Nri\<close> and \<open>Sample_Status\<close> add
    a concrete run: one policy, one pod, one violation.

  \<^bold>\<open>Conventions.\<close> A pointer is a 64-bit word, NULL is 0. The event buffer is a function from positions to
  bytes; the program addresses it modulo 8192, so positions beyond 12288 never occur (\<open>writes_bounded\<close>).
  Sizes and offsets keep the width of the source (\<open>u16\<close>, \<open>u32\<close>, \<open>u64\<close>) and wrap. Verdicts are integers, 0 or
  \<^verbatim>\<open>-EPERM\<close>. Errors of the agent are values of \<open>go_error\<close>. A Go map that is iterated is a list in the order
  of the iteration, and the theorems hold for every order.

  \<^bold>\<open>What is shown.\<close> The hook computes the verdict of its specification for every resolvable binary and every
  history of the CPU (\<open>hook_refines_verdict\<close>, \<open>hook_history_independent\<close>); a policy written by the agent
  is enforced as written (\<open>installed_policy_enforced\<close>), with the two exceptions \<open>misplaced_denied\<close> and
  \<open>overflow_denies_allowed\<close>; denials are justified and reported, and letting an exec through by an error is
  logged (\<open>hook_denies_only\<close>, \<open>fail_open_logged\<close>); events decode to what happened, within the length
  bounds (\<open>violation_event_decoded\<close>, \<open>learning_event_decoded\<close>, \<open>violation_4095_stale\<close>,
  \<open>long_violation_dropped\<close>); path resolution is correct, bounded and writes only inside the buffer; the
  map operations of the agent are exact; and the registration of a container covers cgroups
  created during its walk. Above the maps, after every run without failed reconciliations the hook enforces
  the last specifications in the cached containers and nothing elsewhere (\<open>agent_enforces\<close>,
  \<open>cgroup_map_implements_cache\<close>), a container never starts before its policy is in place
  (\<open>start_container_enforced\<close>), readiness is reported only when it is reached (\<open>handler_follows\<close>,
  \<open>synchronize_complete\<close>, \<open>ready_phase_installed\<close>), policies do not disturb each other and leave nothing behind
  (\<open>identifiers_unique\<close>, \<open>reconcile_isolated\<close>, \<open>delete_uninstalls\<close>) except for \<open>stale_container_policy\<close>, and
  violations are attributed, bounded and accounted for (\<open>container_view_exact\<close>, \<open>scrape_attributed\<close>,
  \<open>status_violations\<close>), with the time of their first sighting wrong as in \<open>first_observed_newest\<close>.

  \<^bold>\<open>Limits.\<close> Kernel memory does not change during one run of a program, and runs on one CPU do not
  interleave; creating a cgroup and the tracepoint for it are one step. An operation of the resolver is
  one step, since it holds the lock; a program that runs between two of its map updates is not covered by
  the theorems on runs. Policy identifiers are assumed not to reach the end of 64 bits, a namespace to have no slash,
  and different containers to have different cgroups.

  \<^bold>\<open>Not modelled.\<close> The verifier, the loading of the object and CO-RE relocation; the \<^verbatim>\<open>bpf_printk\<close> output beyond its
  text; the connection to the container runtime, and the system calls that find a cgroup (their
  results are arguments); the Kubernetes and gRPC clients (their answers are arguments); the learning controller, the
  proposals and the webhooks; telemetry, logging and the command line tools. Of the generated
  kernel headers only the structures the programs read are modelled: the rest is not used.
\<close>

section \<open>The exec hook\<close>

text \<open>
  \<^bold>\<open>C1\<close>. The exec hook refines its specification. For every exec whose binary resolves to a path
  (within the iteration bound, with legal component names, in fewer than 8192 bytes), started with
  the padding segment of the CPU's event buffer zero and well-formed string maps, the value
  \<^verbatim>\<open>enforce_cgroup_policy\<close> returns is the verdict computed from the maps alone: 0 outside tracked
  containers, for the bootstrap of the container runtime, without a policy, in monitor mode, for a
  permitted foreign root, and for a path in the policy's table; \<^verbatim>\<open>-EPERM\<close> otherwise. Afterwards the
  padding segment is zero again and no map has changed.
\<close>

theorem hook_refines_verdict:
  assumes "exec_ready K bprm str" and "string_maps_wf s" and "buffer_ready s"
  shows "fst (enforce_cgroup_policy K s bprm) = verdict K s bprm str \<and>
    buffer_ready (snd (enforce_cgroup_policy K s bprm)) \<and>
    maps_of (snd (enforce_cgroup_policy K s bprm)) = maps_of s"
  using hook_verdict [OF assms(2,1,3)] hook_buffer_ready [OF assms(2,1,3)] enforce_cgroup_policy_maps by simp

theorem hook_refines_verdict_witness:
  "fst (enforce_cgroup_policy (chain_kernel sh_names 0x5100 False) (sample_state POLICY_MODE_PROTECT 0) sample_bprm) = -1"
proof -
  have "fst (enforce_cgroup_policy (chain_kernel sh_names 0x5100 False) (sample_state POLICY_MODE_PROTECT 0) sample_bprm) =
      verdict (chain_kernel sh_names 0x5100 False) (sample_state POLICY_MODE_PROTECT 0) sample_bprm sh_path"
    using hook_refines_verdict [OF sh_ready sample_state_ready(2,1)] by blast
  then show ?thesis
    by (simp add: sample_verdict)
qed

text \<open>
  \<^bold>\<open>C2\<close>. The verdicts of a CPU do not depend on its history. For any sequence of execs on one CPU, each
  with a resolvable binary, every verdict is the one the specification gives for that exec in the
  initial maps, although all runs share one event buffer that is never cleared.
\<close>

theorem hook_history_independent:
  assumes "string_maps_wf s" and "buffer_ready s"
    and "list_all2 (\<lambda>(K, bprm) str. exec_ready K bprm str) es strs"
  shows "fst (run_execs s es) = map2 (\<lambda>(K, bprm) str. verdict K s bprm str) es strs"
  using run_execs_verdicts [OF assms] by simp

theorem hook_history_independent_witness:
  "fst (run_execs (sample_state POLICY_MODE_PROTECT 0)
     [(chain_kernel [[0x61, 0x62, 0x63], [0x62, 0x69, 0x6E]] 0x5200 False, sample_bprm),
      (chain_kernel sh_names 0x5100 False, sample_bprm)]) = [-1, -1]"
proof -
  let ?es = "[(chain_kernel [[0x61, 0x62, 0x63], [0x62, 0x69, 0x6E]] 0x5200 False, sample_bprm),
      (chain_kernel sh_names 0x5100 False, sample_bprm)]"
  let ?strs = "[chain_path [[0x61, 0x62, 0x63], [0x62, 0x69, 0x6E]], sh_path]"
  have "exec_ready (chain_kernel [[0x61, 0x62, 0x63], [0x62, 0x69, 0x6E]] 0x5200 False) sample_bprm
      (chain_path [[0x61, 0x62, 0x63], [0x62, 0x69, 0x6E]])"
    by (rule chain_exec_ready) (simp_all add: chain_ok_def chain_path_def)
  then have "list_all2 (\<lambda>(K, bprm) str. exec_ready K bprm str) ?es ?strs"
    using sh_ready by simp
  then have "fst (run_execs (sample_state POLICY_MODE_PROTECT 0) ?es) =
      map2 (\<lambda>(K, bprm) str. verdict K (sample_state POLICY_MODE_PROTECT 0) bprm str) ?es ?strs"
    by (rule hook_history_independent [OF sample_state_ready(2,1)])
  then show ?thesis
    by (simp add: sample_verdict del: run_execs.simps)
qed

section \<open>From the policy to the verdict\<close>

text \<open>An installation on a node with one tracked container, the cgroup 42, for the witnesses.\<close>

lemma tracked_state_inv: "agent_inv tracked_state" "buffer_ready tracked_state"
  by (simp_all add: agent_inv_def outer_inv_def tracked_state_simps string_maps_wf_def map_lookup_def buffer_ready_def)

lemma sample_install:
  assumes "\<forall>v\<in>set vs. table_length (length v)"
  shows "\<exists>s1 s2 s3. replaceBPFMaps sample_agent tracked_state 7 vs = (None, s1) \<and>
    updatePolicySettings sample_agent s1 7 POLICY_MODE_PROTECT False = (None, s2) \<and>
    UpdateCgroupPolicy False s2 7 [42] AddPolicyToCgroups = ([], s3)"
proof -
  have o: "outer_inv tracked_state" using tracked_state_inv(1) by (simp add: agent_inv_def)
  have "\<exists>s1. replaceBPFMaps sample_agent tracked_state 7 vs = (None, s1)"
    using assms
    by (intro replaceBPFMaps_succeeds [OF o])
      (auto simp: sample_agent_def KERNEL_VERSION_def value_ok_def max_value_len_def outer_room_def hash_full_def
        tracked_state_simps POLICY_STR_OUTER_MAX_ENTRIES_def)
  then obtain s1 where s1: "replaceBPFMaps sample_agent tracked_state 7 vs = (None, s1)" ..
  obtain f where f: "s1 = tracked_state\<lparr>pol_str_maps := f\<rparr>" using replaceBPFMaps_holds(4) [OF o s1] by (rule exE)
  let ?s2 = "s1\<lparr>policy_settings_map := \<lparr>max_entries = POLICY_MAP_MAX_ENTRIES,
    elems = [(7, \<lparr>settings_mode = POLICY_MODE_PROTECT, allow_foreign_root = 0\<rparr>)]\<rparr>\<rparr>"
  let ?s3 = "?s2\<lparr>cg_to_policy_map := \<lparr>max_entries = CGROUP_TO_POLICY_MAX_ENTRIES, elems = [(42, 7)]\<rparr>\<rparr>"
  have "updatePolicySettings sample_agent s1 7 POLICY_MODE_PROTECT False = (None, ?s2)"
    by (simp add: f updatePolicySettings_def map_update_def map_lookup_def tracked_state_simps sample_agent_def
        POLICY_MAP_MAX_ENTRIES_def)
  moreover have "UpdateCgroupPolicy False ?s2 7 [42] AddPolicyToCgroups = ([], ?s3)"
    by (simp add: f UpdateCgroupPolicy_def addPolicyToCgroups_def map_update_def map_lookup_def tracked_state_simps
        CGROUP_TO_POLICY_MAX_ENTRIES_def)
  ultimately show ?thesis using s1 by blast
qed

text \<open>What an exec gets under an installed policy in protect mode, for every length of the path.\<close>

lemma installed_verdict:
  assumes inv: "agent_inv s" and b: "buffer_ready s"
    and r: "replaceBPFMaps A s p vs = (None, s1)" and nul: "\<forall>v\<in>set vs. 0 \<notin> set v"
    and u: "updatePolicySettings A s1 p POLICY_MODE_PROTECT fr = (None, s2)"
    and a: "UpdateCgroupPolicy nm s2 p cgs AddPolicyToCgroups = ([], s3)"
    and e: "exec_ready K bprm str" and k: "\<not> linux_kernel_version K < KERNEL_VERSION 5 11 0"
    and c: "get_tracker_id_from_curr_task K s3 = cg" "cg \<noteq> 0" "cg \<in> set cgs"
      "\<not> exec_is_runtime_bootstrap K s3 cg" "\<not> exec_is_foreign_root K bprm"
    and len: "length str \<le> 4096"
  shows "fst (enforce_cgroup_policy K s3 bprm) =
    (if str \<in> set vs \<and> length str \<notin> misplaced then 0 else - EPERM)"
proof -
  note st = installed_state [OF inv r u a]
  have "buffer_ready s3" using b st(6) by (simp add: buffer_ready_def)
  then have h: "fst (enforce_cgroup_policy K s3 bprm) = verdict K s3 bprm str"
    by (rule hook_verdict [OF st(1) e])
  have "0 \<notin> set str"
    using e resolvable_no_nul by (auto simp: exec_ready_def)
  moreover have "table_length (length str)"
    using exec_ready_len [OF e] len by auto
  moreover have "\<forall>v\<in>set vs. 0 \<notin> set v \<and> table_length (length v)"
    using nul st(7) value_ok_table_length by blast
  ultimately have "allow_listed s3 p str \<longleftrightarrow> str \<in> set vs \<and> length str \<notin> misplaced"
    using allow_listed_iff [OF st(2)] by simp
  then show ?thesis
    using c k st(3,4) by (simp add: h verdict_def violation_def Let_def)
qed

text \<open>
  \<^bold>\<open>C3\<close>. A policy in protect mode is enforced as written. After the agent has stored the allowed binaries,
  the settings in protect mode and the container's cgroup of a policy, all three without an error,
  an exec in that container of a binary on the container's own root, with a path of at most 4096
  bytes that is not of a length from 121 to 144, is denied exactly when the path is not in the list.
\<close>

theorem installed_policy_enforced:
  assumes "agent_inv s" and "buffer_ready s"
    and "replaceBPFMaps A s p vs = (None, s1)" and "\<forall>v\<in>set vs. 0 \<notin> set v"
    and "updatePolicySettings A s1 p POLICY_MODE_PROTECT fr = (None, s2)"
    and "UpdateCgroupPolicy nm s2 p cgs AddPolicyToCgroups = ([], s3)"
    and "exec_ready K bprm str" and "\<not> linux_kernel_version K < KERNEL_VERSION 5 11 0"
    and "get_tracker_id_from_curr_task K s3 = cg" "cg \<noteq> 0" "cg \<in> set cgs"
      "\<not> exec_is_runtime_bootstrap K s3 cg" "\<not> exec_is_foreign_root K bprm"
    and "length str \<le> 4096" and len: "length str \<notin> misplaced"
  shows "fst (enforce_cgroup_policy K s3 bprm) = (if str \<in> set vs then 0 else - EPERM)"
  using installed_verdict [OF assms(1-14)] len by simp

theorem installed_policy_enforced_witness:
  "\<exists>s3. fst (enforce_cgroup_policy (chain_kernel sh_names 0x5100 False) s3 sample_bprm) = 0 \<and>
     fst (enforce_cgroup_policy (chain_kernel [[0x78]] 0x5100 False) s3 sample_bprm) = -1"
proof -
  have "\<forall>v\<in>set [sh_path]. table_length (length v)" by (simp add: sh_path_def)
  from sample_install [OF this] obtain s1 s2 s3 where i: "replaceBPFMaps sample_agent tracked_state 7 [sh_path] = (None, s1)"
    "updatePolicySettings sample_agent s1 7 POLICY_MODE_PROTECT False = (None, s2)"
    "UpdateCgroupPolicy False s2 7 [42] AddPolicyToCgroups = ([], s3)" by blast
  have nul: "\<forall>v\<in>set [sh_path]. 0 \<notin> set v" by (simp add: sh_path_def)
  have t: "get_tracker_id_from_curr_task (chain_kernel names f l) s3 = 42" for names f l
    using installed_state(5) [OF tracked_state_inv(1) i] by (simp add: chain_tracker tracked_state_simps)
  have x: "exec_ready (chain_kernel [[0x78]] 0x5100 False) sample_bprm [0x2F, 0x78]"
    using chain_exec_ready [of "[[0x78]]" "0x5100" False] by (simp add: chain_ok_def chain_path_def)
  have "fst (enforce_cgroup_policy (chain_kernel sh_names 0x5100 False) s3 sample_bprm) =
      (if sh_path \<in> set [sh_path] then 0 else - EPERM)"
    by (rule installed_policy_enforced [OF tracked_state_inv i(1) nul i(2,3) sh_ready chain_kernel_version t])
      (simp_all add: chain_not_bootstrap chain_foreign sh_path_def misplaced_def)
  moreover have "fst (enforce_cgroup_policy (chain_kernel [[0x78]] 0x5100 False) s3 sample_bprm) =
      (if [0x2F, 0x78] \<in> set [sh_path] then 0 else - EPERM)"
    by (rule installed_policy_enforced [OF tracked_state_inv i(1) nul i(2,3) x chain_kernel_version t])
      (simp_all add: chain_not_bootstrap chain_foreign misplaced_def)
  ultimately show ?thesis by (auto simp: sh_path_def)
qed

text \<open>
  \<^bold>\<open>C27\<close>. An allowed binary with a path of 121 to 144 bytes is denied. The agent and the program disagree on
  the map for these lengths, so in protect mode a binary that is in the policy's list is refused as if
  it were not.
\<close>

theorem misplaced_denied:
  assumes "agent_inv s" and "buffer_ready s"
    and "replaceBPFMaps A s p vs = (None, s1)" and "\<forall>v\<in>set vs. 0 \<notin> set v"
    and "updatePolicySettings A s1 p POLICY_MODE_PROTECT fr = (None, s2)"
    and "UpdateCgroupPolicy nm s2 p cgs AddPolicyToCgroups = ([], s3)"
    and "exec_ready K bprm str" and "\<not> linux_kernel_version K < KERNEL_VERSION 5 11 0"
    and "get_tracker_id_from_curr_task K s3 = cg" "cg \<noteq> 0" "cg \<in> set cgs"
      "\<not> exec_is_runtime_bootstrap K s3 cg" "\<not> exec_is_foreign_root K bprm"
    and "str \<in> set vs" and len: "121 \<le> length str" "length str \<le> 144"
  shows "fst (enforce_cgroup_policy K s3 bprm) = - EPERM"
proof -
  have "length str \<le> 4096" using len by simp
  from installed_verdict [OF assms(1-13) this] show ?thesis
    using len by (simp add: misplaced_def)
qed

theorem misplaced_denied_witness:
  "\<exists>s1 s2 s3. replaceBPFMaps sample_agent tracked_state 7 [0x2F # replicate 129 0x61] = (None, s1) \<and>
     updatePolicySettings sample_agent s1 7 POLICY_MODE_PROTECT False = (None, s2) \<and>
     UpdateCgroupPolicy False s2 7 [42] AddPolicyToCgroups = ([], s3) \<and>
     fst (enforce_cgroup_policy (chain_kernel [replicate 129 0x61] 0x5100 False) s3 sample_bprm) = -1"
proof -
  let ?v = "0x2F # replicate 129 0x61 :: bytes"
  have "\<forall>v\<in>set [?v]. table_length (length v)" by simp
  from sample_install [OF this] obtain s1 s2 s3 where i: "replaceBPFMaps sample_agent tracked_state 7 [?v] = (None, s1)"
    "updatePolicySettings sample_agent s1 7 POLICY_MODE_PROTECT False = (None, s2)"
    "UpdateCgroupPolicy False s2 7 [42] AddPolicyToCgroups = ([], s3)" by blast
  have nul: "\<forall>v\<in>set [?v]. 0 \<notin> set v" by simp
  have t: "get_tracker_id_from_curr_task (chain_kernel names f l) s3 = 42" for names f l
    using installed_state(5) [OF tracked_state_inv(1) i] by (simp add: chain_tracker tracked_state_simps)
  have x: "exec_ready (chain_kernel [replicate 129 0x61] 0x5100 False) sample_bprm ?v"
    using chain_exec_ready [of "[replicate 129 0x61]" "0x5100" False] by (simp add: chain_ok_def chain_path_def)
  have "fst (enforce_cgroup_policy (chain_kernel [replicate 129 0x61] 0x5100 False) s3 sample_bprm) = - EPERM"
    by (rule misplaced_denied [OF tracked_state_inv i(1) nul i(2,3) x chain_kernel_version t])
      (simp_all add: chain_not_bootstrap chain_foreign)
  then show ?thesis using i by auto
qed

text \<open>The theorem \<open>overflow_denies_allowed\<close> on a path of 33 components and a policy that lists \<^verbatim>\<open>/bin/sh\<close>.\<close>

definition names_8293 :: "bytes list" where
  "names_8293 = replicate 100 0x61 # replicate 32 (replicate 255 0x61)"

lemma names_8293_overflows: "overflows (chain_kernel names_8293 f l) sample_bprm"
proof (rule chain_overflows [of _ 32])
  show "chain_ok names_8293" "32 < length names_8293" by (simp_all add: chain_ok_def names_8293_def)
  have "length (chain_path (take 32 names_8293)) = 8037"
    by (simp add: chain_path_def names_8293_def length_concat sum_list_replicate rev_map [symmetric] take_Cons')
  then show "length (chain_path (take 32 names_8293)) < 8192"
    "8192 < length (chain_path (take 32 names_8293)) + length (names_8293 ! 32)"
    by (simp_all add: names_8293_def nth_Cons')
qed


section \<open>Safety and error paths of the hook\<close>

text \<open>
  \<^bold>\<open>C8\<close>. A denial is always justified and reported. Whatever the kernel memory, the buffer and the maps
  hold, when \<^verbatim>\<open>enforce_cgroup_policy\<close> returns a value other than 0, the value is \<^verbatim>\<open>-EPERM\<close>, the task is in
  a tracked container and not the runtime bootstrap, its policy has settings with a mode other than
  monitor, a foreign root is not permitted by them, and either one record has been added to the
  monitoring ring or, with room in the log ring, the drop of the violation has been logged.
\<close>

theorem hook_denies_only:
  assumes "fst (enforce_cgroup_policy K s bprm) \<noteq> 0"
  shows "\<exists>cg p st. policed K s cg p \<and> map_lookup (policy_settings_map s) p = Some st \<and>
    settings_mode st \<noteq> POLICY_MODE_MONITOR \<and>
    (exec_is_foreign_root K bprm \<longrightarrow> allow_foreign_root st = 0) \<and>
    fst (enforce_cgroup_policy K s bprm) = - EPERM \<and>
    ((\<exists>bs. ringbuf_monitoring (snd (enforce_cgroup_policy K s bprm)) = ringbuf_monitoring s @ [bs]) \<or>
     (log_room K \<longrightarrow> logged s (snd (enforce_cgroup_policy K s bprm)) {LOG_DROP_VIOLATION}))"
  using hook_denies [OF assms] .

lemma sample_denied:
  "fst (enforce_cgroup_policy (chain_kernel sh_names 0x5100 l) (sample_state POLICY_MODE_PROTECT 0) sample_bprm) = - EPERM"
  using hook_verdict [OF sample_state_ready(2) sh_ready sample_state_ready(1)] by (simp add: sample_verdict)

theorem hook_denies_only_witness:
  "\<exists>cg p. policed (chain_kernel sh_names 0x5100 False) (sample_state POLICY_MODE_PROTECT 0) cg p"
  using hook_denies_only [of "chain_kernel sh_names 0x5100 False" "sample_state POLICY_MODE_PROTECT 0" sample_bprm]
    sample_denied [of False] by auto

text \<open>
  Monitor mode never blocks. If the policy of the current container is in monitor mode, the hook
  returns 0, whatever else happens.
\<close>

theorem monitor_never_denies:
  assumes "map_lookup (cg_to_policy_map s) (get_tracker_id_from_curr_task K s) = Some p"
    and "map_lookup (policy_settings_map s) p = Some st" and "settings_mode st = POLICY_MODE_MONITOR"
  shows "fst (enforce_cgroup_policy K s bprm) = 0"
proof (rule ccontr)
  assume "fst (enforce_cgroup_policy K s bprm) \<noteq> 0"
  from hook_denies [OF this] show False
    using assms by (auto simp: policed_def)
qed

theorem monitor_never_denies_witness:
  "fst (enforce_cgroup_policy (chain_kernel sh_names 0x5200 False) (sample_state POLICY_MODE_MONITOR 0) sample_bprm) = 0"
  by (rule monitor_never_denies [of _ _ 7 "\<lparr>settings_mode = POLICY_MODE_MONITOR, allow_foreign_root = 0\<rparr>"])
    (simp_all add: chain_tracker sample_state_simps)

text \<open>
  \<^bold>\<open>C9\<close>. The hook never fails open silently. If a container has a policy with a mode other than monitor
  and an exec in it is let through, then one log record with the code of a failure has been written,
  or the exec is from a foreign root that the policy permits, or the resolved path was found in the
  policy's string map. This needs room in the log ring and nothing else.
\<close>

theorem fail_open_logged:
  assumes "log_room K" and "policed K s cg p" and "protect_policy s p"
    and "fst (enforce_cgroup_policy K s bprm) = 0"
  shows "logged s (snd (enforce_cgroup_policy K s bprm)) FAIL_OPEN \<or>
    exec_is_foreign_root K bprm \<and>
      (\<exists>st. map_lookup (policy_settings_map s) p = Some st \<and> allow_foreign_root st \<noteq> 0) \<or>
    (\<exists>e off evt. process_evt_storage_map s = Some e \<and> exec_evt K s cg bprm e = (off, evt) \<and> off \<noteq> 0 \<and>
       path_matches s evt off p)"
  using hook_allows [OF assms] .

text \<open>A binary whose file pointer is null: the fixed words of the sample have no entry for address 64.\<close>

lemma sample_no_file: "read_u64 (chain_kernel names f l) 64 = 0"
proof -
  have "chain_bytes names f 64 = None" by (simp add: chain_bytes_def Let_def fixed_words_def)
  then show ?thesis
    by (simp add: read_u64_def u64_of_bytes_def chain_kernel_def chain_probe_def)
qed

theorem fail_open_logged_witness:
  "logged (sample_state POLICY_MODE_PROTECT 0)
     (snd (enforce_cgroup_policy (chain_kernel sh_names 0x5100 False) (sample_state POLICY_MODE_PROTECT 0) 0)) FAIL_OPEN"
proof -
  let ?K = "chain_kernel sh_names 0x5100 False" and ?s = "sample_state POLICY_MODE_PROTECT 0"
  have nf: "\<not> exec_is_foreign_root ?K 0"
    by (simp add: exec_is_foreign_root_def Let_def chain_fld offset_simps sample_no_file)
  have off: "exec_evt ?K ?s 42 0 e = (0, e\<lparr>cg_tracker_id := 42, foreign := 0\<rparr>)" for e
    using nf by (simp add: exec_evt_def populate_evt_with_path_def Let_def chain_fld offset_simps sample_no_file)
  have p: "protect_policy ?s 7" by (simp add: protect_policy_def sample_state_simps)
  have r0: "fst (enforce_cgroup_policy ?K ?s 0) = 0"
    unfolding policed_hook [OF sample_policed]
    by (simp add: sample_state_simps enforce_exec_cases off Let_def case_prod_beta)
  show ?thesis
    using fail_open_logged [OF chain_log_room sample_policed p r0] nf off by auto
qed

section \<open>Events\<close>

text \<open>
  \<^bold>\<open>C10\<close>. A violation arrives in user space as it happened. When the specification calls an exec a
  violation, the ring has room and the path has at most 4094 bytes, the hook adds exactly one record
  to the monitoring ring, and the consumer decodes it to the container, the resolved path, the mode of
  the policy and the foreign-root flag, whatever earlier events left in the buffer.
\<close>

theorem violation_event_decoded:
  assumes "string_maps_wf s" and "exec_ready K bprm str"
    and "process_evt_storage_map s = Some e" and "zero_tail e"
    and v: "violation K s bprm str = Some (p, st)"
    and room: "\<And>n k. rb_room K Ringbuf_monitoring n k"
    and len: "length str \<le> 4094" and m: "mode_text (settings_mode st) = Some t"
  shows "\<exists>bs. ringbuf_monitoring (snd (enforce_cgroup_policy K s bprm)) = ringbuf_monitoring s @ [bs] \<and>
    process_record bs = Inr \<lparr>CgTrackerID = get_tracker_id_from_curr_task K s, ExePath = str, Mode = t,
      ForeignRoot = exec_is_foreign_root K bprm\<rparr>"
  using hook_reports [OF assms(1-4)] v room violation_decoded [OF len m]
  by (simp add: ring_after_def)

theorem violation_event_decoded_witness:
  "\<exists>bs. ringbuf_monitoring (snd (enforce_cgroup_policy (chain_kernel sh_names 0x5200 False)
      (sample_state POLICY_MODE_PROTECT 0) sample_bprm)) = [bs] \<and>
    process_record bs = Inr \<lparr>CgTrackerID = 42, ExePath = sh_path, Mode = ''protect'', ForeignRoot = True\<rparr>"
proof -
  let ?K = "chain_kernel sh_names 0x5200 False" and ?s = "sample_state POLICY_MODE_PROTECT 0"
  let ?st = "\<lparr>settings_mode = POLICY_MODE_PROTECT, allow_foreign_root = 0\<rparr>"
  have v: "violation ?K ?s sample_bprm sh_path = Some (7, ?st)" by (simp add: sample_violation)
  have l: "length sh_path \<le> 4094" by (simp add: sh_path_def)
  have m: "mode_text (settings_mode ?st) = Some ''protect''" by (simp add: mode_text_def policymode_String_def)
  show ?thesis
    using violation_event_decoded [OF sample_state_ready(2) sh_ready sample_state_simps(4) zero_tail_empty v chain_rb_room l m]
    by (simp add: chain_tracker chain_foreign sample_state_simps)
qed

text \<open>
  \<^bold>\<open>C11\<close>. An exec in a container without a policy is learned. With learning enabled and room in the ring, the
  hook returns 0 and adds exactly one record to the learning ring. It decodes to the container and the
  resolved path for a binary on the container's own root (at most 4094 bytes), and to the container,
  an empty path and the foreign flag for a binary on a foreign root, with no mode.
\<close>

theorem learning_event_decoded:
  assumes "exec_ready K bprm str" and "process_evt_storage_map s = Some e" and "zero_tail e"
    and "get_tracker_id_from_curr_task K s = cg" "cg \<noteq> 0" "\<not> exec_is_runtime_bootstrap K s cg"
    and "map_lookup (cg_to_policy_map s) cg = None" and "learning_enabled (load_time_config K) \<noteq> 0"
    and room: "\<And>n k. rb_room K Ringbuf_execve n k" and len: "length str \<le> 4094"
  shows "fst (enforce_cgroup_policy K s bprm) = 0 \<and>
    (\<exists>bs. ringbuf_execve (snd (enforce_cgroup_policy K s bprm)) = ringbuf_execve s @ [bs] \<and>
      process_record bs = Inr \<lparr>CgTrackerID = cg, ExePath = (if exec_is_foreign_root K bprm then [] else str),
        Mode = [], ForeignRoot = exec_is_foreign_root K bprm\<rparr>)"
  using hook_learns [OF assms(1-8)] room violation_decoded [OF len, of 0 "[]"] foreign_learn_decoded
  by (simp add: ring_after_def mode_text_def)

theorem learning_event_decoded_witness:
  "\<exists>bs. ringbuf_execve (snd (enforce_cgroup_policy (chain_kernel sh_names 0x5100 True) tracked_state sample_bprm)) = [bs] \<and>
     process_record bs = Inr \<lparr>CgTrackerID = 42, ExePath = sh_path, Mode = [], ForeignRoot = False\<rparr>"
proof -
  let ?K = "chain_kernel sh_names 0x5100 True"
  have st: "process_evt_storage_map tracked_state = Some empty_evt" by (simp add: tracked_state_simps)
  have cg: "get_tracker_id_from_curr_task ?K tracked_state = 42" by (simp add: chain_tracker tracked_state_simps)
  have nb: "\<not> exec_is_runtime_bootstrap ?K tracked_state 42" by (simp add: chain_not_bootstrap)
  have np: "map_lookup (cg_to_policy_map tracked_state) 42 = None" by (simp add: tracked_state_simps map_lookup_def)
  have l: "learning_enabled (load_time_config ?K) \<noteq> 0" by (simp add: chain_kernel_def)
  have len: "length sh_path \<le> 4094" by (simp add: sh_path_def)
  have "ringbuf_execve tracked_state = []" by (simp add: tracked_state_def init_state_def)
  then show ?thesis
    using learning_event_decoded [OF sh_ready st zero_tail_empty cg _ nb np l chain_rb_room len]
    by (simp add: chain_foreign)
qed

section \<open>The theorems of the components on the sample kernel\<close>

lemma sh_resolvable: "resolvable (chain_kernel sh_names f l) 0x2040 sh_path"
  using sh_ready [of f l] by (simp add: exec_ready_def chain_exec_file chain_fld offset_simps)

theorem path_resolved_witness:
  "buf_read (snd (bpf_d_path_approx (chain_kernel sh_names 0x5100 False) 0x2040 (\<lambda>_. 0))) 8185 7 = sh_path"
proof -
  have "length sh_path = 7" by (simp add: sh_path_def)
  then show ?thesis
    using path_resolved [OF chain_sized sh_resolvable, where b = "\<lambda>_. 0"] by simp
qed

theorem offset_only_for_walk_witness:
  "\<exists>ns e n. vfs_walk (chain_kernel sh_names 0x5100 False) 0x7000 0x100200 0x100000 0x4000 ns e n \<and> n \<le> 2048"
proof -
  let ?K = "chain_kernel sh_names 0x5100 False"
  have "unat (fst (bpf_d_path_approx ?K 0x2040 (\<lambda>_. 0))) = 8185"
    using bpf_d_path_approx_resolvable(1) [OF chain_sized sh_resolvable] by (simp add: sh_path_def)
  then have "fst (bpf_d_path_approx ?K 0x2040 (\<lambda>_. 0)) \<noteq> 0" by auto
  from offset_only_for_walk [OF this] have "\<exists>ns e n. vfs_walk ?K (stop_dentry ?K) (stop_vfsmount ?K)
      (path_dentry ?K 0x2040) (path_mount ?K 0x2040) ns e n \<and> n \<le> path_iterations ?K" .
  moreover have "path_iterations ?K = 2048" by (simp add: path_iterations_def PATH_ITERATIONS_def chain_kernel_def)
  moreover have "length sh_names = 2" by (simp add: sh_names_def)
  ultimately show ?thesis by (simp add: chain_stop chain_path_dentry chain_dentry_def)
qed

theorem writes_bounded_witness:
  "snd (bpf_d_path_approx (chain_kernel names_8293 0x5100 False) 0x2040 (\<lambda>_. 7)) 9000 = 7"
  using writes_bounded [OF chain_sized, of 9000] by simp

theorem task_root_confusion_witness:
  "stop_dentry (chain_kernel sh_names 0x5100 False) = 0x7000"
proof -
  let ?K = "chain_kernel sh_names 0x5100 False"
  have "core_off ?K = core_off_of x86_types"
    by (simp add: fun_eq_iff chain_kernel_def x86_core_off_def core_off_of_def option.map_comp comp_def split_def)
  then have "stop_dentry ?K = read_u64 ?K (read_u64 ?K (read_u64 ?K (get_current_task ?K + fld ?K Task_fs) +
      fld ?K Fs_struct_root + fld ?K Path_mnt) + fld ?K Vfsmount_mnt_sb)"
    using task_root_confusion [OF _ refl] by blast
  then show ?thesis
    by (simp add: chain_fld offset_simps chain_words)
qed

text \<open>A kernel with a cgroup at \<open>0x9000\<close>, identifier 9, under a cgroup with the identifier 5.\<close>

definition cgroup_words :: "(nat \<times> nat) list" where
  "cgroup_words =
     [(0x9000 + 256, 0xA000), (0xA000 + 96, 9),    \<comment> \<open>the node of the cgroup and its identifier\<close>
      (0x9000 + 216, 1), (0x9000 + 2040, 0xB000),  \<comment> \<open>its level and its ancestor\<close>
      (0xB000 + 256, 0xC000), (0xC000 + 96, 5)]"

definition cgroup_kernel :: kenv where
  "cgroup_kernel = (chain_kernel [] 0 False)\<lparr>probe_read_kernel :=
     (\<lambda>a n. (0, le_encode (unat n) (case map_of cgroup_words (unat a) of Some v \<Rightarrow> v | None \<Rightarrow> 0)))\<rparr>"

lemma cgroup_kernel_ids: "get_cgroup_id cgroup_kernel 0x9000 = 9" "cgroup_get_parent_id cgroup_kernel 0x9000 = 5"
proof -
  have f: "fld cgroup_kernel k = fld (chain_kernel [] 0 False) k"
    "bpf_core_field_exists cgroup_kernel k \<longleftrightarrow> core_offset x86_types k \<noteq> None" for k
    by (simp_all add: cgroup_kernel_def fld_def bpf_core_field_exists_def) (simp add: chain_kernel_def x86_core_off_def)
  have r: "read_u64 cgroup_kernel a = word_of_nat (le_decode (le_encode 8 (case map_of cgroup_words (unat a) of Some v \<Rightarrow> v | None \<Rightarrow> 0)))"
    "read_u32 cgroup_kernel a = word_of_nat (le_decode (le_encode 4 (case map_of cgroup_words (unat a) of Some v \<Rightarrow> v | None \<Rightarrow> 0)))" for a
    by (simp_all add: read_u64_def read_u32_def u64_of_bytes_def u32_of_bytes_def cgroup_kernel_def)
  have w: "read_u64 cgroup_kernel 0x9100 = 0xA000" "read_u64 cgroup_kernel 0xA060 = 9" "read_u32 cgroup_kernel 0x90D8 = 1"
    "read_u64 cgroup_kernel 0x97F8 = 0xB000" "read_u64 cgroup_kernel 0xB100 = 0xC000" "read_u64 cgroup_kernel 0xC060 = 5"
    by (simp_all add: r cgroup_words_def le_decode_encode)
  show "get_cgroup_id cgroup_kernel 0x9000 = 9"
    by (simp add: get_cgroup_id_def get_cgroup_kn_def get_cgroup_kn_id_def f chain_fld offset_simps w)
  show "cgroup_get_parent_id cgroup_kernel 0x9000 = 5"
    by (simp add: cgroup_get_parent_id_def get_cgroup_level_def f chain_fld offset_simps w Let_def)
qed


end
